(* ===== verification/Prelude.thy ===== *)
theory Prelude
  imports Main "HOL-Library.Word" "HOL-Library.Signed_Division"
begin

section \<open>Shared vocabulary: Go integers, panics and small library facts\<close>

text \<open>
  What every component of the development uses.
  \<^item> Go's \<open>int32\<close> and \<open>int64\<close> are kept at their width, as words read with \<open>sint\<close>: \<open>+\<close> and \<open>-\<close>
    wrap around silently, comparisons are signed, the builtins \<open>min\<close> and \<open>max\<close> compare
    signed, and \<open>/\<close> truncates towards zero and panics on a zero divisor.
  \<^item> A run-time panic is a value of the datatype \<open>panic\<close>, on the left of a sum.
  \<^item> The collection \<open>int_simps\<close> reads word expressions as integer expressions.
\<close>

named_theorems int_simps \<open>Go's fixed-width operations as operations on int\<close>

type_synonym int32 = "32 word"
type_synonym int64 = "64 word"

datatype panic = DivideByZero | NilDereference

subsection \<open>The integer operations of the language\<close>

definition go_min :: "int32 \<Rightarrow> int32 \<Rightarrow> int32" where
  "go_min a b = (if a \<le>s b then a else b)"

definition go_max :: "int32 \<Rightarrow> int32 \<Rightarrow> int32" where
  "go_max a b = (if a \<le>s b then b else a)"

definition go_div :: "int32 \<Rightarrow> int32 \<Rightarrow> panic + int32" where
  "go_div a b = (if b = 0 then Inl DivideByZero else Inr (word_of_int (sint a sdiv sint b)))"

text \<open>The value of an integer expression reduced to the range of \<open>int32\<close>.\<close>

definition wrap32 :: "int \<Rightarrow> int" where
  "wrap32 x = (x + 2 ^ 31) mod 2 ^ 32 - 2 ^ 31"

definition in_int32 :: "int \<Rightarrow> bool" where
  "in_int32 x \<longleftrightarrow> - (2 ^ 31) \<le> x \<and> x < 2 ^ 31"

subsection \<open>Time\<close>

text \<open>
  A \<open>time.Time\<close> is the number of nanoseconds since Go's zero time, which is the value 0; a
  \<open>time.Duration\<close> is an \<open>int64\<close> count of nanoseconds. (The range of \<open>time.Time\<close> spans billions
  of years, so its own overflow is left out.)
\<close>

type_synonym gotime = int
type_synonym duration = int64

definition time_IsZero :: "gotime \<Rightarrow> bool" where
  "time_IsZero t \<longleftrightarrow> t = 0"

definition time_Add :: "gotime \<Rightarrow> duration \<Rightarrow> gotime" where
  "time_Add t d = t + sint d"

definition time_Before :: "gotime \<Rightarrow> gotime \<Rightarrow> bool" where
  "time_Before a b \<longleftrightarrow> a < b"

lemmas time_defs = time_IsZero_def time_Add_def time_Before_def

subsection \<open>Words read as integers\<close>

lemma sint32_range: "- 2147483648 \<le> sint (a :: int32)" "sint (a :: int32) \<le> 2147483647"
  using sint_ge [of a] sint_lt [of a] by simp_all

lemma sint32_in_range [simp]: "in_int32 (sint (a :: int32))"
  using sint32_range [of a] by (simp add: in_int32_def)

lemma signed_take_bit_wrap32: "signed_take_bit 31 x = wrap32 x"
  by (simp add: wrap32_def signed_take_bit_eq_take_bit_shift take_bit_eq_mod)

lemma wrap32_id: "in_int32 x \<Longrightarrow> wrap32 x = x"
  by (simp add: in_int32_def wrap32_def)

lemma wrap32_above: "2 ^ 31 \<le> x \<Longrightarrow> x < 2 ^ 31 + 2 ^ 32 \<Longrightarrow> wrap32 x = x - 2 ^ 32"
  using mod_pos_geq [of "2 ^ 32" "x + 2 ^ 31"] by (simp add: wrap32_def)

lemma sint_of_int32: "sint (word_of_int x :: int32) = wrap32 x"
  by (simp add: sint_sbintrunc' signed_take_bit_wrap32)

lemma sint_add32: "sint (a + b :: int32) = wrap32 (sint a + sint b)"
proof -
  have "a + b = word_of_int (sint a + sint b)" by simp
  then show ?thesis by (simp only: sint_of_int32)
qed

lemma sint_sub32: "sint (a - b :: int32) = wrap32 (sint a - sint b)"
proof -
  have "a - b = word_of_int (sint a - sint b)" by simp
  then show ?thesis by (simp only: sint_of_int32)
qed

lemma sint_add_sub_one: "sint (a + b - 1 :: int32) = wrap32 (sint a + sint b - 1)"
proof -
  have "a + b - 1 = word_of_int (sint a + sint b - 1)" by simp
  then show ?thesis by (simp only: sint_of_int32)
qed

lemma sint_pred: "sint (a :: int32) < sint b \<Longrightarrow> sint (b - 1 :: int32) = sint b - 1"
  using sint32_range [of a] sint32_range [of b] by (simp add: sint_sub32 wrap32_def)

lemma sint32_eq_iff [int_simps]: "a = b \<longleftrightarrow> sint (a :: int32) = sint b"
  by (auto intro: signed_word_eqI)

lemma sless_iff [int_simps]: "a <s b \<longleftrightarrow> sint a < sint b"
  by (rule word_sless_alt)

lemma sle_iff [int_simps]: "a \<le>s b \<longleftrightarrow> sint a \<le> sint b"
  by (rule word_sle_eq)

lemma sint_go_min [int_simps]: "sint (go_min a b) = min (sint a) (sint b)"
  by (simp add: go_min_def sle_iff)

lemma sint_go_max [int_simps]: "sint (go_max a b) = max (sint a) (sint b)"
  by (simp add: go_max_def sle_iff)

subsection \<open>Division\<close>

lemma go_div_zero [simp]: "go_div a 0 = Inl DivideByZero"
  by (simp add: go_div_def)

lemma go_div_panics_iff: "go_div a b = Inl e \<longleftrightarrow> b = 0 \<and> e = DivideByZero"
  by (auto simp: go_div_def)

lemma sdiv_pos: "0 \<le> (x :: int) \<Longrightarrow> 0 < y \<Longrightarrow> x sdiv y = x div y"
  by (simp add: signed_divide_int_def sgn_if)

lemma sdiv_neg_pos: "(x :: int) < 0 \<Longrightarrow> 0 < y \<Longrightarrow> x sdiv y = - ((- x) div y)"
  by (simp add: signed_divide_int_def sgn_if)

lemma int_div_le_self: "0 \<le> (x :: int) \<Longrightarrow> 0 < y \<Longrightarrow> x div y \<le> x"
  using div_le_dividend [of "nat x" "nat y"]
  by (metis nat_div_distrib nat_le_eq_zle)

lemma go_div_pos:
  assumes "0 \<le> sint a" "0 < sint b"
  shows "\<exists>q. go_div a b = Inr q \<and> sint q = sint a div sint b"
proof -
  have "b \<noteq> 0" using assms by auto
  moreover have "0 \<le> sint a div sint b" using assms by (simp add: pos_imp_zdiv_nonneg_iff)
  moreover have "sint a div sint b \<le> sint a" using assms by (rule int_div_le_self)
  ultimately show ?thesis
    using sint32_range [of a] assms
    by (simp add: go_div_def sdiv_pos sint_of_int32 wrap32_id in_int32_def)
qed

end
