(* ===== verification/Scaling.thy ===== *)
theory Scaling
  imports Prelude
begin

section \<open>internal/scaling: how many replicas to run\<close>

text \<open>
  The pure decision of \<open>scaling.go\<close>: \<open>Policy\<close>, \<open>State\<close> and \<open>Decision\<close> are the structs of the
  source, \<open>Decide\<close> its function with every branch in the source's order, \<open>ceilDiv\<close>, \<open>clamp\<close>
  and \<open>elapsed\<close> its helpers. \<open>Decide\<close> can panic: \<open>ceilDiv\<close> divides by the target depth.
  The locale \<open>replica_decider\<close> states what a caller relies on when it applies decisions
  repeatedly, and proves convergence once; \<open>Decide\<close> is an instance of it.
\<close>

type_synonym Reason = string

definition ReasonAtTarget :: Reason where "ReasonAtTarget = ''QueueAtTarget''"
definition ReasonQueueAboveTarget :: Reason where "ReasonQueueAboveTarget = ''QueueAboveTarget''"
definition ReasonQueueBelowTarget :: Reason where "ReasonQueueBelowTarget = ''QueueBelowTarget''"
definition ReasonScaleUpBlocked :: Reason where "ReasonScaleUpBlocked = ''ScaleUpStabilizing''"
definition ReasonScaleDownBlocked :: Reason where "ReasonScaleDownBlocked = ''ScaleDownStabilizing''"
definition ReasonWeightsNotCached :: Reason where "ReasonWeightsNotCached = ''WeightsNotCached''"
definition ReasonBelowMinReplicas :: Reason where "ReasonBelowMinReplicas = ''BelowMinReplicas''"
definition ReasonAboveMaxReplicas :: Reason where "ReasonAboveMaxReplicas = ''AboveMaxReplicas''"
definition ReasonAutoscalingPaused :: Reason where "ReasonAutoscalingPaused = ''AutoscalingDisabled''"

lemmas Reason_defs =
  ReasonAtTarget_def ReasonQueueAboveTarget_def ReasonQueueBelowTarget_def
  ReasonScaleUpBlocked_def ReasonScaleDownBlocked_def ReasonWeightsNotCached_def
  ReasonBelowMinReplicas_def ReasonAboveMaxReplicas_def ReasonAutoscalingPaused_def

record Policy =
  Policy_MinReplicas :: int32
  Policy_MaxReplicas :: int32
  Policy_TargetQueueDepth :: int32
  Policy_MaxScaleUpStep :: int32
  Policy_ScaleUpAfter :: duration
  Policy_ScaleDownAfter :: duration

record State =
  State_CurrentReplicas :: int32
  State_QueueDepth :: int32
  State_WeightsCached :: bool
  State_LastScale :: gotime
  State_Now :: gotime

record Decision =
  Decision_Replicas :: int32
  Decision_Changed :: bool
  Decision_Reason :: Reason

definition elapsed :: "State \<Rightarrow> duration \<Rightarrow> bool" where
  "elapsed s window =
     (if time_IsZero (State_LastScale s) then True
      else \<not> time_Before (State_Now s) (time_Add (State_LastScale s) window))"

definition ceilDiv :: "int32 \<Rightarrow> int32 \<Rightarrow> panic + int32" where
  "ceilDiv a b = (if a \<le>s 0 then Inr 0 else go_div (a + b - 1) b)"

definition clamp :: "int32 \<Rightarrow> int32 \<Rightarrow> int32 \<Rightarrow> int32" where
  "clamp v lo hi = go_min (go_max v lo) hi"

definition Decide :: "Policy \<Rightarrow> State \<Rightarrow> panic + Decision" where
  "Decide p s =
     (let current = State_CurrentReplicas s;
          keep = (\<lambda>reason. Inr \<lparr>Decision_Replicas = current, Decision_Changed = False,
                                 Decision_Reason = reason\<rparr>);
          change = (\<lambda>n reason. Inr \<lparr>Decision_Replicas = n, Decision_Changed = True,
                                     Decision_Reason = reason\<rparr>)
      in
      if Policy_MaxReplicas p <s current
      then change (Policy_MaxReplicas p) ReasonAboveMaxReplicas
      else if current <s Policy_MinReplicas p
      then (if \<not> State_WeightsCached s then keep ReasonWeightsNotCached
            else change (Policy_MinReplicas p) ReasonBelowMinReplicas)
      else (case ceilDiv (State_QueueDepth s) (Policy_TargetQueueDepth p) of
              Inl e \<Rightarrow> Inl e
            | Inr n \<Rightarrow>
                (let target = clamp n (Policy_MinReplicas p) (Policy_MaxReplicas p)
                 in if current <s target
                    then (if \<not> State_WeightsCached s then keep ReasonWeightsNotCached
                          else if \<not> elapsed s (Policy_ScaleUpAfter p) then keep ReasonScaleUpBlocked
                          else (let step = go_min (target - current) (Policy_MaxScaleUpStep p)
                                in change (current + step) ReasonQueueAboveTarget))
                    else if target <s current
                    then (if \<not> elapsed s (Policy_ScaleDownAfter p) then keep ReasonScaleDownBlocked
                          else change (current - 1) ReasonQueueBelowTarget)
                    else keep ReasonAtTarget)))"

subsection \<open>What a sane configuration is\<close>

text \<open>
  \<open>valid_policy\<close> is what the CRD's field validation enforces, together with
  \<open>minReplicas \<le> maxReplicas\<close>, which nothing enforces. \<open>depth_fits\<close> says that the addition
  inside \<open>ceilDiv\<close> stays in range.
\<close>

definition valid_policy :: "Policy \<Rightarrow> bool" where
  "valid_policy p \<longleftrightarrow>
     0 \<le> sint (Policy_MinReplicas p) \<and>
     sint (Policy_MinReplicas p) \<le> sint (Policy_MaxReplicas p) \<and>
     1 \<le> sint (Policy_TargetQueueDepth p) \<and>
     1 \<le> sint (Policy_MaxScaleUpStep p)"

definition depth_fits :: "Policy \<Rightarrow> int32 \<Rightarrow> bool" where
  "depth_fits p q \<longleftrightarrow> sint q + sint (Policy_TargetQueueDepth p) - 1 < 2 ^ 31"

definition within_bounds :: "Policy \<Rightarrow> int32 \<Rightarrow> bool" where
  "within_bounds p r \<longleftrightarrow> Policy_MinReplicas p \<le>s r \<and> r \<le>s Policy_MaxReplicas p"

text \<open>The replica count the queue calls for, over the integers.\<close>

definition queue_goal :: "Policy \<Rightarrow> int32 \<Rightarrow> int" where
  "queue_goal p q =
     min (max (if sint q \<le> 0 then 0 else - ((- sint q) div sint (Policy_TargetQueueDepth p)))
              (sint (Policy_MinReplicas p)))
         (sint (Policy_MaxReplicas p))"

lemmas policy_defs = valid_policy_def within_bounds_def depth_fits_def

lemma sint_clamp [int_simps]: "sint (clamp v lo hi) = min (max (sint v) (sint lo)) (sint hi)"
  by (simp add: clamp_def int_simps)

subsection \<open>ceilDiv\<close>

lemma ceilDiv_nonpos [simp]: "a \<le>s 0 \<Longrightarrow> ceilDiv a b = Inr 0"
  by (simp add: ceilDiv_def)

lemma ceilDiv_panics: "ceilDiv a b = Inl e \<longleftrightarrow> 0 <s a \<and> b = 0 \<and> e = DivideByZero"
  by (auto simp: ceilDiv_def go_div_panics_iff sle_iff sless_iff)

lemma ceil_int: "0 < (b :: int) \<Longrightarrow> (a + b - 1) div b = - ((- a) div b)"
proof -
  assume b: "0 < b"
  define q r where "q = (a + b - 1) div b" and "r = (a + b - 1) mod b"
  have "a + b - 1 = b * q + r" by (simp add: q_def r_def)
  moreover have "0 \<le> r" "r < b" using b by (simp_all add: r_def)
  ultimately have "- a = b * (- q) + (b - 1 - r)" "0 \<le> b - 1 - r" "b - 1 - r < b"
    by (simp_all add: algebra_simps)
  then have "(- a) div b = - q" by (metis div_pos_geq int_div_pos_eq)
  then show ?thesis by (simp add: q_def)
qed

lemma ceilDiv_exact:
  assumes "0 < sint a" "0 < sint b" "sint a + sint b - 1 < 2 ^ 31"
  shows "\<exists>n. ceilDiv a b = Inr n \<and> sint n = - ((- sint a) div sint b)"
proof -
  have s: "sint (a + b - 1) = sint a + sint b - 1"
    using assms by (simp add: sint_add_sub_one wrap32_id in_int32_def)
  have "0 \<le> sint (a + b - 1)" using assms by (simp add: s)
  from go_div_pos [OF this assms(2)] show ?thesis
    using assms(1,2) by (simp add: ceilDiv_def sle_iff s ceil_int)
qed

lemma ceilDiv_goal:
  assumes "valid_policy p" "depth_fits p q"
  shows "\<exists>n. ceilDiv q (Policy_TargetQueueDepth p) = Inr n \<and>
             sint (clamp n (Policy_MinReplicas p) (Policy_MaxReplicas p)) = queue_goal p q"
proof (cases "sint q \<le> 0")
  case True
  then show ?thesis by (simp add: sle_iff sint_clamp queue_goal_def)
next
  case False
  with assms obtain n where "ceilDiv q (Policy_TargetQueueDepth p) = Inr n"
    "sint n = - ((- sint q) div sint (Policy_TargetQueueDepth p))"
    using ceilDiv_exact [of q "Policy_TargetQueueDepth p"] by (auto simp: policy_defs)
  with False show ?thesis by (simp add: sint_clamp queue_goal_def)
qed

lemma queue_goal_bounds:
  "valid_policy p \<Longrightarrow> sint (Policy_MinReplicas p) \<le> queue_goal p q"
  "queue_goal p q \<le> sint (Policy_MaxReplicas p)"
  by (auto simp: queue_goal_def valid_policy_def)

subsection \<open>The shape of a decision\<close>

text \<open>
  Every decision falls in one of eight cases. The rule is stated once, and the properties
  below are case analyses over it.
\<close>

lemma Decide_cases:
  assumes "Decide p s = Inr d"
  obtains
    (above) "Policy_MaxReplicas p <s State_CurrentReplicas s"
      "d = \<lparr>Decision_Replicas = Policy_MaxReplicas p, Decision_Changed = True,
            Decision_Reason = ReasonAboveMaxReplicas\<rparr>"
  | (below_cold) "State_CurrentReplicas s \<le>s Policy_MaxReplicas p"
      "State_CurrentReplicas s <s Policy_MinReplicas p" "\<not> State_WeightsCached s"
      "d = \<lparr>Decision_Replicas = State_CurrentReplicas s, Decision_Changed = False,
            Decision_Reason = ReasonWeightsNotCached\<rparr>"
  | (below) "State_CurrentReplicas s \<le>s Policy_MaxReplicas p"
      "State_CurrentReplicas s <s Policy_MinReplicas p" "State_WeightsCached s"
      "d = \<lparr>Decision_Replicas = Policy_MinReplicas p, Decision_Changed = True,
            Decision_Reason = ReasonBelowMinReplicas\<rparr>"
  | (up) n where "within_bounds p (State_CurrentReplicas s)"
      "ceilDiv (State_QueueDepth s) (Policy_TargetQueueDepth p) = Inr n"
      "State_CurrentReplicas s <s clamp n (Policy_MinReplicas p) (Policy_MaxReplicas p)"
      "State_WeightsCached s" "elapsed s (Policy_ScaleUpAfter p)"
      "d = \<lparr>Decision_Replicas = State_CurrentReplicas s
              + go_min (clamp n (Policy_MinReplicas p) (Policy_MaxReplicas p)
                        - State_CurrentReplicas s) (Policy_MaxScaleUpStep p),
            Decision_Changed = True, Decision_Reason = ReasonQueueAboveTarget\<rparr>"
  | (down) n where "within_bounds p (State_CurrentReplicas s)"
      "ceilDiv (State_QueueDepth s) (Policy_TargetQueueDepth p) = Inr n"
      "clamp n (Policy_MinReplicas p) (Policy_MaxReplicas p) <s State_CurrentReplicas s"
      "elapsed s (Policy_ScaleDownAfter p)"
      "d = \<lparr>Decision_Replicas = State_CurrentReplicas s - 1, Decision_Changed = True,
            Decision_Reason = ReasonQueueBelowTarget\<rparr>"
  | (keep) n where "within_bounds p (State_CurrentReplicas s)"
      "ceilDiv (State_QueueDepth s) (Policy_TargetQueueDepth p) = Inr n"
      "Decision_Replicas d = State_CurrentReplicas s" "\<not> Decision_Changed d"
      "clamp n (Policy_MinReplicas p) (Policy_MaxReplicas p) = State_CurrentReplicas s \<or>
       \<not> State_WeightsCached s \<or> \<not> elapsed s (Policy_ScaleUpAfter p) \<or>
       \<not> elapsed s (Policy_ScaleDownAfter p)"
  using assms
  by (auto simp: Decide_def Let_def within_bounds_def sless_iff sle_iff not_less
           dest!: signed_word_eqI split: sum.splits if_splits)

lemma sint_step_up:
  assumes "0 \<le> sint cur" "sint cur < sint t" "0 \<le> sint k"
  shows "sint (cur + go_min (t - cur) k) = sint cur + min (sint t - sint cur) (sint k)"
proof -
  have "sint (t - cur) = sint t - sint cur"
    using assms sint32_range [of t] by (simp add: sint_sub32 wrap32_id in_int32_def)
  then show ?thesis
    using assms sint32_range [of t]
    by (auto simp: sint_add32 sint_go_min in_int32_def intro!: wrap32_id)
qed

subsection \<open>Properties of one decision\<close>

text \<open>
  \<open>Decide\<close> panics in exactly one situation: the current count is inside the bounds, requests
  are waiting, and the target queue depth is zero, so that \<open>ceilDiv\<close> divides by zero.
\<close>

lemma Decide_panics_aux:
  "Decide p s = Inl e \<longleftrightarrow>
     within_bounds p (State_CurrentReplicas s) \<and> 0 <s State_QueueDepth s \<and>
     Policy_TargetQueueDepth p = 0 \<and> e = DivideByZero"
proof (cases "ceilDiv (State_QueueDepth s) (Policy_TargetQueueDepth p)")
  case (Inl e')
  then show ?thesis
    by (auto simp: Decide_def Let_def within_bounds_def sle_iff sless_iff not_less
             dest!: ceilDiv_panics [THEN iffD1])
next
  case (Inr n)
  then have "\<not> (0 <s State_QueueDepth s \<and> Policy_TargetQueueDepth p = 0)"
    by (auto simp: ceilDiv_def sle_iff sless_iff)
  moreover from Inr have "Decide p s \<noteq> Inl e" by (simp add: Decide_def Let_def)
  ultimately show ?thesis by blast
qed

text \<open>
  C3. For a valid policy and a queue depth whose ceiling division does not overflow, \<open>Decide\<close>
  returns, and the replica count it returns is inside the bounds, unless the count was below the
  minimum with the weights not cached (the one case in which the code deliberately waits).
\<close>

theorem Decide_replicas_legal:
  assumes "valid_policy p" "depth_fits p (State_QueueDepth s)"
    and "State_WeightsCached s \<or> Policy_MinReplicas p \<le>s State_CurrentReplicas s"
  shows "\<exists>d. Decide p s = Inr d \<and> within_bounds p (Decision_Replicas d)"
proof (cases "Decide p s")
  case (Inl e)
  with assms(1) show ?thesis by (auto simp: Decide_panics_aux valid_policy_def)
next
  case (Inr d)
  from Inr have "within_bounds p (Decision_Replicas d)"
  proof (cases rule: Decide_cases)
    case (up n)
    then show ?thesis
      using assms(1) sint_step_up [of "State_CurrentReplicas s"
          "clamp n (Policy_MinReplicas p) (Policy_MaxReplicas p)" "Policy_MaxScaleUpStep p"]
      by (auto simp: policy_defs int_simps)
  next
    case (down n)
    then show ?thesis
      using assms(1) sint_pred [of "clamp n (Policy_MinReplicas p) (Policy_MaxReplicas p)"
          "State_CurrentReplicas s"]
      by (auto simp: policy_defs int_simps)
  qed (use assms in \<open>auto simp: policy_defs int_simps\<close>)
  with Inr show ?thesis by blast
qed

text \<open>
  C4. While the weights are not cached the replica count never grows, whatever the policy, the
  queue, the clock and the current count are.
\<close>

theorem Decide_cold_never_grows:
  assumes "Decide p s = Inr d" "\<not> State_WeightsCached s"
  shows "Decision_Replicas d \<le>s State_CurrentReplicas s"
  using assms(1)
proof (cases rule: Decide_cases)
  case (down n)
  then show ?thesis
    using sint_pred [of "clamp n (Policy_MinReplicas p) (Policy_MaxReplicas p)"
        "State_CurrentReplicas s"] by (simp add: sle_iff sless_iff)
qed (use assms(2) in \<open>auto simp: sle_iff sless_iff\<close>)

text \<open>
  C9. Rate limits. With non-negative bounds and step, a decision adds at most
  \<open>MaxScaleUpStep\<close> replicas unless it repairs a count below the minimum, and removes at most one
  unless it repairs a count above the maximum.
\<close>

theorem Decide_rate_limited:
  assumes "Decide p s = Inr d"
    and "0 \<le> sint (Policy_MinReplicas p)" "0 \<le> sint (Policy_MaxScaleUpStep p)"
  shows "(Decision_Reason d \<noteq> ReasonBelowMinReplicas \<longrightarrow>
            sint (Decision_Replicas d) \<le> sint (State_CurrentReplicas s) + sint (Policy_MaxScaleUpStep p)) \<and>
         (Decision_Reason d \<noteq> ReasonAboveMaxReplicas \<longrightarrow>
            sint (State_CurrentReplicas s) - 1 \<le> sint (Decision_Replicas d))"
  using assms(1)
proof (cases rule: Decide_cases)
  case (up n)
  then show ?thesis
    using assms(2,3) sint_step_up [of "State_CurrentReplicas s"
        "clamp n (Policy_MinReplicas p) (Policy_MaxReplicas p)" "Policy_MaxScaleUpStep p"]
    by (auto simp: within_bounds_def sle_iff sless_iff)
next
  case (down n)
  then show ?thesis
    using assms(3) sint_pred [of "clamp n (Policy_MinReplicas p) (Policy_MaxReplicas p)"
        "State_CurrentReplicas s"] by (simp add: sle_iff sless_iff)
qed (use assms(2,3) in \<open>auto simp: sle_iff sless_iff\<close>)

text \<open>
  Stabilization. Inside the bounds and inside both windows nothing changes, and the decision
  says so: the count is the current one and \<open>Changed\<close> is false.
\<close>

lemma Decide_stabilized:
  assumes "Decide p s = Inr d" "within_bounds p (State_CurrentReplicas s)"
    and "\<not> elapsed s (Policy_ScaleUpAfter p)" "\<not> elapsed s (Policy_ScaleDownAfter p)"
  shows "Decision_Replicas d = State_CurrentReplicas s \<and> \<not> Decision_Changed d"
  using assms(1)
  by (cases rule: Decide_cases) (use assms in \<open>auto simp: within_bounds_def sle_iff sless_iff\<close>)

text \<open>
  \<open>Changed\<close> is truthful: for a valid policy it is set exactly when the returned count differs
  from the current one.
\<close>

theorem Decide_changed_iff:
  assumes "Decide p s = Inr d" "valid_policy p"
  shows "Decision_Changed d \<longleftrightarrow> Decision_Replicas d \<noteq> State_CurrentReplicas s"
  using assms(1)
proof (cases rule: Decide_cases)
  case (up n)
  then show ?thesis
    using assms(2) sint_step_up [of "State_CurrentReplicas s"
        "clamp n (Policy_MinReplicas p) (Policy_MaxReplicas p)" "Policy_MaxScaleUpStep p"]
    by (auto simp: policy_defs sle_iff sless_iff sint32_eq_iff)
next
  case (down n)
  then show ?thesis
    using sint_pred [of "clamp n (Policy_MinReplicas p) (Policy_MaxReplicas p)"
        "State_CurrentReplicas s"] by (simp add: sless_iff sint32_eq_iff)
qed (auto simp: sless_iff)

subsection \<open>Where the arithmetic fails\<close>

text \<open>
  A positive depth whose addition overflows divides a negative number, so the ceiling is not
  positive.
\<close>

lemma ceilDiv_overflow:
  assumes "0 < sint a" "0 < sint b" "2 ^ 31 \<le> sint a + sint b - 1"
  shows "\<exists>n. ceilDiv a b = Inr n \<and> sint n \<le> 0"
proof -
  define x where "x = sint (a + b - 1)"
  have x: "x = sint a + sint b - 1 - 2 ^ 32"
    using assms sint32_range [of a] sint32_range [of b]
    by (simp add: x_def sint_add_sub_one wrap32_above)
  then have neg: "x < 0" "- x \<le> 2147483648"
    using assms(3) sint32_range [of a] sint32_range [of b] by simp_all
  have q: "0 \<le> (- x) div sint b" "(- x) div sint b \<le> - x"
    using neg assms(2) int_div_le_self [of "- x" "sint b"] by (simp_all add: pos_imp_zdiv_nonneg_iff)
  have "b \<noteq> 0" using assms(2) by auto
  moreover have "sint (word_of_int (x sdiv sint b) :: int32) \<le> 0"
    unfolding sint_of_int32 using q neg assms(2) by (simp add: sdiv_neg_pos wrap32_id in_int32_def)
  ultimately show ?thesis
    using assms(1) by (simp add: ceilDiv_def go_div_def sle_iff x_def)
qed

lemma Decide_overflow_aux:
  assumes "valid_policy p" "within_bounds p (State_CurrentReplicas s)"
    and "0 <s State_QueueDepth s" "\<not> depth_fits p (State_QueueDepth s)"
    and "Policy_MinReplicas p <s State_CurrentReplicas s" "elapsed s (Policy_ScaleDownAfter p)"
  shows "Decide p s = Inr \<lparr>Decision_Replicas = State_CurrentReplicas s - 1, Decision_Changed = True,
                           Decision_Reason = ReasonQueueBelowTarget\<rparr>"
proof -
  obtain n where n: "ceilDiv (State_QueueDepth s) (Policy_TargetQueueDepth p) = Inr n" "sint n \<le> 0"
    using assms ceilDiv_overflow [of "State_QueueDepth s" "Policy_TargetQueueDepth p"]
    by (auto simp: policy_defs sless_iff)
  then have "sint (clamp n (Policy_MinReplicas p) (Policy_MaxReplicas p)) = sint (Policy_MinReplicas p)"
    using assms(1) by (simp add: sint_clamp policy_defs)
  with n assms show ?thesis
    by (simp add: Decide_def Let_def within_bounds_def sle_iff sless_iff)
qed

text \<open>
  The overflow in \<open>ceilDiv\<close> reverses the decision: for a queue so deep that
  \<open>depth + target - 1\<close> leaves the range of \<open>int32\<close>, and a count inside the bounds and above the
  minimum, an elapsed scale-down window makes \<open>Decide\<close> take a replica away.
\<close>

theorem Decide_overflow_scales_down:
  assumes "valid_policy p" "within_bounds p (State_CurrentReplicas s)"
    and "0 <s State_QueueDepth s" "\<not> depth_fits p (State_QueueDepth s)"
    and "Policy_MinReplicas p <s State_CurrentReplicas s" "elapsed s (Policy_ScaleDownAfter p)"
  shows "Decide p s = Inr \<lparr>Decision_Replicas = State_CurrentReplicas s - 1, Decision_Changed = True,
                           Decision_Reason = ReasonQueueBelowTarget\<rparr>"
  using assms by (rule Decide_overflow_aux)

text \<open>
  C38. Inverted bounds never settle. With \<open>MaxReplicas < MinReplicas\<close>, which no validation excludes, and the
  weights cached, a caller that keeps applying the decisions alternates between the two bounds for ever: from
  the first decision on the size is one of them, and every decision changes it to the other, whatever the
  queue, the stabilization windows and the step limit say.
\<close>

theorem Decide_inverted_bounds_oscillate:
  assumes "Policy_MaxReplicas p <s Policy_MinReplicas p"
    and "\<forall>k. State_WeightsCached (s k) \<and> State_CurrentReplicas (s k) = n k"
    and "\<forall>k. Decide p (s k) = Inr (d k) \<and> n (Suc k) = Decision_Replicas (d k)"
  shows "(n (Suc k) = Policy_MinReplicas p \<or> n (Suc k) = Policy_MaxReplicas p) \<and>
    n (Suc (Suc k)) = (if n (Suc k) = Policy_MinReplicas p then Policy_MaxReplicas p else Policy_MinReplicas p)"
proof -
  have step: "n (Suc k) = (if Policy_MaxReplicas p <s n k then Policy_MaxReplicas p else Policy_MinReplicas p)" for k
    using assms(1) assms(2,3) [rule_format, of k] by (cases "d k") (auto simp: Decide_def Let_def sless_iff split: if_splits)
  show ?thesis using assms(1) step [of k] step [of "Suc k"] by (auto simp: sless_iff)
qed

subsection \<open>Repeated decisions converge\<close>

text \<open>
  What a caller that keeps applying decisions relies on: the goal is a legal size, a size outside
  the bounds is repaired at once, and a decision taken when the windows are open (\<open>ripe\<close>) moves
  towards the goal without passing it and rests there. Any such rule settles.
\<close>

locale replica_decider =
  fixes legal :: "'p \<Rightarrow> 'q \<Rightarrow> bool"
    and lo :: "'p \<Rightarrow> int"
    and hi :: "'p \<Rightarrow> int"
    and goal :: "'p \<Rightarrow> 'q \<Rightarrow> int"
    and ripe :: "'p \<Rightarrow> 't \<Rightarrow> bool"
    and size_of :: "'r \<Rightarrow> int"
    and decide :: "'p \<Rightarrow> 'q \<Rightarrow> 't \<Rightarrow> 'r \<Rightarrow> 'r"
  assumes goal_legal: "legal p q \<Longrightarrow> lo p \<le> goal p q \<and> goal p q \<le> hi p"
    and repair: "legal p q \<Longrightarrow> size_of r < lo p \<or> hi p < size_of r \<Longrightarrow>
      lo p \<le> size_of (decide p q t r) \<and> size_of (decide p q t r) \<le> hi p"
    and climb: "legal p q \<Longrightarrow> ripe p t \<Longrightarrow> lo p \<le> size_of r \<Longrightarrow> size_of r < goal p q \<Longrightarrow>
      size_of r < size_of (decide p q t r) \<and> size_of (decide p q t r) \<le> goal p q"
    and descend: "legal p q \<Longrightarrow> ripe p t \<Longrightarrow> goal p q < size_of r \<Longrightarrow> size_of r \<le> hi p \<Longrightarrow>
      goal p q \<le> size_of (decide p q t r) \<and> size_of (decide p q t r) < size_of r"
    and rest: "legal p q \<Longrightarrow> size_of r = goal p q \<Longrightarrow> size_of (decide p q t r) = goal p q"
begin

lemma stays_at_goal:
  "legal p q \<Longrightarrow> size_of r = goal p q \<Longrightarrow> size_of (fold (decide p q) ts r) = goal p q"
  by (induction ts arbitrary: r) (simp_all add: rest)

lemma closer:
  assumes "legal p q" "ripe p t" "lo p \<le> size_of r" "size_of r \<le> hi p" "size_of r \<noteq> goal p q"
  shows "\<bar>goal p q - size_of (decide p q t r)\<bar> < \<bar>goal p q - size_of r\<bar> \<and>
         lo p \<le> size_of (decide p q t r) \<and> size_of (decide p q t r) \<le> hi p"
proof (cases "size_of r < goal p q")
  case True
  then show ?thesis using climb [OF assms(1-3) True] assms goal_legal [OF assms(1)] by linarith
next
  case False
  with assms(5) have "goal p q < size_of r" by simp
  then show ?thesis using descend [OF assms(1,2) _ assms(4)] assms goal_legal [OF assms(1)] by force
qed

lemma settles_inside:
  assumes "legal p q" "\<forall>t \<in> set ts. ripe p t" "lo p \<le> size_of r" "size_of r \<le> hi p"
    and "\<bar>goal p q - size_of r\<bar> \<le> int (length ts)"
  shows "size_of (fold (decide p q) ts r) = goal p q"
  using assms(2-5)
proof (induction ts arbitrary: r)
  case (Cons t ts)
  show ?case
  proof (cases "size_of r = goal p q")
    case True
    then show ?thesis using stays_at_goal [OF assms(1)] by blast
  next
    case False
    with Cons.prems closer [OF assms(1), of t r] show ?thesis by (simp add: Cons.IH)
  qed
qed simp

lemma settles:
  assumes "legal p q" "\<forall>t \<in> set ts. ripe p t" "hi p - lo p < int (length ts)"
  shows "size_of (fold (decide p q) ts r) = goal p q"
proof (cases "lo p \<le> size_of r \<and> size_of r \<le> hi p")
  case True
  then show ?thesis
    using settles_inside [OF assms(1,2)] assms(3) goal_legal [OF assms(1)] by force
next
  case False
  with assms(3) goal_legal [OF assms(1)] obtain t ts' where ts: "ts = t # ts'"
    by (cases ts) force+
  from False have r: "lo p \<le> size_of (decide p q t r)" "size_of (decide p q t r) \<le> hi p"
    using repair [OF assms(1)] by force+
  then have "size_of (fold (decide p q) ts' (decide p q t r)) = goal p q"
    using assms(2,3) goal_legal [OF assms(1)] by (intro settles_inside [OF assms(1)]) (auto simp: ts)
  then show ?thesis by (simp add: ts)
qed

end

text \<open>
  The caller's side of \<open>TestDecideConverges\<close>: the weights are cached, the queue is steady, and the
  count of each decision is the current count of the next one. An occasion to decide is the pair
  of the last scaling time and the current time.
\<close>

definition occasion :: "int32 \<Rightarrow> gotime \<times> gotime \<Rightarrow> int32 \<Rightarrow> State" where
  "occasion q t r =
     \<lparr>State_CurrentReplicas = r, State_QueueDepth = q, State_WeightsCached = True,
      State_LastScale = fst t, State_Now = snd t\<rparr>"

definition next_replicas :: "Policy \<Rightarrow> int32 \<Rightarrow> gotime \<times> gotime \<Rightarrow> int32 \<Rightarrow> int32" where
  "next_replicas p q t r =
     (case Decide p (occasion q t r) of Inl _ \<Rightarrow> r | Inr d \<Rightarrow> Decision_Replicas d)"

definition windows_open :: "Policy \<Rightarrow> gotime \<times> gotime \<Rightarrow> bool" where
  "windows_open p t \<longleftrightarrow>
     elapsed (occasion 0 t 0) (Policy_ScaleUpAfter p) \<and>
     elapsed (occasion 0 t 0) (Policy_ScaleDownAfter p)"

lemma occasion_simps [simp]:
  "State_CurrentReplicas (occasion q t r) = r"
  "State_QueueDepth (occasion q t r) = q"
  "State_WeightsCached (occasion q t r)"
  by (simp_all add: occasion_def)

lemma elapsed_occasion: "elapsed (occasion q t r) w \<longleftrightarrow> elapsed (occasion 0 t 0) w"
  by (simp add: elapsed_def occasion_def)

lemma next_replicas_inside:
  assumes "valid_policy p" "depth_fits p q" "within_bounds p r" "windows_open p t"
  shows "sint (next_replicas p q t r) =
     (if sint r < queue_goal p q then sint r + min (queue_goal p q - sint r) (sint (Policy_MaxScaleUpStep p))
      else if queue_goal p q < sint r then sint r - 1 else sint r)"
proof -
  obtain n where n: "ceilDiv q (Policy_TargetQueueDepth p) = Inr n"
    "sint (clamp n (Policy_MinReplicas p) (Policy_MaxReplicas p)) = queue_goal p q"
    using ceilDiv_goal [OF assms(1,2)] by blast
  let ?t = "clamp n (Policy_MinReplicas p) (Policy_MaxReplicas p)"
  have "sint r < sint ?t \<Longrightarrow> sint (r + go_min (?t - r) (Policy_MaxScaleUpStep p))
      = sint r + min (sint ?t - sint r) (sint (Policy_MaxScaleUpStep p))"
    using assms(1,3) by (intro sint_step_up) (auto simp: policy_defs sle_iff)
  moreover have "elapsed (occasion q t r) (Policy_ScaleUpAfter p)"
    "elapsed (occasion q t r) (Policy_ScaleDownAfter p)"
    using assms(4) by (simp_all add: windows_open_def elapsed_occasion [of q])
  moreover have "\<not> Policy_MaxReplicas p <s r" "\<not> r <s Policy_MinReplicas p"
    using assms(3) by (simp_all add: within_bounds_def sle_iff sless_iff)
  ultimately show ?thesis
    using n sint_pred [of ?t r]
    by (simp add: next_replicas_def Decide_def Let_def sless_iff)
qed

lemma next_replicas_outside:
  assumes "valid_policy p" "sint r < sint (Policy_MinReplicas p) \<or> sint (Policy_MaxReplicas p) < sint r"
  shows "within_bounds p (next_replicas p q t r)"
  using assms by (auto simp: next_replicas_def Decide_def Let_def policy_defs sle_iff sless_iff)

interpretation scaler: replica_decider
  "\<lambda>p q. valid_policy p \<and> depth_fits p q" "\<lambda>p. sint (Policy_MinReplicas p)"
  "\<lambda>p. sint (Policy_MaxReplicas p)" queue_goal windows_open sint next_replicas
proof (unfold_locales, goal_cases)
  case (1 p q)
  then show ?case by (simp add: queue_goal_bounds)
next
  case (2 p q r t)
  then show ?case using next_replicas_outside [of p r q t] by (simp add: within_bounds_def sle_iff)
next
  case (3 p q t r)
  then have "within_bounds p r"
    using queue_goal_bounds [of p q] by (simp add: within_bounds_def sle_iff)
  with 3 show ?case by (auto simp: next_replicas_inside valid_policy_def)
next
  case (4 p q t r)
  then have "within_bounds p r"
    using queue_goal_bounds [of p q] by (simp add: within_bounds_def sle_iff)
  with 4 show ?case by (simp add: next_replicas_inside)
next
  case (5 p q r t)
  then obtain n where "ceilDiv q (Policy_TargetQueueDepth p) = Inr n"
    "clamp n (Policy_MinReplicas p) (Policy_MaxReplicas p) = r"
    using ceilDiv_goal [of p q] by (metis sint32_eq_iff)
  with 5 show ?case
    using queue_goal_bounds [of p q] by (simp add: next_replicas_def Decide_def Let_def sless_iff)
qed

text \<open>
  Convergence. For a valid policy, a steady queue that does not overflow and cached weights,
  applying the decisions on more occasions than \<open>MaxReplicas - MinReplicas\<close>, each with both
  windows open, ends at exactly the clamped ceiling of queue over target, from any starting count.
\<close>

lemma Decide_converges:
  assumes "valid_policy p" "depth_fits p q" "\<forall>t \<in> set ts. windows_open p t"
    and "sint (Policy_MaxReplicas p) - sint (Policy_MinReplicas p) < int (length ts)"
  shows "sint (fold (next_replicas p q) ts r) = queue_goal p q"
  using assms by (intro scaler.settles) simp_all

subsection \<open>Witnesses\<close>

text \<open>The policy of the repository's tests.\<close>

definition basePolicy :: Policy where
  "basePolicy =
     \<lparr>Policy_MinReplicas = 1, Policy_MaxReplicas = 8, Policy_TargetQueueDepth = 4,
      Policy_MaxScaleUpStep = 2, Policy_ScaleUpAfter = 60000000000,
      Policy_ScaleDownAfter = 900000000000\<rparr>"

lemma basePolicy_valid: "valid_policy basePolicy"
  by (simp add: valid_policy_def basePolicy_def)

theorem Decide_converges_witness:
  "sint (fold (next_replicas basePolicy 18) (replicate 8 (0, 3600000000000)) 1) = 5"
proof -
  have "sint (fold (next_replicas basePolicy 18) (replicate 8 (0, 3600000000000)) 1)
      = queue_goal basePolicy 18"
    by (rule Decide_converges)
       (simp_all add: basePolicy_valid depth_fits_def windows_open_def elapsed_def occasion_def
          time_defs, simp_all add: basePolicy_def)
  then show ?thesis by (simp add: queue_goal_def basePolicy_def)
qed

text \<open>An observation with an elapsed history, as most rows of the table test have it.\<close>

definition observed :: "int32 \<Rightarrow> int32 \<Rightarrow> bool \<Rightarrow> gotime \<Rightarrow> State" where
  "observed r q cached now =
     \<lparr>State_CurrentReplicas = r, State_QueueDepth = q, State_WeightsCached = cached,
      State_LastScale = 1000000000, State_Now = now\<rparr>"

lemmas observed_eval =
  Decide_def observed_def basePolicy_def ceilDiv_def clamp_def go_div_def go_min_def go_max_def
  elapsed_def time_defs word_sless_alt word_sle_eq signed_divide_int_def

theorem Decide_replicas_legal_witness:
  "\<exists>d. Decide basePolicy (observed 1 400 True 7200000000000) = Inr d \<and>
       within_bounds basePolicy (Decision_Replicas d)"
  by (rule Decide_replicas_legal)
     (simp_all add: basePolicy_valid, simp_all add: depth_fits_def observed_def basePolicy_def)

theorem Decide_cold_never_grows_witness:
  "\<exists>d. Decide basePolicy (observed 2 100 False 7200000000000) = Inr d \<and> Decision_Replicas d \<le>s 2"
proof -
  let ?d = "\<lparr>Decision_Replicas = 2, Decision_Changed = False, Decision_Reason = ReasonWeightsNotCached\<rparr>"
  have d: "Decide basePolicy (observed 2 100 False 7200000000000) = Inr ?d"
    by (simp add: observed_eval)
  from Decide_cold_never_grows [OF d] d show ?thesis by (simp add: observed_def)
qed

theorem Decide_rate_limited_witness:
  "\<exists>d. Decide basePolicy (observed 1 400 True 7200000000000) = Inr d \<and>
       Decision_Reason d = ReasonQueueAboveTarget \<and> sint (Decision_Replicas d) \<le> 1 + 2"
proof -
  let ?d = "\<lparr>Decision_Replicas = 3, Decision_Changed = True, Decision_Reason = ReasonQueueAboveTarget\<rparr>"
  have d: "Decide basePolicy (observed 1 400 True 7200000000000) = Inr ?d"
    by (simp add: observed_eval)
  from Decide_rate_limited [OF d] d show ?thesis
    by (simp add: basePolicy_def observed_def Reason_defs)
qed

theorem Decide_stabilized_witness:
  "\<exists>d. Decide basePolicy (observed 6 0 True 11000000000) = Inr d \<and>
       Decision_Replicas d = 6 \<and> \<not> Decision_Changed d"
proof -
  let ?d = "\<lparr>Decision_Replicas = 6, Decision_Changed = False, Decision_Reason = ReasonScaleDownBlocked\<rparr>"
  have d: "Decide basePolicy (observed 6 0 True 11000000000) = Inr ?d"
    by (simp add: observed_eval)
  have "Decision_Replicas ?d = State_CurrentReplicas (observed 6 0 True 11000000000) \<and>
        \<not> Decision_Changed ?d"
    by (rule Decide_stabilized [OF d])
       (simp_all add: within_bounds_def observed_eval)
  with d show ?thesis by (simp add: observed_def)
qed

theorem Decide_changed_iff_witness:
  "\<exists>d. Decide basePolicy (observed 6 0 True 7200000000000) = Inr d \<and>
       Decision_Changed d \<and> Decision_Replicas d \<noteq> 6"
proof -
  let ?d = "\<lparr>Decision_Replicas = 5, Decision_Changed = True, Decision_Reason = ReasonQueueBelowTarget\<rparr>"
  have d: "Decide basePolicy (observed 6 0 True 7200000000000) = Inr ?d"
    by (simp add: observed_eval)
  from Decide_changed_iff [OF d basePolicy_valid] d show ?thesis by (simp add: observed_def)
qed

theorem Decide_overflow_scales_down_witness:
  "Decide basePolicy (observed 6 2147483647 True 7200000000000) =
     Inr \<lparr>Decision_Replicas = 6 - 1, Decision_Changed = True,
          Decision_Reason = ReasonQueueBelowTarget\<rparr>"
proof -
  let ?s = "observed 6 2147483647 True 7200000000000"
  have "Decide basePolicy ?s =
     Inr \<lparr>Decision_Replicas = State_CurrentReplicas ?s - 1, Decision_Changed = True,
          Decision_Reason = ReasonQueueBelowTarget\<rparr>"
    by (rule Decide_overflow_scales_down [OF basePolicy_valid])
       (simp_all add: within_bounds_def depth_fits_def observed_eval)
  then show ?thesis by (simp add: observed_def)
qed

theorem Decide_inverted_bounds_oscillate_witness:
  "let p = basePolicy\<lparr>Policy_MinReplicas := 5, Policy_MaxReplicas := 3\<rparr>;
       n = (\<lambda>k :: nat. if even k then 3 else 5) :: nat \<Rightarrow> int32
   in n 6 = 5 + 3 - n 7 \<and>
      (\<forall>k. map_sum id Decision_Replicas (Decide p (observed (n k) 0 True 0)) = Inr (n (Suc k)))"
proof -
  let ?p = "basePolicy\<lparr>Policy_MinReplicas := 5, Policy_MaxReplicas := 3\<rparr>"
  let ?n = "(\<lambda>k :: nat. if even k then 3 else 5) :: nat \<Rightarrow> int32"
  let ?d = "\<lambda>k. \<lparr>Decision_Replicas = ?n (Suc k), Decision_Changed = True,
    Decision_Reason = if even k then ReasonBelowMinReplicas else ReasonAboveMaxReplicas\<rparr>"
  have steps: "\<forall>k. Decide ?p (observed (?n k) 0 True 0) = Inr (?d k) \<and> ?n (Suc k) = Decision_Replicas (?d k)"
    by (simp add: Decide_def observed_def basePolicy_def word_sless_alt)
  have "?n 6 = 5 + 3 - ?n 7"
    using Decide_inverted_bounds_oscillate [of ?p "\<lambda>k. observed (?n k) 0 True 0" ?n, OF _ _ steps, of 5]
    by (simp add: observed_def word_sless_alt)
  with steps show ?thesis by (simp add: Let_def)
qed

subsection \<open>Equivalence with a specification over the integers\<close>

text \<open>
  The decision as a specification would give it, on unbounded integers and with no control flow inside
  the bounds: go towards the goal, upwards by at most the step when the weights are there and the window
  is open, downwards by one when that window is open. The goal is the least number of replicas that
  keeps the share of each at the target, brought inside the bounds.
\<close>

definition replicas_for :: "int \<Rightarrow> int \<Rightarrow> int" where
  "replicas_for q target = (max q 0 + target - 1) div target"

definition reference_replicas ::
  "int \<Rightarrow> int \<Rightarrow> int \<Rightarrow> int \<Rightarrow> int \<Rightarrow> int \<Rightarrow> bool \<Rightarrow> bool \<Rightarrow> bool \<Rightarrow> int" where
  "reference_replicas lo hi target step q cur warm up down =
     (let goal = min (max (replicas_for q target) lo) hi
      in if hi < cur then hi
         else if cur < lo then (if warm then lo else cur)
         else cur + of_bool (warm \<and> up) * min (max (goal - cur) 0) step - of_bool (down \<and> goal < cur))"

lemma replicas_for_least:
  assumes "0 < target"
  shows "q \<le> replicas_for q target * target" "0 \<le> replicas_for q target"
    "0 \<le> n \<Longrightarrow> q \<le> n * target \<Longrightarrow> replicas_for q target \<le> n"
proof -
  define m where "m = max q 0"
  have m: "0 \<le> m" by (simp add: m_def)
  have "m + target - 1 = target * ((m + target - 1) div target) + (m + target - 1) mod target" by simp
  moreover have "(m + target - 1) mod target < target" using assms by simp
  ultimately have "m \<le> replicas_for q target * target"
    unfolding replicas_for_def m_def [symmetric] by (simp only: mult.commute)
  then show "q \<le> replicas_for q target * target" by (simp add: m_def)
  show "0 \<le> replicas_for q target"
    using assms by (simp add: replicas_for_def pos_imp_zdiv_nonneg_iff)
  assume "0 \<le> n" "q \<le> n * target"
  moreover from this have "0 \<le> n * target" using assms by simp
  ultimately have "m + target - 1 < (n + 1) * target" by (auto simp: m_def algebra_simps max_def)
  moreover have "(m + target - 1) div target * target \<le> m + target - 1"
    using assms pos_mod_sign [of target "m + target - 1"]
    by (metis add_le_same_cancel1 div_mult_mod_eq le_add_same_cancel1)
  ultimately have "(m + target - 1) div target * target < (n + 1) * target" by linarith
  then have "(m + target - 1) div target < n + 1" using assms by (simp only: mult_less_cancel_right)
  then show "replicas_for q target \<le> n" by (simp add: replicas_for_def flip: m_def)
qed

lemma queue_goal_reference:
  "0 < sint (Policy_TargetQueueDepth p) \<Longrightarrow>
   queue_goal p q = min (max (replicas_for (sint q) (sint (Policy_TargetQueueDepth p))) (sint (Policy_MinReplicas p)))
     (sint (Policy_MaxReplicas p))"
  by (simp add: queue_goal_def replicas_for_def ceil_int max_def)

text \<open>
  C20. On 32-bit words, with its guards and early returns, \<open>Decide\<close> computes the specification: for a
  valid policy and a depth whose ceiling division does not overflow it returns the count the integer
  specification gives, and reports a change exactly when that count is another one.
\<close>

theorem Decide_matches_reference:
  assumes "valid_policy p" "depth_fits p (State_QueueDepth s)"
  shows "\<exists>d. Decide p s = Inr d \<and>
    sint (Decision_Replicas d) =
      reference_replicas (sint (Policy_MinReplicas p)) (sint (Policy_MaxReplicas p))
        (sint (Policy_TargetQueueDepth p)) (sint (Policy_MaxScaleUpStep p)) (sint (State_QueueDepth s))
        (sint (State_CurrentReplicas s)) (State_WeightsCached s)
        (elapsed s (Policy_ScaleUpAfter p)) (elapsed s (Policy_ScaleDownAfter p)) \<and>
    (Decision_Changed d \<longleftrightarrow> Decision_Replicas d \<noteq> State_CurrentReplicas s)"
proof -
  have target: "0 < sint (Policy_TargetQueueDepth p)" using assms by (simp add: valid_policy_def)
  obtain n where n: "ceilDiv (State_QueueDepth s) (Policy_TargetQueueDepth p) = Inr n"
    "sint (clamp n (Policy_MinReplicas p) (Policy_MaxReplicas p)) = queue_goal p (State_QueueDepth s)"
    using ceilDiv_goal [OF assms] by blast
  define t where "t = clamp n (Policy_MinReplicas p) (Policy_MaxReplicas p)"
  let ?cur = "State_CurrentReplicas s"
  have goal: "min (max (replicas_for (sint (State_QueueDepth s)) (sint (Policy_TargetQueueDepth p)))
      (sint (Policy_MinReplicas p))) (sint (Policy_MaxReplicas p)) = sint t"
    using n(2) queue_goal_reference [OF target] by (simp add: t_def)
  note facts = n(1) goal assms(1) [unfolded valid_policy_def]
    and unfolds = Decide_def reference_replicas_def Let_def within_bounds_def sless_iff sle_iff sint32_eq_iff
  consider "sint (Policy_MaxReplicas p) < sint (State_CurrentReplicas s)"
    | "sint (State_CurrentReplicas s) \<le> sint (Policy_MaxReplicas p)"
      "sint (State_CurrentReplicas s) < sint (Policy_MinReplicas p)"
    | "within_bounds p (State_CurrentReplicas s)"
    by (fastforce simp: within_bounds_def int_simps)
  then show ?thesis
  proof cases
    case 3
    then have cur: "0 \<le> sint ?cur" using assms(1) by (simp add: within_bounds_def sle_iff valid_policy_def)
    consider "sint ?cur < sint t" | "sint t < sint ?cur" | "sint t = sint ?cur" by linarith
    then show ?thesis
    proof cases
      case 1
      then show ?thesis using 3 cur facts
        by (simp add: unfolds sint_step_up flip: t_def) (simp add: min_def)
    next
      case 2
      then show ?thesis using 3 facts
        by (simp add: unfolds sint_pred flip: t_def)
    next
      assume "sint t = sint ?cur"
      then show ?thesis using 3 facts by (simp add: unfolds flip: t_def)
    qed
  qed (use facts in \<open>auto simp: Decide_def reference_replicas_def Let_def int_simps\<close>)
qed

lemma Decide_matches_reference_witness:
  "\<exists>d. Decide basePolicy (observed 1 400 True 7200000000000) = Inr d \<and> sint (Decision_Replicas d) = 3"
proof -
  let ?s = "observed 1 400 True 7200000000000"
  have "depth_fits basePolicy (State_QueueDepth ?s)"
    by (simp add: depth_fits_def observed_def basePolicy_def)
  from Decide_matches_reference [OF basePolicy_valid this] show ?thesis
    by (auto simp: observed_def basePolicy_def reference_replicas_def replicas_for_def elapsed_def time_defs)
qed

end
