(* ===== verification/K8s_Objects.thy ===== *)
theory K8s_Objects
  imports Prelude
begin

section \<open>The Kubernetes objects the operator reads and writes\<close>

text \<open>
  The structs of the Kubernetes API packages that the source fills in or reads, with exactly the
  fields it uses; a field it never touches is left out. A field name carries its struct's name.
  Go maps are HOL maps, a pointer field is an option, and a \<open>resource.Quantity\<close> is the text it
  was parsed from: the operator passes quantities on and never computes with them here.
\<close>

type_synonym labels = "string \<rightharpoonup> string"

datatype Quantity = MustParse string

text \<open>A label selector, by the call that built it.\<close>

datatype Selector = SelectorFromSet labels | Everything

type_synonym ResourceList = "string \<rightharpoonup> Quantity"

record ResourceRequirements =
  Resources_Limits :: ResourceList
  Resources_Requests :: ResourceList

record LocalObjectReference =
  LocalObjectReference_Name :: string

record Toleration =
  Toleration_Key :: string
  Toleration_Operator :: string
  Toleration_Value :: string
  Toleration_Effect :: string

datatype IntOrString = FromInt32 int32 | FromString string

subsection \<open>Metadata\<close>

record OwnerReference =
  OwnerReference_Kind :: string
  OwnerReference_Name :: string
  OwnerReference_Controller :: bool

record ObjectMeta =
  ObjectMeta_Name :: string
  ObjectMeta_Namespace :: string
  ObjectMeta_Labels :: labels
  ObjectMeta_Annotations :: labels
  ObjectMeta_OwnerReferences :: "OwnerReference list"
  ObjectMeta_Finalizers :: "string list"
  ObjectMeta_DeletionTimestamp :: "gotime option"
  ObjectMeta_Generation :: int64
  ObjectMeta_ResourceVersion :: string

record TypeMeta =
  TypeMeta_APIVersion :: string
  TypeMeta_Kind :: string

record ObjectKey =
  ObjectKey_Namespace :: string
  ObjectKey_Name :: string

text \<open>\<open>metav1.ObjectMeta\<close> with a name, a namespace and labels; every other field is its zero value.\<close>

definition object_meta :: "string \<Rightarrow> string \<Rightarrow> labels \<Rightarrow> ObjectMeta" where
  "object_meta name namespace lbls =
     \<lparr>ObjectMeta_Name = name, ObjectMeta_Namespace = namespace, ObjectMeta_Labels = lbls,
      ObjectMeta_Annotations = Map.empty, ObjectMeta_OwnerReferences = [],
      ObjectMeta_Finalizers = [], ObjectMeta_DeletionTimestamp = None,
      ObjectMeta_Generation = 0, ObjectMeta_ResourceVersion = ''''\<rparr>"

record Condition =
  Condition_Type :: string
  Condition_Status :: string
  Condition_ObservedGeneration :: int64
  Condition_LastTransitionTime :: gotime
  Condition_Reason :: string
  Condition_Message :: string

definition ConditionTrue :: string where "ConditionTrue = ''True''"
definition ConditionFalse :: string where "ConditionFalse = ''False''"

subsection \<open>Pods\<close>

record EnvVar =
  EnvVar_Name :: string
  EnvVar_Value :: string

record Probe =
  Probe_Path :: string
  Probe_Port :: IntOrString
  Probe_PeriodSeconds :: int32
  Probe_TimeoutSeconds :: int32
  Probe_FailureThreshold :: int32

record ContainerPort =
  ContainerPort_Name :: string
  ContainerPort_ContainerPort :: int32
  ContainerPort_Protocol :: string

record VolumeMount =
  VolumeMount_Name :: string
  VolumeMount_MountPath :: string
  VolumeMount_ReadOnly :: bool

record SecurityContext =
  SecurityContext_AllowPrivilegeEscalation :: "bool option"
  SecurityContext_ReadOnlyRootFilesystem :: "bool option"
  SecurityContext_CapabilitiesDrop :: "string list"

record Container =
  Container_Name :: string
  Container_Image :: string
  Container_Command :: "string list"
  Container_Args :: "string list"
  Container_Env :: "EnvVar list"
  Container_EnvFrom :: "LocalObjectReference list"
  Container_Resources :: ResourceRequirements
  Container_Ports :: "ContainerPort list"
  Container_VolumeMounts :: "VolumeMount list"
  Container_StartupProbe :: "Probe option"
  Container_ReadinessProbe :: "Probe option"
  Container_LivenessProbe :: "Probe option"
  Container_SecurityContext :: "SecurityContext option"

datatype VolumeSource =
    EmptyDir string "Quantity option"
  | PersistentVolumeClaimSource string

record Volume =
  Volume_Name :: string
  Volume_Source :: VolumeSource

record PodSpec =
  PodSpec_InitContainers :: "Container list"
  PodSpec_Containers :: "Container list"
  PodSpec_Volumes :: "Volume list"
  PodSpec_NodeSelector :: labels
  PodSpec_Tolerations :: "Toleration list"
  PodSpec_TerminationGracePeriodSeconds :: "int64 option"
  PodSpec_RestartPolicy :: string

record PodTemplateSpec =
  PodTemplateSpec_Labels :: labels
  PodTemplateSpec_Annotations :: labels
  PodTemplateSpec_Spec :: PodSpec

record Pod =
  Pod_ObjectMeta :: ObjectMeta

subsection \<open>Workloads\<close>

record DeploymentSpec =
  DeploymentSpec_Replicas :: "int32 option"
  DeploymentSpec_Paused :: bool
  DeploymentSpec_Selector :: labels
  DeploymentSpec_StrategyType :: string
  DeploymentSpec_MaxUnavailable :: IntOrString
  DeploymentSpec_MaxSurge :: IntOrString
  DeploymentSpec_MinReadySeconds :: int32
  DeploymentSpec_Template :: PodTemplateSpec

record DeploymentStatus =
  DeploymentStatus_Replicas :: int32
  DeploymentStatus_ReadyReplicas :: int32

record Deployment =
  Deployment_TypeMeta :: TypeMeta
  Deployment_ObjectMeta :: ObjectMeta
  Deployment_Spec :: DeploymentSpec
  Deployment_Status :: DeploymentStatus

record ServicePort =
  ServicePort_Name :: string
  ServicePort_Port :: int32
  ServicePort_TargetPort :: IntOrString
  ServicePort_Protocol :: string

record Service =
  Service_TypeMeta :: TypeMeta
  Service_ObjectMeta :: ObjectMeta
  Service_Type :: string
  Service_Selector :: labels
  Service_Ports :: "ServicePort list"

record PodDisruptionBudget =
  PDB_TypeMeta :: TypeMeta
  PDB_ObjectMeta :: ObjectMeta
  PDB_MinAvailable :: IntOrString
  PDB_Selector :: labels

record PersistentVolumeClaim =
  PVC_TypeMeta :: TypeMeta
  PVC_ObjectMeta :: ObjectMeta
  PVC_AccessModes :: "string list"
  PVC_StorageClassName :: "string option"
  PVC_Requests :: ResourceList

record JobCondition =
  JobCondition_Type :: string
  JobCondition_Status :: string
  JobCondition_Message :: string

record JobStatus =
  JobStatus_Succeeded :: int32
  JobStatus_Conditions :: "JobCondition list"

record Job =
  Job_TypeMeta :: TypeMeta
  Job_ObjectMeta :: ObjectMeta
  Job_BackoffLimit :: "int32 option"
  Job_ActiveDeadlineSeconds :: "int64 option"
  Job_Template :: PodTemplateSpec
  Job_Status :: JobStatus

end
