(* ===== verification/API_Types.thy ===== *)
theory API_Types
  imports K8s_Objects
begin

section \<open>api/v1alpha1: the ModelDeployment resource\<close>

text \<open>
  The structs and constants of \<open>modeldeployment_types.go\<close>. \<open>Engine\<close> is a string type in Go, so an
  engine other than the two constants is representable, as it is in the source; that only the two
  occur is what the CRD's enum validation gives. The validation markers on the fields, and the one
  CEL rule, are the predicate \<open>crd_valid\<close>.
\<close>

type_synonym Engine = string

definition EngineVLLM :: Engine where "EngineVLLM = ''vllm''"
definition EngineOllama :: Engine where "EngineOllama = ''ollama''"

definition ConditionReady :: string where "ConditionReady = ''Ready''"
definition ConditionWeightsCached :: string where "ConditionWeightsCached = ''WeightsCached''"
definition ConditionDegraded :: string where "ConditionDegraded = ''Degraded''"

definition ReasonWarming :: string where "ReasonWarming = ''Warming''"
definition ReasonWarmFailed :: string where "ReasonWarmFailed = ''WarmJobFailed''"
definition ReasonCacheDisabled :: string where "ReasonCacheDisabled = ''CacheDisabled''"
definition ReasonCached :: string where "ReasonCached = ''Cached''"
definition ReasonReplicasReady :: string where "ReasonReplicasReady = ''ReplicasReady''"
definition ReasonReplicasUnavailable :: string where "ReasonReplicasUnavailable = ''ReplicasUnavailable''"
definition ReasonWaitingForWeights :: string where "ReasonWaitingForWeights = ''WaitingForWeights''"
definition ReasonQueueMetricMissing :: string where "ReasonQueueMetricMissing = ''QueueMetricUnavailable''"
definition ReasonScaledToZero :: string where "ReasonScaledToZero = ''ScaledToZero''"
definition ReasonAsExpected :: string where "ReasonAsExpected = ''AsExpected''"

lemmas condition_type_defs = ConditionReady_def ConditionWeightsCached_def ConditionDegraded_def

lemmas api_reason_defs =
  ReasonWarming_def ReasonWarmFailed_def ReasonCacheDisabled_def ReasonCached_def
  ReasonReplicasReady_def ReasonReplicasUnavailable_def ReasonWaitingForWeights_def
  ReasonQueueMetricMissing_def ReasonScaledToZero_def ReasonAsExpected_def

record ModelSpec =
  ModelSpec_Name :: string
  ModelSpec_Revision :: string
  ModelSpec_SecretRef :: "LocalObjectReference option"

record RuntimeSpec =
  RuntimeSpec_Engine :: Engine
  RuntimeSpec_Image :: string
  RuntimeSpec_ExtraArgs :: "string list"
  RuntimeSpec_Port :: int32
  RuntimeSpec_LoadTimeoutSeconds :: int32
  RuntimeSpec_Resources :: ResourceRequirements
  RuntimeSpec_NodeSelector :: labels
  RuntimeSpec_Tolerations :: "Toleration list"

record WeightCacheSpec =
  WeightCacheSpec_Size :: "Quantity option"
  WeightCacheSpec_StorageClassName :: "string option"
  WeightCacheSpec_ExistingClaimName :: string
  WeightCacheSpec_MountPath :: string
  WeightCacheSpec_WarmImage :: string
  WeightCacheSpec_WarmTimeoutSeconds :: int32

record AutoscalingSpec =
  AutoscalingSpec_MinReplicas :: int32
  AutoscalingSpec_MaxReplicas :: int32
  AutoscalingSpec_TargetQueueDepth :: int32
  AutoscalingSpec_MetricName :: string
  AutoscalingSpec_ScaleUpStabilizationSeconds :: int32
  AutoscalingSpec_ScaleDownStabilizationSeconds :: int32
  AutoscalingSpec_MaxScaleUpStep :: int32

record DisruptionSpec =
  DisruptionSpec_MinAvailable :: int32

record ModelDeploymentSpec =
  Spec_Model :: ModelSpec
  Spec_Runtime :: RuntimeSpec
  Spec_Replicas :: int32
  Spec_WeightCache :: "WeightCacheSpec option"
  Spec_Autoscaling :: "AutoscalingSpec option"
  Spec_Disruption :: DisruptionSpec

record ModelDeploymentStatus =
  Status_ObservedGeneration :: int64
  Status_Conditions :: "Condition list"
  Status_CacheKey :: string
  Status_Replicas :: int32
  Status_ReadyReplicas :: int32
  Status_ObservedQueueDepth :: int32
  Status_LastScaleTime :: "gotime option"
  Status_Endpoint :: string
  Status_Selector :: string

record ModelDeployment =
  MD_ObjectMeta :: ObjectMeta
  MD_Spec :: ModelDeploymentSpec
  MD_Status :: ModelDeploymentStatus

text \<open>The embedded fields the source reads through the object: \<open>md.Name\<close>, \<open>md.Namespace\<close> and so on.\<close>

abbreviation MD_Name :: "ModelDeployment \<Rightarrow> string" where
  "MD_Name md \<equiv> ObjectMeta_Name (MD_ObjectMeta md)"

abbreviation MD_Namespace :: "ModelDeployment \<Rightarrow> string" where
  "MD_Namespace md \<equiv> ObjectMeta_Namespace (MD_ObjectMeta md)"

abbreviation MD_Generation :: "ModelDeployment \<Rightarrow> int64" where
  "MD_Generation md \<equiv> ObjectMeta_Generation (MD_ObjectMeta md)"

abbreviation WeightCache :: "ModelDeployment \<Rightarrow> WeightCacheSpec option" where
  "WeightCache md \<equiv> Spec_WeightCache (MD_Spec md)"

abbreviation Replicas :: "ModelDeployment \<Rightarrow> int32" where
  "Replicas md \<equiv> Spec_Replicas (MD_Spec md)"

subsection \<open>The validation markers\<close>

definition valid_runtime :: "RuntimeSpec \<Rightarrow> bool" where
  "valid_runtime rt \<longleftrightarrow>
     (RuntimeSpec_Engine rt = EngineVLLM \<or> RuntimeSpec_Engine rt = EngineOllama) \<and>
     1 \<le> sint (RuntimeSpec_Port rt) \<and> sint (RuntimeSpec_Port rt) \<le> 65535 \<and>
     30 \<le> sint (RuntimeSpec_LoadTimeoutSeconds rt)"

definition valid_weight_cache :: "WeightCacheSpec \<Rightarrow> bool" where
  "valid_weight_cache wc \<longleftrightarrow>
     (WeightCacheSpec_Size wc \<noteq> None \<or> WeightCacheSpec_ExistingClaimName wc \<noteq> '''') \<and>
     60 \<le> sint (WeightCacheSpec_WarmTimeoutSeconds wc)"

definition valid_autoscaling :: "AutoscalingSpec \<Rightarrow> bool" where
  "valid_autoscaling as \<longleftrightarrow>
     0 \<le> sint (AutoscalingSpec_MinReplicas as) \<and>
     1 \<le> sint (AutoscalingSpec_MaxReplicas as) \<and>
     1 \<le> sint (AutoscalingSpec_TargetQueueDepth as) \<and>
     0 \<le> sint (AutoscalingSpec_ScaleUpStabilizationSeconds as) \<and>
     0 \<le> sint (AutoscalingSpec_ScaleDownStabilizationSeconds as) \<and>
     1 \<le> sint (AutoscalingSpec_MaxScaleUpStep as)"

definition crd_valid :: "ModelDeploymentSpec \<Rightarrow> bool" where
  "crd_valid sp \<longleftrightarrow>
     ModelSpec_Name (Spec_Model sp) \<noteq> '''' \<and>
     valid_runtime (Spec_Runtime sp) \<and>
     0 \<le> sint (Spec_Replicas sp) \<and>
     (case Spec_WeightCache sp of None \<Rightarrow> True | Some wc \<Rightarrow> valid_weight_cache wc) \<and>
     (case Spec_Autoscaling sp of None \<Rightarrow> True | Some as \<Rightarrow> valid_autoscaling as) \<and>
     0 \<le> sint (DisruptionSpec_MinAvailable (Spec_Disruption sp))"

end
