(* ===== verification/Go_Std.thy ===== *)
theory Go_Std
  imports Prelude
begin

section \<open>The parts of Go's standard library the operator uses\<close>

text \<open>
  Strings are byte strings, as in Go. Modelled here: \<open>strconv.Itoa\<close> (also what \<open>%d\<close> prints),
  \<open>path.Join\<close> and \<open>path.Clean\<close> (the lexical rules of the package's documentation, one pass over the
  path's elements with a stack of kept ones), \<open>hex.EncodeToString\<close>, \<open>strconv.Quote\<close> (what \<open>%q\<close>
  prints) and the values of type \<open>error\<close>.
\<close>

subsection \<open>strconv.Itoa\<close>

definition digit :: "nat \<Rightarrow> char" where
  "digit d = char_of (48 + d)"

fun decimal :: "nat \<Rightarrow> string" where
  "decimal n = (if n < 10 then [digit n] else decimal (n div 10) @ [digit (n mod 10)])"

declare decimal.simps [simp del]

definition Itoa :: "int \<Rightarrow> string" where
  "Itoa x = (if x < 0 then CHR ''-'' # decimal (nat (- x)) else decimal (nat x))"

definition is_digit :: "char \<Rightarrow> bool" where
  "is_digit c \<longleftrightarrow> 48 \<le> (of_char c :: nat) \<and> (of_char c :: nat) \<le> 57"

definition read_decimal :: "string \<Rightarrow> nat" where
  "read_decimal s = foldl (\<lambda>n c. 10 * n + (of_char c - 48)) 0 s"

subsection \<open>path.Clean and path.Join\<close>

text \<open>\<open>split_path\<close> cuts a path at its slashes; there is one more element than there are slashes.\<close>

fun split_path :: "string \<Rightarrow> string list" where
  "split_path [] = [[]]"
| "split_path (c # cs) =
     (if c = CHR ''/'' then [] # split_path cs
      else (case split_path cs of [] \<Rightarrow> [[c]] | e # es \<Rightarrow> (c # e) # es))"

fun join_path :: "string list \<Rightarrow> string" where
  "join_path [] = []"
| "join_path [e] = e"
| "join_path (e # es) = e @ CHR ''/'' # join_path es"

text \<open>One element of the path against the stack of elements kept so far, last one first.\<close>

definition clean_element :: "bool \<Rightarrow> string \<Rightarrow> string list \<Rightarrow> string list" where
  "clean_element rooted e kept =
     (if e = '''' \<or> e = ''.'' then kept
      else if e = ''..'' then
        (case kept of
           [] \<Rightarrow> if rooted then [] else [''..'']
         | k # ks \<Rightarrow> if k = ''..'' then ''..'' # kept else ks)
      else e # kept)"

definition path_Clean :: "string \<Rightarrow> string" where
  "path_Clean p =
     (if p = '''' then ''.''
      else (let rooted = (hd p = CHR ''/'');
                kept = rev (fold (clean_element rooted) (split_path p) [])
            in if rooted then CHR ''/'' # join_path kept
               else if kept = [] then ''.'' else join_path kept))"

definition join_buf :: "string \<Rightarrow> string \<Rightarrow> string" where
  "join_buf e buf = (if buf \<noteq> '''' \<or> e \<noteq> '''' then (if buf \<noteq> '''' then buf @ ''/'' else buf) @ e else buf)"

definition path_Join :: "string list \<Rightarrow> string" where
  "path_Join elem =
     (if \<forall>e \<in> set elem. e = '''' then '''' else path_Clean (fold join_buf elem ''''))"

subsection \<open>hex.EncodeToString\<close>

definition hex_digit :: "nat \<Rightarrow> char" where
  "hex_digit d = (if d < 10 then char_of (48 + d) else char_of (87 + d))"

definition hex_EncodeToString :: "8 word list \<Rightarrow> string" where
  "hex_EncodeToString bs = concat (map (\<lambda>b. [hex_digit (unat b div 16), hex_digit (unat b mod 16)]) bs)"

definition is_hex :: "char \<Rightarrow> bool" where
  "is_hex c \<longleftrightarrow> (let n = of_char c :: nat in (48 \<le> n \<and> n \<le> 57) \<or> (97 \<le> n \<and> n \<le> 102))"

subsection \<open>strconv.Quote\<close>

text \<open>
  What \<open>%q\<close> prints. A byte of 128 or more belongs to a multi-byte character; printable characters
  are copied, and the unprintable ones among them are outside this model.
\<close>

definition quote_byte :: "char \<Rightarrow> string" where
  "quote_byte c =
     (let n = of_char c :: nat; esc = (\<lambda>x. [CHR 0x5C, x])
      in if c = CHR 0x22 \<or> c = CHR 0x5C then esc c
         else if n = 7 then esc (CHR ''a'') else if n = 8 then esc (CHR ''b'')
         else if n = 12 then esc (CHR ''f'') else if n = 10 then esc (CHR ''n'')
         else if n = 13 then esc (CHR ''r'') else if n = 9 then esc (CHR ''t'')
         else if n = 11 then esc (CHR ''v'')
         else if n < 32 \<or> n = 127
              then esc (CHR ''x'') @ [hex_digit (n div 16), hex_digit (n mod 16)]
         else [c])"

definition Quote :: "string \<Rightarrow> string" where
  "Quote s = [CHR 0x22] @ concat (map quote_byte s) @ [CHR 0x22]"

subsection \<open>Errors\<close>

text \<open>
  An \<open>error\<close> value is one handed out by a library (an \<open>'e\<close>, opaque here), one made by
  \<open>fmt.Errorf\<close>, or one that wraps another, made by \<open>fmt.Errorf\<close> with the verb \<open>%w\<close> after a prefix
  and a colon. \<open>Error\<close> is its text; the text of a library error is a parameter. \<open>nil\<close> is \<open>None\<close>
  in an option.
\<close>

datatype 'e error = Library_error 'e | Errorf string | Wrapf string "'e error"

fun Error :: "('e \<Rightarrow> string) \<Rightarrow> 'e error \<Rightarrow> string" where
  "Error txt (Library_error e) = txt e"
| "Error txt (Errorf s) = s"
| "Error txt (Wrapf prefix err) = prefix @ '': '' @ Error txt err"

subsection \<open>Facts about Itoa\<close>

lemma of_char_digit: "d < 10 \<Longrightarrow> (of_char (digit d) :: nat) = 48 + d"
  by (simp add: digit_def)

lemma decimal_nonempty [simp]: "decimal n \<noteq> []"
  by (subst decimal.simps) simp

lemma read_decimal_snoc: "read_decimal (s @ [c]) = 10 * read_decimal s + (of_char c - 48)"
  by (simp add: read_decimal_def)

lemma read_decimal_decimal: "read_decimal (decimal n) = n"
proof (induction n rule: decimal.induct)
  case (1 n)
  show ?case
  proof (cases "n < 10")
    case True
    then show ?thesis by (simp add: decimal.simps [of n] read_decimal_def of_char_digit)
  next
    case False
    with "1.IH" show ?thesis
      by (simp add: decimal.simps [of n] read_decimal_snoc of_char_digit)
  qed
qed

lemma decimal_digits: "c \<in> set (decimal n) \<Longrightarrow> is_digit c"
  unfolding is_digit_def
proof (induction n rule: decimal.induct)
  case (1 n)
  show ?case
  proof (cases "n < 10")
    case True
    with "1.prems" show ?thesis by (simp add: decimal.simps [of n] of_char_digit)
  next
    case False
    with 1 show ?thesis by (auto simp: decimal.simps [of n] of_char_digit)
  qed
qed

lemma Itoa_nonneg_inj: "0 \<le> x \<Longrightarrow> 0 \<le> y \<Longrightarrow> Itoa x = Itoa y \<longleftrightarrow> x = y"
  by (simp add: Itoa_def) (metis nat_eq_iff2 read_decimal_decimal)

subsection \<open>Facts about hex\<close>

lemma is_hex_hex_digit: "d < 16 \<Longrightarrow> is_hex (hex_digit d)"
  by (auto simp: is_hex_def hex_digit_def)

lemma length_hex [simp]: "length (hex_EncodeToString bs) = 2 * length bs"
  by (induction bs) (simp_all add: hex_EncodeToString_def)

lemma hex_alphabet: "c \<in> set (hex_EncodeToString bs) \<Longrightarrow> is_hex c"
proof -
  assume "c \<in> set (hex_EncodeToString bs)"
  then obtain b :: "8 word" where "c = hex_digit (unat b div 16) \<or> c = hex_digit (unat b mod 16)"
    by (auto simp: hex_EncodeToString_def)
  moreover have "unat b < 256" using unsigned_less [of b] by simp
  ultimately show ?thesis by (auto intro: is_hex_hex_digit)
qed

subsection \<open>Facts about paths\<close>

text \<open>An element that \<open>path.Clean\<close> keeps as it is.\<close>

definition plain_element :: "string \<Rightarrow> bool" where
  "plain_element e \<longleftrightarrow> e \<noteq> '''' \<and> e \<noteq> ''.'' \<and> e \<noteq> ''..'' \<and> CHR ''/'' \<notin> set e"

text \<open>The elements that survive cleaning a non-empty path.\<close>

definition clean_elements :: "string \<Rightarrow> string list" where
  "clean_elements p = rev (fold (clean_element (hd p = CHR ''/'')) (split_path p) [])"

lemma split_path_nonempty [simp]: "split_path s \<noteq> []"
  by (cases s) (simp_all split: list.split)

lemma split_path_append: "split_path (a @ CHR ''/'' # b) = split_path a @ split_path b"
  by (induction a) (auto split: list.split)

lemma split_path_plain: "CHR ''/'' \<notin> set e \<Longrightarrow> split_path e = [e]"
  by (induction e) auto

lemma clean_plain: "plain_element e \<Longrightarrow> clean_element r e kept = e # kept"
  by (simp add: plain_element_def clean_element_def)

lemma join_path_snoc: "join_path (xs @ [e]) = (if xs = [] then e else join_path xs @ CHR ''/'' # e)"
proof (induction xs)
  case (Cons x xs)
  then show ?case by (cases xs) auto
qed simp

lemma clean_elements_snoc:
  assumes "p \<noteq> ''''" "plain_element e"
  shows "clean_elements (p @ CHR ''/'' # e) = clean_elements p @ [e]"
  using assms
  by (simp add: clean_elements_def split_path_append split_path_plain clean_plain plain_element_def)

lemma path_Clean_elements:
  "p \<noteq> '''' \<Longrightarrow> clean_elements p \<noteq> [] \<Longrightarrow>
   path_Clean p = (if hd p = CHR ''/'' then ''/'' else '''') @ join_path (clean_elements p)"
  by (cases "hd p = CHR ''/''") (simp_all add: path_Clean_def clean_elements_def Let_def)

lemma path_Join_2:
  assumes "m \<noteq> ''''" "plain_element a"
  shows "path_Join [m, a] =
           (if hd m = CHR ''/'' then ''/'' else '''') @ join_path (clean_elements m @ [a])"
proof -
  have a: "a \<noteq> ''''" using assms(2) by (simp add: plain_element_def)
  have "path_Join [m, a] = path_Clean (m @ CHR ''/'' # a)"
    using assms(1) a by (simp add: path_Join_def join_buf_def)
  also have "\<dots> = (if hd m = CHR ''/'' then ''/'' else '''') @ join_path (clean_elements m @ [a])"
    using assms by (subst path_Clean_elements) (simp_all add: clean_elements_snoc)
  finally show ?thesis .
qed

lemma path_Join_3:
  assumes "m \<noteq> ''''" "plain_element a" "plain_element b"
  shows "path_Join [m, a, b] =
           (if hd m = CHR ''/'' then ''/'' else '''') @ join_path (clean_elements m @ [a, b])"
proof -
  have ab: "a \<noteq> ''''" "b \<noteq> ''''" using assms(2,3) by (simp_all add: plain_element_def)
  have "path_Join [m, a, b] = path_Clean ((m @ CHR ''/'' # a) @ CHR ''/'' # b)"
    using assms(1) ab by (simp add: path_Join_def join_buf_def)
  also have "\<dots> = (if hd m = CHR ''/'' then ''/'' else '''') @ join_path (clean_elements m @ [a, b])"
    using assms clean_elements_snoc [of "m @ CHR ''/'' # a" b] clean_elements_snoc [of m a]
    by (subst path_Clean_elements) simp_all
  finally show ?thesis .
qed

lemma path_Join_3_inj:
  assumes "m \<noteq> ''''" "plain_element a" "plain_element b" "plain_element b'"
  shows "path_Join [m, a, b] = path_Join [m, a, b'] \<longleftrightarrow> b = b'"
  using join_path_snoc [of "clean_elements m @ [a]" b] join_path_snoc [of "clean_elements m @ [a]" b']
  by (simp add: path_Join_3 [OF assms(1,2,3)] path_Join_3 [OF assms(1,2,4)])

lemma hex_plain:
  assumes "e \<noteq> ''''" "\<forall>c \<in> set e. is_hex c"
  shows "plain_element e"
proof -
  have no: "\<not> is_hex CHR ''/''" "\<not> is_hex CHR ''.''" by (simp_all add: is_hex_def)
  then have "CHR ''/'' \<notin> set e" "CHR ''.'' \<notin> set e" using assms(2) by blast+
  with assms(1) show ?thesis by (auto simp: plain_element_def)
qed

end
