(* ===== verification/Sha256.thy ===== *)
theory Sha256
  imports Go_Std
begin

unbundle bit_operations_syntax

section \<open>crypto/sha256\<close>

text \<open>
  \<open>sha256.Sum256\<close> of Go's standard library, as FIPS 180-4 defines the function: the message is
  padded to blocks of 64 bytes, each block is expanded to 64 words and folded into the eight-word
  state. The operator hashes the engine, the model and the revision with it (\<open>render.CacheKey\<close>).
  What the rest of the development needs of it is the length of the digest.
\<close>

type_synonym byte = "8 word"
type_synonym sha_state = "32 word \<times> 32 word \<times> 32 word \<times> 32 word \<times> 32 word \<times> 32 word \<times> 32 word \<times> 32 word"

definition Ch :: "32 word \<Rightarrow> 32 word \<Rightarrow> 32 word \<Rightarrow> 32 word" where
  "Ch x y z = (x AND y) XOR (NOT x AND z)"

definition Maj :: "32 word \<Rightarrow> 32 word \<Rightarrow> 32 word \<Rightarrow> 32 word" where
  "Maj x y z = (x AND y) XOR (x AND z) XOR (y AND z)"

definition rotr :: "nat \<Rightarrow> 32 word \<Rightarrow> 32 word" where
  "rotr n x = drop_bit n x OR push_bit (32 - n) x"

definition big_sigma0 :: "32 word \<Rightarrow> 32 word" where
  "big_sigma0 x = rotr 2 x XOR rotr 13 x XOR rotr 22 x"

definition big_sigma1 :: "32 word \<Rightarrow> 32 word" where
  "big_sigma1 x = rotr 6 x XOR rotr 11 x XOR rotr 25 x"

definition small_sigma0 :: "32 word \<Rightarrow> 32 word" where
  "small_sigma0 x = rotr 7 x XOR rotr 18 x XOR drop_bit 3 x"

definition small_sigma1 :: "32 word \<Rightarrow> 32 word" where
  "small_sigma1 x = rotr 17 x XOR rotr 19 x XOR drop_bit 10 x"

text \<open>The round constants and the initial state, a row of eight words in one literal.\<close>

definition sha_row :: "int \<Rightarrow> 32 word list" where
  "sha_row n = map (\<lambda>i. word_of_int (drop_bit i n)) [224, 192, 160, 128, 96, 64, 32, 0]"

definition sha_K :: "32 word list" where
  "sha_K = concat (map sha_row
    [0x428a2f9871374491b5c0fbcfe9b5dba53956c25b59f111f1923f82a4ab1c5ed5,
     0xd807aa9812835b01243185be550c7dc372be5d7480deb1fe9bdc06a7c19bf174,
     0xe49b69c1efbe47860fc19dc6240ca1cc2de92c6f4a7484aa5cb0a9dc76f988da,
     0x983e5152a831c66db00327c8bf597fc7c6e00bf3d5a7914706ca635114292967,
     0x27b70a852e1b21384d2c6dfc53380d13650a7354766a0abb81c2c92e92722c85,
     0xa2bfe8a1a81a664bc24b8b70c76c51a3d192e819d6990624f40e3585106aa070,
     0x19a4c1161e376c082748774c34b0bcb5391c0cb34ed8aa4a5b9cca4f682e6ff3,
     0x748f82ee78a5636f84c878148cc7020890befffaa4506cebbef9a3f7c67178f2])"

definition sha_init :: sha_state where
  "sha_init =
    (let ws = sha_row 0x6a09e667bb67ae853c6ef372a54ff53a510e527f9b05688c1f83d9ab5be0cd19
     in (ws ! 0, ws ! 1, ws ! 2, ws ! 3, ws ! 4, ws ! 5, ws ! 6, ws ! 7))"

subsection \<open>Padding and parsing\<close>

definition be_bytes32 :: "32 word \<Rightarrow> byte list" where
  "be_bytes32 w = map (\<lambda>i. ucast (drop_bit i w)) [24, 16, 8, 0]"

definition be_bytes64 :: "64 word \<Rightarrow> byte list" where
  "be_bytes64 w = map (\<lambda>i. ucast (drop_bit i w)) [56, 48, 40, 32, 24, 16, 8, 0]"

definition sha_pad :: "byte list \<Rightarrow> byte list" where
  "sha_pad m =
     m @ [0x80] @ replicate ((119 - length m mod 64) mod 64) 0 @ be_bytes64 (8 * of_nat (length m))"

fun be_words :: "byte list \<Rightarrow> 32 word list" where
  "be_words (a # b # c # d # bs) =
     (push_bit 24 (ucast a) OR push_bit 16 (ucast b) OR push_bit 8 (ucast c) OR ucast d) # be_words bs"
| "be_words _ = []"

fun blocks :: "'a list \<Rightarrow> nat \<Rightarrow> 'a list list" where
  "blocks ws 0 = []"
| "blocks ws (Suc n) = take 16 ws # blocks (drop 16 ws) n"

subsection \<open>The compression function\<close>

text \<open>The message schedule, latest word first.\<close>

fun sha_extend :: "nat \<Rightarrow> 32 word list \<Rightarrow> 32 word list" where
  "sha_extend 0 rws = rws"
| "sha_extend (Suc n) rws =
     sha_extend n ((small_sigma1 (rws ! 1) + rws ! 6 + small_sigma0 (rws ! 14) + rws ! 15) # rws)"

fun sha_round :: "32 word \<times> 32 word \<Rightarrow> sha_state \<Rightarrow> sha_state" where
  "sha_round (k, w) (a, b, c, d, e, f, g, h) =
     (let t1 = h + big_sigma1 e + Ch e f g + k + w; t2 = big_sigma0 a + Maj a b c
      in (t1 + t2, a, b, c, d + t1, e, f, g))"

fun sha_add :: "sha_state \<Rightarrow> sha_state \<Rightarrow> sha_state" where
  "sha_add (a, b, c, d, e, f, g, h) (a', b', c', d', e', f', g', h') =
     (a + a', b + b', c + c', d + d', e + e', f + f', g + g', h + h')"

definition sha_block :: "32 word list \<Rightarrow> sha_state \<Rightarrow> sha_state" where
  "sha_block ws s = sha_add (fold sha_round (zip sha_K (rev (sha_extend 48 (rev ws)))) s) s"

fun sha_digest :: "sha_state \<Rightarrow> byte list" where
  "sha_digest (a, b, c, d, e, f, g, h) =
     concat (map be_bytes32 [a, b, c, d, e, f, g, h])"

definition Sum256 :: "string \<Rightarrow> byte list" where
  "Sum256 s =
     (let m = map (\<lambda>c. of_nat (of_char c)) s; ws = be_words (sha_pad m)
      in sha_digest (fold sha_block (blocks ws (length ws div 16)) sha_init))"

subsection \<open>The digest has 32 bytes\<close>

lemma length_be_bytes32 [simp]: "length (be_bytes32 w) = 4"
  by (simp add: be_bytes32_def)

lemma length_Sum256 [simp]: "length (Sum256 s) = 32"
proof -
  obtain a b c d e f g h where st:
    "fold sha_block (blocks (be_words (sha_pad (map (\<lambda>c. of_nat (of_char c)) s)))
       (length (be_words (sha_pad (map (\<lambda>c. of_nat (of_char c)) s))) div 16)) sha_init
     = (a, b, c, d, e, f, g, h)"
    by (metis prod.collapse)
  show ?thesis by (simp add: Sum256_def Let_def st)
qed

end
