(* ===== verification/Render.thy ===== *)
theory Render
  imports API_Types Sha256
begin

section \<open>internal/render/render.go: names, keys, paths, environment\<close>

text \<open>
  The pure functions of \<open>render.go\<close>, one definition each, from the spec to the strings and lists
  that end up in the objects. Go's \<open>Image\<close> is \<open>Image_md\<close> here (HOL has an \<open>Image\<close>). The lemmas say
  what the cache key depends on and what it looks like, that names and marker paths of different
  keys differ, and which labels belong to the immutable selector.
\<close>

definition FieldOwner :: string where "FieldOwner = ''k8s-model-operator''"
definition Finalizer :: string where "Finalizer = ''serving.lpogosu.dev/teardown''"
definition LabelInstance :: string where "LabelInstance = ''serving.lpogosu.dev/model-deployment''"
definition LabelCacheKey :: string where "LabelCacheKey = ''serving.lpogosu.dev/cache-key''"
definition LabelRole :: string where "LabelRole = ''serving.lpogosu.dev/role''"
definition RoleServer :: string where "RoleServer = ''server''"
definition RoleWarm :: string where "RoleWarm = ''weight-warmer''"
definition AnnCacheKey :: string where "AnnCacheKey = ''serving.lpogosu.dev/cache-key''"

lemmas label_defs =
  LabelInstance_def LabelCacheKey_def LabelRole_def RoleServer_def RoleWarm_def FieldOwner_def

definition defaultImages :: "Engine \<rightharpoonup> string" where
  "defaultImages = [EngineVLLM \<mapsto> ''vllm/vllm-openai:v0.11.0'', EngineOllama \<mapsto> ''ollama/ollama:0.12.3'']"

definition Engine :: "ModelDeployment \<Rightarrow> Engine" where
  "Engine md = RuntimeSpec_Engine (Spec_Runtime (MD_Spec md))"

text \<open>The string \<open>CacheKey\<close> hashes: engine, model and revision, separated by zero bytes.\<close>

definition cacheKeyInput :: "ModelDeployment \<Rightarrow> string" where
  "cacheKeyInput md =
     Engine md @ [CHR 0x00] @ ModelSpec_Name (Spec_Model (MD_Spec md)) @ [CHR 0x00]
       @ ModelSpec_Revision (Spec_Model (MD_Spec md))"

definition CacheKey :: "ModelDeployment \<Rightarrow> string" where
  "CacheKey md = take 12 (hex_EncodeToString (Sum256 (cacheKeyInput md)))"

definition Image_md :: "ModelDeployment \<Rightarrow> string" where
  "Image_md md =
     (if RuntimeSpec_Image (Spec_Runtime (MD_Spec md)) \<noteq> ''''
      then RuntimeSpec_Image (Spec_Runtime (MD_Spec md))
      else (case defaultImages (Engine md) of None \<Rightarrow> '''' | Some img \<Rightarrow> img))"

definition WarmImage :: "ModelDeployment \<Rightarrow> string" where
  "WarmImage md =
     (case WeightCache md of
        Some wc \<Rightarrow> if WeightCacheSpec_WarmImage wc \<noteq> '''' then WeightCacheSpec_WarmImage wc else Image_md md
      | None \<Rightarrow> Image_md md)"

definition ServiceName :: "ModelDeployment \<Rightarrow> string" where "ServiceName md = MD_Name md"
definition DeploymentName :: "ModelDeployment \<Rightarrow> string" where "DeploymentName md = MD_Name md"
definition PDBName :: "ModelDeployment \<Rightarrow> string" where "PDBName md = MD_Name md"

definition PVCName :: "ModelDeployment \<Rightarrow> string" where
  "PVCName md =
     (case WeightCache md of
        Some wc \<Rightarrow> if WeightCacheSpec_ExistingClaimName wc \<noteq> ''''
                   then WeightCacheSpec_ExistingClaimName wc else MD_Name md @ ''-weights''
      | None \<Rightarrow> MD_Name md @ ''-weights'')"

definition OwnsPVC :: "ModelDeployment \<Rightarrow> bool" where
  "OwnsPVC md \<longleftrightarrow>
     (case WeightCache md of None \<Rightarrow> False | Some wc \<Rightarrow> WeightCacheSpec_ExistingClaimName wc = '''')"

definition WarmJobName :: "ModelDeployment \<Rightarrow> string \<Rightarrow> string" where
  "WarmJobName md cacheKey = MD_Name md @ ''-warm-'' @ cacheKey"

definition SelectorLabels :: "ModelDeployment \<Rightarrow> labels" where
  "SelectorLabels md =
     [''app.kubernetes.io/name'' \<mapsto> ''model-server'',
      ''app.kubernetes.io/instance'' \<mapsto> MD_Name md,
      LabelInstance \<mapsto> MD_Name md]"

definition PodLabels :: "ModelDeployment \<Rightarrow> labels" where
  "PodLabels md =
     (SelectorLabels md)(''app.kubernetes.io/managed-by'' \<mapsto> FieldOwner, LabelRole \<mapsto> RoleServer)"

definition MountPath :: "ModelDeployment \<Rightarrow> string" where
  "MountPath md =
     (case WeightCache md of Some wc \<Rightarrow> WeightCacheSpec_MountPath wc | None \<Rightarrow> ''/models'')"

definition MarkerPath :: "ModelDeployment \<Rightarrow> string \<Rightarrow> string" where
  "MarkerPath md cacheKey = path_Join [MountPath md, ''.warm'', cacheKey]"

definition Endpoint :: "ModelDeployment \<Rightarrow> string" where
  "Endpoint md =
     ''http://'' @ ServiceName md @ ''.'' @ MD_Namespace md @ ''.svc:''
       @ Itoa (sint (RuntimeSpec_Port (Spec_Runtime (MD_Spec md))))"

definition HealthPath :: "Engine \<Rightarrow> string" where
  "HealthPath engine = (if engine = EngineOllama then ''/api/tags'' else ''/health'')"

definition env_var :: "string \<Rightarrow> string \<Rightarrow> EnvVar" where
  "env_var name val = \<lparr>EnvVar_Name = name, EnvVar_Value = val\<rparr>"

definition runtimeEnv :: "ModelDeployment \<Rightarrow> EnvVar list" where
  "runtimeEnv md =
     (let mount = MountPath md;
          env = [env_var ''MODEL_NAME'' (ModelSpec_Name (Spec_Model (MD_Spec md))),
                 env_var ''MODEL_REVISION'' (ModelSpec_Revision (Spec_Model (MD_Spec md)))]
      in if Engine md = EngineOllama
         then env @ [env_var ''OLLAMA_MODELS'' (path_Join [mount, ''ollama'']),
                     env_var ''OLLAMA_HOST''
                       (''0.0.0.0:'' @ Itoa (sint (RuntimeSpec_Port (Spec_Runtime (MD_Spec md)))))]
         else if Engine md = EngineVLLM
         then env @ [env_var ''HF_HOME'' (path_Join [mount, ''hf''])]
         else env)"

definition servingEnv :: "ModelDeployment \<Rightarrow> EnvVar list" where
  "servingEnv md =
     (if WeightCache md \<noteq> None \<and> Engine md = EngineVLLM
      then runtimeEnv md @ [env_var ''HF_HUB_OFFLINE'' ''1'']
      else runtimeEnv md)"

definition ServingArgs :: "ModelDeployment \<Rightarrow> string list" where
  "ServingArgs md =
     (if Engine md = EngineOllama
      then [''serve''] @ RuntimeSpec_ExtraArgs (Spec_Runtime (MD_Spec md))
      else [''--model'', ModelSpec_Name (Spec_Model (MD_Spec md)),
            ''--served-model-name'', ModelSpec_Name (Spec_Model (MD_Spec md)),
            ''--revision'', ModelSpec_Revision (Spec_Model (MD_Spec md)),
            ''--host'', ''0.0.0.0'',
            ''--port'', Itoa (sint (RuntimeSpec_Port (Spec_Runtime (MD_Spec md))))]
           @ RuntimeSpec_ExtraArgs (Spec_Runtime (MD_Spec md)))"

subsection \<open>The cache key\<close>

lemma CacheKey_length: "length (CacheKey md) = 12"
  by (simp add: CacheKey_def)

lemma CacheKey_hex: "c \<in> set (CacheKey md) \<Longrightarrow> is_hex c"
  unfolding CacheKey_def by (blast intro: hex_alphabet dest: in_set_takeD)

lemma CacheKey_plain: "plain_element (CacheKey md)"
  using CacheKey_length [of md] by (intro hex_plain) (auto intro: CacheKey_hex)

lemma CacheKey_cong: "cacheKeyInput md = cacheKeyInput md' \<Longrightarrow> CacheKey md = CacheKey md'"
  by (simp add: CacheKey_def)

text \<open>A separator that does not occur in the first parts makes a concatenation injective.\<close>

lemma sep_inj:
  assumes "x \<notin> set a" "x \<notin> set a'"
  shows "a @ x # b = a' @ x # b' \<longleftrightarrow> a = a' \<and> b = b'"
  using assms
proof (induction a arbitrary: a')
  case Nil
  then show ?case by (cases a') auto
next
  case (Cons c a)
  then show ?case by (cases a') auto
qed

lemma cacheKeyInput_inj:
  assumes "CHR 0x00 \<notin> set (Engine md)" "CHR 0x00 \<notin> set (Engine md')"
    and "CHR 0x00 \<notin> set (ModelSpec_Name (Spec_Model (MD_Spec md)))"
    and "CHR 0x00 \<notin> set (ModelSpec_Name (Spec_Model (MD_Spec md')))"
  shows "cacheKeyInput md = cacheKeyInput md' \<longleftrightarrow>
     Engine md = Engine md' \<and>
     ModelSpec_Name (Spec_Model (MD_Spec md)) = ModelSpec_Name (Spec_Model (MD_Spec md')) \<and>
     ModelSpec_Revision (Spec_Model (MD_Spec md)) = ModelSpec_Revision (Spec_Model (MD_Spec md'))"
  using assms by (simp add: cacheKeyInput_def sep_inj)

lemma crd_engine_no_nul: "crd_valid (MD_Spec md) \<Longrightarrow> CHR 0x00 \<notin> set (Engine md)"
  by (auto simp: crd_valid_def valid_runtime_def Engine_def EngineVLLM_def EngineOllama_def)

subsection \<open>Names, labels and paths\<close>

lemma WarmJobName_inj [simp]: "WarmJobName md k = WarmJobName md k' \<longleftrightarrow> k = k'"
  by (simp add: WarmJobName_def)

lemma WarmJobName_cong: "MD_Name md = MD_Name md' \<Longrightarrow> WarmJobName md k = WarmJobName md' k"
  by (simp add: WarmJobName_def)

lemma SelectorLabels_cong: "MD_Name md = MD_Name md' \<Longrightarrow> SelectorLabels md = SelectorLabels md'"
  by (simp add: SelectorLabels_def)

lemma SelectorLabels_dom:
  "dom (SelectorLabels md) = {''app.kubernetes.io/name'', ''app.kubernetes.io/instance'', LabelInstance}"
  by (auto simp: SelectorLabels_def)

lemma PodLabels_extend: "SelectorLabels md \<subseteq>\<^sub>m PodLabels md"
  by (auto simp: PodLabels_def SelectorLabels_def label_defs map_le_def)

lemma PodLabels_instance [simp]: "PodLabels md LabelInstance = Some (MD_Name md)"
  by (simp add: PodLabels_def SelectorLabels_def label_defs)

lemma PodLabels_role [simp]: "PodLabels md LabelRole = Some RoleServer"
  by (simp add: PodLabels_def)

lemma warm_dir_plain: "plain_element ''.warm''"
  by (simp add: plain_element_def)

lemma MarkerPath_inj:
  assumes "MountPath md \<noteq> ''''" "plain_element k" "plain_element k'"
  shows "MarkerPath md k = MarkerPath md k' \<longleftrightarrow> k = k'"
  using assms warm_dir_plain by (simp add: MarkerPath_def path_Join_3_inj)

end
