(* ===== verification/Workloads.thy ===== *)
theory Workloads
  imports Render
begin

section \<open>internal/render/workloads.go: the rendered objects\<close>

text \<open>
  One definition per rendering function, with every field the source sets. \<open>PVC\<close> and \<open>WarmJob\<close>
  dereference \<open>spec.weightCache\<close>, so they panic when it is nil. The shell scripts are the source's
  text, line by line.
\<close>

definition portName :: string where "portName = ''http''"
definition weightsVol :: string where "weightsVol = ''weights''"
definition shmVol :: string where "shmVol = ''dshm''"
definition initWaitName :: string where "initWaitName = ''wait-for-weights''"
definition shmSize :: Quantity where "shmSize = MustParse ''2Gi''"

text \<open>Lines joined by newlines, as in a Go raw string.\<close>

fun raw_string :: "string list \<Rightarrow> string" where
  "raw_string [] = ''''"
| "raw_string [l] = l"
| "raw_string (l # ls) = l @ [CHR 0x0A] @ raw_string ls"

definition no_resources :: ResourceRequirements where
  "no_resources = \<lparr>Resources_Limits = Map.empty, Resources_Requests = Map.empty\<rparr>"

text \<open>The zero value of \<open>corev1.Container\<close>.\<close>

definition container0 :: Container where
  "container0 =
     \<lparr>Container_Name = '''', Container_Image = '''', Container_Command = [], Container_Args = [],
      Container_Env = [], Container_EnvFrom = [], Container_Resources = no_resources,
      Container_Ports = [], Container_VolumeMounts = [], Container_StartupProbe = None,
      Container_ReadinessProbe = None, Container_LivenessProbe = None,
      Container_SecurityContext = None\<rparr>"

definition volume_mount :: "string \<Rightarrow> string \<Rightarrow> bool \<Rightarrow> VolumeMount" where
  "volume_mount name path ro =
     \<lparr>VolumeMount_Name = name, VolumeMount_MountPath = path, VolumeMount_ReadOnly = ro\<rparr>"

definition weightsVolume :: "ModelDeployment \<Rightarrow> Volume" where
  "weightsVolume md =
     (case WeightCache md of
        None \<Rightarrow> \<lparr>Volume_Name = weightsVol, Volume_Source = EmptyDir '''' None\<rparr>
      | Some _ \<Rightarrow> \<lparr>Volume_Name = weightsVol, Volume_Source = PersistentVolumeClaimSource (PVCName md)\<rparr>)"

definition shmVolume :: Volume where
  "shmVolume = \<lparr>Volume_Name = shmVol, Volume_Source = EmptyDir ''Memory'' (Some shmSize)\<rparr>"

definition waitScript :: "int32 \<Rightarrow> string \<Rightarrow> string" where
  "waitScript timeout marker =
     raw_string
       [''deadline=$(( $(date +%s) + '' @ Itoa (sint timeout) @ '' ))'',
        ''while [ ! -f \"'' @ marker @ ''\" ]; do'',
        ''  if [ \"$(date +%s)\" -ge \"$deadline\" ]; then'',
        ''    echo \"weight cache marker '' @ marker @ '' never appeared\" >&2'',
        ''    exit 1'',
        ''  fi'',
        ''  sleep 5'',
        ''done'']"

definition waitForWeights :: "ModelDeployment \<Rightarrow> string \<Rightarrow> Container" where
  "waitForWeights md cacheKey =
     (let marker = MarkerPath md cacheKey;
          script = waitScript (RuntimeSpec_LoadTimeoutSeconds (Spec_Runtime (MD_Spec md))) marker
      in container0
        \<lparr>Container_Name := initWaitName,
         Container_Image := Image_md md,
         Container_Command := [''/bin/sh'', ''-euc'', script],
         Container_VolumeMounts := [volume_mount weightsVol (MountPath md) True],
         Container_Resources := \<lparr>Resources_Limits = Map.empty,
           Resources_Requests = [''cpu'' \<mapsto> MustParse ''10m'', ''memory'' \<mapsto> MustParse ''32Mi'']\<rparr>,
         Container_SecurityContext := Some
           \<lparr>SecurityContext_AllowPrivilegeEscalation = Some False,
            SecurityContext_ReadOnlyRootFilesystem = Some True,
            SecurityContext_CapabilitiesDrop = [''ALL'']\<rparr>\<rparr>)"

text \<open>The closure \<open>probe\<close> inside \<open>Deployment\<close>.\<close>

definition probe :: "ModelDeployment \<Rightarrow> int32 \<Rightarrow> int32 \<Rightarrow> Probe" where
  "probe md period failures =
     \<lparr>Probe_Path = HealthPath (Engine md), Probe_Port = FromString portName,
      Probe_PeriodSeconds = period, Probe_TimeoutSeconds = 3, Probe_FailureThreshold = failures\<rparr>"

definition env_from :: "ModelDeployment \<Rightarrow> LocalObjectReference list" where
  "env_from md =
     (case ModelSpec_SecretRef (Spec_Model (MD_Spec md)) of None \<Rightarrow> [] | Some ref \<Rightarrow> [ref])"

definition serverContainer :: "ModelDeployment \<Rightarrow> Container" where
  "serverContainer md =
     (let rt = Spec_Runtime (MD_Spec md)
      in container0
        \<lparr>Container_Name := ''server'',
         Container_Image := Image_md md,
         Container_Args := ServingArgs md,
         Container_Env := servingEnv md,
         Container_EnvFrom := env_from md,
         Container_Resources := RuntimeSpec_Resources rt,
         Container_Ports := [\<lparr>ContainerPort_Name = portName,
           ContainerPort_ContainerPort = RuntimeSpec_Port rt, ContainerPort_Protocol = ''TCP''\<rparr>],
         Container_VolumeMounts :=
           [volume_mount weightsVol (MountPath md) False, volume_mount shmVol ''/dev/shm'' False],
         Container_StartupProbe := Some (probe md 10
           (go_max (word_of_int (sint (RuntimeSpec_LoadTimeoutSeconds rt) sdiv 10)) 1)),
         Container_ReadinessProbe := Some (probe md 5 3),
         Container_LivenessProbe := Some (probe md 20 3),
         Container_SecurityContext := Some
           \<lparr>SecurityContext_AllowPrivilegeEscalation = Some False,
            SecurityContext_ReadOnlyRootFilesystem = None,
            SecurityContext_CapabilitiesDrop = [''ALL'']\<rparr>\<rparr>)"

definition Deployment :: "ModelDeployment \<Rightarrow> string \<Rightarrow> int32 \<Rightarrow> bool \<Rightarrow> Deployment" where
  "Deployment md cacheKey replicas paused =
     (let lbls = PodLabels md; rt = Spec_Runtime (MD_Spec md);
          pod = \<lparr>PodSpec_InitContainers =
                   (if WeightCache md \<noteq> None then [waitForWeights md cacheKey] else []),
                 PodSpec_Containers = [serverContainer md],
                 PodSpec_Volumes = [weightsVolume md, shmVolume],
                 PodSpec_NodeSelector = RuntimeSpec_NodeSelector rt,
                 PodSpec_Tolerations = RuntimeSpec_Tolerations rt,
                 PodSpec_TerminationGracePeriodSeconds = Some 120,
                 PodSpec_RestartPolicy = ''''\<rparr>
      in \<lparr>Deployment_TypeMeta = \<lparr>TypeMeta_APIVersion = ''apps/v1'', TypeMeta_Kind = ''Deployment''\<rparr>,
          Deployment_ObjectMeta = object_meta (DeploymentName md) (MD_Namespace md) lbls,
          Deployment_Spec =
            \<lparr>DeploymentSpec_Replicas = Some replicas,
             DeploymentSpec_Paused = paused,
             DeploymentSpec_Selector = SelectorLabels md,
             DeploymentSpec_StrategyType = ''RollingUpdate'',
             DeploymentSpec_MaxUnavailable = FromInt32 0,
             DeploymentSpec_MaxSurge = FromInt32 1,
             DeploymentSpec_MinReadySeconds = 15,
             DeploymentSpec_Template =
               \<lparr>PodTemplateSpec_Labels = lbls,
                PodTemplateSpec_Annotations = [AnnCacheKey \<mapsto> cacheKey],
                PodTemplateSpec_Spec = pod\<rparr>\<rparr>,
          Deployment_Status = \<lparr>DeploymentStatus_Replicas = 0, DeploymentStatus_ReadyReplicas = 0\<rparr>\<rparr>)"

definition Service :: "ModelDeployment \<Rightarrow> Service" where
  "Service md =
     \<lparr>Service_TypeMeta = \<lparr>TypeMeta_APIVersion = ''v1'', TypeMeta_Kind = ''Service''\<rparr>,
      Service_ObjectMeta = object_meta (ServiceName md) (MD_Namespace md) (PodLabels md),
      Service_Type = ''ClusterIP'',
      Service_Selector = SelectorLabels md,
      Service_Ports = [\<lparr>ServicePort_Name = portName,
        ServicePort_Port = RuntimeSpec_Port (Spec_Runtime (MD_Spec md)),
        ServicePort_TargetPort = FromString portName, ServicePort_Protocol = ''TCP''\<rparr>]\<rparr>"

definition PDBMinAvailable :: "ModelDeployment \<Rightarrow> int32 \<Rightarrow> int32 \<times> bool" where
  "PDBMinAvailable md replicas =
     (if replicas <s 2 then (0, False)
      else (let requested = DisruptionSpec_MinAvailable (Spec_Disruption (MD_Spec md))
            in if requested <s 1 then (0, False) else (go_min requested (replicas - 1), True)))"

definition PDB :: "ModelDeployment \<Rightarrow> int32 \<Rightarrow> PodDisruptionBudget" where
  "PDB md minAvailable =
     \<lparr>PDB_TypeMeta = \<lparr>TypeMeta_APIVersion = ''policy/v1'', TypeMeta_Kind = ''PodDisruptionBudget''\<rparr>,
      PDB_ObjectMeta = object_meta (PDBName md) (MD_Namespace md) (PodLabels md),
      PDB_MinAvailable = FromInt32 minAvailable,
      PDB_Selector = SelectorLabels md\<rparr>"

definition PVC :: "ModelDeployment \<Rightarrow> panic + PersistentVolumeClaim" where
  "PVC md =
     (case WeightCache md of
        None \<Rightarrow> Inl NilDereference
      | Some cache \<Rightarrow> Inr
          \<lparr>PVC_TypeMeta = \<lparr>TypeMeta_APIVersion = ''v1'', TypeMeta_Kind = ''PersistentVolumeClaim''\<rparr>,
           PVC_ObjectMeta = object_meta (PVCName md) (MD_Namespace md) (PodLabels md),
           PVC_AccessModes = [''ReadWriteMany''],
           PVC_StorageClassName = WeightCacheSpec_StorageClassName cache,
           PVC_Requests =
             (case WeightCacheSpec_Size cache of None \<Rightarrow> Map.empty | Some sz \<Rightarrow> [''storage'' \<mapsto> sz])\<rparr>)"

definition markerLines :: "string list" where
  "markerLines =
     [''mkdir -p \"$(dirname \"$MARKER\")\"'',
      ''date -u +%Y-%m-%dT%H:%M:%SZ > \"$MARKER\"'']"

definition downloadLines :: "Engine \<Rightarrow> string list" where
  "downloadLines engine =
     (if engine = EngineOllama then
       [''mkdir -p \"$OLLAMA_MODELS\"'',
        ''ollama serve &'',
        ''server=$!'',
        ''# \"ollama pull\" is a client command; it needs a server in this same pod because'',
        ''# the shared volume, not the network, is what the weights have to end up on.'',
        ''until ollama list >/dev/null 2>&1; do sleep 1; done'',
        ''ollama pull \"$MODEL_NAME\"'',
        ''kill \"$server\"'']
      else
       [''mkdir -p \"$HF_HOME\"'',
        ''# \"hf\" replaced \"huggingface-cli\" in huggingface_hub 0.34; runtime images in the'',
        ''# wild still ship either one.'',
        ''if command -v hf >/dev/null 2>&1; then'',
        ''  hf download \"$MODEL_NAME\" --revision \"$MODEL_REVISION\"'',
        ''else'',
        ''  huggingface-cli download \"$MODEL_NAME\" --revision \"$MODEL_REVISION\"'',
        ''fi''])"

definition warmScript :: "Engine \<Rightarrow> string" where
  "warmScript engine = raw_string (downloadLines engine @ markerLines)"

definition warmLabels :: "ModelDeployment \<Rightarrow> string \<Rightarrow> labels" where
  "warmLabels md cacheKey =
     [''app.kubernetes.io/name'' \<mapsto> ''model-weight-warmer'',
      ''app.kubernetes.io/instance'' \<mapsto> MD_Name md,
      ''app.kubernetes.io/managed-by'' \<mapsto> FieldOwner,
      LabelInstance \<mapsto> MD_Name md,
      LabelRole \<mapsto> RoleWarm,
      LabelCacheKey \<mapsto> cacheKey]"

definition warmContainer :: "ModelDeployment \<Rightarrow> string \<Rightarrow> Container" where
  "warmContainer md cacheKey =
     container0
       \<lparr>Container_Name := ''download'',
        Container_Image := WarmImage md,
        Container_Command := [''/bin/sh'', ''-euc'', warmScript (Engine md)],
        Container_Env := runtimeEnv md @ [env_var ''MARKER'' (MarkerPath md cacheKey)],
        Container_EnvFrom := env_from md,
        Container_VolumeMounts := [volume_mount weightsVol (MountPath md) False],
        Container_Resources := \<lparr>Resources_Limits = Map.empty,
          Resources_Requests = [''cpu'' \<mapsto> MustParse ''500m'', ''memory'' \<mapsto> MustParse ''2Gi'']\<rparr>,
        Container_SecurityContext := Some
          \<lparr>SecurityContext_AllowPrivilegeEscalation = Some False,
           SecurityContext_ReadOnlyRootFilesystem = None,
           SecurityContext_CapabilitiesDrop = [''ALL'']\<rparr>\<rparr>"

definition WarmJob :: "ModelDeployment \<Rightarrow> string \<Rightarrow> panic + Job" where
  "WarmJob md cacheKey =
     (case WeightCache md of
        None \<Rightarrow> Inl NilDereference
      | Some cache \<Rightarrow> Inr
          \<lparr>Job_TypeMeta = \<lparr>TypeMeta_APIVersion = ''batch/v1'', TypeMeta_Kind = ''Job''\<rparr>,
           Job_ObjectMeta = object_meta (WarmJobName md cacheKey) (MD_Namespace md) (warmLabels md cacheKey),
           Job_BackoffLimit = Some 3,
           Job_ActiveDeadlineSeconds = Some (scast (WeightCacheSpec_WarmTimeoutSeconds cache)),
           Job_Template =
             \<lparr>PodTemplateSpec_Labels = warmLabels md cacheKey,
              PodTemplateSpec_Annotations = Map.empty,
              PodTemplateSpec_Spec =
                \<lparr>PodSpec_InitContainers = [],
                 PodSpec_Containers = [warmContainer md cacheKey],
                 PodSpec_Volumes = [weightsVolume md],
                 PodSpec_NodeSelector = Map.empty,
                 PodSpec_Tolerations = [],
                 PodSpec_TerminationGracePeriodSeconds = None,
                 PodSpec_RestartPolicy = ''Never''\<rparr>\<rparr>,
           Job_Status = \<lparr>JobStatus_Succeeded = 0, JobStatus_Conditions = []\<rparr>\<rparr>)"

subsection \<open>Facts about the rendered objects\<close>

lemma Deployment_simps [simp]:
  "Deployment_ObjectMeta (Deployment md k n b) = object_meta (DeploymentName md) (MD_Namespace md) (PodLabels md)"
  "DeploymentSpec_Replicas (Deployment_Spec (Deployment md k n b)) = Some n"
  "DeploymentSpec_Paused (Deployment_Spec (Deployment md k n b)) = b"
  "DeploymentSpec_Selector (Deployment_Spec (Deployment md k n b)) = SelectorLabels md"
  by (simp_all add: Deployment_def Let_def)

text \<open>The pod specs of the two workloads.\<close>

definition serving_pod :: "ModelDeployment \<Rightarrow> string \<Rightarrow> int32 \<Rightarrow> bool \<Rightarrow> PodTemplateSpec" where
  "serving_pod md k n b = DeploymentSpec_Template (Deployment_Spec (Deployment md k n b))"

lemma serving_pod_simps [simp]:
  "PodTemplateSpec_Labels (serving_pod md k n b) = PodLabels md"
  "PodTemplateSpec_Annotations (serving_pod md k n b) = [AnnCacheKey \<mapsto> k]"
  "PodSpec_Containers (PodTemplateSpec_Spec (serving_pod md k n b)) = [serverContainer md]"
  "PodSpec_InitContainers (PodTemplateSpec_Spec (serving_pod md k n b)) =
     (if WeightCache md \<noteq> None then [waitForWeights md k] else [])"
  "PodSpec_Volumes (PodTemplateSpec_Spec (serving_pod md k n b)) = [weightsVolume md, shmVolume]"
  by (simp_all add: serving_pod_def Deployment_def Let_def)

lemma WarmJob_cases:
  assumes "WarmJob md k = Inr job"
  obtains cache where "WeightCache md = Some cache"
    "Job_ObjectMeta job = object_meta (WarmJobName md k) (MD_Namespace md) (warmLabels md k)"
    "PodTemplateSpec_Labels (Job_Template job) = warmLabels md k"
    "PodSpec_Containers (PodTemplateSpec_Spec (Job_Template job)) = [warmContainer md k]"
    "PodSpec_Volumes (PodTemplateSpec_Spec (Job_Template job)) = [weightsVolume md]"
    "Job_ActiveDeadlineSeconds job = Some (scast (WeightCacheSpec_WarmTimeoutSeconds cache))"
    "Job_Status job = \<lparr>JobStatus_Succeeded = 0, JobStatus_Conditions = []\<rparr>"
  using assms by (auto simp: WarmJob_def split: option.splits)

lemma warmContainer_simps [simp]:
  "Container_Env (warmContainer md k) = runtimeEnv md @ [env_var ''MARKER'' (MarkerPath md k)]"
  "Container_VolumeMounts (warmContainer md k) = [volume_mount weightsVol (MountPath md) False]"
  "Container_Command (warmContainer md k) = [''/bin/sh'', ''-euc'', warmScript (Engine md)]"
  "Resources_Limits (Container_Resources (warmContainer md k)) = Map.empty"
  "Resources_Requests (Container_Resources (warmContainer md k)) =
     [''cpu'' \<mapsto> MustParse ''500m'', ''memory'' \<mapsto> MustParse ''2Gi'']"
  by (simp_all add: warmContainer_def container0_def)

lemma waitForWeights_simps [simp]:
  "Container_Command (waitForWeights md k) =
     [''/bin/sh'', ''-euc'',
      waitScript (RuntimeSpec_LoadTimeoutSeconds (Spec_Runtime (MD_Spec md))) (MarkerPath md k)]"
  "Container_VolumeMounts (waitForWeights md k) = [volume_mount weightsVol (MountPath md) True]"
  by (simp_all add: waitForWeights_def container0_def Let_def)

lemma serverContainer_simps [simp]:
  "Container_Env (serverContainer md) = servingEnv md"
  "Container_StartupProbe (serverContainer md) = Some (probe md 10
     (go_max (word_of_int (sint (RuntimeSpec_LoadTimeoutSeconds (Spec_Runtime (MD_Spec md))) sdiv 10)) 1))"
  "Container_VolumeMounts (serverContainer md) =
     [volume_mount weightsVol (MountPath md) False, volume_mount shmVol ''/dev/shm'' False]"
  by (simp_all add: serverContainer_def container0_def Let_def)

lemma warmLabels_simps [simp]:
  "warmLabels md k LabelInstance = Some (MD_Name md)"
  "warmLabels md k LabelRole = Some RoleWarm"
  "warmLabels md k LabelCacheKey = Some k"
  "warmLabels md k ''app.kubernetes.io/name'' = Some ''model-weight-warmer''"
  by (simp_all add: warmLabels_def label_defs)

text \<open>Whether a selector of equality requirements, as \<open>labels.SelectorFromSet\<close> builds, selects a label set.\<close>

definition selects :: "labels \<Rightarrow> labels \<Rightarrow> bool" where
  "selects sel lbls \<longleftrightarrow> sel \<subseteq>\<^sub>m lbls"

lemma selects_singleton [simp]: "selects [k \<mapsto> v] lbls \<longleftrightarrow> lbls k = Some v"
  by (auto simp: selects_def map_le_def)

lemma quotient_by_ten:
  assumes "0 \<le> sint (a :: int32)"
  shows "sint (word_of_int (sint a sdiv 10) :: int32) = sint a div 10"
proof -
  have "0 \<le> sint a div 10" using assms by simp
  moreover have "sint a div 10 \<le> sint a" using assms by (intro int_div_le_self) simp_all
  ultimately show ?thesis
    using assms sint32_range [of a]
    by (simp add: sint_of_int32 sdiv_pos wrap32_id in_int32_def del: of_int_sint)
qed

subsection \<open>Properties\<close>

text \<open>The fixture of the repository's render tests.\<close>

definition fixture :: ModelDeployment where
  "fixture =
     \<lparr>MD_ObjectMeta = object_meta ''qwen'' ''inference'' Map.empty,
      MD_Spec =
        \<lparr>Spec_Model = \<lparr>ModelSpec_Name = ''Qwen/Qwen2.5-7B-Instruct'', ModelSpec_Revision = ''main'',
                       ModelSpec_SecretRef = None\<rparr>,
         Spec_Runtime = \<lparr>RuntimeSpec_Engine = EngineVLLM, RuntimeSpec_Image = '''',
           RuntimeSpec_ExtraArgs = [], RuntimeSpec_Port = 8000, RuntimeSpec_LoadTimeoutSeconds = 900,
           RuntimeSpec_Resources = \<lparr>Resources_Limits = [''nvidia.com/gpu'' \<mapsto> MustParse ''1''],
                                    Resources_Requests = Map.empty\<rparr>,
           RuntimeSpec_NodeSelector = Map.empty, RuntimeSpec_Tolerations = []\<rparr>,
         Spec_Replicas = 2,
         Spec_WeightCache = Some \<lparr>WeightCacheSpec_Size = Some (MustParse ''200Gi''),
           WeightCacheSpec_StorageClassName = None, WeightCacheSpec_ExistingClaimName = '''',
           WeightCacheSpec_MountPath = ''/models'', WeightCacheSpec_WarmImage = '''',
           WeightCacheSpec_WarmTimeoutSeconds = 3600\<rparr>,
         Spec_Autoscaling = None,
         Spec_Disruption = \<lparr>DisruptionSpec_MinAvailable = 1\<rparr>\<rparr>,
      MD_Status = \<lparr>Status_ObservedGeneration = 0, Status_Conditions = [], Status_CacheKey = '''',
        Status_Replicas = 0, Status_ReadyReplicas = 0, Status_ObservedQueueDepth = 0,
        Status_LastScaleTime = None, Status_Endpoint = '''', Status_Selector = ''''\<rparr>\<rparr>"

lemma fixture_valid: "crd_valid (MD_Spec fixture)"
  by (simp add: fixture_def crd_valid_def valid_runtime_def valid_weight_cache_def)

text \<open>
  C32. For specs the CRD accepts, with model names free of zero bytes: the cache key depends on engine, model and
  revision alone, it is twelve lower-case hexadecimal digits, and specs that differ in one of the three hash different
  strings.
\<close>

theorem CacheKey_identifies_weights:
  assumes "crd_valid (MD_Spec md)" "crd_valid (MD_Spec md')"
    and "CHR 0x00 \<notin> set (ModelSpec_Name (Spec_Model (MD_Spec md)))"
    and "CHR 0x00 \<notin> set (ModelSpec_Name (Spec_Model (MD_Spec md')))"
  shows "(cacheKeyInput md = cacheKeyInput md' \<longleftrightarrow>
            Engine md = Engine md' \<and>
            ModelSpec_Name (Spec_Model (MD_Spec md)) = ModelSpec_Name (Spec_Model (MD_Spec md')) \<and>
            ModelSpec_Revision (Spec_Model (MD_Spec md)) = ModelSpec_Revision (Spec_Model (MD_Spec md'))) \<and>
         (cacheKeyInput md = cacheKeyInput md' \<longrightarrow> CacheKey md = CacheKey md') \<and>
         length (CacheKey md) = 12 \<and> list_all is_hex (CacheKey md)"
  using assms
  by (auto simp: cacheKeyInput_inj crd_engine_no_nul CacheKey_length list_all_iff
      intro: CacheKey_cong CacheKey_hex)

theorem CacheKey_identifies_weights_witness:
  "cacheKeyInput fixture \<noteq>
     cacheKeyInput (fixture\<lparr>MD_Spec := (MD_Spec fixture)\<lparr>Spec_Model := (Spec_Model (MD_Spec fixture))
       \<lparr>ModelSpec_Revision := ''refs/pr/12''\<rparr>\<rparr>\<rparr>)"
proof -
  let ?md = "fixture\<lparr>MD_Spec := (MD_Spec fixture)\<lparr>Spec_Model := (Spec_Model (MD_Spec fixture))
       \<lparr>ModelSpec_Revision := ''refs/pr/12''\<rparr>\<rparr>\<rparr>"
  have "crd_valid (MD_Spec ?md)"
    using fixture_valid by (simp add: crd_valid_def)
  from CacheKey_identifies_weights [OF fixture_valid this] show ?thesis by (simp add: fixture_def)
qed

text \<open>
  C33. The warm-up Job and the serving pods agree on the cache-hit protocol. For every spec with a
  weight cache, the path the Job writes as \<open>MARKER\<close> is the path the init container waits for, both
  pods mount the same volume at the same path, both get the same runtime environment, and, for a
  non-empty mount path, markers of different cache keys are different files.
\<close>

theorem marker_protocol_agrees:
  assumes "WarmJob md (CacheKey md) = Inr job"
  shows "\<exists>warm init server.
     PodSpec_Containers (PodTemplateSpec_Spec (Job_Template job)) = [warm] \<and>
     PodSpec_InitContainers (PodTemplateSpec_Spec (serving_pod md (CacheKey md) n b)) = [init] \<and>
     PodSpec_Containers (PodTemplateSpec_Spec (serving_pod md (CacheKey md) n b)) = [server] \<and>
     env_var ''MARKER'' (MarkerPath md (CacheKey md)) \<in> set (Container_Env warm) \<and>
     Container_Command init = [''/bin/sh'', ''-euc'',
       waitScript (RuntimeSpec_LoadTimeoutSeconds (Spec_Runtime (MD_Spec md))) (MarkerPath md (CacheKey md))] \<and>
     weightsVolume md \<in> set (PodSpec_Volumes (PodTemplateSpec_Spec (Job_Template job))) \<and>
     weightsVolume md \<in> set (PodSpec_Volumes (PodTemplateSpec_Spec (serving_pod md (CacheKey md) n b))) \<and>
     volume_mount weightsVol (MountPath md) False \<in> set (Container_VolumeMounts warm) \<and>
     volume_mount weightsVol (MountPath md) True \<in> set (Container_VolumeMounts init) \<and>
     volume_mount weightsVol (MountPath md) False \<in> set (Container_VolumeMounts server) \<and>
     set (runtimeEnv md) \<subseteq> set (Container_Env warm) \<inter> set (Container_Env server) \<and>
     (MountPath md \<noteq> '''' \<longrightarrow> plain_element k \<longrightarrow> MarkerPath md k = MarkerPath md (CacheKey md) \<longrightarrow>
        k = CacheKey md)"
proof -
  from assms obtain cache where c: "WeightCache md = Some cache"
    "PodSpec_Containers (PodTemplateSpec_Spec (Job_Template job)) = [warmContainer md (CacheKey md)]"
    "PodSpec_Volumes (PodTemplateSpec_Spec (Job_Template job)) = [weightsVolume md]"
    by (rule WarmJob_cases)
  then show ?thesis
    by (auto simp: servingEnv_def MarkerPath_inj CacheKey_plain)
qed

theorem marker_protocol_agrees_witness:
  "\<exists>job. WarmJob fixture (CacheKey fixture) = Inr job \<and>
     (\<exists>warm. PodSpec_Containers (PodTemplateSpec_Spec (Job_Template job)) = [warm] \<and>
        env_var ''MARKER'' (MarkerPath fixture (CacheKey fixture)) \<in> set (Container_Env warm))"
proof -
  obtain job where job: "WarmJob fixture (CacheKey fixture) = Inr job"
    by (auto simp: WarmJob_def fixture_def)
  from marker_protocol_agrees [OF job, of 2 True "CacheKey fixture"] job show ?thesis by blast
qed

text \<open>
  Selectors. The Deployment, the Service and the PodDisruptionBudget share one selector, which
  depends on nothing but the object's name; it selects the pods of the Deployment's template and
  never those of a warm-up Job, while the instance label that teardown looks for is on both.
\<close>

theorem selectors_agree:
  assumes "WarmJob md k = Inr job"
  shows "DeploymentSpec_Selector (Deployment_Spec (Deployment md k n b)) = SelectorLabels md \<and>
     Service_Selector (Service md) = SelectorLabels md \<and>
     PDB_Selector (PDB md m) = SelectorLabels md \<and>
     (MD_Name md = MD_Name md' \<longrightarrow> SelectorLabels md = SelectorLabels md') \<and>
     selects (SelectorLabels md) (PodTemplateSpec_Labels (serving_pod md k n b)) \<and>
     \<not> selects (SelectorLabels md) (PodTemplateSpec_Labels (Job_Template job)) \<and>
     selects [LabelInstance \<mapsto> MD_Name md] (PodTemplateSpec_Labels (serving_pod md k n b)) \<and>
     selects [LabelInstance \<mapsto> MD_Name md] (PodTemplateSpec_Labels (Job_Template job))"
proof -
  from assms obtain cache where l: "PodTemplateSpec_Labels (Job_Template job) = warmLabels md k"
    by (rule WarmJob_cases)
  have "SelectorLabels md ''app.kubernetes.io/name'' = Some ''model-server''"
    by (simp add: SelectorLabels_def label_defs)
  then have "\<not> selects (SelectorLabels md) (warmLabels md k)"
    using warmLabels_simps(4) [of md k] by (force simp: selects_def map_le_def)
  with l SelectorLabels_cong [of md md'] PodLabels_extend [of md] show ?thesis
    by (simp add: Service_def PDB_def selects_def [of "SelectorLabels md" "PodLabels md"])
qed

theorem selectors_agree_witness:
  "\<exists>job. WarmJob fixture ''0123456789ab'' = Inr job \<and>
     \<not> selects (Service_Selector (Service fixture)) (PodTemplateSpec_Labels (Job_Template job))"
proof -
  obtain job where job: "WarmJob fixture ''0123456789ab'' = Inr job"
    by (auto simp: WarmJob_def fixture_def)
  from selectors_agree [OF job, of 2 True 1 fixture] job show ?thesis by auto
qed

text \<open>
  C36. The disruption budget can always be met. A budget is wanted exactly when there are at least
  two replicas and at least one was asked for; then it is the smaller of the request and
  \<open>replicas - 1\<close>, hence positive and below the replica count, so at least one eviction is possible.
\<close>

theorem PDBMinAvailable_satisfiable:
  fixes md replicas
  defines "requested \<equiv> DisruptionSpec_MinAvailable (Spec_Disruption (MD_Spec md))"
  shows "(snd (PDBMinAvailable md replicas) \<longleftrightarrow> 2 \<le> sint replicas \<and> 1 \<le> sint requested) \<and>
     (snd (PDBMinAvailable md replicas) \<longrightarrow>
        sint (fst (PDBMinAvailable md replicas)) = min (sint requested) (sint replicas - 1) \<and>
        0 < sint (fst (PDBMinAvailable md replicas)) \<and>
        sint (fst (PDBMinAvailable md replicas)) < sint replicas)"
  using sint_pred [of 1 replicas]
  by (auto simp: PDBMinAvailable_def requested_def Let_def sless_iff sint_go_min)

theorem PDBMinAvailable_satisfiable_witness:
  "PDBMinAvailable fixture 3 = (1, True) \<and> 0 < sint (fst (PDBMinAvailable fixture 3))"
  using PDBMinAvailable_satisfiable [of fixture 3]
  by (simp add: PDBMinAvailable_def fixture_def go_min_def word_sless_alt word_sle_eq)

text \<open>
  C37. The start-up budget. The start-up probe allows \<open>10 * (loadTimeoutSeconds div 10)\<close> seconds
  (at least ten): never more than the load timeout the CRD accepts, and up to nine seconds less.
\<close>

theorem startup_budget:
  assumes "crd_valid (MD_Spec md)"
  defines "timeout \<equiv> sint (RuntimeSpec_LoadTimeoutSeconds (Spec_Runtime (MD_Spec md)))"
  shows "\<exists>p. Container_StartupProbe (serverContainer md) = Some p \<and>
     sint (Probe_PeriodSeconds p) * sint (Probe_FailureThreshold p) = timeout - timeout mod 10 \<and>
     timeout - 9 \<le> sint (Probe_PeriodSeconds p) * sint (Probe_FailureThreshold p) \<and>
     sint (Probe_PeriodSeconds p) * sint (Probe_FailureThreshold p) \<le> timeout"
proof -
  have t: "30 \<le> timeout" using assms by (simp add: crd_valid_def valid_runtime_def)
  let ?q = "word_of_int (timeout sdiv 10) :: int32"
  have q: "sint (go_max ?q 1) = timeout div 10"
    using t quotient_by_ten [of "RuntimeSpec_LoadTimeoutSeconds (Spec_Runtime (MD_Spec md))"]
    by (simp add: sint_go_max timeout_def)
  have "10 * (timeout div 10) = timeout - timeout mod 10" by (simp add: minus_mod_eq_mult_div)
  moreover have "0 \<le> timeout mod 10" "timeout mod 10 \<le> 9" using t by simp_all
  ultimately show ?thesis
    using q by (simp add: probe_def timeout_def)
qed

theorem startup_budget_witness:
  "\<exists>p. Container_StartupProbe (serverContainer fixture) = Some p \<and>
     sint (Probe_PeriodSeconds p) * sint (Probe_FailureThreshold p) = 900"
  using startup_budget [OF fixture_valid] by (auto simp: fixture_def)

text \<open>
  The start-up probe cuts a load timeout short: for every accepted timeout that is not a
  multiple of ten, the probe's budget is strictly smaller than the timeout the user asked for.
\<close>

theorem startup_budget_too_short:
  assumes "crd_valid (MD_Spec md)" "Container_StartupProbe (serverContainer md) = Some p"
    and "sint (RuntimeSpec_LoadTimeoutSeconds (Spec_Runtime (MD_Spec md))) mod 10 \<noteq> 0"
  shows "sint (Probe_PeriodSeconds p) * sint (Probe_FailureThreshold p)
           < sint (RuntimeSpec_LoadTimeoutSeconds (Spec_Runtime (MD_Spec md)))"
proof -
  let ?t = "RuntimeSpec_LoadTimeoutSeconds (Spec_Runtime (MD_Spec md))"
  have t: "30 \<le> sint ?t" using assms(1) by (simp add: crd_valid_def valid_runtime_def)
  have "sint (Probe_PeriodSeconds p) * sint (Probe_FailureThreshold p) = 10 * (sint ?t div 10)"
    using assms(2) t quotient_by_ten [of ?t] by (auto simp: probe_def sint_go_max)
  moreover have "0 < sint ?t mod 10"
    using assms(3) pos_mod_sign [of 10 "sint ?t"] by linarith
  moreover have "10 * (sint ?t div 10) + sint ?t mod 10 = sint ?t" by simp
  ultimately show ?thesis by linarith
qed

definition fixture905 :: ModelDeployment where
  "fixture905 = fixture\<lparr>MD_Spec := (MD_Spec fixture)\<lparr>Spec_Runtime := (Spec_Runtime (MD_Spec fixture))
     \<lparr>RuntimeSpec_LoadTimeoutSeconds := 905\<rparr>\<rparr>\<rparr>"

theorem startup_budget_too_short_witness:
  "\<exists>p. Container_StartupProbe (serverContainer fixture905) = Some p \<and>
     sint (Probe_PeriodSeconds p) * sint (Probe_FailureThreshold p) < 905"
proof -
  have v: "crd_valid (MD_Spec fixture905)"
    using fixture_valid by (simp add: fixture905_def crd_valid_def valid_runtime_def)
  have t: "RuntimeSpec_LoadTimeoutSeconds (Spec_Runtime (MD_Spec fixture905)) = 905"
    by (simp add: fixture905_def)
  obtain p where p: "Container_StartupProbe (serverContainer fixture905) = Some p" by simp
  have "sint (Probe_PeriodSeconds p) * sint (Probe_FailureThreshold p)
          < sint (RuntimeSpec_LoadTimeoutSeconds (Spec_Runtime (MD_Spec fixture905)))"
    by (rule startup_budget_too_short [OF v p]) (simp add: t)
  with p show ?thesis by (simp add: t)
qed

text \<open>
  Moving the cache does not move the key. Pointing \<open>spec.weightCache\<close> at another claim or
  another mount path leaves the cache key and with it the name of the warm-up Job as they were,
  although the rendered Job is a different one (it fills another volume): the Job of the old claim,
  once it succeeded, stands for the new one.
\<close>

theorem cache_move_keeps_job_name:
  fixes md c c'
  defines "md1 \<equiv> md\<lparr>MD_Spec := (MD_Spec md)\<lparr>Spec_WeightCache := Some c\<rparr>\<rparr>"
    and "md2 \<equiv> md\<lparr>MD_Spec := (MD_Spec md)\<lparr>Spec_WeightCache := Some c'\<rparr>\<rparr>"
  assumes "WeightCacheSpec_ExistingClaimName c \<noteq> ''''" "WeightCacheSpec_ExistingClaimName c' \<noteq> ''''"
    and "WeightCacheSpec_ExistingClaimName c \<noteq> WeightCacheSpec_ExistingClaimName c'"
  shows "CacheKey md1 = CacheKey md2 \<and>
     WarmJobName md1 (CacheKey md1) = WarmJobName md2 (CacheKey md2) \<and>
     WarmJob md1 (CacheKey md1) \<noteq> WarmJob md2 (CacheKey md2)"
proof -
  have k: "CacheKey md1 = CacheKey md2"
    by (rule CacheKey_cong) (simp add: cacheKeyInput_def Engine_def md1_def md2_def)
  have "weightsVolume md1 \<noteq> weightsVolume md2"
    using assms by (simp add: weightsVolume_def PVCName_def)
  then have "WarmJob md1 (CacheKey md1) \<noteq> WarmJob md2 (CacheKey md2)"
    by (auto simp: WarmJob_def md1_def md2_def)
  with k show ?thesis by (simp add: WarmJobName_def md1_def md2_def)
qed

theorem cache_move_keeps_job_name_witness:
  "\<exists>c c'. WeightCacheSpec_ExistingClaimName c = ''team-a'' \<and>
     WeightCacheSpec_ExistingClaimName c' = ''team-b'' \<and>
     CacheKey (fixture\<lparr>MD_Spec := (MD_Spec fixture)\<lparr>Spec_WeightCache := Some c\<rparr>\<rparr>) =
     CacheKey (fixture\<lparr>MD_Spec := (MD_Spec fixture)\<lparr>Spec_WeightCache := Some c'\<rparr>\<rparr>)"
proof -
  let ?c = "\<lambda>claim. \<lparr>WeightCacheSpec_Size = None, WeightCacheSpec_StorageClassName = None,
     WeightCacheSpec_ExistingClaimName = claim, WeightCacheSpec_MountPath = ''/models'',
     WeightCacheSpec_WarmImage = '''', WeightCacheSpec_WarmTimeoutSeconds = 3600\<rparr>"
  show ?thesis
    using cache_move_keeps_job_name [of "?c ''team-a''" "?c ''team-b''" fixture]
    by (intro exI [of _ "?c ''team-a''"] exI [of _ "?c ''team-b''"]) simp
qed

end
