(* ===== verification/Rendered.thy ===== *)
theory Rendered
  imports Workloads
begin

section \<open>What the rendered objects are worth\<close>

text \<open>
  Whether the parts of a rendered pod fit together, and the endpoint of the status read back.
\<close>

subsection \<open>Consistent pods\<close>

text \<open>
  When the parts of a pod fit together, as far as this theory looks: the containers have names and images and no
  name twice, the volumes have no name twice, every mount is of a volume of the pod at a path, no container mounts two
  volumes at one path, ports are in range and their names are not used twice, and every probe allows a failure and
  asks a port in range or by a name the container declares. These are conditions of this development. The validation
  of the API server has many more, among them on quantities, on references to secrets, on tolerations and on labels,
  and is not modelled.
\<close>

definition probes :: "Container \<Rightarrow> Probe list" where
  "probes c = List.map_filter id
     [Container_StartupProbe c, Container_ReadinessProbe c, Container_LivenessProbe c]"

definition port_declared :: "Container \<Rightarrow> IntOrString \<Rightarrow> bool" where
  "port_declared c p =
     (case p of
        FromString name \<Rightarrow> name \<in> set (map ContainerPort_Name (Container_Ports c))
      | FromInt32 n \<Rightarrow> 1 \<le> sint n \<and> sint n \<le> 65535)"

definition container_consistent :: "string list \<Rightarrow> Container \<Rightarrow> bool" where
  "container_consistent volumes c \<longleftrightarrow>
     Container_Name c \<noteq> '''' \<and> Container_Image c \<noteq> '''' \<and>
     distinct (map ContainerPort_Name (Container_Ports c)) \<and>
     list_all (\<lambda>p. 1 \<le> sint (ContainerPort_ContainerPort p) \<and> sint (ContainerPort_ContainerPort p) \<le> 65535)
       (Container_Ports c) \<and>
     list_all (\<lambda>m. VolumeMount_Name m \<in> set volumes \<and> VolumeMount_MountPath m \<noteq> '''') (Container_VolumeMounts c) \<and>
     distinct (map VolumeMount_MountPath (Container_VolumeMounts c)) \<and>
     list_all (\<lambda>p. port_declared c (Probe_Port p) \<and> 1 \<le> sint (Probe_FailureThreshold p)) (probes c)"

definition pod_consistent :: "PodSpec \<Rightarrow> bool" where
  "pod_consistent p \<longleftrightarrow>
     (let containers = PodSpec_InitContainers p @ PodSpec_Containers p;
          volumes = map Volume_Name (PodSpec_Volumes p)
      in PodSpec_Containers p \<noteq> [] \<and> distinct (map Container_Name containers) \<and> distinct volumes \<and>
         list_all (container_consistent volumes) containers)"

lemma Volume_Name_simps [simp]:
  "Volume_Name (weightsVolume md) = weightsVol" "Volume_Name shmVolume = shmVol"
  by (simp_all add: weightsVolume_def shmVolume_def split: option.splits)

lemma volume_mount_simps [simp]:
  "VolumeMount_Name (volume_mount n p ro) = n" "VolumeMount_MountPath (volume_mount n p ro) = p"
  by (simp_all add: volume_mount_def)

text \<open>Not a rule for pods, where the last of two variables of one name wins: here there are no two.\<close>

lemma env_names_distinct: "distinct (map EnvVar_Name (runtimeEnv md @ [env_var ''MARKER'' m]))"
  "distinct (map EnvVar_Name (servingEnv md))"
  by (simp_all add: runtimeEnv_def servingEnv_def env_var_def Let_def)

lemma Image_nonempty:
  assumes "crd_valid (MD_Spec md)"
  shows "Image_md md \<noteq> ''''" "WarmImage md \<noteq> ''''"
proof -
  show "Image_md md \<noteq> ''''"
    using assms by (auto simp: crd_valid_def valid_runtime_def Image_md_def defaultImages_def Engine_def
        EngineVLLM_def EngineOllama_def)
  then show "WarmImage md \<noteq> ''''" by (simp add: WarmImage_def split: option.splits)
qed

lemma server_consistent:
  assumes "crd_valid (MD_Spec md)"
  shows "container_consistent [weightsVol, shmVol] (serverContainer md) \<longleftrightarrow> MountPath md \<noteq> '''' \<and> MountPath md \<noteq> ''/dev/shm''"
proof -
  have ports: "Container_Ports (serverContainer md) = [\<lparr>ContainerPort_Name = portName,
      ContainerPort_ContainerPort = RuntimeSpec_Port (Spec_Runtime (MD_Spec md)), ContainerPort_Protocol = ''TCP''\<rparr>]"
    "Container_Name (serverContainer md) = ''server''" "Container_Image (serverContainer md) = Image_md md"
    "probes (serverContainer md) = [probe md 10 (go_max (word_of_int
       (sint (RuntimeSpec_LoadTimeoutSeconds (Spec_Runtime (MD_Spec md))) sdiv 10)) 1), probe md 5 3, probe md 20 3]"
    by (simp_all add: serverContainer_def container0_def probes_def List.map_filter_def Let_def)
  have "1 \<le> sint (go_max x 1)" for x by (simp add: sint_go_max)
  then show ?thesis
    using assms Image_nonempty [OF assms]
    by (simp add: container_consistent_def ports probe_def port_declared_def crd_valid_def valid_runtime_def)
qed

lemma warm_consistent: "crd_valid (MD_Spec md) \<Longrightarrow> container_consistent [weightsVol] (warmContainer md k) \<longleftrightarrow> MountPath md \<noteq> ''''"
  using Image_nonempty [of md]
  by (simp add: container_consistent_def)
     (simp add: warmContainer_def container0_def probes_def List.map_filter_def)

lemma wait_consistent:
  "crd_valid (MD_Spec md) \<Longrightarrow> container_consistent [weightsVol, shmVol] (waitForWeights md k) \<longleftrightarrow> MountPath md \<noteq> ''''"
  using Image_nonempty [of md]
  by (simp add: container_consistent_def)
     (simp add: waitForWeights_def container0_def probes_def List.map_filter_def initWaitName_def Let_def)

text \<open>
  C28. The parts of the rendered pods fit together. For every spec that passes the CRD the pod of the warm-up Job is
  \<open>pod_consistent\<close> exactly when the mount path is not empty, and the pod of the Deployment exactly when,
  besides, the weights are not mounted at \<open>/dev/shm\<close>, where the shared memory goes: then, and only then, every container has a name
  of its own and an image, every mount is of a volume of the pod, at a path, and at a path of its own, and
  every probe asks a declared port. No validation of the CRD rules the two values out. The Service sends its traffic to a
  port the server declares, with the number of the spec.
\<close>

theorem rendered_pods_well_formed:
  assumes "crd_valid (MD_Spec md)"
  shows "(pod_consistent (PodTemplateSpec_Spec (DeploymentSpec_Template (Deployment_Spec (Deployment md k n paused))))
      \<longleftrightarrow> MountPath md \<noteq> '''' \<and> MountPath md \<noteq> ''/dev/shm'') \<and>
    (WeightCache md \<noteq> None \<longrightarrow> (\<exists>job. WarmJob md k = Inr job \<and>
       (pod_consistent (PodTemplateSpec_Spec (Job_Template job)) \<longleftrightarrow> MountPath md \<noteq> ''''))) \<and>
    (\<exists>p. Service_Ports (Service md) = [p] \<and> port_declared (serverContainer md) (ServicePort_TargetPort p) \<and>
       map ContainerPort_ContainerPort (Container_Ports (serverContainer md)) = [ServicePort_Port p])"
proof (intro conjI)
  show "pod_consistent (PodTemplateSpec_Spec (DeploymentSpec_Template (Deployment_Spec (Deployment md k n paused))))
      \<longleftrightarrow> MountPath md \<noteq> '''' \<and> MountPath md \<noteq> ''/dev/shm''"
    using server_consistent [OF assms] wait_consistent [OF assms]
    by (simp add: pod_consistent_def flip: serving_pod_def)
       (simp add: serverContainer_def waitForWeights_def container0_def weightsVol_def shmVol_def initWaitName_def Let_def)
  show "WeightCache md \<noteq> None \<longrightarrow> (\<exists>job. WarmJob md k = Inr job \<and>
      (pod_consistent (PodTemplateSpec_Spec (Job_Template job)) \<longleftrightarrow> MountPath md \<noteq> ''''))"
    using warm_consistent [OF assms] by (auto simp: WarmJob_def pod_consistent_def)
  show "\<exists>p. Service_Ports (Service md) = [p] \<and> port_declared (serverContainer md) (ServicePort_TargetPort p) \<and>
      map ContainerPort_ContainerPort (Container_Ports (serverContainer md)) = [ServicePort_Port p]"
    by (simp add: Service_def port_declared_def serverContainer_def container0_def Let_def)
qed

lemma rendered_pods_well_formed_witness:
  "pod_consistent (PodTemplateSpec_Spec (DeploymentSpec_Template (Deployment_Spec (Deployment fixture ''key'' 2 False))))"
  using rendered_pods_well_formed [OF fixture_valid, of "''key''" 2 False]
  by (simp add: MountPath_def fixture_def)

subsection \<open>The endpoint\<close>

text \<open>A client that takes the endpoint of the status apart: host, namespace and port.\<close>

definition parse_endpoint :: "string \<Rightarrow> (string \<times> string \<times> int) option" where
  "parse_endpoint u =
     (let host = drop (length ''http://'') u;
          name = takeWhile (\<lambda>c. c \<noteq> CHR ''.'') host;
          rest = drop 1 (dropWhile (\<lambda>c. c \<noteq> CHR ''.'') host);
          ns = takeWhile (\<lambda>c. c \<noteq> CHR ''.'') rest;
          tail = dropWhile (\<lambda>c. c \<noteq> CHR ''.'') rest
      in if take (length ''http://'') u = ''http://'' \<and> take (length ''.svc:'') tail = ''.svc:''
         then Some (name, ns, int (read_decimal (drop (length ''.svc:'') tail)))
         else None)"

lemma read_Itoa: "0 \<le> x \<Longrightarrow> int (read_decimal (Itoa x)) = x"
  by (simp add: Itoa_def read_decimal_decimal)

lemma cut_at:
  "c \<notin> set xs \<Longrightarrow> takeWhile (\<lambda>x. x \<noteq> c) (xs @ c # ys) = xs"
  "c \<notin> set xs \<Longrightarrow> dropWhile (\<lambda>x. x \<noteq> c) (xs @ c # ys) = c # ys"
  by (induction xs) auto

text \<open>
  The endpoint in the status can be read back: for names that are DNS labels and a valid port, taking the
  URL apart gives the name of the Service, its namespace and the port the Service listens on.
\<close>

lemma Endpoint_roundtrip:
  assumes "crd_valid (MD_Spec md)" "CHR ''.'' \<notin> set (MD_Name md)" "CHR ''.'' \<notin> set (MD_Namespace md)"
  shows "\<exists>p. Service_Ports (Service md) = [p] \<and>
    parse_endpoint (Endpoint md) =
      Some (ObjectMeta_Name (Service_ObjectMeta (Service md)),
            ObjectMeta_Namespace (Service_ObjectMeta (Service md)), sint (ServicePort_Port p))"
proof -
  have "0 \<le> sint (RuntimeSpec_Port (Spec_Runtime (MD_Spec md)))"
    using assms(1) by (simp add: crd_valid_def valid_runtime_def)
  then show ?thesis
    using assms(2,3)
    by (simp add: parse_endpoint_def Endpoint_def ServiceName_def Service_def object_meta_def cut_at read_Itoa Let_def)
qed

lemma Endpoint_roundtrip_witness: "parse_endpoint (Endpoint fixture) = Some (''qwen'', ''inference'', 8000)"
  using Endpoint_roundtrip [OF fixture_valid]
  by (simp add: fixture_def object_meta_def Service_def ServiceName_def)

end
