(* ===== verification/Queue.thy ===== *)
theory Queue
  imports K8s_Objects Go_Std "HOL-Library.State_Monad"
begin

section \<open>internal/queue: the scaling signal\<close>

text \<open>
  \<open>queue.go\<close>: a \<open>Source\<close> reports the number of waiting requests of the pods a selector matches.
  \<open>Depth\<close> is the method of \<open>CustomMetrics\<close>, at Go's widths: every value is truncated to whole
  requests, the sum is an \<open>int64\<close>, and the result saturates at the largest \<open>int32\<close>. The custom metrics
  client and \<open>Quantity.MilliValue\<close> are third-party code and parameters of the model; the
  client acts on a world of type \<open>'w\<close>, about which nothing is assumed.

  The locale \<open>queue_source\<close> is the \<open>Source\<close> interface with what its client relies on.
\<close>

record MetricValue =
  MetricValue_Value :: Quantity

record GroupKind =
  GroupKind_Group :: string
  GroupKind_Kind :: string

definition podGK :: GroupKind where
  "podGK = \<lparr>GroupKind_Group = '''', GroupKind_Kind = ''Pod''\<rparr>"

text \<open>
  \<open>client.NamespacedMetrics(namespace).GetForObjects(kind, selector, metric, metricSelector)\<close>, and
  the value of a quantity in thousandths.
\<close>

record ('w, 'e) CustomMetrics =
  GetForObjects :: "string \<Rightarrow> GroupKind \<Rightarrow> Selector \<Rightarrow> string \<Rightarrow> Selector \<Rightarrow>
                    ('w, 'e + MetricValue list) state"
  MilliValue :: "Quantity \<Rightarrow> int64"

definition NewCustomMetrics ::
  "('cfg \<Rightarrow> 'e + 'dc) \<Rightarrow> ('cfg \<Rightarrow> 'mapper \<Rightarrow> 'dc \<Rightarrow> ('w, 'e) CustomMetrics) \<Rightarrow> 'cfg \<Rightarrow> 'mapper \<Rightarrow>
   'e error + ('w, 'e) CustomMetrics" where
  "NewCustomMetrics NewDiscoveryClientForConfig NewForConfig cfg mapper =
     (case NewDiscoveryClientForConfig cfg of
        Inl err \<Rightarrow> Inl (Wrapf ''discovery client'' (Library_error err))
      | Inr dc \<Rightarrow> Inr (NewForConfig cfg mapper dc))"

text \<open>The loop over the items: \<open>total += v.MilliValue() / 1000\<close> on \<open>int64\<close>.\<close>

definition sumItems :: "('w, 'e) CustomMetrics \<Rightarrow> MetricValue list \<Rightarrow> int64" where
  "sumItems c items =
     foldl (\<lambda>total v. total + word_of_int (sint (MilliValue c (MetricValue_Value v)) sdiv 1000)) 0 items"

definition maxInt32 :: int64 where
  "maxInt32 = push_bit 31 1 - 1"

definition Depth ::
  "('w, 'e) CustomMetrics \<Rightarrow> string \<Rightarrow> string \<Rightarrow> Selector \<Rightarrow> ('w, 'e error + int32) state" where
  "Depth c namespace metricName sel =
     do {
       res \<leftarrow> GetForObjects c namespace podGK sel metricName Everything;
       State_Monad.return
         (case res of
            Inl err \<Rightarrow>
              Inl (Wrapf (''read '' @ Quote metricName @ '' from custom.metrics.k8s.io'') (Library_error err))
          | Inr values \<Rightarrow>
              (let total = sumItems c values
               in if total <s 0
                  then Inl (Errorf (''metric '' @ Quote metricName @ '' returned a negative total (''
                         @ Itoa (sint total) @ '')''))
                  else Inr (ucast (if total \<le>s maxInt32 then total else maxInt32))))
     }"

subsection \<open>The sum at 64 bits\<close>

lemma sint_maxInt32: "sint maxInt32 = 2 ^ 31 - 1"
  by (simp add: maxInt32_def)

lemma sumItems_Nil [simp]: "sumItems c [] = 0"
  by (simp add: sumItems_def)

lemma sint64_of_int: "- (2 ^ 63) \<le> x \<Longrightarrow> x < 2 ^ 63 \<Longrightarrow> sint (word_of_int x :: int64) = x"
  by (simp add: sint_sbintrunc' signed_take_bit_int_eq_self)

text \<open>The items' whole requests, over the integers.\<close>

definition whole_requests :: "('w, 'e) CustomMetrics \<Rightarrow> MetricValue list \<Rightarrow> int" where
  "whole_requests c items =
     sum_list (map (\<lambda>v. sint (MilliValue c (MetricValue_Value v)) sdiv 1000) items)"

lemma sumItems_eq: "sumItems c items = word_of_int (whole_requests c items)"
proof (induction items rule: rev_induct)
  case (snoc v items)
  then show ?case by (simp add: sumItems_def whole_requests_def)
qed (simp add: whole_requests_def)

lemma sint_sumItems:
  assumes "- (2 ^ 63) \<le> whole_requests c items" "whole_requests c items < 2 ^ 63"
  shows "sint (sumItems c items) = whole_requests c items"
  using assms by (simp add: sumItems_eq sint64_of_int)

lemma ucast_sint: "(ucast (t :: int64) :: int32) = word_of_int (sint t)"
  by transfer (simp add: take_bit_signed_take_bit)

lemma sint_ucast_min:
  assumes "0 \<le> sint (t :: int64)"
  shows "sint (ucast (if t \<le>s maxInt32 then t else maxInt32) :: int32) = min (sint t) (2 ^ 31 - 1)"
proof -
  let ?m = "if t \<le>s maxInt32 then t else maxInt32"
  have m: "sint ?m = min (sint t) (2 ^ 31 - 1)" by (simp add: sle_iff sint_maxInt32)
  show ?thesis
    using assms by (simp only: ucast_sint m sint_of_int32) (simp add: wrap32_id in_int32_def)
qed

subsection \<open>What Depth returns\<close>

lemma Depth_error:
  assumes "run_state (GetForObjects c ns podGK sel m Everything) w = (Inl e, w')"
  shows "run_state (Depth c ns m sel) w =
     (Inl (Wrapf (''read '' @ Quote m @ '' from custom.metrics.k8s.io'') (Library_error e)), w')"
  using assms by (simp add: Depth_def)

lemma Depth_items:
  assumes "run_state (GetForObjects c ns podGK sel m Everything) w = (Inr items, w')"
    and "0 \<le> sint (sumItems c items)"
  obtains d where "run_state (Depth c ns m sel) w = (Inr d, w')"
    "sint d = min (sint (sumItems c items)) (2 ^ 31 - 1)"
  using assms sint_ucast_min [of "sumItems c items"]
  by (simp add: Depth_def Let_def sless_iff)

lemma Depth_InrE:
  assumes "run_state (Depth c ns m sel) w = (Inr d, w')"
  obtains items where "run_state (GetForObjects c ns podGK sel m Everything) w = (Inr items, w')"
    "0 \<le> sint (sumItems c items)" "sint d = min (sint (sumItems c items)) (2 ^ 31 - 1)"
proof -
  obtain res w2 where g: "run_state (GetForObjects c ns podGK sel m Everything) w = (res, w2)"
    by (cases "run_state (GetForObjects c ns podGK sel m Everything) w")
  with assms obtain items where items: "res = Inr items"
    by (cases res) (auto simp: Depth_def)
  with g assms have w2: "w2 = w'" and nonneg: "0 \<le> sint (sumItems c items)"
    by (auto simp: Depth_def Let_def sless_iff split: if_splits)
  from Depth_items [OF g [unfolded items w2] nonneg] obtain d' where
    d': "run_state (Depth c ns m sel) w = (Inr d', w')" "sint d' = min (sint (sumItems c items)) (2 ^ 31 - 1)"
    by blast
  from d'(1) assms have "d' = d" by simp
  with d' g items w2 nonneg show thesis by (intro that) simp_all
qed

lemma whole_requests_nonneg:
  assumes "\<forall>v \<in> set items. 0 \<le> sint (MilliValue c (MetricValue_Value v))"
  shows "whole_requests c items = (\<Sum>v\<leftarrow>items. sint (MilliValue c (MetricValue_Value v)) div 1000)"
    and "0 \<le> whole_requests c items"
  using assms by (induction items) (simp_all add: whole_requests_def sdiv_pos pos_imp_zdiv_nonneg_iff)

subsection \<open>The interface\<close>

text \<open>A queue source never reports a negative depth, whatever the metrics service answers.\<close>

locale queue_source =
  fixes depth :: "string \<Rightarrow> string \<Rightarrow> Selector \<Rightarrow> ('w, 'e error + int32) state"
  assumes depth_nonneg: "run_state (depth ns m sel) w = (Inr d, w') \<Longrightarrow> 0 \<le> sint d"

interpretation custom_metrics: queue_source "Depth c" for c
proof
  fix ns m sel w d w'
  assume "run_state (Depth c ns m sel) w = (Inr d, w')"
  then show "0 \<le> sint d" by (rule Depth_InrE) simp
qed

subsection \<open>Properties\<close>

text \<open>
  C31. When the metrics service answers with non-negative values whose whole requests sum to less
  than \<open>2^63\<close>, \<open>Depth\<close> returns that sum, each value rounded down, saturated at the largest
  \<open>int32\<close>.
\<close>

theorem Depth_sums_queue:
  assumes "run_state (GetForObjects c ns podGK sel m Everything) w = (Inr items, w')"
    and "\<forall>v \<in> set items. 0 \<le> sint (MilliValue c (MetricValue_Value v))"
    and "(\<Sum>v\<leftarrow>items. sint (MilliValue c (MetricValue_Value v)) div 1000) < 2 ^ 63"
  shows "\<exists>d. run_state (Depth c ns m sel) w = (Inr d, w') \<and>
     sint d = min (\<Sum>v\<leftarrow>items. sint (MilliValue c (MetricValue_Value v)) div 1000) (2 ^ 31 - 1)"
proof -
  note W = whole_requests_nonneg [OF assms(2)]
  have s: "sint (sumItems c items) = whole_requests c items"
    using W assms(3) by (intro sint_sumItems) simp_all
  obtain d where "run_state (Depth c ns m sel) w = (Inr d, w')"
    "sint d = min (sint (sumItems c items)) (2 ^ 31 - 1)"
    using Depth_items [OF assms(1)] W(2) s by auto
  then show ?thesis by (simp only: s W(1)) blast
qed

text \<open>
  \<open>Depth\<close> never reports a negative depth, whatever the metrics service answers and even when
  the \<open>int64\<close> sum wraps around; an error of the service is wrapped and keeps the service's text.
\<close>

lemma Depth_nonneg_or_error:
  "case fst (run_state (Depth c ns m sel) w) of
     Inr d \<Rightarrow> 0 \<le> sint d \<and> (\<exists>items. fst (run_state (GetForObjects c ns podGK sel m Everything) w) = Inr items)
   | Inl err \<Rightarrow>
       (case fst (run_state (GetForObjects c ns podGK sel m Everything) w) of
          Inl e \<Rightarrow> Error txt err = ''read '' @ Quote m @ '' from custom.metrics.k8s.io: '' @ txt e
        | Inr items \<Rightarrow> sint (sumItems c items) < 0)"
proof (cases "run_state (GetForObjects c ns podGK sel m Everything) w")
  case (Pair res w')
  show ?thesis
  proof (cases res)
    case (Inl e)
    show ?thesis by (simp add: Depth_error [OF Pair [unfolded Inl]] Pair Inl del: append.simps)
  next
    case (Inr items)
    show ?thesis
    proof (cases "0 \<le> sint (sumItems c items)")
      case True
      obtain d where d: "run_state (Depth c ns m sel) w = (Inr d, w')"
        "sint d = min (sint (sumItems c items)) (2 ^ 31 - 1)"
        using Depth_items [OF Pair [unfolded Inr] True] by blast
      with True show ?thesis by (simp add: Pair Inr)
    next
      case False
      with Pair Inr show ?thesis by (simp add: Depth_def Let_def sless_iff)
    qed
  qed
qed

subsection \<open>Witnesses\<close>

text \<open>A metrics service with two pods: 3 and 5.5 requests wait.\<close>

definition two_pods :: "('w, string) CustomMetrics" where
  "two_pods =
     \<lparr>GetForObjects = (\<lambda>_ _ _ _ _. State_Monad.return
        (Inr [\<lparr>MetricValue_Value = MustParse ''3''\<rparr>, \<lparr>MetricValue_Value = MustParse ''5500m''\<rparr>])),
      MilliValue = (\<lambda>q. if q = MustParse ''3'' then 3000 else 5500)\<rparr>"

theorem Depth_sums_queue_witness:
  "\<exists>d. run_state (Depth two_pods ''ns'' ''m'' Everything) () = (Inr d, ()) \<and> sint d = 8"
  using Depth_sums_queue [of two_pods "''ns''" Everything "''m''" "()"
      "[\<lparr>MetricValue_Value = MustParse ''3''\<rparr>, \<lparr>MetricValue_Value = MustParse ''5500m''\<rparr>]" "()"]
  by (simp add: two_pods_def)

end
