(* ===== verification/Cluster.thy ===== *)
theory Cluster
  imports Render Queue
begin

section \<open>The cluster as the controller sees it\<close>

text \<open>
  Everything the controller calls and this repository does not contain: the API client of
  controller-runtime, the helpers of apimachinery and controller-runtime, the event recorder and
  the clock. They are the fields of three records and stay uninterpreted. Each operation is a
  function on a world of type \<open>'w\<close> that may answer anything and change the world in any way,
  so other actors that interleave with the controller are covered: what they do is part of the
  world's change between two calls. Library errors have the opaque type \<open>'e\<close>, unstructured objects
  the opaque type \<open>'u\<close>.

  The handlers run in the state monad over \<open>env\<close>: the world, and the list of the calls made so far
  with their answers. The list is a ghost: nothing the controller does depends on it; it is what
  the theorems talk about. The calculus of \<open>emits\<close> at the end derives what a handler may call.
\<close>

subsection \<open>Objects\<close>

text \<open>\<open>client.Object\<close>: a pointer to one of the typed objects.\<close>

datatype Object =
    DeploymentObject Deployment
  | ServiceObject Service
  | PDBObject PodDisruptionBudget
  | PVCObject PersistentVolumeClaim
  | JobObject Job

fun Object_meta :: "Object \<Rightarrow> ObjectMeta" where
  "Object_meta (DeploymentObject d) = Deployment_ObjectMeta d"
| "Object_meta (ServiceObject s) = Service_ObjectMeta s"
| "Object_meta (PDBObject b) = PDB_ObjectMeta b"
| "Object_meta (PVCObject c) = PVC_ObjectMeta c"
| "Object_meta (JobObject j) = Job_ObjectMeta j"

fun with_meta :: "Object \<Rightarrow> ObjectMeta \<Rightarrow> Object" where
  "with_meta (DeploymentObject d) m = DeploymentObject (d\<lparr>Deployment_ObjectMeta := m\<rparr>)"
| "with_meta (ServiceObject s) m = ServiceObject (s\<lparr>Service_ObjectMeta := m\<rparr>)"
| "with_meta (PDBObject b) m = PDBObject (b\<lparr>PDB_ObjectMeta := m\<rparr>)"
| "with_meta (PVCObject c) m = PVCObject (c\<lparr>PVC_ObjectMeta := m\<rparr>)"
| "with_meta (JobObject j) m = JobObject (j\<lparr>Job_ObjectMeta := m\<rparr>)"

text \<open>What \<open>%T\<close> prints for the object, and \<open>GetName\<close>.\<close>

fun Object_type :: "Object \<Rightarrow> string" where
  "Object_type (DeploymentObject d) = ''*v1.Deployment''"
| "Object_type (ServiceObject s) = ''*v1.Service''"
| "Object_type (PDBObject b) = ''*v1.PodDisruptionBudget''"
| "Object_type (PVCObject c) = ''*v1.PersistentVolumeClaim''"
| "Object_type (JobObject j) = ''*v1.Job''"

abbreviation GetName :: "Object \<Rightarrow> string" where
  "GetName obj \<equiv> ObjectMeta_Name (Object_meta obj)"

lemma Object_meta_with_meta [simp]: "Object_meta (with_meta obj m) = m"
  by (cases obj) simp_all

text \<open>\<open>metav1.Time.IsZero\<close> on a pointer: a nil pointer is zero too.\<close>

definition metaTime_IsZero :: "gotime option \<Rightarrow> bool" where
  "metaTime_IsZero t = (case t of None \<Rightarrow> True | Some t' \<Rightarrow> time_IsZero t')"

datatype 'u ApplyConfiguration = ApplyConfigurationFromUnstructured 'u

datatype DeletionPropagation = DeletePropagationBackground

subsection \<open>The interfaces of the libraries\<close>

record ('w, 'e, 'u) Client =
  Client_Get_ModelDeployment :: "ObjectKey \<Rightarrow> ('w, 'e + ModelDeployment) state"
  Client_Get_Job :: "ObjectKey \<Rightarrow> ('w, 'e + Job) state"
  Client_Get_PersistentVolumeClaim :: "ObjectKey \<Rightarrow> ('w, 'e + PersistentVolumeClaim) state"
  Client_Get_Deployment :: "ObjectKey \<Rightarrow> ('w, 'e + Deployment) state"
  Client_List_Job :: "string \<Rightarrow> labels \<Rightarrow> ('w, 'e + Job list) state"
  Client_List_Pod :: "string \<Rightarrow> labels \<Rightarrow> ('w, 'e + Pod list) state"
  Client_Create :: "Object \<Rightarrow> ('w, 'e option) state"
  Client_Update :: "ModelDeployment \<Rightarrow> ('w, 'e + ModelDeployment) state"
  Client_Status_Update :: "ModelDeployment \<Rightarrow> ('w, 'e + ModelDeployment) state"
  Client_Delete :: "Object \<Rightarrow> DeletionPropagation option \<Rightarrow> ('w, 'e option) state"
  Client_DeleteAllOf_Job :: "string \<Rightarrow> labels \<Rightarrow> DeletionPropagation option \<Rightarrow> ('w, 'e option) state"
  Client_Apply :: "'u ApplyConfiguration \<Rightarrow> string \<Rightarrow> bool \<Rightarrow> ('w, 'e option) state"

text \<open>
  A \<open>Get\<close> or \<open>List\<close> fills an object of the caller or returns an error; \<open>Update\<close> overwrites the
  caller's object with the server's answer, which is why it returns one.
\<close>

record ('w, 'e, 'u) Library =
  IsNotFound :: "'e \<Rightarrow> bool"
  IsAlreadyExists :: "'e \<Rightarrow> bool"
  IgnoreNotFound :: "'e option \<Rightarrow> 'e option"
  ErrorText :: "'e \<Rightarrow> string"
  AddFinalizer :: "ModelDeployment \<Rightarrow> string \<Rightarrow> ModelDeployment \<times> bool"
  RemoveFinalizer :: "ModelDeployment \<Rightarrow> string \<Rightarrow> ModelDeployment"
  ContainsFinalizer :: "ModelDeployment \<Rightarrow> string \<Rightarrow> bool"
  SetControllerReference :: "ModelDeployment \<Rightarrow> ObjectMeta \<Rightarrow> 'e + ObjectMeta"
  SetStatusCondition :: "Condition list \<Rightarrow> Condition \<Rightarrow> ('w, Condition list) state"
  Semantic_DeepEqual :: "ModelDeploymentStatus \<Rightarrow> ModelDeploymentStatus \<Rightarrow> bool"
  Set_String :: "labels \<Rightarrow> string"
  ToUnstructured :: "Object \<Rightarrow> 'e + 'u"
  RemoveNestedField :: "'u \<Rightarrow> string list \<Rightarrow> 'u"
  Time_Now :: "('w, gotime) state"

record ('w, 'e, 'u) ModelDeploymentReconciler =
  R_Client :: "('w, 'e, 'u) Client"
  R_Lib :: "('w, 'e, 'u) Library"
  R_Eventf :: "ModelDeployment \<Rightarrow> string \<Rightarrow> string \<Rightarrow> string \<Rightarrow> string \<Rightarrow> ('w, unit) state"
  R_Queue :: "(string \<Rightarrow> string \<Rightarrow> Selector \<Rightarrow> ('w, 'e error + int32) state) option"
  R_Now :: "('w, gotime) state option"

subsection \<open>Calls and their trace\<close>

datatype ('e, 'u) call =
    GetModelDeployment ObjectKey "'e + ModelDeployment"
  | GetJob ObjectKey "'e + Job"
  | GetPVC ObjectKey "'e + PersistentVolumeClaim"
  | GetDeployment ObjectKey "'e + Deployment"
  | ListJobs string labels "'e + Job list"
  | ListPods string labels "'e + Pod list"
  | Create Object "'e option"
  | Update ModelDeployment "'e + ModelDeployment"
  | StatusUpdate ModelDeployment "'e + ModelDeployment"
  | Delete Object "DeletionPropagation option" "'e option"
  | DeleteAllOfJobs string labels "DeletionPropagation option" "'e option"
  | Apply "'u ApplyConfiguration" string bool "'e option"
  | Eventf ModelDeployment string string string string
  | QueueDepth string string Selector "'e error + int32"

record ('w, 'e, 'u) env =
  world :: 'w
  calls :: "('e, 'u) call list"

definition perform :: "('w, 'a) state \<Rightarrow> ('a \<Rightarrow> ('e, 'u) call) \<Rightarrow> (('w, 'e, 'u) env, 'a) state" where
  "perform op ev =
     State (\<lambda>s. case run_state op (world s) of
                  (x, w) \<Rightarrow> (x, s\<lparr>world := w, calls := calls s @ [ev x]\<rparr>))"

text \<open>A library function that uses the world (the clock) and is not an interaction with the cluster.\<close>

definition silently :: "('w, 'a) state \<Rightarrow> (('w, 'e, 'u) env, 'a) state" where
  "silently op = State (\<lambda>s. case run_state op (world s) of (x, w) \<Rightarrow> (x, s\<lparr>world := w\<rparr>))"

definition Get_ModelDeployment where
  "Get_ModelDeployment r key =
     perform (Client_Get_ModelDeployment (R_Client r) key) (GetModelDeployment key)"

definition Get_Job where
  "Get_Job r key = perform (Client_Get_Job (R_Client r) key) (GetJob key)"

definition Get_PersistentVolumeClaim where
  "Get_PersistentVolumeClaim r key =
     perform (Client_Get_PersistentVolumeClaim (R_Client r) key) (GetPVC key)"

definition Get_Deployment where
  "Get_Deployment r key = perform (Client_Get_Deployment (R_Client r) key) (GetDeployment key)"

definition List_Job where
  "List_Job r ns lbls = perform (Client_List_Job (R_Client r) ns lbls) (ListJobs ns lbls)"

definition List_Pod where
  "List_Pod r ns lbls = perform (Client_List_Pod (R_Client r) ns lbls) (ListPods ns lbls)"

definition Create_Object where
  "Create_Object r obj = perform (Client_Create (R_Client r) obj) (Create obj)"

definition Update_ModelDeployment where
  "Update_ModelDeployment r md = perform (Client_Update (R_Client r) md) (Update md)"

definition Status_Update where
  "Status_Update r md = perform (Client_Status_Update (R_Client r) md) (StatusUpdate md)"

definition Delete_Object where
  "Delete_Object r obj policy = perform (Client_Delete (R_Client r) obj policy) (Delete obj policy)"

definition DeleteAllOf_Job where
  "DeleteAllOf_Job r ns lbls policy =
     perform (Client_DeleteAllOf_Job (R_Client r) ns lbls policy) (DeleteAllOfJobs ns lbls policy)"

definition Apply_Configuration where
  "Apply_Configuration r cfg owner force =
     perform (Client_Apply (R_Client r) cfg owner force) (Apply cfg owner force)"

definition Record_Eventf where
  "Record_Eventf r md eventtype reason action note =
     perform (R_Eventf r md eventtype reason action note)
       (\<lambda>_. Eventf md eventtype reason action note)"

definition Queue_Depth where
  "Queue_Depth depth ns metric sel = perform (depth ns metric sel) (QueueDepth ns metric sel)"

lemmas call_defs =
  Get_ModelDeployment_def Get_Job_def Get_PersistentVolumeClaim_def Get_Deployment_def
  List_Job_def List_Pod_def Create_Object_def Update_ModelDeployment_def Status_Update_def
  Delete_Object_def DeleteAllOf_Job_def Apply_Configuration_def Record_Eventf_def Queue_Depth_def

subsection \<open>What a handler may call\<close>

text \<open>
  \<open>emits m R\<close>: from every state, the answer \<open>x\<close> of \<open>m\<close> and the list \<open>t\<close> of the calls it adds
  satisfy \<open>R x t\<close>. The rules \<open>emits_intros\<close> follow the shape of a handler.
\<close>

definition emits :: "(('w, 'e, 'u) env, 'a) state \<Rightarrow> ('a \<Rightarrow> ('e, 'u) call list \<Rightarrow> bool) \<Rightarrow> bool" where
  "emits m R \<longleftrightarrow>
     (\<forall>s. \<exists>t. calls (snd (run_state m s)) = calls s @ t \<and> R (fst (run_state m s)) t)"

named_theorems emits_intros \<open>rules of the calculus of calls\<close>

lemma emits_return [emits_intros]: "R x [] \<Longrightarrow> emits (State_Monad.return x) R"
  by (simp add: emits_def)

lemma emits_perform [emits_intros]:
  assumes "\<And>x s s'. run_state op s = (x, s') \<Longrightarrow> R x [ev x]"
  shows "emits (perform op ev) R"
  unfolding emits_def
proof
  fix s
  show "\<exists>t. calls (snd (run_state (perform op ev) s)) = calls s @ t \<and>
            R (fst (run_state (perform op ev) s)) t"
    using assms [of "world s"] by (cases "run_state op (world s)") (simp add: perform_def)
qed

lemma emits_silently [emits_intros]:
  assumes "\<And>x s s'. run_state op s = (x, s') \<Longrightarrow> R x []"
  shows "emits (silently op) R"
  unfolding emits_def
proof
  fix s
  show "\<exists>t. calls (snd (run_state (silently op) s)) = calls s @ t \<and>
            R (fst (run_state (silently op) s)) t"
    using assms [of "world s"] by (cases "run_state op (world s)") (simp add: silently_def)
qed

lemma emits_bind [emits_intros]:
  assumes "emits m (\<lambda>x t. emits (f x) (\<lambda>y t'. R y (t @ t')))"
  shows "emits (m \<bind> f) R"
  unfolding emits_def
proof
  fix s
  obtain x s1 where m: "run_state m s = (x, s1)" by (cases "run_state m s")
  with assms obtain t where t: "calls s1 = calls s @ t" "emits (f x) (\<lambda>y t'. R y (t @ t'))"
    unfolding emits_def by (metis fst_conv snd_conv)
  obtain y s2 where f: "run_state (f x) s1 = (y, s2)" by (cases "run_state (f x) s1")
  with t obtain t' where "calls s2 = calls s1 @ t'" "R y (t @ t')"
    unfolding emits_def by (metis fst_conv snd_conv)
  with m f t show "\<exists>t. calls (snd (run_state (m \<bind> f) s)) = calls s @ t \<and> R (fst (run_state (m \<bind> f) s)) t"
    by simp
qed

lemma emits_mono: "emits m R \<Longrightarrow> (\<And>x t. R x t \<Longrightarrow> R' x t) \<Longrightarrow> emits m R'"
  unfolding emits_def by blast

lemma emits_run:
  assumes "emits m R" "run_state m s = (x, s')"
  obtains t where "calls s' = calls s @ t" "R x t"
  using assms unfolding emits_def by (metis fst_conv snd_conv)

lemma emits_if [emits_intros]:
  "(b \<Longrightarrow> emits m R) \<Longrightarrow> (\<not> b \<Longrightarrow> emits m' R) \<Longrightarrow> emits (if b then m else m') R"
  by simp

lemma emits_option [emits_intros]:
  "(z = None \<Longrightarrow> emits m R) \<Longrightarrow> (\<And>x. z = Some x \<Longrightarrow> emits (f x) R) \<Longrightarrow>
   emits (case z of None \<Rightarrow> m | Some x \<Rightarrow> f x) R"
  by (cases z) simp_all

lemma emits_sum [emits_intros]:
  "(\<And>x. z = Inl x \<Longrightarrow> emits (f x) R) \<Longrightarrow> (\<And>y. z = Inr y \<Longrightarrow> emits (g y) R) \<Longrightarrow>
   emits (case z of Inl x \<Rightarrow> f x | Inr y \<Rightarrow> g y) R"
  by (cases z) simp_all

lemma emits_prod [emits_intros]:
  "(\<And>x y. z = (x, y) \<Longrightarrow> emits (f x y) R) \<Longrightarrow> emits (case z of (x, y) \<Rightarrow> f x y) R"
  by (cases z) simp

lemma emits_let [emits_intros]: "(\<And>x. x = z \<Longrightarrow> emits (f x) R) \<Longrightarrow> emits (let x = z in f x) R"
  by simp

subsection \<open>What the libraries document\<close>

text \<open>
  The documented behaviour of the helpers, as far as theorems need it. \<open>IgnoreNotFound\<close> drops
  exactly the not-found errors; the finalizer functions add, remove and look up an entry of the
  metadata's list; \<open>SetControllerReference\<close> changes owner references only;
  \<open>SetStatusCondition\<close> sets the condition of the given type, keeps the others, and keeps the
  transition time when the status does not change; \<open>Semantic.DeepEqual\<close> on a status is equality.
\<close>

definition documented_errors :: "('w, 'e, 'u) Library \<Rightarrow> bool" where
  "documented_errors L \<longleftrightarrow>
     IgnoreNotFound L None = None \<and>
     (\<forall>e. IgnoreNotFound L (Some e) = (if IsNotFound L e then None else Some e))"

definition has_finalizer :: "string \<Rightarrow> ModelDeployment \<Rightarrow> bool" where
  "has_finalizer f md \<longleftrightarrow> f \<in> set (ObjectMeta_Finalizers (MD_ObjectMeta md))"

definition set_finalizers :: "string list \<Rightarrow> ModelDeployment \<Rightarrow> ModelDeployment" where
  "set_finalizers fs md = md\<lparr>MD_ObjectMeta := (MD_ObjectMeta md)\<lparr>ObjectMeta_Finalizers := fs\<rparr>\<rparr>"

definition documented_finalizers :: "('w, 'e, 'u) Library \<Rightarrow> bool" where
  "documented_finalizers L \<longleftrightarrow>
     (\<forall>md f. ContainsFinalizer L md f = has_finalizer f md) \<and>
     (\<forall>md f. AddFinalizer L md f =
        (if has_finalizer f md then (md, False)
         else (set_finalizers (ObjectMeta_Finalizers (MD_ObjectMeta md) @ [f]) md, True))) \<and>
     (\<forall>md f. RemoveFinalizer L md f =
        set_finalizers (filter (\<lambda>g. g \<noteq> f) (ObjectMeta_Finalizers (MD_ObjectMeta md))) md)"

definition documented_owner :: "('w, 'e, 'u) Library \<Rightarrow> bool" where
  "documented_owner L \<longleftrightarrow>
     (\<forall>md m m'. SetControllerReference L md m = Inr m' \<longrightarrow>
        m' = m\<lparr>ObjectMeta_OwnerReferences := ObjectMeta_OwnerReferences m'\<rparr>)"

definition condition_of :: "string \<Rightarrow> Condition list \<Rightarrow> Condition option" where
  "condition_of t cs = List.find (\<lambda>c. Condition_Type c = t) cs"

text \<open>
  A new condition is appended with the current time; an existing one is overwritten and its
  transition time moves only when the status does. (Conditions are a list keyed by type, and the
  operator leaves the transition time of the new condition unset.)
\<close>

definition put_condition :: "gotime \<Rightarrow> Condition list \<Rightarrow> Condition \<Rightarrow> Condition list" where
  "put_condition t cs c =
     (if condition_of (Condition_Type c) cs = None then cs @ [c\<lparr>Condition_LastTransitionTime := t\<rparr>]
      else map (\<lambda>old. if Condition_Type old = Condition_Type c
                      then c\<lparr>Condition_LastTransitionTime :=
                               if Condition_Status old = Condition_Status c
                               then Condition_LastTransitionTime old else t\<rparr>
                      else old) cs)"

definition documented_conditions :: "('w, 'e, 'u) Library \<Rightarrow> bool" where
  "documented_conditions L \<longleftrightarrow>
     (\<forall>cs c w. distinct (map Condition_Type cs) \<longrightarrow> time_IsZero (Condition_LastTransitionTime c) \<longrightarrow>
        (\<exists>t. fst (run_state (SetStatusCondition L cs c) w) = put_condition t cs c))"

definition documented_equality :: "('w, 'e, 'u) Library \<Rightarrow> bool" where
  "documented_equality L \<longleftrightarrow> (\<forall>a b. Semantic_DeepEqual L a b \<longleftrightarrow> a = b)"

end
