(* ===== verification/Weight_Cache.thy ===== *)
theory Weight_Cache
  imports Workloads Cluster
begin

section \<open>internal/controller/weightcache.go: claim and warm-up Job\<close>

text \<open>
  The part of the reconcile that owns the shared volume. \<open>ensureClaim\<close>,
  \<open>reconcileWeightCache\<close>, \<open>pruneStaleWarmJobs\<close> and \<open>findJobCondition\<close> are the functions of the
  source in its order of calls and early returns. A result \<open>Inl\<close> is a panic, an error is the
  option next to the value, as in Go's multiple returns.
\<close>

record cacheState =
  cache_enabled :: bool
  cache_warm :: bool
  cache_failed :: bool
  cache_jobName :: string
  cache_message :: string

definition cacheState0 :: cacheState where
  "cacheState0 = \<lparr>cache_enabled = False, cache_warm = False, cache_failed = False,
                  cache_jobName = '''', cache_message = ''''\<rparr>"

definition object_key :: "string \<Rightarrow> string \<Rightarrow> ObjectKey" where
  "object_key ns name = \<lparr>ObjectKey_Namespace = ns, ObjectKey_Name = name\<rparr>"

text \<open>\<open>controllerutil.SetControllerReference(md, obj, r.Scheme)\<close>: the object with its owner set.\<close>

definition own :: "('w, 'e, 'u) ModelDeploymentReconciler \<Rightarrow> ModelDeployment \<Rightarrow> Object \<Rightarrow> 'e + Object" where
  "own r md obj = map_sum id (with_meta obj) (SetControllerReference (R_Lib r) md (Object_meta obj))"

text \<open>Creating an object, with \<open>AlreadyExists\<close> counted as success.\<close>

definition create_tolerant where
  "create_tolerant r obj =
     do {
       err \<leftarrow> Create_Object r obj;
       State_Monad.return
         (case err of None \<Rightarrow> None | Some e \<Rightarrow> if IsAlreadyExists (R_Lib r) e then None else Some e)
     }"

definition ensureClaim ::
  "('w, 'e, 'u) ModelDeploymentReconciler \<Rightarrow> ModelDeployment \<Rightarrow>
   (('w, 'e, 'u) env, panic + 'e error option) state" where
  "ensureClaim r md =
     do {
       let name = PVCName md;
       existing \<leftarrow> Get_PersistentVolumeClaim r (object_key (MD_Namespace md) name);
       case existing of
         Inr _ \<Rightarrow> State_Monad.return (Inr None)
       | Inl err \<Rightarrow>
           if \<not> IsNotFound (R_Lib r) err
           then State_Monad.return (Inr (Some (Wrapf ''read weight cache claim'' (Library_error err))))
           else if \<not> OwnsPVC md
           then State_Monad.return (Inr (Some (Errorf (''weight cache claim '' @ Quote name @
                  '' does not exist and is not managed by this ModelDeployment''))))
           else (case PVC md of
                   Inl p \<Rightarrow> State_Monad.return (Inl p)
                 | Inr pvc \<Rightarrow>
                     (case own r md (PVCObject pvc) of
                        Inl e \<Rightarrow> State_Monad.return (Inr (Some
                          (Wrapf ''set owner reference on weight cache claim'' (Library_error e))))
                      | Inr obj \<Rightarrow>
                          do {
                            cerr \<leftarrow> create_tolerant r obj;
                            State_Monad.return (Inr (map_option
                              (\<lambda>e. Wrapf ''create weight cache claim'' (Library_error e)) cerr))
                          }))
     }"

definition findJobCondition :: "Job \<Rightarrow> string \<Rightarrow> JobCondition option" where
  "findJobCondition job t = List.find (\<lambda>c. JobCondition_Type c = t) (JobStatus_Conditions (Job_Status job))"

definition JobFailed :: string where "JobFailed = ''Failed''"

text \<open>The loop of \<open>pruneStaleWarmJobs\<close>; a missing label reads as the empty string.\<close>

fun deleteStale ::
  "('w, 'e, 'u) ModelDeploymentReconciler \<Rightarrow> string \<Rightarrow> Job list \<Rightarrow>
   (('w, 'e, 'u) env, 'e error option) state" where
  "deleteStale r cacheKey [] = State_Monad.return None"
| "deleteStale r cacheKey (job # jobs) =
     (if (case ObjectMeta_Labels (Job_ObjectMeta job) LabelCacheKey of None \<Rightarrow> '''' | Some v \<Rightarrow> v) = cacheKey
      then deleteStale r cacheKey jobs
      else do {
        err \<leftarrow> Delete_Object r (JobObject job) (Some DeletePropagationBackground);
        case IgnoreNotFound (R_Lib r) err of
          Some e \<Rightarrow> State_Monad.return (Some (Wrapf
            (''delete stale warm job '' @ ObjectMeta_Name (Job_ObjectMeta job)) (Library_error e)))
        | None \<Rightarrow> deleteStale r cacheKey jobs
      })"

definition pruneStaleWarmJobs ::
  "('w, 'e, 'u) ModelDeploymentReconciler \<Rightarrow> ModelDeployment \<Rightarrow> string \<Rightarrow>
   (('w, 'e, 'u) env, 'e error option) state" where
  "pruneStaleWarmJobs r md cacheKey =
     do {
       res \<leftarrow> List_Job r (MD_Namespace md) [LabelInstance \<mapsto> MD_Name md, LabelRole \<mapsto> RoleWarm];
       case res of
         Inl e \<Rightarrow> State_Monad.return (Some (Wrapf ''list warm jobs'' (Library_error e)))
       | Inr jobs \<Rightarrow> deleteStale r cacheKey jobs
     }"

text \<open>
  The switch on the result of reading the Job: the updated state and the error with which the
  function returns at once, if any.
\<close>

definition warmJobState ::
  "('w, 'e, 'u) ModelDeploymentReconciler \<Rightarrow> ModelDeployment \<Rightarrow> string \<Rightarrow> cacheState \<Rightarrow> 'e + Job \<Rightarrow>
   (('w, 'e, 'u) env, panic + (cacheState \<times> 'e error option)) state" where
  "warmJobState r md cacheKey state res =
     (case res of
        Inl err \<Rightarrow>
          if IsNotFound (R_Lib r) err
          then (case WarmJob md cacheKey of
                  Inl p \<Rightarrow> State_Monad.return (Inl p)
                | Inr desired \<Rightarrow>
                    (case own r md (JobObject desired) of
                       Inl e \<Rightarrow> State_Monad.return (Inr (state, Some
                         (Wrapf ''set owner reference on warm job'' (Library_error e))))
                     | Inr obj \<Rightarrow>
                         do {
                           cerr \<leftarrow> create_tolerant r obj;
                           case cerr of
                             Some e \<Rightarrow> State_Monad.return
                               (Inr (state, Some (Wrapf ''create warm job'' (Library_error e))))
                           | None \<Rightarrow>
                               do {
                                 Record_Eventf r md ''Normal'' ReasonWarming ''WarmCache''
                                   (''downloading weights for '' @ ModelSpec_Name (Spec_Model (MD_Spec md))
                                    @ ''@'' @ ModelSpec_Revision (Spec_Model (MD_Spec md))
                                    @ '' into the shared cache'');
                                 State_Monad.return (Inr (state, None))
                               }
                         }))
          else State_Monad.return (Inr (state, Some (Wrapf ''read warm job'' (Library_error err))))
      | Inr job \<Rightarrow>
          (let state1 = state\<lparr>cache_warm := 0 <s JobStatus_Succeeded (Job_Status job)\<rparr>
           in State_Monad.return (Inr
                (case findJobCondition job JobFailed of
                   Some cond \<Rightarrow>
                     if JobCondition_Status cond = ConditionTrue
                     then state1\<lparr>cache_failed := True,
                            cache_message := ''warm-up job '' @ cache_jobName state1 @ '' failed: ''
                                             @ JobCondition_Message cond\<rparr>
                     else state1
                 | None \<Rightarrow> state1, None))))"

definition reconcileWeightCache ::
  "('w, 'e, 'u) ModelDeploymentReconciler \<Rightarrow> ModelDeployment \<Rightarrow> string \<Rightarrow>
   (('w, 'e, 'u) env, panic + (cacheState \<times> 'e error option)) state" where
  "reconcileWeightCache r md cacheKey =
     (if WeightCache md = None then State_Monad.return (Inr (cacheState0, None))
      else do {
        claim \<leftarrow> ensureClaim r md;
        case claim of
          Inl p \<Rightarrow> State_Monad.return (Inl p)
        | Inr (Some err) \<Rightarrow> State_Monad.return (Inr (cacheState0, Some err))
        | Inr None \<Rightarrow>
            do {
              let state = cacheState0\<lparr>cache_enabled := True, cache_jobName := WarmJobName md cacheKey\<rparr>;
              res \<leftarrow> Get_Job r (object_key (MD_Namespace md) (cache_jobName state));
              step \<leftarrow> warmJobState r md cacheKey state res;
              case step of
                Inl p \<Rightarrow> State_Monad.return (Inl p)
              | Inr (state, Some err) \<Rightarrow> State_Monad.return (Inr (state, Some err))
              | Inr (state, None) \<Rightarrow>
                  do {
                    perr \<leftarrow> pruneStaleWarmJobs r md cacheKey;
                    State_Monad.return (Inr (state, perr))
                  }
            }
      })"

subsection \<open>The calls of the weight cache\<close>

text \<open>The only calls \<open>reconcileWeightCache\<close> can make, with what holds of their arguments.\<close>

definition own_key :: "ModelDeployment \<Rightarrow> string \<Rightarrow> ObjectKey" where
  "own_key md name = object_key (MD_Namespace md) name"

definition stale :: "string \<Rightarrow> Job \<Rightarrow> bool" where
  "stale cacheKey job \<longleftrightarrow>
     (case ObjectMeta_Labels (Job_ObjectMeta job) LabelCacheKey of None \<Rightarrow> '''' | Some v \<Rightarrow> v) \<noteq> cacheKey"

definition warm_selector :: "ModelDeployment \<Rightarrow> labels" where
  "warm_selector md = [LabelInstance \<mapsto> MD_Name md, LabelRole \<mapsto> RoleWarm]"

fun cache_call ::
  "('w, 'e, 'u) ModelDeploymentReconciler \<Rightarrow> ModelDeployment \<Rightarrow> string \<Rightarrow> ('e, 'u) call \<Rightarrow> bool" where
  "cache_call r md k (GetPVC key res) \<longleftrightarrow> key = own_key md (PVCName md)"
| "cache_call r md k (GetJob key res) \<longleftrightarrow> key = own_key md (WarmJobName md k)"
| "cache_call r md k (ListJobs ns lbls res) \<longleftrightarrow> ns = MD_Namespace md \<and> lbls = warm_selector md"
| "cache_call r md k (Create obj res) \<longleftrightarrow>
     (\<exists>pvc. OwnsPVC md \<and> PVC md = Inr pvc \<and> own r md (PVCObject pvc) = Inr obj) \<or>
     (\<exists>job. WarmJob md k = Inr job \<and> own r md (JobObject job) = Inr obj)"
| "cache_call r md k (Delete obj policy res) \<longleftrightarrow>
     (\<exists>job. obj = JobObject job \<and> stale k job) \<and> policy = Some DeletePropagationBackground"
| "cache_call r md k (Eventf md' ty reason action note) \<longleftrightarrow> md' = md \<and> reason = ReasonWarming"
| "cache_call r md k _ \<longleftrightarrow> False"

lemma emits_create_tolerant [emits_intros]:
  assumes "\<And>e. R (case e of None \<Rightarrow> None | Some x \<Rightarrow> if IsAlreadyExists (R_Lib r) x then None else Some x)
                  [Create obj e]"
  shows "emits (create_tolerant r obj) R"
  unfolding create_tolerant_def call_defs by (intro emits_intros) (simp add: assms)

lemma own_Inr_iff:
  "own r md obj = Inr obj' \<longleftrightarrow>
     (\<exists>m. SetControllerReference (R_Lib r) md (Object_meta obj) = Inr m \<and> obj' = with_meta obj m)"
  by (cases "SetControllerReference (R_Lib r) md (Object_meta obj)") (auto simp: own_def)

lemma PVC_not_panic: "WeightCache md \<noteq> None \<Longrightarrow> \<exists>pvc. PVC md = Inr pvc"
  by (auto simp: PVC_def)

lemma WarmJob_not_panic: "WeightCache md \<noteq> None \<Longrightarrow> \<exists>job. WarmJob md k = Inr job"
  by (auto simp: WarmJob_def)

text \<open>A run of \<open>ensureClaim\<close>: the claim is read, and created only when it was not found.\<close>

definition claim_run ::
  "('w, 'e, 'u) ModelDeploymentReconciler \<Rightarrow> ModelDeployment \<Rightarrow> string \<Rightarrow>
   panic + 'e error option \<Rightarrow> ('e, 'u) call list \<Rightarrow> bool" where
  "claim_run r md k out t \<longleftrightarrow> (\<exists>v. out = Inr v) \<and> list_all (cache_call r md k) t \<and>
     (\<exists>claim t'. t = GetPVC (own_key md (PVCName md)) claim # t' \<and>
        (t' = [] \<or> (\<exists>e pvc e'. claim = Inl e \<and> IsNotFound (R_Lib r) e \<and> t' = [Create (PVCObject pvc) e'])))"

lemma ensureClaim_emits:
  assumes "WeightCache md \<noteq> None"
  shows "emits (ensureClaim r md) (claim_run r md k)"
  using assms PVC_not_panic [OF assms] unfolding ensureClaim_def call_defs
  by (intro emits_intros) (auto simp: claim_run_def own_key_def own_Inr_iff)

text \<open>The deletion of a stale Job that succeeded, or found the Job gone.\<close>

definition deleted :: "('w, 'e, 'u) ModelDeploymentReconciler \<Rightarrow> Job \<Rightarrow> ('e, 'u) call \<Rightarrow> bool" where
  "deleted r job c \<longleftrightarrow>
     (\<exists>e. c = Delete (JobObject job) (Some DeletePropagationBackground) e \<and>
          IgnoreNotFound (R_Lib r) e = None)"

fun deletes_one_of :: "Job list \<Rightarrow> ('e, 'u) call \<Rightarrow> bool" where
  "deletes_one_of jobs (Delete (JobObject job) policy e) \<longleftrightarrow> job \<in> set jobs"
| "deletes_one_of jobs _ \<longleftrightarrow> False"

lemma deletes_one_of_Cons: "deletes_one_of jobs c \<Longrightarrow> deletes_one_of (job # jobs) c"
  by (induction jobs c rule: deletes_one_of.induct) simp_all

lemma list_all_deletes_Cons:
  "list_all (deletes_one_of jobs) t \<Longrightarrow> list_all (deletes_one_of (job # jobs)) t"
  by (auto simp: list_all_iff intro: deletes_one_of_Cons)

lemma deleteStale_Cons:
  "deleteStale r k (job # jobs) =
     (if \<not> stale k job then deleteStale r k jobs
      else do {
        err \<leftarrow> Delete_Object r (JobObject job) (Some DeletePropagationBackground);
        case IgnoreNotFound (R_Lib r) err of
          Some e \<Rightarrow> State_Monad.return (Some (Wrapf
            (''delete stale warm job '' @ ObjectMeta_Name (Job_ObjectMeta job)) (Library_error e)))
        | None \<Rightarrow> deleteStale r k jobs
      })"
  by (simp add: stale_def)

lemma deleteStale_emits:
  "emits (deleteStale r k jobs) (\<lambda>err t. list_all (cache_call r md k) t \<and>
     list_all (deletes_one_of jobs) t \<and>
     (err = None \<longrightarrow> list_all2 (deleted r) (filter (stale k) jobs) t))"
proof (induction jobs)
  case Nil
  then show ?case by (auto intro!: emits_intros)
next
  case (Cons job jobs)
  show ?case
  proof (cases "stale k job")
    case True
    then show ?thesis
      unfolding deleteStale_Cons call_defs
      by (auto intro!: emits_intros emits_mono [OF Cons.IH] simp: deleted_def list_all_deletes_Cons)
  next
    case False
    then show ?thesis
      by (auto intro!: emits_mono [OF Cons.IH] simp: deleteStale_Cons list_all_deletes_Cons
          simp del: deleteStale.simps)
  qed
qed

text \<open>A run of \<open>pruneStaleWarmJobs\<close>: the Jobs are listed and stale ones of the list deleted.\<close>

definition prune_run ::
  "('w, 'e, 'u) ModelDeploymentReconciler \<Rightarrow> ModelDeployment \<Rightarrow> string \<Rightarrow>
   'e error option \<Rightarrow> ('e, 'u) call list \<Rightarrow> bool" where
  "prune_run r md k err t \<longleftrightarrow> list_all (cache_call r md k) t \<and>
     (\<exists>g t'. t = ListJobs (MD_Namespace md) (warm_selector md) g # t' \<and>
        (t' = [] \<or> (\<exists>jobs. g = Inr jobs \<and> list_all (deletes_one_of jobs) t')) \<and>
        (err = None \<longrightarrow> (\<exists>jobs. g = Inr jobs \<and> list_all2 (deleted r) (filter (stale k) jobs) t')))"

lemma pruneStaleWarmJobs_emits: "emits (pruneStaleWarmJobs r md k) (prune_run r md k)"
  unfolding pruneStaleWarmJobs_def call_defs
  by (auto intro!: emits_intros emits_mono [OF deleteStale_emits [where md = md]]
      simp: prune_run_def warm_selector_def)

text \<open>What the Job read from the cluster says about the cache.\<close>

definition job_failed :: "Job \<Rightarrow> bool" where
  "job_failed job \<longleftrightarrow>
     (case findJobCondition job JobFailed of None \<Rightarrow> False | Some c \<Rightarrow> JobCondition_Status c = ConditionTrue)"

text \<open>What a failed Job is reported with.\<close>

definition job_message :: "string \<Rightarrow> 'e + Job \<Rightarrow> string" where
  "job_message name res =
     (case res of
        Inl e \<Rightarrow> ''''
      | Inr job \<Rightarrow>
          (case findJobCondition job JobFailed of
             Some c \<Rightarrow> if JobCondition_Status c = ConditionTrue
                       then ''warm-up job '' @ name @ '' failed: '' @ JobCondition_Message c else ''''
           | None \<Rightarrow> ''''))"

definition job_says :: "ModelDeployment \<Rightarrow> string \<Rightarrow> 'e + Job \<Rightarrow> cacheState \<Rightarrow> bool" where
  "job_says md k res st \<longleftrightarrow>
     cache_enabled st \<and> cache_jobName st = WarmJobName md k \<and>
     (cache_warm st \<longleftrightarrow> (\<exists>job. res = Inr job \<and> 0 <s JobStatus_Succeeded (Job_Status job))) \<and>
     (cache_failed st \<longleftrightarrow> (\<exists>job. res = Inr job \<and> job_failed job)) \<and>
     cache_message st = job_message (WarmJobName md k) res"

lemma job_says_unique: "job_says md k res st \<Longrightarrow> job_says md k res st' \<Longrightarrow> st = st'"
  by (cases st; cases st') (auto simp: job_says_def)

text \<open>The switch: nothing is called when the Job was read; otherwise it is created.\<close>

fun creates_job :: "('e, 'u) call \<Rightarrow> bool" where
  "creates_job (Create (JobObject job) e) \<longleftrightarrow> True"
| "creates_job (Eventf md ty reason action note) \<longleftrightarrow> True"
| "creates_job _ \<longleftrightarrow> False"

definition switch_run ::
  "('w, 'e, 'u) ModelDeploymentReconciler \<Rightarrow> ModelDeployment \<Rightarrow> string \<Rightarrow> 'e + Job \<Rightarrow>
   panic + (cacheState \<times> 'e error option) \<Rightarrow> ('e, 'u) call list \<Rightarrow> bool" where
  "switch_run r md k res out t \<longleftrightarrow> list_all (cache_call r md k) t \<and>
     (\<exists>st err. out = Inr (st, err) \<and> job_says md k res st) \<and>
     (t = [] \<or> (\<exists>e. res = Inl e \<and> IsNotFound (R_Lib r) e)) \<and> list_all creates_job t"

lemma warmJobState_emits:
  assumes "WeightCache md \<noteq> None"
    and "st = cacheState0\<lparr>cache_enabled := True, cache_jobName := WarmJobName md k\<rparr>"
  shows "emits (warmJobState r md k st res) (switch_run r md k res)"
  using assms WarmJob_not_panic [OF assms(1), of k] unfolding warmJobState_def call_defs
  by (intro emits_intros)
     (auto simp: switch_run_def job_says_def job_failed_def job_message_def cacheState0_def own_Inr_iff
        split: option.splits if_splits)

subsection \<open>The contract of the weight cache\<close>

text \<open>
  What a run of \<open>reconcileWeightCache\<close> shows a caller: it returns, with no calls at all when no
  cache is configured; otherwise it reads the claim first, creates it only when it is missing,
  reports on the Job of the current key as it was read, creates that Job only when it is missing,
  and, when it returns no error, has deleted every stale Job it listed.
\<close>

definition cache_run ::
  "('w, 'e, 'u) ModelDeploymentReconciler \<Rightarrow> ModelDeployment \<Rightarrow> string \<Rightarrow>
   panic + (cacheState \<times> 'e error option) \<Rightarrow> ('e, 'u) call list \<Rightarrow> bool" where
  "cache_run r md k out t \<longleftrightarrow>
     (\<exists>st err. out = Inr (st, err) \<and>
        (if WeightCache md = None then t = [] \<and> st = cacheState0 \<and> err = None
         else list_all (cache_call r md k) t \<and>
           (\<exists>claim t'. t = GetPVC (own_key md (PVCName md)) claim # t' \<and>
              (\<forall>pvc e. Create (PVCObject pvc) e \<in> set t \<longrightarrow> (\<exists>e. claim = Inl e \<and> IsNotFound (R_Lib r) e))) \<and>
           (st = cacheState0 \<and> err \<noteq> None \<or>
            (\<exists>res. GetJob (own_key md (WarmJobName md k)) res \<in> set t \<and> job_says md k res st \<and>
               (\<forall>job e. Create (JobObject job) e \<in> set t \<longrightarrow> (\<exists>e. res = Inl e \<and> IsNotFound (R_Lib r) e)))) \<and>
           (err = None \<longrightarrow> (\<exists>jobs. ListJobs (MD_Namespace md) (warm_selector md) (Inr jobs) \<in> set t \<and>
              (\<forall>job \<in> set jobs. stale k job \<longrightarrow> (\<exists>c \<in> set t. deleted r job c))))))"

lemma list_all2_covers: "list_all2 P xs ys \<Longrightarrow> x \<in> set xs \<Longrightarrow> \<exists>y \<in> set ys. P x y"
  by (induction rule: list_all2_induct) auto

lemma deletes_one_ofD: "list_all (deletes_one_of jobs) t \<Longrightarrow> Create obj e \<notin> set t"
  by (auto simp: list_all_iff)

lemma cache_run_claim_error:
  assumes "WeightCache md \<noteq> None" "claim_run r md k (Inr (Some err)) t"
  shows "cache_run r md k (Inr (cacheState0, Some err)) t"
  using assms by (auto simp: cache_run_def claim_run_def)

lemma switch_run_no_claim: "switch_run r md k res out t \<Longrightarrow> Create (PVCObject pvc) e \<notin> set t"
  by (auto simp: switch_run_def list_all_iff)

lemma prune_run_no_create: "prune_run r md k err t \<Longrightarrow> Create obj e \<notin> set t"
  by (auto simp: prune_run_def dest: deletes_one_ofD)

lemma prune_run_deletes:
  "prune_run r md k None t \<Longrightarrow>
   \<exists>jobs. ListJobs (MD_Namespace md) (warm_selector md) (Inr jobs) \<in> set t \<and>
     (\<forall>job \<in> set jobs. stale k job \<longrightarrow> (\<exists>c \<in> set t. deleted r job c))"
proof -
  assume "prune_run r md k None t"
  then obtain jobs t' where t: "t = ListJobs (MD_Namespace md) (warm_selector md) (Inr jobs) # t'"
    and del: "list_all2 (deleted r) (filter (stale k) jobs) t'"
    by (auto simp: prune_run_def)
  have "\<exists>c \<in> set t'. deleted r job c" if "job \<in> set jobs" "stale k job" for job
    using list_all2_covers [OF del, of job] that by simp
  with t show ?thesis by auto
qed

text \<open>The parts of a run put together; \<open>t3\<close> is empty when the switch returned an error.\<close>

lemma cache_run_parts:
  assumes "WeightCache md \<noteq> None" "claim_run r md k (Inr None) t1"
    and "switch_run r md k res (Inr (st, err)) t2"
    and "t3 = [] \<and> err' = err \<and> err \<noteq> None \<or> prune_run r md k err' t3"
  shows "cache_run r md k (Inr (st, err')) (t1 @ GetJob (own_key md (WarmJobName md k)) res # t2 @ t3)"
proof -
  define t where "t = t1 @ GetJob (own_key md (WarmJobName md k)) res # t2 @ t3"
  from assms(2) obtain claim t' where t1: "t1 = GetPVC (own_key md (PVCName md)) claim # t'"
    "t' = [] \<or> (\<exists>e pvc e'. claim = Inl e \<and> IsNotFound (R_Lib r) e \<and> t' = [Create (PVCObject pvc) e'])"
    by (auto simp: claim_run_def)
  have no_create: "Create obj e \<notin> set t3" for obj e
    using assms(4) prune_run_no_create [of r md k err' t3] by auto
  have calls: "list_all (cache_call r md k) t"
    using assms(2-4) by (auto simp: t_def claim_run_def switch_run_def prune_run_def)
  have hd: "\<exists>t'. t = GetPVC (own_key md (PVCName md)) claim # t'"
    by (simp add: t_def t1(1))
  have claim: "\<exists>e. claim = Inl e \<and> IsNotFound (R_Lib r) e" if "Create (PVCObject pvc) e \<in> set t" for pvc e
    using that t1 no_create switch_run_no_claim [OF assms(3)] by (auto simp: t_def)
  have says: "GetJob (own_key md (WarmJobName md k)) res \<in> set t" "job_says md k res st"
    using assms(3) by (auto simp: t_def switch_run_def)
  have job: "\<exists>e. res = Inl e \<and> IsNotFound (R_Lib r) e" if "Create (JobObject job) e \<in> set t" for job e
    using that t1 no_create assms(3) by (auto simp: t_def switch_run_def)
  have prune: "\<exists>jobs. ListJobs (MD_Namespace md) (warm_selector md) (Inr jobs) \<in> set t \<and>
     (\<forall>job \<in> set jobs. stale k job \<longrightarrow> (\<exists>c \<in> set t. deleted r job c))" if "err' = None"
    using that assms(4) prune_run_deletes [of r md k t3] by (fastforce simp: t_def)
  show ?thesis
    unfolding cache_run_def if_not_P [OF assms(1)] t_def [symmetric]
    using calls hd claim says job prune by blast
qed

lemma reconcileWeightCache_emits: "emits (reconcileWeightCache r md k) (cache_run r md k)"
proof (cases "WeightCache md = None")
  case True
  then show ?thesis
    by (auto intro!: emits_intros simp: reconcileWeightCache_def cache_run_def)
next
  case False
  have claim_ok: "claim_run r md k out t \<Longrightarrow> \<exists>v. out = Inr v" for out and t :: "('b, 'c) call list"
    by (simp add: claim_run_def)
  have switch_ok: "switch_run r md k res out t \<Longrightarrow> \<exists>v. out = Inr v" for res out and t :: "('b, 'c) call list"
    by (auto simp: switch_run_def)
  show ?thesis
    unfolding reconcileWeightCache_def if_not_P [OF False] Let_def call_defs
    by (intro emits_intros emits_mono [OF ensureClaim_emits [OF False, of r k]]
          emits_mono [OF warmJobState_emits [OF False refl]] emits_mono [OF pruneStaleWarmJobs_emits])
       (auto dest: claim_ok switch_ok simp: own_key_def [symmetric]
          intro: cache_run_claim_error [OF False] cache_run_parts [OF False]
            cache_run_parts [OF False, of _ _ _ _ _ _ _ "[]", simplified])
qed

end
