(* ===== verification/Test_Cluster.thy ===== *)
theory Test_Cluster
  imports Workloads Cluster
begin

section \<open>A concrete cluster for the witnesses\<close>

text \<open>
  One instance of the parameters in which every documented law holds: a library over a world that is
  a clock, string errors of which one is the not-found error, and objects that stand for their own
  unstructured form; and a client that answers each kind of request with a given value. Witnesses
  apply the theorems to it.
\<close>

definition NotFound :: string where "NotFound = ''NotFound''"

definition tick :: "(gotime, gotime) state" where
  "tick = State (\<lambda>t. (t, t + 1))"

definition test_owner :: "ModelDeployment \<Rightarrow> OwnerReference" where
  "test_owner md = \<lparr>OwnerReference_Kind = ''ModelDeployment'', OwnerReference_Name = MD_Name md,
                    OwnerReference_Controller = True\<rparr>"

definition test_library :: "(gotime, string, Object) Library" where
  "test_library =
     \<lparr>IsNotFound = (\<lambda>e. e = NotFound),
      IsAlreadyExists = (\<lambda>e. e = ''AlreadyExists''),
      IgnoreNotFound = (\<lambda>e. if e = Some NotFound then None else e),
      ErrorText = id,
      AddFinalizer = (\<lambda>md f. if has_finalizer f md then (md, False)
        else (set_finalizers (ObjectMeta_Finalizers (MD_ObjectMeta md) @ [f]) md, True)),
      RemoveFinalizer = (\<lambda>md f.
        set_finalizers (filter (\<lambda>g. g \<noteq> f) (ObjectMeta_Finalizers (MD_ObjectMeta md))) md),
      ContainsFinalizer = (\<lambda>md f. has_finalizer f md),
      SetControllerReference = (\<lambda>md m. Inr (m\<lparr>ObjectMeta_OwnerReferences := [test_owner md]\<rparr>)),
      SetStatusCondition = (\<lambda>cs c. State (\<lambda>t. (put_condition t cs c, t))),
      Semantic_DeepEqual = (=),
      Set_String = (\<lambda>_. ''selector''),
      ToUnstructured = Inr,
      RemoveNestedField = (\<lambda>u path. u),
      Time_Now = tick\<rparr>"

lemma test_library_documented [simp]:
  "documented_errors test_library" "documented_finalizers test_library"
  "documented_owner test_library" "documented_conditions test_library"
  "documented_equality test_library"
  by (auto simp: test_library_def documented_errors_def documented_finalizers_def documented_owner_def
      documented_conditions_def documented_equality_def)

definition test_client ::
  "ModelDeployment \<Rightarrow> string + Job \<Rightarrow> string + Deployment \<Rightarrow> Pod list \<Rightarrow> string option \<Rightarrow>
   (gotime, string, Object) Client" where
  "test_client md job dep pods applied =
     \<lparr>Client_Get_ModelDeployment = (\<lambda>_. State_Monad.return (Inr md)),
      Client_Get_Job = (\<lambda>_. State_Monad.return job),
      Client_Get_PersistentVolumeClaim = (\<lambda>_. State_Monad.return (Inl NotFound)),
      Client_Get_Deployment = (\<lambda>_. State_Monad.return dep),
      Client_List_Job = (\<lambda>_ _. State_Monad.return (Inr [])),
      Client_List_Pod = (\<lambda>_ _. State_Monad.return (Inr pods)),
      Client_Create = (\<lambda>_. State_Monad.return None),
      Client_Update = (\<lambda>md. State_Monad.return (Inr md)),
      Client_Status_Update = (\<lambda>md. State_Monad.return (Inr md)),
      Client_Delete = (\<lambda>_ _. State_Monad.return (Some NotFound)),
      Client_DeleteAllOf_Job = (\<lambda>_ _ _. State_Monad.return None),
      Client_Apply = (\<lambda>_ _ _. State_Monad.return applied)\<rparr>"

definition test_reconciler ::
  "(gotime, string, Object) Client \<Rightarrow>
   (string \<Rightarrow> string \<Rightarrow> Selector \<Rightarrow> (gotime, string error + int32) state) option \<Rightarrow>
   (gotime, string, Object) ModelDeploymentReconciler" where
  "test_reconciler c queue =
     \<lparr>R_Client = c, R_Lib = test_library,
      R_Eventf = (\<lambda>_ _ _ _ _. State_Monad.return ()),
      R_Queue = queue,
      R_Now = None\<rparr>"

lemma test_reconciler_simps [simp]:
  "R_Lib (test_reconciler c d) = test_library" "R_Client (test_reconciler c d) = c"
  "R_Queue (test_reconciler c d) = d"
  "R_Now (test_reconciler c d) = None" "R_Eventf (test_reconciler c d) md a b e f = State_Monad.return ()"
  by (simp_all add: test_reconciler_def)

lemma test_client_simps [simp]:
  "Client_Get_ModelDeployment (test_client md job dep pods applied) key = State_Monad.return (Inr md)"
  "Client_Get_Job (test_client md job dep pods applied) key = State_Monad.return job"
  "Client_Get_PersistentVolumeClaim (test_client md job dep pods applied) key = State_Monad.return (Inl NotFound)"
  "Client_Get_Deployment (test_client md job dep pods applied) key = State_Monad.return dep"
  "Client_List_Job (test_client md job dep pods applied) ns lbls = State_Monad.return (Inr [])"
  "Client_List_Pod (test_client md job dep pods applied) ns lbls = State_Monad.return (Inr pods)"
  "Client_Create (test_client md job dep pods applied) obj = State_Monad.return None"
  "Client_Update (test_client md job dep pods applied) md' = State_Monad.return (Inr md')"
  "Client_Status_Update (test_client md job dep pods applied) md' = State_Monad.return (Inr md')"
  "Client_Delete (test_client md job dep pods applied) obj policy = State_Monad.return (Some NotFound)"
  "Client_DeleteAllOf_Job (test_client md job dep pods applied) ns lbls policy = State_Monad.return None"
  "Client_Apply (test_client md job dep pods applied) cfg owner force = State_Monad.return applied"
  by (simp_all add: test_client_def)

lemma test_library_simps [simp]:
  "IsNotFound test_library e \<longleftrightarrow> e = NotFound" "IgnoreNotFound test_library (Some NotFound) = None"
  "ContainsFinalizer test_library md f = has_finalizer f md"
  "has_finalizer f md \<Longrightarrow> AddFinalizer test_library md f = (md, False)"
  "Semantic_DeepEqual test_library a b \<longleftrightarrow> a = b"
  "SetControllerReference test_library md m = Inr (m\<lparr>ObjectMeta_OwnerReferences := [test_owner md]\<rparr>)"
  by (simp_all add: test_library_def)

text \<open>A warm-up Job that succeeded, and a Deployment with some ready replicas.\<close>

definition test_job :: "int32 \<Rightarrow> Job" where
  "test_job succeeded =
     \<lparr>Job_TypeMeta = \<lparr>TypeMeta_APIVersion = '''', TypeMeta_Kind = ''''\<rparr>,
      Job_ObjectMeta = object_meta ''warm'' ''inference'' Map.empty,
      Job_BackoffLimit = None, Job_ActiveDeadlineSeconds = None,
      Job_Template = serving_pod fixture '''' 0 False,
      Job_Status = \<lparr>JobStatus_Succeeded = succeeded, JobStatus_Conditions = []\<rparr>\<rparr>"

definition test_deployment :: "int32 \<Rightarrow> Deployment" where
  "test_deployment n =
     (Deployment fixture '''' n False)
       \<lparr>Deployment_Status := \<lparr>DeploymentStatus_Replicas = n, DeploymentStatus_ReadyReplicas = n\<rparr>\<rparr>"

text \<open>The fixture with the finalizer in place, and the same object being deleted.\<close>

definition live :: ModelDeployment where
  "live = set_finalizers [Finalizer] fixture"

definition dying :: ModelDeployment where
  "dying = live\<lparr>MD_ObjectMeta := (MD_ObjectMeta live)\<lparr>ObjectMeta_DeletionTimestamp := Some 1\<rparr>\<rparr>"

end
