(* ===== verification/Status.thy ===== *)
theory Status
  imports Weight_Cache Test_Cluster
begin

section \<open>internal/controller/status.go: the status of a ModelDeployment\<close>

text \<open>
  The \<open>statusBuilder\<close> and the three conditions it derives, one definition per method. The builder
  holds a pointer to the object the reconcile works on; here it holds the object, and the
  controller stores the new object in the builder whenever it changes it. \<open>build\<close> runs in a
  state monad because \<open>meta.SetStatusCondition\<close> reads the clock. \<open>workloadState\<close> is declared in
  the controller's file.
\<close>

record workloadState =
  workload_replicas :: int32
  workload_readyReplicas :: int32
  workload_exists :: bool

definition workloadState0 :: workloadState where
  "workloadState0 = \<lparr>workload_replicas = 0, workload_readyReplicas = 0, workload_exists = False\<rparr>"

record 'e statusBuilder =
  sb_md :: ModelDeployment
  sb_cacheKey :: string
  sb_cache :: cacheState
  sb_workload :: workloadState
  sb_paused :: bool
  sb_queueDepth :: int32
  sb_lastScale :: "gotime option"
  sb_scaleErr :: "'e error option"

definition newStatusBuilder :: "ModelDeployment \<Rightarrow> string \<Rightarrow> 'e statusBuilder" where
  "newStatusBuilder md cacheKey =
     \<lparr>sb_md = md, sb_cacheKey = cacheKey, sb_cache = cacheState0, sb_workload = workloadState0,
      sb_paused = False, sb_queueDepth = Status_ObservedQueueDepth (MD_Status md),
      sb_lastScale = None, sb_scaleErr = None\<rparr>"

definition applyCache :: "'e statusBuilder \<Rightarrow> cacheState \<Rightarrow> 'e statusBuilder" where
  "applyCache b c = b\<lparr>sb_cache := c\<rparr>"

definition applyWorkload :: "'e statusBuilder \<Rightarrow> workloadState \<Rightarrow> bool \<Rightarrow> 'e statusBuilder" where
  "applyWorkload b w p = b\<lparr>sb_workload := w, sb_paused := p\<rparr>"

text \<open>A \<open>metav1.Condition\<close> of a type with a status; every other field is its zero value.\<close>

definition condition :: "string \<Rightarrow> string \<Rightarrow> Condition" where
  "condition t status =
     \<lparr>Condition_Type = t, Condition_Status = status, Condition_ObservedGeneration = 0,
      Condition_LastTransitionTime = 0, Condition_Reason = '''', Condition_Message = ''''\<rparr>"

definition weightsCached :: "'e statusBuilder \<Rightarrow> Condition" where
  "weightsCached b =
     (let c = condition ConditionWeightsCached ConditionFalse
      in if \<not> cache_enabled (sb_cache b)
         then c\<lparr>Condition_Reason := ReasonCacheDisabled,
                Condition_Message :=
                  ''no shared weight cache is configured: every replica downloads its own copy''\<rparr>
         else if cache_failed (sb_cache b)
         then c\<lparr>Condition_Reason := ReasonWarmFailed, Condition_Message := cache_message (sb_cache b)\<rparr>
         else if cache_warm (sb_cache b)
         then c\<lparr>Condition_Status := ConditionTrue, Condition_Reason := ReasonCached,
                Condition_Message :=
                  ''weights for cache key '' @ sb_cacheKey b @ '' are on the shared volume''\<rparr>
         else c\<lparr>Condition_Reason := ReasonWarming,
                Condition_Message := ''job '' @ cache_jobName (sb_cache b) @ '' is downloading the weights''\<rparr>)"

definition serving_message :: "int32 \<Rightarrow> int32 \<Rightarrow> string" where
  "serving_message serving desired =
     Itoa (sint serving) @ ''/'' @ Itoa (sint desired) @ '' replicas are serving''"

definition ready :: "'e statusBuilder \<Rightarrow> Condition" where
  "ready b =
     (let c = condition ConditionReady ConditionFalse;
          desired = Replicas (sb_md b);
          serving = serving_message (workload_readyReplicas (sb_workload b)) desired
      in if desired = 0
         then c\<lparr>Condition_Reason := ReasonScaledToZero, Condition_Message := ''no replicas requested''\<rparr>
         else if sb_paused b
         then c\<lparr>Condition_Reason := ReasonWaitingForWeights,
                Condition_Message :=
                  ''the rollout is held until the weights for the current spec are cached''\<rparr>
         else if workload_exists (sb_workload b) \<and> desired \<le>s workload_readyReplicas (sb_workload b)
         then c\<lparr>Condition_Status := ConditionTrue, Condition_Reason := ReasonReplicasReady,
                Condition_Message := serving\<rparr>
         else c\<lparr>Condition_Reason := ReasonReplicasUnavailable, Condition_Message := serving\<rparr>)"

definition degraded :: "('e \<Rightarrow> string) \<Rightarrow> 'e statusBuilder \<Rightarrow> Condition" where
  "degraded txt b =
     (let c = (condition ConditionDegraded ConditionFalse)\<lparr>Condition_Reason := ReasonAsExpected\<rparr>
      in if cache_failed (sb_cache b)
         then c\<lparr>Condition_Status := ConditionTrue, Condition_Reason := ReasonWarmFailed,
                Condition_Message := cache_message (sb_cache b)\<rparr>
         else (case sb_scaleErr b of
                 Some err \<Rightarrow> c\<lparr>Condition_Status := ConditionTrue,
                               Condition_Reason := ReasonQueueMetricMissing,
                               Condition_Message := Error txt err\<rparr>
               | None \<Rightarrow> c\<lparr>Condition_Message :=
                             ''serving the requested model with the requested policy''\<rparr>))"

text \<open>The loop over the three conditions.\<close>

fun setConditions ::
  "('w, 'e, 'u) Library \<Rightarrow> int64 \<Rightarrow> Condition list \<Rightarrow> Condition list \<Rightarrow> ('w, Condition list) state" where
  "setConditions L generation conds [] = State_Monad.return conds"
| "setConditions L generation conds (c # cs) =
     do {
       conds' \<leftarrow> SetStatusCondition L conds (c\<lparr>Condition_ObservedGeneration := generation\<rparr>);
       setConditions L generation conds' cs
     }"

definition build ::
  "('w, 'e, 'u) Library \<Rightarrow> 'e statusBuilder \<Rightarrow> ModelDeploymentStatus \<Rightarrow> ('w, ModelDeploymentStatus) state" where
  "build L b prev =
     (let next = prev\<lparr>Status_ObservedGeneration := MD_Generation (sb_md b),
                      Status_CacheKey := sb_cacheKey b,
                      Status_Replicas := workload_replicas (sb_workload b),
                      Status_ReadyReplicas := workload_readyReplicas (sb_workload b),
                      Status_ObservedQueueDepth := sb_queueDepth b,
                      Status_Endpoint := Endpoint (sb_md b),
                      Status_Selector := Set_String L (SelectorLabels (sb_md b))\<rparr>;
          next = (case sb_lastScale b of
                    None \<Rightarrow> next | Some t \<Rightarrow> next\<lparr>Status_LastScaleTime := Some t\<rparr>)
      in do {
        conds \<leftarrow> setConditions L (MD_Generation (sb_md b)) (Status_Conditions next)
                  [weightsCached b, ready b, degraded (ErrorText L) b];
        State_Monad.return (next\<lparr>Status_Conditions := conds\<rparr>)
      })"

subsection \<open>Lists of conditions\<close>

lemma condition_of_None: "condition_of t cs = None \<longleftrightarrow> t \<notin> Condition_Type ` set cs"
  by (auto simp: condition_of_def find_None_iff)

lemma condition_of_type: "condition_of t cs = Some c \<Longrightarrow> Condition_Type c = t"
  by (auto simp: condition_of_def find_Some_iff)

lemma condition_of_append:
  "condition_of t (cs @ ds) = (case condition_of t cs of None \<Rightarrow> condition_of t ds | Some c \<Rightarrow> Some c)"
  by (induction cs) (simp_all add: condition_of_def)

lemma condition_of_map:
  assumes "\<And>c. Condition_Type (f c) = Condition_Type c"
  shows "condition_of t (map f cs) = map_option f (condition_of t cs)"
  using assms by (induction cs) (simp_all add: condition_of_def)

text \<open>The condition that \<open>put_condition\<close> stores.\<close>

definition stored :: "gotime \<Rightarrow> Condition list \<Rightarrow> Condition \<Rightarrow> Condition" where
  "stored t cs c =
     c\<lparr>Condition_LastTransitionTime :=
         (case condition_of (Condition_Type c) cs of
            None \<Rightarrow> t
          | Some old \<Rightarrow> if Condition_Status old = Condition_Status c
                        then Condition_LastTransitionTime old else t)\<rparr>"

lemma put_condition_lookup:
  "condition_of u (put_condition t cs c) =
     (if u = Condition_Type c then Some (stored t cs c) else condition_of u cs)"
proof (cases "condition_of (Condition_Type c) cs")
  case None
  then show ?thesis
    by (auto simp: put_condition_def condition_of_append stored_def split: option.split)
       (auto simp: condition_of_def)
next
  case (Some old)
  let ?f = "\<lambda>old. if Condition_Type old = Condition_Type c
                   then c\<lparr>Condition_LastTransitionTime :=
                            if Condition_Status old = Condition_Status c
                            then Condition_LastTransitionTime old else t\<rparr>
                   else old"
  have "put_condition t cs c = map ?f cs" using Some by (simp add: put_condition_def)
  moreover have "condition_of u (map ?f cs) = map_option ?f (condition_of u cs)"
    by (rule condition_of_map) simp
  ultimately show ?thesis
    using Some condition_of_type [OF Some]
    by (auto simp: stored_def dest: condition_of_type split: option.splits)
       (cases "condition_of u cs"; auto dest: condition_of_type)
qed

lemma put_condition_types:
  "map Condition_Type (put_condition t cs c) =
     (if condition_of (Condition_Type c) cs = None then map Condition_Type cs @ [Condition_Type c]
      else map Condition_Type cs)"
  by (simp add: put_condition_def o_def cong: if_cong)

lemma put_condition_distinct:
  "distinct (map Condition_Type cs) \<Longrightarrow> distinct (map Condition_Type (put_condition t cs c))"
  by (simp add: put_condition_types condition_of_None)

lemma put_condition_same:
  assumes "distinct (map Condition_Type cs)" "condition_of (Condition_Type c) cs = Some old"
    and "old = c\<lparr>Condition_LastTransitionTime := Condition_LastTransitionTime old\<rparr>"
  shows "put_condition t cs c = cs"
proof -
  have "x = old" if "x \<in> set cs" "Condition_Type x = Condition_Type c" for x
    using assms(1,2) that unfolding condition_of_def
    by (auto simp: find_Some_iff in_set_conv_nth distinct_conv_nth) (metis)
  moreover have "Condition_Status old = Condition_Status c"
    using assms(3) by (metis Condition.select_convs(2) Condition.surjective Condition.update_convs(4))
  ultimately have "map (\<lambda>old. if Condition_Type old = Condition_Type c
                   then c\<lparr>Condition_LastTransitionTime :=
                            if Condition_Status old = Condition_Status c
                            then Condition_LastTransitionTime old else t\<rparr>
                   else old) cs = cs"
    using assms(3) by (intro map_idI) auto
  with assms(2) show ?thesis by (simp add: put_condition_def)
qed

subsection \<open>The three conditions\<close>

lemma condition_types [simp]:
  "Condition_Type (weightsCached b) = ConditionWeightsCached"
  "Condition_Type (ready b) = ConditionReady"
  "Condition_Type (degraded txt b) = ConditionDegraded"
  by (simp_all add: weightsCached_def ready_def degraded_def condition_def Let_def split: option.split)

lemma condition_times [simp]:
  "Condition_LastTransitionTime (weightsCached b) = 0"
  "Condition_LastTransitionTime (ready b) = 0"
  "Condition_LastTransitionTime (degraded txt b) = 0"
  by (simp_all add: weightsCached_def ready_def degraded_def condition_def Let_def split: option.split)

lemma status_names [simp]: "ConditionTrue \<noteq> ConditionFalse" "ConditionFalse \<noteq> ConditionTrue"
  by (simp_all add: ConditionTrue_def ConditionFalse_def)

lemma type_names [simp]:
  "ConditionReady \<noteq> ConditionWeightsCached" "ConditionWeightsCached \<noteq> ConditionReady"
  "ConditionDegraded \<noteq> ConditionWeightsCached" "ConditionWeightsCached \<noteq> ConditionDegraded"
  "ConditionDegraded \<noteq> ConditionReady" "ConditionReady \<noteq> ConditionDegraded"
  by (simp_all add: condition_type_defs)

lemma weightsCached_true:
  "Condition_Status (weightsCached b) = ConditionTrue \<longleftrightarrow>
     cache_enabled (sb_cache b) \<and> \<not> cache_failed (sb_cache b) \<and> cache_warm (sb_cache b)"
  by (simp add: weightsCached_def condition_def Let_def)

lemma ready_true:
  "Condition_Status (ready b) = ConditionTrue \<longleftrightarrow>
     Replicas (sb_md b) \<noteq> 0 \<and> \<not> sb_paused b \<and> workload_exists (sb_workload b) \<and>
     Replicas (sb_md b) \<le>s workload_readyReplicas (sb_workload b)"
  by (simp add: ready_def condition_def Let_def)

lemma degraded_true:
  "Condition_Status (degraded txt b) = ConditionTrue \<longleftrightarrow>
     cache_failed (sb_cache b) \<or> sb_scaleErr b \<noteq> None"
  by (simp add: degraded_def condition_def Let_def split: option.split)

text \<open>The conditions as \<open>build\<close> hands them to the library, in its order.\<close>

definition built :: "('e \<Rightarrow> string) \<Rightarrow> 'e statusBuilder \<Rightarrow> Condition list" where
  "built txt b =
     map (\<lambda>c. c\<lparr>Condition_ObservedGeneration := MD_Generation (sb_md b)\<rparr>)
       [weightsCached b, ready b, degraded txt b]"

lemma build_puts:
  assumes "documented_conditions L" "distinct (map Condition_Type (Status_Conditions prev))"
    and "run_state (build L b prev) w = (next, w')"
  obtains t1 t2 t3 c1 c2 c3 where "built (ErrorText L) b = [c1, c2, c3]"
    "Status_Conditions next =
       put_condition t3 (put_condition t2 (put_condition t1 (Status_Conditions prev) c1) c2) c3"
proof -
  let ?g = "\<lambda>c. c\<lparr>Condition_ObservedGeneration := MD_Generation (sb_md b)\<rparr>"
  let ?c1 = "?g (weightsCached b)" and ?c2 = "?g (ready b)" and ?c3 = "?g (degraded (ErrorText L) b)"
  have put: "\<exists>t. fst (run_state (SetStatusCondition L cs c) w) = put_condition t cs c"
    if "distinct (map Condition_Type cs)" "Condition_LastTransitionTime c = 0" for cs c w
    using assms(1) that by (auto simp: documented_conditions_def time_IsZero_def)
  obtain x1 w1 where r1: "run_state (SetStatusCondition L (Status_Conditions prev) ?c1) w = (x1, w1)"
    by fastforce
  with put [OF assms(2), of ?c1 w] obtain t1 where t1: "x1 = put_condition t1 (Status_Conditions prev) ?c1"
    by auto
  then have d1: "distinct (map Condition_Type x1)" using assms(2) by (simp add: put_condition_distinct)
  obtain x2 w2 where r2: "run_state (SetStatusCondition L x1 ?c2) w1 = (x2, w2)" by fastforce
  with put [OF d1, of ?c2 w1] obtain t2 where t2: "x2 = put_condition t2 x1 ?c2" by auto
  then have d2: "distinct (map Condition_Type x2)" using d1 by (simp add: put_condition_distinct)
  obtain x3 w3 where r3: "run_state (SetStatusCondition L x2 ?c3) w2 = (x3, w3)" by fastforce
  with put [OF d2, of ?c3 w2] obtain t3 where t3: "x3 = put_condition t3 x2 ?c3" by auto
  have "Status_Conditions next = x3"
    using assms(3) r1 r2 r3 by (auto simp: build_def Let_def split: option.splits)
  then show thesis using t1 t2 t3 by (intro that [of ?c1 ?c2 ?c3]) (simp_all add: built_def)
qed

lemma built_types:
  "built txt b = [c1, c2, c3] \<Longrightarrow>
     Condition_Type c1 = ConditionWeightsCached \<and> Condition_Type c2 = ConditionReady \<and>
     Condition_Type c3 = ConditionDegraded"
  by (auto simp: built_def)

text \<open>The lookups in the built status.\<close>

lemma build_lookup:
  assumes "documented_conditions L" "distinct (map Condition_Type (Status_Conditions prev))"
    and "run_state (build L b prev) w = (next, w')" "c \<in> set (built (ErrorText L) b)"
  obtains t where "condition_of (Condition_Type c) (Status_Conditions next) =
     Some (stored t (Status_Conditions prev) c)"
proof -
  obtain t1 t2 t3 c1 c2 c3 where b: "built (ErrorText L) b = [c1, c2, c3]"
    "Status_Conditions next =
       put_condition t3 (put_condition t2 (put_condition t1 (Status_Conditions prev) c1) c2) c3"
    using build_puts [OF assms(1-3)] by metis
  have st: "stored t (put_condition u cs d) x = stored t cs x"
    if "Condition_Type x \<noteq> Condition_Type d" for t u cs d x
    using that by (simp add: stored_def put_condition_lookup)
  from assms(4) b(1) consider "c = c1" | "c = c2" | "c = c3" by auto
  then show thesis
    using built_types [OF b(1)] b(2)
    by cases (rule that, simp add: put_condition_lookup st)+
qed

lemma build_other:
  assumes "documented_conditions L" "distinct (map Condition_Type (Status_Conditions prev))"
    and "run_state (build L b prev) w = (next, w')"
  shows "u \<notin> {ConditionWeightsCached, ConditionReady, ConditionDegraded} \<Longrightarrow>
           condition_of u (Status_Conditions next) = condition_of u (Status_Conditions prev)"
    and "distinct (map Condition_Type (Status_Conditions next))"
proof -
  obtain t1 t2 t3 c1 c2 c3 where b: "built (ErrorText L) b = [c1, c2, c3]"
    "Status_Conditions next =
       put_condition t3 (put_condition t2 (put_condition t1 (Status_Conditions prev) c1) c2) c3"
    using build_puts [OF assms] by metis
  show "u \<notin> {ConditionWeightsCached, ConditionReady, ConditionDegraded} \<Longrightarrow>
           condition_of u (Status_Conditions next) = condition_of u (Status_Conditions prev)"
    using built_types [OF b(1)] b(2) by (simp add: put_condition_lookup)
  show "distinct (map Condition_Type (Status_Conditions next))"
    using b(2) assms(2) by (simp add: put_condition_distinct)
qed

text \<open>Every field of the status but the conditions.\<close>

lemma build_fields:
  assumes "run_state (build L b prev) w = (next, w')"
  shows "next\<lparr>Status_Conditions := []\<rparr> =
     \<lparr>Status_ObservedGeneration = MD_Generation (sb_md b), Status_Conditions = [],
      Status_CacheKey = sb_cacheKey b, Status_Replicas = workload_replicas (sb_workload b),
      Status_ReadyReplicas = workload_readyReplicas (sb_workload b),
      Status_ObservedQueueDepth = sb_queueDepth b,
      Status_LastScaleTime =
        (case sb_lastScale b of None \<Rightarrow> Status_LastScaleTime prev | Some t \<Rightarrow> Some t),
      Status_Endpoint = Endpoint (sb_md b), Status_Selector = Set_String L (SelectorLabels (sb_md b))\<rparr>"
  using assms by (auto simp: build_def Let_def split: prod.splits option.splits)

subsection \<open>Properties\<close>

text \<open>
  C29. The status \<open>build\<close> returns has each of the three conditions exactly once, as the builder
  derives it, for the generation of the object the builder holds; a condition whose status did not change keeps its
  transition time, and conditions of other types are as before.
\<close>

theorem build_reports_conditions:
  assumes "documented_conditions L" "distinct (map Condition_Type (Status_Conditions prev))"
    and "run_state (build L b prev) w = (next, w')"
  shows "Status_ObservedGeneration next = MD_Generation (sb_md b) \<and>
     distinct (map Condition_Type (Status_Conditions next)) \<and>
     (\<forall>c \<in> {weightsCached b, ready b, degraded (ErrorText L) b}. \<exists>t.
        condition_of (Condition_Type c) (Status_Conditions next) =
          Some (c\<lparr>Condition_ObservedGeneration := MD_Generation (sb_md b),
                  Condition_LastTransitionTime := t\<rparr>) \<and>
        (\<forall>old. condition_of (Condition_Type c) (Status_Conditions prev) = Some old \<longrightarrow>
           Condition_Status old = Condition_Status c \<longrightarrow> t = Condition_LastTransitionTime old)) \<and>
     (\<forall>u. u \<notin> {ConditionWeightsCached, ConditionReady, ConditionDegraded} \<longrightarrow>
        condition_of u (Status_Conditions next) = condition_of u (Status_Conditions prev))"
proof (intro conjI ballI allI impI)
  show "Status_ObservedGeneration next = MD_Generation (sb_md b)"
    using build_fields [OF assms(3)] by (cases "next") simp
  show "distinct (map Condition_Type (Status_Conditions next))" by (rule build_other [OF assms])
next
  fix u assume "u \<notin> {ConditionWeightsCached, ConditionReady, ConditionDegraded}"
  then show "condition_of u (Status_Conditions next) = condition_of u (Status_Conditions prev)"
    by (rule build_other [OF assms])
next
  fix c assume c: "c \<in> {weightsCached b, ready b, degraded (ErrorText L) b}"
  let ?c = "c\<lparr>Condition_ObservedGeneration := MD_Generation (sb_md b)\<rparr>"
  have "?c \<in> set (built (ErrorText L) b)" using c by (auto simp: built_def)
  then obtain t where "condition_of (Condition_Type ?c) (Status_Conditions next) =
      Some (stored t (Status_Conditions prev) ?c)"
    using build_lookup [OF assms] by blast
  then show "\<exists>t. condition_of (Condition_Type c) (Status_Conditions next) =
        Some (c\<lparr>Condition_ObservedGeneration := MD_Generation (sb_md b), Condition_LastTransitionTime := t\<rparr>) \<and>
      (\<forall>old. condition_of (Condition_Type c) (Status_Conditions prev) = Some old \<longrightarrow>
         Condition_Status old = Condition_Status c \<longrightarrow> t = Condition_LastTransitionTime old)"
    by (auto simp: stored_def split: option.splits)
qed

text \<open>
  Building the status again from the status just built gives the same status, whatever the
  clock says: an unchanged reconcile has nothing to write.
\<close>

lemma build_again:
  assumes "documented_conditions L" "distinct (map Condition_Type (Status_Conditions prev))"
    and "run_state (build L b prev) w = (next, w')"
  shows "fst (run_state (build L b next) w2) = next"
proof -
  obtain next2 w3 where r2: "run_state (build L b next) w2 = (next2, w3)" by fastforce
  have d: "distinct (map Condition_Type (Status_Conditions next))" by (rule build_other [OF assms])
  obtain t1 t2 t3 c1 c2 c3 where b: "built (ErrorText L) b = [c1, c2, c3]"
    "Status_Conditions next2 =
       put_condition t3 (put_condition t2 (put_condition t1 (Status_Conditions next) c1) c2) c3"
    using build_puts [OF assms(1) d r2] by metis
  have same: "put_condition t (Status_Conditions next) c = Status_Conditions next"
    if c: "c \<in> set (built (ErrorText L) b)" for t c
  proof -
    obtain u where "condition_of (Condition_Type c) (Status_Conditions next) =
        Some (stored u (Status_Conditions prev) c)"
      using build_lookup [OF assms c] .
    then show ?thesis by (rule put_condition_same [OF d]) (simp add: stored_def)
  qed
  then have "Status_Conditions next2 = Status_Conditions next" using b by simp
  moreover have "next2\<lparr>Status_Conditions := []\<rparr> = next\<lparr>Status_Conditions := []\<rparr>"
    using build_fields [OF r2] build_fields [OF assms(3)] by (cases "next") (auto split: option.splits)
  ultimately have "next2 = next" by (cases "next"; cases next2) simp
  with r2 show ?thesis by simp
qed

subsection \<open>Witnesses\<close>

definition test_builder :: "string statusBuilder" where
  "test_builder = applyWorkload (newStatusBuilder live ''key'')
     \<lparr>workload_replicas = 2, workload_readyReplicas = 2, workload_exists = True\<rparr> False"

lemma test_builder_prev: "distinct (map Condition_Type (Status_Conditions (MD_Status live)))"
  by (simp add: live_def set_finalizers_def fixture_def)

theorem build_reports_conditions_witness:
  "\<exists>next w' c. run_state (build test_library test_builder (MD_Status live)) 7 = (next, w') \<and>
     condition_of ConditionReady (Status_Conditions next) = Some c \<and> Condition_Status c = ConditionTrue"
proof -
  obtain s w' where r: "run_state (build test_library test_builder (MD_Status live)) 7 = (s, w')"
    by fastforce
  have "Condition_Status (ready test_builder) = ConditionTrue"
    by (simp add: ready_true test_builder_def applyWorkload_def newStatusBuilder_def live_def
        set_finalizers_def fixture_def word_sle_eq)
  with build_reports_conditions [OF test_library_documented(4) test_builder_prev r] r
  show ?thesis by fastforce
qed

end
