(* ===== verification/Controller.thy ===== *)
theory Controller
  imports Scaling Status
begin

section \<open>internal/controller/modeldeployment\_controller.go: the reconcile loop\<close>

text \<open>
  \<open>Reconcile\<close> and the functions it calls, each with every call, guard and early return of the
  source. Results: \<open>Inl\<close> is a panic, otherwise the value and the error of Go's multiple returns.
  The object \<open>md\<close> is threaded through the functions that change it, because \<open>Update\<close> overwrites it
  with the server's answer. Log lines are not modelled.
\<close>

record Result =
  RequeueAfter :: duration

definition second :: duration where "second = 1000000000"

definition resyncInterval :: duration where "resyncInterval = 30 * second"

definition terminationPollInterval :: duration where "terminationPollInterval = 5 * second"

definition Result0 :: Result where "Result0 = \<lparr>RequeueAfter = 0\<rparr>"

text \<open>What a handler returns, and \<open>return ctrl.Result{}, err\<close>.\<close>

type_synonym 'e outcome = "panic + (Result \<times> 'e error option)"

definition fail :: "'e error \<Rightarrow> 'e outcome" where
  "fail err = Inr (Result0, Some err)"

subsection \<open>Deciding the replica count\<close>

definition now :: "('w, 'e, 'u) ModelDeploymentReconciler \<Rightarrow> (('w, 'e, 'u) env, gotime) state" where
  "now r = (case R_Now r of Some f \<Rightarrow> silently f | None \<Rightarrow> silently (Time_Now (R_Lib r)))"

definition lastScaleTime :: "ModelDeployment \<Rightarrow> gotime" where
  "lastScaleTime md = (case Status_LastScaleTime (MD_Status md) of None \<Rightarrow> 0 | Some t \<Rightarrow> t)"

text \<open>\<open>time.Duration(seconds) * time.Second\<close>.\<close>

definition seconds :: "int32 \<Rightarrow> duration" where
  "seconds n = scast n * second"

definition policy_of :: "AutoscalingSpec \<Rightarrow> Policy" where
  "policy_of as =
     \<lparr>Policy_MinReplicas = AutoscalingSpec_MinReplicas as,
      Policy_MaxReplicas = AutoscalingSpec_MaxReplicas as,
      Policy_TargetQueueDepth = AutoscalingSpec_TargetQueueDepth as,
      Policy_MaxScaleUpStep = AutoscalingSpec_MaxScaleUpStep as,
      Policy_ScaleUpAfter = seconds (AutoscalingSpec_ScaleUpStabilizationSeconds as),
      Policy_ScaleDownAfter = seconds (AutoscalingSpec_ScaleDownStabilizationSeconds as)\<rparr>"

definition scaling_note :: "int32 \<Rightarrow> int32 \<Rightarrow> int32 \<Rightarrow> string" where
  "scaling_note current replicas depth =
     ''scaling from '' @ Itoa (sint current) @ '' to '' @ Itoa (sint replicas)
       @ '' replicas at queue depth '' @ Itoa (sint depth)"

definition decideReplicas ::
  "('w, 'e, 'u) ModelDeploymentReconciler \<Rightarrow> ModelDeployment \<Rightarrow> bool \<Rightarrow> 'e statusBuilder \<Rightarrow>
   (('w, 'e, 'u) env, panic + (int32 \<times> 'e error option \<times> 'e statusBuilder)) state" where
  "decideReplicas r md warm st =
     (let current = Replicas md
      in case Spec_Autoscaling (MD_Spec md) of
           None \<Rightarrow> State_Monad.return (Inr (current, None, st))
         | Some as \<Rightarrow>
             (case R_Queue r of
                None \<Rightarrow> State_Monad.return (Inr (current, Some (Errorf
                  ''autoscaling is enabled but the operator was started without a queue metrics source''), st))
              | Some depth_of \<Rightarrow>
                  do {
                    res \<leftarrow> Queue_Depth depth_of (MD_Namespace md) (AutoscalingSpec_MetricName as)
                             (SelectorFromSet (SelectorLabels md));
                    case res of
                      Inl err \<Rightarrow> State_Monad.return (Inr (current, Some err, st))
                    | Inr depth \<Rightarrow>
                        do {
                          let st = st\<lparr>sb_queueDepth := depth\<rparr>;
                          t \<leftarrow> now r;
                          case Decide (policy_of as)
                                 \<lparr>State_CurrentReplicas = current, State_QueueDepth = depth,
                                  State_WeightsCached = (warm \<or> WeightCache md = None),
                                  State_LastScale = lastScaleTime md, State_Now = t\<rparr> of
                            Inl p \<Rightarrow> State_Monad.return (Inl p)
                          | Inr decision \<Rightarrow>
                              if Decision_Changed decision
                              then do {
                                t2 \<leftarrow> now r;
                                Record_Eventf r md ''Normal'' (Decision_Reason decision) ''Scaling''
                                  (scaling_note current (Decision_Replicas decision) depth);
                                State_Monad.return (Inr (Decision_Replicas decision, None,
                                  st\<lparr>sb_lastScale := Some t2\<rparr>))
                              }
                              else State_Monad.return (Inr (Decision_Replicas decision, None, st))
                        }
                  }))"

subsection \<open>Applying owned objects\<close>

definition applyConfiguration ::
  "('w, 'e, 'u) Library \<Rightarrow> Object \<Rightarrow> 'e error + 'u ApplyConfiguration" where
  "applyConfiguration L obj =
     (case ToUnstructured L obj of
        Inl err \<Rightarrow> Inl (Wrapf (''convert '' @ Object_type obj @ '' to an apply configuration'') (Library_error err))
      | Inr raw \<Rightarrow>
          (let u = RemoveNestedField L raw [''metadata'', ''creationTimestamp''];
               u = RemoveNestedField L u [''spec'', ''template'', ''metadata'', ''creationTimestamp''];
               u = RemoveNestedField L u [''status'']
           in Inr (ApplyConfigurationFromUnstructured u)))"

definition applyOwned ::
  "('w, 'e, 'u) ModelDeploymentReconciler \<Rightarrow> ModelDeployment \<Rightarrow> Object \<Rightarrow>
   (('w, 'e, 'u) env, 'e error option) state" where
  "applyOwned r md obj =
     (case own r md obj of
        Inl err \<Rightarrow> State_Monad.return
          (Some (Wrapf (''set owner reference on '' @ Object_type obj) (Library_error err)))
      | Inr obj \<Rightarrow>
          (case applyConfiguration (R_Lib r) obj of
             Inl err \<Rightarrow> State_Monad.return (Some err)
           | Inr cfg \<Rightarrow>
               do {
                 res \<leftarrow> Apply_Configuration r cfg FieldOwner True;
                 State_Monad.return (map_option
                   (\<lambda>e. Wrapf (''apply '' @ Object_type obj @ '' '' @ GetName obj) (Library_error e)) res)
               }))"

text \<open>The budget handed to \<open>Delete\<close>: a name and a namespace.\<close>

definition named_pdb :: "string \<Rightarrow> string \<Rightarrow> PodDisruptionBudget" where
  "named_pdb name ns =
     \<lparr>PDB_TypeMeta = \<lparr>TypeMeta_APIVersion = '''', TypeMeta_Kind = ''''\<rparr>,
      PDB_ObjectMeta = object_meta name ns Map.empty,
      PDB_MinAvailable = FromInt32 0, PDB_Selector = Map.empty\<rparr>"

definition reconcilePDB ::
  "('w, 'e, 'u) ModelDeploymentReconciler \<Rightarrow> ModelDeployment \<Rightarrow> int32 \<Rightarrow>
   (('w, 'e, 'u) env, 'e error option) state" where
  "reconcilePDB r md replicas =
     (case PDBMinAvailable md replicas of
        (minAvailable, wanted) \<Rightarrow>
          if wanted then applyOwned r md (PDBObject (PDB md minAvailable))
          else do {
            err \<leftarrow> Delete_Object r (PDBObject (named_pdb (PDBName md) (MD_Namespace md))) None;
            State_Monad.return (map_option Library_error (IgnoreNotFound (R_Lib r) err))
          })"

definition observeDeployment ::
  "('w, 'e, 'u) ModelDeploymentReconciler \<Rightarrow> ModelDeployment \<Rightarrow>
   (('w, 'e, 'u) env, workloadState \<times> 'e error option) state" where
  "observeDeployment r md =
     do {
       res \<leftarrow> Get_Deployment r (object_key (MD_Namespace md) (DeploymentName md));
       State_Monad.return
         (case res of
            Inl err \<Rightarrow>
              if IsNotFound (R_Lib r) err then (workloadState0, None)
              else (workloadState0, Some (Wrapf ''read deployment status'' (Library_error err)))
          | Inr dep \<Rightarrow>
              (\<lparr>workload_replicas = DeploymentStatus_Replicas (Deployment_Status dep),
                workload_readyReplicas = DeploymentStatus_ReadyReplicas (Deployment_Status dep),
                workload_exists = True\<rparr>, None))
     }"

definition writeStatus ::
  "('w, 'e, 'u) ModelDeploymentReconciler \<Rightarrow> ModelDeployment \<Rightarrow> 'e statusBuilder \<Rightarrow>
   (('w, 'e, 'u) env, ModelDeployment \<times> 'e error option) state" where
  "writeStatus r md st =
     do {
       next \<leftarrow> silently (build (R_Lib r) st (MD_Status md));
       if Semantic_DeepEqual (R_Lib r) (MD_Status md) next
       then State_Monad.return (md, None)
       else do {
         let md = md\<lparr>MD_Status := next\<rparr>;
         res \<leftarrow> Status_Update r md;
         State_Monad.return
           (case res of
              Inl err \<Rightarrow> (md, Some (Wrapf ''update status'' (Library_error err)))
            | Inr md' \<Rightarrow> (md', None))
       }
     }"

subsection \<open>One reconcile\<close>

text \<open>
  The write-back of the replica decision: the object to continue with, which is the server's answer
  when an update was sent.
\<close>

definition writeReplicas ::
  "('w, 'e, 'u) ModelDeploymentReconciler \<Rightarrow> ModelDeployment \<Rightarrow> int32 \<Rightarrow>
   (('w, 'e, 'u) env, 'e error + ModelDeployment) state" where
  "writeReplicas r md replicas =
     (if replicas \<noteq> Replicas md
      then do {
        let md = md\<lparr>MD_Spec := (MD_Spec md)\<lparr>Spec_Replicas := replicas\<rparr>\<rparr>;
        res \<leftarrow> Update_ModelDeployment r md;
        State_Monad.return
          (case res of
             Inl err \<Rightarrow> Inl (Wrapf ''write replica decision'' (Library_error err))
           | Inr md' \<Rightarrow> Inr md')
      }
      else State_Monad.return (Inr md))"

text \<open>The second half of \<open>sync\<close>: the owned objects, the observation and the status.\<close>

definition rollout ::
  "('w, 'e, 'u) ModelDeploymentReconciler \<Rightarrow> ModelDeployment \<Rightarrow> string \<Rightarrow> int32 \<Rightarrow> cacheState \<Rightarrow>
   'e statusBuilder \<Rightarrow> (('w, 'e, 'u) env, 'e outcome) state" where
  "rollout r md cacheKey replicas cache st =
     do {
       let paused = (WeightCache md \<noteq> None \<and> \<not> cache_warm cache);
       e1 \<leftarrow> applyOwned r md (DeploymentObject (Deployment md cacheKey replicas paused));
       case e1 of
         Some err \<Rightarrow> State_Monad.return (fail err)
       | None \<Rightarrow> do {
       e2 \<leftarrow> applyOwned r md (ServiceObject (Service md));
       case e2 of
         Some err \<Rightarrow> State_Monad.return (fail err)
       | None \<Rightarrow> do {
       e3 \<leftarrow> reconcilePDB r md replicas;
       case e3 of
         Some err \<Rightarrow> State_Monad.return (fail err)
       | None \<Rightarrow> do {
       (observed, e4) \<leftarrow> observeDeployment r md;
       case e4 of
         Some err \<Rightarrow> State_Monad.return (fail err)
       | None \<Rightarrow> do {
       (md, e5) \<leftarrow> writeStatus r md (applyWorkload st observed paused);
       case e5 of
         Some err \<Rightarrow> State_Monad.return (fail err)
       | None \<Rightarrow> State_Monad.return (Inr
           (if Spec_Autoscaling (MD_Spec md) \<noteq> None then \<lparr>RequeueAfter = resyncInterval\<rparr> else Result0, None))
       }}}}}"

definition sync ::
  "('w, 'e, 'u) ModelDeploymentReconciler \<Rightarrow> ModelDeployment \<Rightarrow> (('w, 'e, 'u) env, 'e outcome) state" where
  "sync r md =
     do {
       let cacheKey = CacheKey md;
       let st = newStatusBuilder md cacheKey;
       out \<leftarrow> reconcileWeightCache r md cacheKey;
       case out of
         Inl p \<Rightarrow> State_Monad.return (Inl p)
       | Inr (cache, Some err) \<Rightarrow> State_Monad.return (fail err)
       | Inr (cache, None) \<Rightarrow> do {
       decision \<leftarrow> decideReplicas r md (cache_warm cache) (applyCache st cache);
       case decision of
         Inl p \<Rightarrow> State_Monad.return (Inl p)
       | Inr (replicas, scaleErr, st) \<Rightarrow> do {
       let st = (case scaleErr of None \<Rightarrow> st | Some err \<Rightarrow> st\<lparr>sb_scaleErr := Some err\<rparr>);
       written \<leftarrow> writeReplicas r md replicas;
       case written of
         Inl err \<Rightarrow> State_Monad.return (fail err)
       | Inr md \<Rightarrow> rollout r md cacheKey replicas cache (st\<lparr>sb_md := md\<rparr>)
       }}}"

definition named_deployment :: "string \<Rightarrow> string \<Rightarrow> Deployment" where
  "named_deployment name ns =
     \<lparr>Deployment_TypeMeta = \<lparr>TypeMeta_APIVersion = '''', TypeMeta_Kind = ''''\<rparr>,
      Deployment_ObjectMeta = object_meta name ns Map.empty,
      Deployment_Spec = \<lparr>DeploymentSpec_Replicas = None, DeploymentSpec_Paused = False,
        DeploymentSpec_Selector = Map.empty, DeploymentSpec_StrategyType = '''',
        DeploymentSpec_MaxUnavailable = FromInt32 0, DeploymentSpec_MaxSurge = FromInt32 0,
        DeploymentSpec_MinReadySeconds = 0,
        DeploymentSpec_Template = \<lparr>PodTemplateSpec_Labels = Map.empty,
          PodTemplateSpec_Annotations = Map.empty,
          PodTemplateSpec_Spec = \<lparr>PodSpec_InitContainers = [], PodSpec_Containers = [],
            PodSpec_Volumes = [], PodSpec_NodeSelector = Map.empty, PodSpec_Tolerations = [],
            PodSpec_TerminationGracePeriodSeconds = None, PodSpec_RestartPolicy = ''''\<rparr>\<rparr>\<rparr>,
      Deployment_Status = \<lparr>DeploymentStatus_Replicas = 0, DeploymentStatus_ReadyReplicas = 0\<rparr>\<rparr>"

definition finalize ::
  "('w, 'e, 'u) ModelDeploymentReconciler \<Rightarrow> ModelDeployment \<Rightarrow> (('w, 'e, 'u) env, 'e outcome) state" where
  "finalize r md =
     (if \<not> ContainsFinalizer (R_Lib r) md Finalizer then State_Monad.return (Inr (Result0, None))
      else do {
        derr \<leftarrow> Delete_Object r (DeploymentObject (named_deployment (DeploymentName md) (MD_Namespace md)))
                 (Some DeletePropagationBackground);
        case IgnoreNotFound (R_Lib r) derr of
          Some e \<Rightarrow> State_Monad.return (fail (Wrapf ''delete deployment'' (Library_error e)))
        | None \<Rightarrow> do {
        jerr \<leftarrow> DeleteAllOf_Job r (MD_Namespace md) [LabelInstance \<mapsto> MD_Name md]
                 (Some DeletePropagationBackground);
        case jerr of
          Some e \<Rightarrow> State_Monad.return (fail (Wrapf ''delete warm jobs'' (Library_error e)))
        | None \<Rightarrow> do {
        res \<leftarrow> List_Pod r (MD_Namespace md) [LabelInstance \<mapsto> MD_Name md];
        case res of
          Inl e \<Rightarrow> State_Monad.return (fail (Wrapf ''list pods'' (Library_error e)))
        | Inr pods \<Rightarrow>
            if pods \<noteq> []
            then State_Monad.return (Inr (\<lparr>RequeueAfter = terminationPollInterval\<rparr>, None))
            else do {
              upd \<leftarrow> Update_ModelDeployment r (RemoveFinalizer (R_Lib r) md Finalizer);
              State_Monad.return (Inr (Result0,
                case upd of Inl e \<Rightarrow> Some (Library_error e) | Inr _ \<Rightarrow> None))
            }
        }}})"

definition Reconcile ::
  "('w, 'e, 'u) ModelDeploymentReconciler \<Rightarrow> ObjectKey \<Rightarrow> (('w, 'e, 'u) env, 'e outcome) state" where
  "Reconcile r req =
     do {
       res \<leftarrow> Get_ModelDeployment r req;
       case res of
         Inl err \<Rightarrow> State_Monad.return (Inr (Result0,
           map_option Library_error (IgnoreNotFound (R_Lib r) (Some err))))
       | Inr md \<Rightarrow>
           if \<not> metaTime_IsZero (ObjectMeta_DeletionTimestamp (MD_ObjectMeta md))
           then finalize r md
           else (case AddFinalizer (R_Lib r) md Finalizer of
                   (md, added) \<Rightarrow>
                     if added
                     then do {
                       upd \<leftarrow> Update_ModelDeployment r md;
                       State_Monad.return (Inr (Result0,
                         case upd of Inl e \<Rightarrow> Some (Library_error e) | Inr _ \<Rightarrow> None))
                     }
                     else sync r md)
     }"

end
