(* ===== verification/Runs.thy ===== *)
theory Runs
  imports Controller
begin

section \<open>The runs of a reconcile\<close>

text \<open>
  The controller as a transition system: each relation \<open>..._run\<close> lists, rule by rule, the ways a
  function of the controller can end and the calls it has made by then, with their answers. The
  theorems \<open>..._emits\<close> show that the definitions translated from the source behave as one of
  these rules, for every client, library and world. Properties of the calls are then proved by cases
  on the rules.
\<close>

abbreviation answers :: "('w, 'a) state \<Rightarrow> 'a \<Rightarrow> bool" where
  "answers m x \<equiv> \<exists>w w'. run_state m w = (x, w')"

subsection \<open>Applying and observing\<close>

definition applies ::
  "('w, 'e, 'u) ModelDeploymentReconciler \<Rightarrow> ModelDeployment \<Rightarrow> Object \<Rightarrow> 'u ApplyConfiguration \<Rightarrow> bool" where
  "applies r md obj cfg \<longleftrightarrow> (\<exists>obj'. own r md obj = Inr obj' \<and> applyConfiguration (R_Lib r) obj' = Inr cfg)"

definition apply_run ::
  "('w, 'e, 'u) ModelDeploymentReconciler \<Rightarrow> ModelDeployment \<Rightarrow> Object \<Rightarrow>
   'e error option \<Rightarrow> ('e, 'u) call list \<Rightarrow> bool" where
  "apply_run r md obj err t \<longleftrightarrow>
     err \<noteq> None \<and> t = [] \<or>
     (\<exists>cfg e. applies r md obj cfg \<and> t = [Apply cfg FieldOwner True e] \<and> (err = None \<longleftrightarrow> e = None))"

lemma applyOwned_emits: "emits (applyOwned r md obj) (apply_run r md obj)"
  unfolding applyOwned_def call_defs
  by (intro emits_intros) (auto simp: apply_run_def applies_def)

definition pdb_run ::
  "('w, 'e, 'u) ModelDeploymentReconciler \<Rightarrow> ModelDeployment \<Rightarrow> int32 \<Rightarrow>
   'e error option \<Rightarrow> ('e, 'u) call list \<Rightarrow> bool" where
  "pdb_run r md n err t \<longleftrightarrow>
     (if snd (PDBMinAvailable md n)
      then apply_run r md (PDBObject (PDB md (fst (PDBMinAvailable md n)))) err t
      else (\<exists>e. t = [Delete (PDBObject (named_pdb (PDBName md) (MD_Namespace md))) None e] \<and>
                (err = None \<longleftrightarrow> IgnoreNotFound (R_Lib r) e = None)))"

lemma reconcilePDB_emits: "emits (reconcilePDB r md n) (pdb_run r md n)"
  unfolding reconcilePDB_def call_defs
  by (intro emits_intros emits_mono [OF applyOwned_emits]) (auto simp: pdb_run_def)

definition workload_of :: "'e + Deployment \<Rightarrow> workloadState" where
  "workload_of res =
     (case res of
        Inl e \<Rightarrow> workloadState0
      | Inr dep \<Rightarrow> \<lparr>workload_replicas = DeploymentStatus_Replicas (Deployment_Status dep),
                    workload_readyReplicas = DeploymentStatus_ReadyReplicas (Deployment_Status dep),
                    workload_exists = True\<rparr>)"

definition observe_run ::
  "('w, 'e, 'u) ModelDeploymentReconciler \<Rightarrow> ModelDeployment \<Rightarrow>
   workloadState \<times> 'e error option \<Rightarrow> ('e, 'u) call list \<Rightarrow> bool" where
  "observe_run r md out t \<longleftrightarrow>
     (\<exists>res. t = [GetDeployment (own_key md (DeploymentName md)) res] \<and> fst out = workload_of res \<and>
        (snd out = None \<longleftrightarrow> (\<forall>e. res = Inl e \<longrightarrow> IsNotFound (R_Lib r) e)))"

lemma observeDeployment_emits: "emits (observeDeployment r md) (observe_run r md)"
  unfolding observeDeployment_def call_defs
  by (intro emits_intros)
     (auto simp: observe_run_def workload_of_def own_key_def split: sum.splits)

definition status_run ::
  "('w, 'e, 'u) ModelDeploymentReconciler \<Rightarrow> ModelDeployment \<Rightarrow> 'e statusBuilder \<Rightarrow>
   ModelDeployment \<times> 'e error option \<Rightarrow> ('e, 'u) call list \<Rightarrow> bool" where
  "status_run r md st out t \<longleftrightarrow>
     (\<exists>next. answers (build (R_Lib r) st (MD_Status md)) next \<and>
        (if Semantic_DeepEqual (R_Lib r) (MD_Status md) next then t = [] \<and> out = (md, None)
         else (\<exists>res. t = [StatusUpdate (md\<lparr>MD_Status := next\<rparr>) res] \<and>
                 (case res of Inl e \<Rightarrow> snd out \<noteq> None | Inr md' \<Rightarrow> out = (md', None)))))"

lemma writeStatus_emits: "emits (writeStatus r md st) (status_run r md st)"
  unfolding writeStatus_def call_defs
  by (intro emits_intros) (auto simp: status_run_def split: sum.splits)

subsection \<open>Deciding\<close>

definition scaling_state :: "ModelDeployment \<Rightarrow> bool \<Rightarrow> int32 \<Rightarrow> gotime \<Rightarrow> State" where
  "scaling_state md warm depth t =
     \<lparr>State_CurrentReplicas = Replicas md, State_QueueDepth = depth,
      State_WeightsCached = (warm \<or> WeightCache md = None),
      State_LastScale = lastScaleTime md, State_Now = t\<rparr>"

abbreviation depth_call where
  "depth_call md as res \<equiv>
     QueueDepth (MD_Namespace md) (AutoscalingSpec_MetricName as) (SelectorFromSet (SelectorLabels md)) res"

inductive decide_run ::
  "('w, 'e, 'u) ModelDeploymentReconciler \<Rightarrow> ModelDeployment \<Rightarrow> bool \<Rightarrow> 'e statusBuilder \<Rightarrow>
   panic + (int32 \<times> 'e error option \<times> 'e statusBuilder) \<Rightarrow> ('e, 'u) call list \<Rightarrow> bool"
  for r md warm st where
  no_policy: "Spec_Autoscaling (MD_Spec md) = None \<Longrightarrow>
     decide_run r md warm st (Inr (Replicas md, None, st)) []"
| no_source: "Spec_Autoscaling (MD_Spec md) = Some as \<Longrightarrow> R_Queue r = None \<Longrightarrow>
     decide_run r md warm st (Inr (Replicas md, Some err, st)) []"
| no_metric: "Spec_Autoscaling (MD_Spec md) = Some as \<Longrightarrow> R_Queue r = Some q \<Longrightarrow>
     decide_run r md warm st (Inr (Replicas md, Some err, st)) [depth_call md as (Inl err)]"
| panics: "Spec_Autoscaling (MD_Spec md) = Some as \<Longrightarrow> R_Queue r = Some q \<Longrightarrow>
     Decide (policy_of as) (scaling_state md warm depth t) = Inl p \<Longrightarrow>
     decide_run r md warm st (Inl p) [depth_call md as (Inr depth)]"
| keeps: "Spec_Autoscaling (MD_Spec md) = Some as \<Longrightarrow> R_Queue r = Some q \<Longrightarrow>
     answers (q (MD_Namespace md) (AutoscalingSpec_MetricName as) (SelectorFromSet (SelectorLabels md))) (Inr depth) \<Longrightarrow>
     Decide (policy_of as) (scaling_state md warm depth t) = Inr d \<Longrightarrow> \<not> Decision_Changed d \<Longrightarrow>
     decide_run r md warm st (Inr (Decision_Replicas d, None, st\<lparr>sb_queueDepth := depth\<rparr>))
       [depth_call md as (Inr depth)]"
| changes: "Spec_Autoscaling (MD_Spec md) = Some as \<Longrightarrow> R_Queue r = Some q \<Longrightarrow>
     answers (q (MD_Namespace md) (AutoscalingSpec_MetricName as) (SelectorFromSet (SelectorLabels md))) (Inr depth) \<Longrightarrow>
     Decide (policy_of as) (scaling_state md warm depth t) = Inr d \<Longrightarrow> Decision_Changed d \<Longrightarrow>
     decide_run r md warm st
       (Inr (Decision_Replicas d, None, st\<lparr>sb_queueDepth := depth, sb_lastScale := Some t2\<rparr>))
       [depth_call md as (Inr depth),
        Eventf md ''Normal'' (Decision_Reason d) ''Scaling''
          (scaling_note (Replicas md) (Decision_Replicas d) depth)]"

lemma emits_now [emits_intros]: "(\<And>x. R x []) \<Longrightarrow> emits (now r) R"
  unfolding now_def by (intro emits_intros)

lemma decideReplicas_emits: "emits (decideReplicas r md warm st) (decide_run r md warm st)"
  unfolding decideReplicas_def call_defs
  by (intro emits_intros)
     (auto intro: decide_run.intros [unfolded scaling_state_def] simp: Let_def)

definition write_run ::
  "ModelDeployment \<Rightarrow> int32 \<Rightarrow> 'e error + ModelDeployment \<Rightarrow> ('e, 'u) call list \<Rightarrow> bool" where
  "write_run md n out t \<longleftrightarrow>
     (if n = Replicas md then t = [] \<and> out = Inr md
      else (\<exists>res. t = [Update (md\<lparr>MD_Spec := (MD_Spec md)\<lparr>Spec_Replicas := n\<rparr>\<rparr>) res] \<and>
              (case res of Inl e \<Rightarrow> (\<exists>err. out = Inl err) | Inr md' \<Rightarrow> out = Inr md')))"

lemma writeReplicas_emits: "emits (writeReplicas r md n) (write_run md n)"
  unfolding writeReplicas_def call_defs
  by (intro emits_intros) (auto simp: write_run_def split: sum.splits)

subsection \<open>Rolling out\<close>

definition held :: "ModelDeployment \<Rightarrow> cacheState \<Rightarrow> bool" where
  "held md cache \<longleftrightarrow> WeightCache md \<noteq> None \<and> \<not> cache_warm cache"

definition result_for :: "ModelDeployment \<Rightarrow> Result" where
  "result_for md =
     (if Spec_Autoscaling (MD_Spec md) \<noteq> None then \<lparr>RequeueAfter = resyncInterval\<rparr> else Result0)"

abbreviation dep_run where
  "dep_run r md k n cache \<equiv> apply_run r md (DeploymentObject (Deployment md k n (held md cache)))"

abbreviation svc_run where
  "svc_run r md \<equiv> apply_run r md (ServiceObject (Service md))"

inductive rollout_run ::
  "('w, 'e, 'u) ModelDeploymentReconciler \<Rightarrow> ModelDeployment \<Rightarrow> string \<Rightarrow> int32 \<Rightarrow> cacheState \<Rightarrow>
   'e statusBuilder \<Rightarrow> 'e outcome \<Rightarrow> ('e, 'u) call list \<Rightarrow> bool"
  for r md k n cache st where
  deployment_fails: "dep_run r md k n cache (Some err) t1 \<Longrightarrow>
     rollout_run r md k n cache st (fail err) t1"
| service_fails: "dep_run r md k n cache None t1 \<Longrightarrow> svc_run r md (Some err) t2 \<Longrightarrow>
     rollout_run r md k n cache st (fail err) (t1 @ t2)"
| budget_fails: "dep_run r md k n cache None t1 \<Longrightarrow> svc_run r md None t2 \<Longrightarrow>
     pdb_run r md n (Some err) t3 \<Longrightarrow>
     rollout_run r md k n cache st (fail err) (t1 @ t2 @ t3)"
| observe_fails: "dep_run r md k n cache None t1 \<Longrightarrow> svc_run r md None t2 \<Longrightarrow>
     pdb_run r md n None t3 \<Longrightarrow> observe_run r md (w, Some err) t4 \<Longrightarrow>
     rollout_run r md k n cache st (fail err) (t1 @ t2 @ t3 @ t4)"
| status_fails: "dep_run r md k n cache None t1 \<Longrightarrow> svc_run r md None t2 \<Longrightarrow>
     pdb_run r md n None t3 \<Longrightarrow> observe_run r md (w, None) t4 \<Longrightarrow>
     status_run r md (applyWorkload st w (held md cache)) (md', Some err) t5 \<Longrightarrow>
     rollout_run r md k n cache st (fail err) (t1 @ t2 @ t3 @ t4 @ t5)"
| rolled_out: "dep_run r md k n cache None t1 \<Longrightarrow> svc_run r md None t2 \<Longrightarrow>
     pdb_run r md n None t3 \<Longrightarrow> observe_run r md (w, None) t4 \<Longrightarrow>
     status_run r md (applyWorkload st w (held md cache)) (md', None) t5 \<Longrightarrow>
     rollout_run r md k n cache st (Inr (result_for md', None)) (t1 @ t2 @ t3 @ t4 @ t5)"

lemma rollout_emits: "emits (rollout r md k n cache st) (rollout_run r md k n cache st)"
  unfolding rollout_def held_def [symmetric] result_for_def [symmetric]
  by (intro emits_intros emits_mono [OF applyOwned_emits] emits_mono [OF reconcilePDB_emits]
        emits_mono [OF observeDeployment_emits] emits_mono [OF writeStatus_emits])
     (auto intro: rollout_run.intros)

subsection \<open>sync, finalize and Reconcile\<close>

definition note_error :: "'e statusBuilder \<Rightarrow> 'e error option \<Rightarrow> 'e statusBuilder" where
  "note_error st err = (case err of None \<Rightarrow> st | Some e \<Rightarrow> st\<lparr>sb_scaleErr := Some e\<rparr>)"

inductive sync_run ::
  "('w, 'e, 'u) ModelDeploymentReconciler \<Rightarrow> ModelDeployment \<Rightarrow> 'e outcome \<Rightarrow> ('e, 'u) call list \<Rightarrow> bool"
  for r md where
  cache_fails: "cache_run r md (CacheKey md) (Inr (cache, Some err)) t1 \<Longrightarrow> sync_run r md (fail err) t1"
| decide_panics: "cache_run r md (CacheKey md) (Inr (cache, None)) t1 \<Longrightarrow>
     decide_run r md (cache_warm cache) (applyCache (newStatusBuilder md (CacheKey md)) cache) (Inl p) t2 \<Longrightarrow>
     sync_run r md (Inl p) (t1 @ t2)"
| write_fails: "cache_run r md (CacheKey md) (Inr (cache, None)) t1 \<Longrightarrow>
     decide_run r md (cache_warm cache) (applyCache (newStatusBuilder md (CacheKey md)) cache)
       (Inr (n, scaleErr, st)) t2 \<Longrightarrow>
     write_run md n (Inl err) t3 \<Longrightarrow> sync_run r md (fail err) (t1 @ t2 @ t3)"
| rolls_out: "cache_run r md (CacheKey md) (Inr (cache, None)) t1 \<Longrightarrow>
     decide_run r md (cache_warm cache) (applyCache (newStatusBuilder md (CacheKey md)) cache)
       (Inr (n, scaleErr, st)) t2 \<Longrightarrow>
     write_run md n (Inr md') t3 \<Longrightarrow>
     rollout_run r md' (CacheKey md) n cache ((note_error st scaleErr)\<lparr>sb_md := md'\<rparr>) out t4 \<Longrightarrow>
     sync_run r md out (t1 @ t2 @ t3 @ t4)"

lemma sync_emits: "emits (sync r md) (sync_run r md)"
proof -
  have no_panic: "cache_run r md k (Inl p) t \<Longrightarrow> False" for k p and t :: "('b, 'c) call list"
    by (simp add: cache_run_def)
  show ?thesis
    unfolding sync_def Let_def note_error_def [symmetric]
    by (intro emits_intros emits_mono [OF reconcileWeightCache_emits]
          emits_mono [OF decideReplicas_emits] emits_mono [OF writeReplicas_emits] emits_mono [OF rollout_emits])
       (auto intro: sync_run.intros dest: no_panic)
qed

abbreviation delete_deployment where
  "delete_deployment md e \<equiv>
     Delete (DeploymentObject (named_deployment (DeploymentName md) (MD_Namespace md)))
       (Some DeletePropagationBackground) e"

abbreviation delete_jobs where
  "delete_jobs md e \<equiv>
     DeleteAllOfJobs (MD_Namespace md) [LabelInstance \<mapsto> MD_Name md] (Some DeletePropagationBackground) e"

abbreviation list_pods where
  "list_pods md res \<equiv> ListPods (MD_Namespace md) [LabelInstance \<mapsto> MD_Name md] res"

inductive finalize_run ::
  "('w, 'e, 'u) ModelDeploymentReconciler \<Rightarrow> ModelDeployment \<Rightarrow> 'e outcome \<Rightarrow> ('e, 'u) call list \<Rightarrow> bool"
  for r md where
  not_ours: "\<not> ContainsFinalizer (R_Lib r) md Finalizer \<Longrightarrow> finalize_run r md (Inr (Result0, None)) []"
| delete_fails: "ContainsFinalizer (R_Lib r) md Finalizer \<Longrightarrow> IgnoreNotFound (R_Lib r) e = Some e' \<Longrightarrow>
     finalize_run r md (fail err) [delete_deployment md e]"
| jobs_fail: "ContainsFinalizer (R_Lib r) md Finalizer \<Longrightarrow> IgnoreNotFound (R_Lib r) e = None \<Longrightarrow>
     finalize_run r md (fail err) [delete_deployment md e, delete_jobs md (Some e')]"
| list_fails: "ContainsFinalizer (R_Lib r) md Finalizer \<Longrightarrow> IgnoreNotFound (R_Lib r) e = None \<Longrightarrow>
     finalize_run r md (fail err)
       [delete_deployment md e, delete_jobs md None, list_pods md (Inl e')]"
| waits: "ContainsFinalizer (R_Lib r) md Finalizer \<Longrightarrow> IgnoreNotFound (R_Lib r) e = None \<Longrightarrow> pods \<noteq> [] \<Longrightarrow>
     finalize_run r md (Inr (\<lparr>RequeueAfter = terminationPollInterval\<rparr>, None))
       [delete_deployment md e, delete_jobs md None, list_pods md (Inr pods)]"
| releases: "ContainsFinalizer (R_Lib r) md Finalizer \<Longrightarrow> IgnoreNotFound (R_Lib r) e = None \<Longrightarrow>
     err = (case res of Inl e \<Rightarrow> Some (Library_error e) | Inr _ \<Rightarrow> None) \<Longrightarrow>
     finalize_run r md (Inr (Result0, err))
       [delete_deployment md e, delete_jobs md None, list_pods md (Inr []),
        Update (RemoveFinalizer (R_Lib r) md Finalizer) res]"

lemma finalize_emits: "emits (finalize r md) (finalize_run r md)"
  unfolding finalize_def call_defs
  by (intro emits_intros) (auto intro: finalize_run.intros)

definition deleting :: "ModelDeployment \<Rightarrow> bool" where
  "deleting md \<longleftrightarrow> \<not> metaTime_IsZero (ObjectMeta_DeletionTimestamp (MD_ObjectMeta md))"

inductive reconcile_run ::
  "('w, 'e, 'u) ModelDeploymentReconciler \<Rightarrow> ObjectKey \<Rightarrow> 'e outcome \<Rightarrow> ('e, 'u) call list \<Rightarrow> bool"
  for r req where
  unreadable: "answers (Client_Get_ModelDeployment (R_Client r) req) (Inl e) \<Longrightarrow>
     reconcile_run r req (Inr (Result0, map_option Library_error (IgnoreNotFound (R_Lib r) (Some e))))
       [GetModelDeployment req (Inl e)]"
| finalizes: "answers (Client_Get_ModelDeployment (R_Client r) req) (Inr md) \<Longrightarrow> deleting md \<Longrightarrow>
     finalize_run r md out t \<Longrightarrow>
     reconcile_run r req out (GetModelDeployment req (Inr md) # t)"
| claims: "answers (Client_Get_ModelDeployment (R_Client r) req) (Inr md) \<Longrightarrow> \<not> deleting md \<Longrightarrow>
     AddFinalizer (R_Lib r) md Finalizer = (md', True) \<Longrightarrow>
     err = (case res of Inl e \<Rightarrow> Some (Library_error e) | Inr _ \<Rightarrow> None) \<Longrightarrow>
     reconcile_run r req (Inr (Result0, err)) [GetModelDeployment req (Inr md), Update md' res]"
| syncs: "answers (Client_Get_ModelDeployment (R_Client r) req) (Inr md) \<Longrightarrow> \<not> deleting md \<Longrightarrow>
     AddFinalizer (R_Lib r) md Finalizer = (md', False) \<Longrightarrow> sync_run r md' out t \<Longrightarrow>
     reconcile_run r req out (GetModelDeployment req (Inr md) # t)"

lemma Reconcile_emits: "emits (Reconcile r req) (reconcile_run r req)"
  unfolding Reconcile_def deleting_def [symmetric] call_defs
  by (intro emits_intros emits_mono [OF finalize_emits] emits_mono [OF sync_emits])
     (auto intro: reconcile_run.intros)

inductive_cases decide_runE: "decide_run r md warm st out t"
inductive_cases rollout_runE: "rollout_run r md k n cache st out t"
inductive_cases sync_runE: "sync_run r md out t"
inductive_cases finalize_runE: "finalize_run r md out t"
inductive_cases reconcile_runE: "reconcile_run r req out t"

subsection \<open>One reconcile from outside\<close>

text \<open>The outcome of a reconcile in a world and the calls it made, in order.\<close>

definition reconcile_trace ::
  "('w, 'e, 'u) ModelDeploymentReconciler \<Rightarrow> ObjectKey \<Rightarrow> 'w \<Rightarrow> 'e outcome \<times> ('e, 'u) call list" where
  "reconcile_trace r req w =
     (case run_state (Reconcile r req) \<lparr>world = w, calls = []\<rparr> of (out, s) \<Rightarrow> (out, calls s))"

lemma reconcile_trace_run:
  assumes "reconcile_trace r req w = (out, t)"
  shows "reconcile_run r req out t"
proof -
  obtain s where s: "run_state (Reconcile r req) \<lparr>world = w, calls = []\<rparr> = (out, s)" "t = calls s"
    using assms by (auto simp: reconcile_trace_def split: prod.splits)
  show ?thesis
    using emits_run [OF Reconcile_emits s(1)] s(2) by auto
qed

lemma added_finalizer:
  assumes "documented_finalizers (R_Lib r)" "AddFinalizer (R_Lib r) md Finalizer = (md', False)"
  shows "md' = md" "has_finalizer Finalizer md"
  using assms by (auto simp: documented_finalizers_def split: if_splits)

text \<open>The two ways a reconcile that passes the finalizer step can go on.\<close>

lemma reconcile_run_cases:
  assumes "reconcile_run r req out t" "documented_finalizers (R_Lib r)"
  obtains (unreadable) e where "t = [GetModelDeployment req (Inl e)]"
      "out = Inr (Result0, map_option Library_error (IgnoreNotFound (R_Lib r) (Some e)))"
  | (finalizes) md t' where "t = GetModelDeployment req (Inr md) # t'" "deleting md"
      "finalize_run r md out t'" "answers (Client_Get_ModelDeployment (R_Client r) req) (Inr md)"
  | (claims) md res where "\<not> deleting md" "\<not> has_finalizer Finalizer md"
      "t = [GetModelDeployment req (Inr md),
            Update (set_finalizers (ObjectMeta_Finalizers (MD_ObjectMeta md) @ [Finalizer]) md) res]"
      "\<exists>err. out = Inr (Result0, err)"
  | (syncs) md t' where "t = GetModelDeployment req (Inr md) # t'" "\<not> deleting md"
      "has_finalizer Finalizer md" "sync_run r md out t'"
      "answers (Client_Get_ModelDeployment (R_Client r) req) (Inr md)"
  using assms(1)
proof cases
  case (claims md md' err res)
  with assms(2) show thesis
    by (intro that(3) [of md res]) (auto simp: documented_finalizers_def split: if_splits)
next
  case (syncs md md' t')
  with added_finalizer [OF assms(2) syncs(4)] show thesis by (intro that(4)) auto
qed (use that in blast)+

subsection \<open>Which calls which part makes\<close>

fun is_apply :: "('e, 'u) call \<Rightarrow> bool" where
  "is_apply (Apply cfg owner force e) \<longleftrightarrow> True"
| "is_apply _ \<longleftrightarrow> False"

fun is_update :: "('e, 'u) call \<Rightarrow> bool" where
  "is_update (Update md res) \<longleftrightarrow> True"
| "is_update _ \<longleftrightarrow> False"

fun is_status :: "('e, 'u) call \<Rightarrow> bool" where
  "is_status (StatusUpdate md res) \<longleftrightarrow> True"
| "is_status _ \<longleftrightarrow> False"

text \<open>A write to the cluster other than to the ModelDeployment itself.\<close>

fun child_write :: "('e, 'u) call \<Rightarrow> bool" where
  "child_write (Create obj e) \<longleftrightarrow> True"
| "child_write (Apply cfg owner force e) \<longleftrightarrow> True"
| "child_write (Delete obj policy e) \<longleftrightarrow> True"
| "child_write (DeleteAllOfJobs ns lbls policy e) \<longleftrightarrow> True"
| "child_write _ \<longleftrightarrow> False"

lemma cache_run_calls:
  assumes "cache_run r md k out t" "c \<in> set t"
  shows "cache_call r md k c" "\<not> is_apply c" "\<not> is_update c" "\<not> is_status c"
proof -
  show c: "cache_call r md k c"
    using assms by (auto simp: cache_run_def list_all_iff split: if_splits)
  then show "\<not> is_apply c" "\<not> is_update c" "\<not> is_status c" by (cases c; simp)+
qed

lemma decide_run_calls:
  assumes "decide_run r md warm st out t" "c \<in> set t"
  shows "(\<exists>ns m sel res. c = QueueDepth ns m sel res) \<or> (\<exists>md a b d e. c = Eventf md a b d e)"
  using assms by cases auto

lemma write_run_calls:
  assumes "write_run md n out t" "c \<in> set t"
  shows "\<exists>res. c = Update (md\<lparr>MD_Spec := (MD_Spec md)\<lparr>Spec_Replicas := n\<rparr>\<rparr>) res"
  using assms by (auto simp: write_run_def split: if_splits)

text \<open>The calls of the second half, with what they carry.\<close>

fun rollout_call ::
  "('w, 'e, 'u) ModelDeploymentReconciler \<Rightarrow> ModelDeployment \<Rightarrow> string \<Rightarrow> int32 \<Rightarrow> cacheState \<Rightarrow>
   ('e, 'u) call \<Rightarrow> bool" where
  "rollout_call r md k n cache (Apply cfg owner force e) \<longleftrightarrow> owner = FieldOwner \<and> force \<and>
     (applies r md (DeploymentObject (Deployment md k n (held md cache))) cfg \<or>
      applies r md (ServiceObject (Service md)) cfg \<or>
      snd (PDBMinAvailable md n) \<and> applies r md (PDBObject (PDB md (fst (PDBMinAvailable md n)))) cfg)"
| "rollout_call r md k n cache (Delete obj policy e) \<longleftrightarrow>
     obj = PDBObject (named_pdb (PDBName md) (MD_Namespace md)) \<and> \<not> snd (PDBMinAvailable md n)"
| "rollout_call r md k n cache (GetDeployment key res) \<longleftrightarrow> key = own_key md (DeploymentName md)"
| "rollout_call r md k n cache (StatusUpdate md' res) \<longleftrightarrow>
     (\<exists>next. md' = md\<lparr>MD_Status := next\<rparr>)"
| "rollout_call r md k n cache _ \<longleftrightarrow> False"

lemma apply_run_call:
  "apply_run r md obj err t \<Longrightarrow> c \<in> set t \<Longrightarrow> \<exists>cfg e. c = Apply cfg FieldOwner True e \<and> applies r md obj cfg"
  by (auto simp: apply_run_def)

lemma rollout_run_calls:
  assumes "rollout_run r md k n cache st out t" "c \<in> set t"
  shows "rollout_call r md k n cache c"
proof -
  have d: "dep_run r md k n cache err t' \<Longrightarrow> c \<in> set t' \<Longrightarrow> rollout_call r md k n cache c" for err t'
    by (auto dest!: apply_run_call)
  have s: "svc_run r md err t' \<Longrightarrow> c \<in> set t' \<Longrightarrow> rollout_call r md k n cache c" for err t'
    by (auto dest!: apply_run_call)
  have p: "pdb_run r md n err t' \<Longrightarrow> c \<in> set t' \<Longrightarrow> rollout_call r md k n cache c" for err t'
    by (auto simp: pdb_run_def dest!: apply_run_call split: if_splits)
  have o: "observe_run r md out t' \<Longrightarrow> c \<in> set t' \<Longrightarrow> rollout_call r md k n cache c" for out t'
    by (auto simp: observe_run_def)
  have u: "status_run r md st' out t' \<Longrightarrow> c \<in> set t' \<Longrightarrow> rollout_call r md k n cache c" for st' out t'
    by (auto simp: status_run_def split: if_splits)
  from assms show ?thesis by cases (auto dest: d s p o u)
qed

text \<open>Everything before the first call of a kind is in front of any call of that kind.\<close>

lemma split_after:
  assumes "xs @ ys = pre @ c # post" "c \<notin> set xs"
  shows "\<exists>zs. pre = xs @ zs \<and> ys = zs @ c # post"
  using assms by (auto simp: append_eq_append_conv2 Cons_eq_append_conv append_eq_Cons_conv)

lemma cache_run_warm:
  assumes "cache_run r md k (Inr (cache, err)) t" "cache_warm cache"
  shows "\<exists>job. GetJob (own_key md (WarmJobName md k)) (Inr job) \<in> set t \<and>
     0 <s JobStatus_Succeeded (Job_Status job)"
  using assms by (auto simp: cache_run_def cacheState0_def job_says_def split: if_splits)

lemma trace_split:
  assumes "snd (reconcile_trace r req w) = t"
  shows "reconcile_run r req (fst (reconcile_trace r req w)) t"
  using reconcile_trace_run [of r req w] assms by (metis prod.collapse)

lemma write_run_Inr:
  assumes "write_run md n (Inr md') t"
  shows "n = Replicas md \<and> md' = md \<and> t = [] \<or>
     n \<noteq> Replicas md \<and> t = [Update (md\<lparr>MD_Spec := (MD_Spec md)\<lparr>Spec_Replicas := n\<rparr>\<rparr>) (Inr md')]"
proof (cases "n = Replicas md")
  case False
  with assms obtain res where
    "t = [Update (md\<lparr>MD_Spec := (MD_Spec md)\<lparr>Spec_Replicas := n\<rparr>\<rparr>) res]"
    "case res of Inl e \<Rightarrow> \<exists>err. (Inr md' :: 'a error + ModelDeployment) = Inl err
     | Inr m \<Rightarrow> (Inr md' :: 'a error + ModelDeployment) = Inr m"
    by (auto simp: write_run_def)
  with False show ?thesis by (cases res) auto
qed (use assms in \<open>simp add: write_run_def\<close>)

lemma ignore_None:
  assumes "documented_errors L"
  shows "IgnoreNotFound L e = None \<longleftrightarrow> e = None \<or> (\<exists>x. e = Some x \<and> IsNotFound L x)"
  using assms by (cases e) (auto simp: documented_errors_def)

lemma sync_run_update:
  assumes "sync_run r md out t" "Update md' res \<in> set t"
  shows "MD_ObjectMeta md' = MD_ObjectMeta md"
proof -
  have w: "write_run md n o3 t3 \<Longrightarrow> Update md' res \<in> set t3 \<Longrightarrow> MD_ObjectMeta md' = MD_ObjectMeta md"
    for n o3 and t3 :: "('b, 'c) call list"
    by (auto dest: write_run_calls)
  note parts = cache_run_calls(3) [of r md "CacheKey md" _ _ "Update md' res"]
    decide_run_calls [of r md _ _ _ _ "Update md' res"]
  from assms show ?thesis
    by cases (auto dest: w parts rollout_run_calls)
qed

lemma sync_run_apply:
  assumes "sync_run r md out t" "t = pre @ Apply cfg owner force e # post"
  obtains md' n cache where "rollout_call r md' (CacheKey md) n cache (Apply cfg owner force e)"
    "cache_warm cache \<Longrightarrow> \<exists>job. GetJob (own_key md (WarmJobName md (CacheKey md))) (Inr job) \<in> set pre \<and>
       0 <s JobStatus_Succeeded (Job_Status job)"
    "n = Replicas md \<and> md' = md \<or>
     Update (md\<lparr>MD_Spec := (MD_Spec md)\<lparr>Spec_Replicas := n\<rparr>\<rparr>) (Inr md') \<in> set pre"
proof -
  let ?c = "Apply cfg owner force e"
  have early: "?c \<notin> set t1" "?c \<notin> set t2" "?c \<notin> set t3"
    if "cache_run r md (CacheKey md) o1 t1" "decide_run r md warm st o2 t2" "write_run md n o3 t3"
    for o1 t1 warm st o2 t2 n o3 t3
    using that cache_run_calls(2) decide_run_calls write_run_calls by (fastforce+)
  show thesis
    using assms(1)
  proof cases
    case (rolls_out cache t1 n scaleErr st' t2 md' t3 t4)
    have "?c \<notin> set (t1 @ t2 @ t3)" using early [OF rolls_out(2-4)] by simp
    then obtain zs where pre: "pre = (t1 @ t2 @ t3) @ zs" and t4: "t4 = zs @ ?c # post"
      using split_after [of "t1 @ t2 @ t3" t4 pre ?c post] assms(2) rolls_out(1) by auto
    show thesis
    proof (rule that [of md' n cache])
      show "rollout_call r md' (CacheKey md) n cache ?c"
        using rollout_run_calls [OF rolls_out(5), of ?c] t4 by simp
      show "\<exists>job. GetJob (own_key md (WarmJobName md (CacheKey md))) (Inr job) \<in> set pre \<and>
          0 <s JobStatus_Succeeded (Job_Status job)" if "cache_warm cache"
        using cache_run_warm [OF rolls_out(2) that] pre by auto
      show "n = Replicas md \<and> md' = md \<or>
          Update (md\<lparr>MD_Spec := (MD_Spec md)\<lparr>Spec_Replicas := n\<rparr>\<rparr>) (Inr md') \<in> set pre"
        using write_run_Inr [OF rolls_out(4)] pre by auto
    qed
  next
    case (cache_fails cache err)
    then show thesis using cache_run_calls(2) [of r md "CacheKey md" _ t ?c] assms(2) by auto
  next
    case (decide_panics cache t1 p t2)
    then show thesis
      using cache_run_calls(2) [OF decide_panics(3), of ?c] decide_run_calls [OF decide_panics(4), of ?c] assms(2)
      by (metis Un_iff call.distinct is_apply.simps(1) in_set_conv_decomp set_append)
  next
    case (write_fails cache t1 n scaleErr st' t2 err t3)
    then have "?c \<notin> set t" using early [OF write_fails(3-5)] by simp
    with assms(2) show thesis by simp
  qed
qed


subsection \<open>Status writes\<close>

text \<open>Where a status write of a run comes from.\<close>

lemma rollout_run_status:
  assumes "rollout_run r md k n cache st out t" "StatusUpdate md' res \<in> set t"
  obtains nxt g where "answers (build (R_Lib r) (applyWorkload st (workload_of g) (held md cache)) (MD_Status md)) nxt"
    "md' = md\<lparr>MD_Status := nxt\<rparr>" "GetDeployment (own_key md (DeploymentName md)) g \<in> set t"
    "\<not> Semantic_DeepEqual (R_Lib r) (MD_Status md) nxt"
    "case res of Inl e \<Rightarrow> \<exists>err. out = fail err | Inr md2 \<Rightarrow> out = Inr (result_for md2, None)"
proof -
  note result = that
  have no: "dep_run r md k n cache err t' \<Longrightarrow> StatusUpdate md' res \<notin> set t'"
    "svc_run r md err t' \<Longrightarrow> StatusUpdate md' res \<notin> set t'"
    "pdb_run r md n err t' \<Longrightarrow> StatusUpdate md' res \<notin> set t'"
    "observe_run r md o' t' \<Longrightarrow> StatusUpdate md' res \<notin> set t'" for err o' t'
    by (auto simp: apply_run_def pdb_run_def observe_run_def split: if_splits)
  have yes: thesis
    if s: "status_run r md (applyWorkload st w (held md cache)) o5 t5" "StatusUpdate md' res \<in> set t5"
      and o: "observe_run r md (w, None) t4" "set t4 \<subseteq> set t"
      and out: "snd o5 = None \<Longrightarrow> out = Inr (result_for (fst o5), None)" "snd o5 \<noteq> None \<Longrightarrow> \<exists>err. out = fail err"
    for w o5 t4 t5
  proof -
    from o(1) obtain g where "t4 = [GetDeployment (own_key md (DeploymentName md)) g]" "w = workload_of g"
      by (auto simp: observe_run_def)
    moreover from s obtain nxt where
      "answers (build (R_Lib r) (applyWorkload st w (held md cache)) (MD_Status md)) nxt"
      "md' = md\<lparr>MD_Status := nxt\<rparr>" "\<not> Semantic_DeepEqual (R_Lib r) (MD_Status md) nxt"
      "case res of Inl e \<Rightarrow> snd o5 \<noteq> None | Inr md2 \<Rightarrow> o5 = (md2, None)"
      by (auto simp: status_run_def split: if_splits) blast
    ultimately show thesis
      using o(2) out by (intro result [of g nxt]) (auto split: sum.splits)
  qed
  from assms(1) show thesis
  proof cases
    case (status_fails t1 t2 t3 w t4 md2 err t5)
    then show thesis using assms(2) no by (intro yes [of w "(md2, Some err)" t5 t4]) auto
  next
    case (rolled_out t1 t2 t3 w t4 md2 t5)
    then show thesis using assms(2) no by (intro yes [of w "(md2, None)" t5 t4]) auto
  qed (use assms(2) no in auto)
qed

lemma decide_run_builder:
  assumes "decide_run r md warm st (Inr (n, err, st')) t"
  shows "sb_cache st' = sb_cache st" "sb_scaleErr st' = sb_scaleErr st" "sb_cacheKey st' = sb_cacheKey st"
  using assms by (cases; simp)+

lemma builder_simps [simp]:
  "sb_cache (applyCache st cache) = cache" "sb_scaleErr (applyCache st cache) = sb_scaleErr st"
  "sb_queueDepth (applyCache st cache) = sb_queueDepth st"
  "sb_scaleErr (newStatusBuilder md k) = None"
  "sb_queueDepth (newStatusBuilder md k) = Status_ObservedQueueDepth (MD_Status md)"
  "sb_cache (note_error st err) = sb_cache st" "sb_queueDepth (note_error st err) = sb_queueDepth st"
  "sb_cache (applyWorkload st w p) = sb_cache st" "sb_scaleErr (applyWorkload st w p) = sb_scaleErr st"
  "sb_md (applyWorkload st w p) = sb_md st" "sb_workload (applyWorkload st w p) = w"
  "sb_paused (applyWorkload st w p) = p" "sb_queueDepth (applyWorkload st w p) = sb_queueDepth st"
  by (simp_all add: applyCache_def newStatusBuilder_def note_error_def applyWorkload_def split: option.split)

lemma note_error_scaleErr:
  "sb_scaleErr st = None \<Longrightarrow> sb_scaleErr (note_error st err) = err"
  by (simp add: note_error_def split: option.split)

text \<open>A status write of \<open>sync\<close> is in its last part.\<close>

lemma sync_run_rolls_out:
  assumes "sync_run r md out t" "StatusUpdate md' res \<in> set t"
  obtains cache t1 n scaleErr st t2 md1 t3 t4 where "t = t1 @ t2 @ t3 @ t4"
    "cache_run r md (CacheKey md) (Inr (cache, None)) t1"
    "decide_run r md (cache_warm cache) (applyCache (newStatusBuilder md (CacheKey md)) cache)
       (Inr (n, scaleErr, st)) t2"
    "write_run md n (Inr md1) t3"
    "rollout_run r md1 (CacheKey md) n cache ((note_error st scaleErr)\<lparr>sb_md := md1\<rparr>) out t4"
    "StatusUpdate md' res \<in> set t4"
proof -
  let ?c = "StatusUpdate md' res"
  have early: "?c \<notin> set t1" "?c \<notin> set t2" "?c \<notin> set t3"
    if "cache_run r md (CacheKey md) o1 t1" "decide_run r md warm st o2 t2" "write_run md n o3 t3"
    for o1 t1 warm st o2 t2 n o3 t3
    using that cache_run_calls(4) decide_run_calls write_run_calls by (fastforce+)
  from assms(1) show thesis
  proof cases
    case (rolls_out cache t1 n scaleErr st t2 md1 t3 t4)
    have "?c \<in> set t4" using assms(2) early [OF rolls_out(2-4)] rolls_out(1) by auto
    then show thesis by (rule that [OF rolls_out])
  next
    case (cache_fails cache err)
    then show thesis using cache_run_calls(4) [of r md "CacheKey md" _ t ?c] assms(2) by auto
  next
    case (decide_panics cache t1 p t2)
    then show thesis
      using cache_run_calls(4) [OF decide_panics(3), of ?c] decide_run_calls [OF decide_panics(4), of ?c] assms(2)
      by auto
  next
    case (write_fails cache t1 n scaleErr st t2 err t3)
    then have "?c \<notin> set t" using early [OF write_fails(3-5)] by simp
    with assms(2) show thesis by simp
  qed
qed

text \<open>The builder behind a status write of \<open>sync\<close>, with the observations it is made from.\<close>

lemma sync_run_status:
  assumes "sync_run r md out t" "StatusUpdate md' res \<in> set t"
  obtains cache n scaleErr st md1 nxt g t2 b where
    "cache_warm cache \<longrightarrow> (\<exists>job. GetJob (own_key md (WarmJobName md (CacheKey md))) (Inr job) \<in> set t \<and>
       0 <s JobStatus_Succeeded (Job_Status job))"
    "decide_run r md (cache_warm cache) (applyCache (newStatusBuilder md (CacheKey md)) cache)
       (Inr (n, scaleErr, st)) t2"
    "\<forall>ns m sel q. QueueDepth ns m sel q \<in> set t \<longrightarrow> QueueDepth ns m sel q \<in> set t2"
    "n = Replicas md \<and> md1 = md \<or> Update (md\<lparr>MD_Spec := (MD_Spec md)\<lparr>Spec_Replicas := n\<rparr>\<rparr>) (Inr md1) \<in> set t"
    "b = applyWorkload ((note_error st scaleErr)\<lparr>sb_md := md1\<rparr>) (workload_of g) (held md1 cache)"
    "answers (build (R_Lib r) b (MD_Status md1)) nxt" "md' = md1\<lparr>MD_Status := nxt\<rparr>"
    "GetDeployment (own_key md1 (DeploymentName md1)) g \<in> set t"
    "case res of Inl e \<Rightarrow> \<exists>err. out = fail err | Inr md2 \<Rightarrow> out = Inr (result_for md2, None)"
proof -
  obtain cache t1 n scaleErr st t2 md1 t3 t4 where p: "t = t1 @ t2 @ t3 @ t4"
    "cache_run r md (CacheKey md) (Inr (cache, None)) t1"
    "decide_run r md (cache_warm cache) (applyCache (newStatusBuilder md (CacheKey md)) cache)
       (Inr (n, scaleErr, st)) t2"
    "write_run md n (Inr md1) t3"
    "rollout_run r md1 (CacheKey md) n cache ((note_error st scaleErr)\<lparr>sb_md := md1\<rparr>) out t4"
    "StatusUpdate md' res \<in> set t4"
    by (rule sync_run_rolls_out [OF assms])
  from rollout_run_status [OF p(5,6)] obtain nxt g where
    s: "answers (build (R_Lib r) (applyWorkload ((note_error st scaleErr)\<lparr>sb_md := md1\<rparr>)
          (workload_of g) (held md1 cache)) (MD_Status md1)) nxt"
      "md' = md1\<lparr>MD_Status := nxt\<rparr>" "GetDeployment (own_key md1 (DeploymentName md1)) g \<in> set t4"
      "case res of Inl e \<Rightarrow> \<exists>err. out = fail err | Inr md2 \<Rightarrow> out = Inr (result_for md2, None)" .
  have w: "cache_warm cache \<longrightarrow> (\<exists>job. GetJob (own_key md (WarmJobName md (CacheKey md))) (Inr job) \<in> set t \<and>
      0 <s JobStatus_Succeeded (Job_Status job))"
    using cache_run_warm [OF p(2)] p(1) by auto
  have u: "n = Replicas md \<and> md1 = md \<or>
      Update (md\<lparr>MD_Spec := (MD_Spec md)\<lparr>Spec_Replicas := n\<rparr>\<rparr>) (Inr md1) \<in> set t"
    using write_run_Inr [OF p(4)] p(1) by auto
  have q: "\<forall>ns m sel q. QueueDepth ns m sel q \<in> set t \<longrightarrow> QueueDepth ns m sel q \<in> set t2"
    using p(1) cache_run_calls(1) [OF p(2)] write_run_calls [OF p(4)] rollout_run_calls [OF p(5)] by fastforce
  show thesis
    by (rule that [OF w p(3) q u refl s(1,2) _ s(4)]) (use p(1) s(3) in auto)
qed

subsection \<open>Every call of sync\<close>

lemma sync_run_call:
  assumes "sync_run r md out t" "c \<in> set t"
  obtains (cache) o1 t1 where "cache_run r md (CacheKey md) o1 t1" "c \<in> set t1" "set t1 \<subseteq> set t"
  | (depth) ns m sel res where "c = QueueDepth ns m sel res"
  | (event) md' a b d e where "c = Eventf md' a b d e"
  | (writes) n res where "c = Update (md\<lparr>MD_Spec := (MD_Spec md)\<lparr>Spec_Replicas := n\<rparr>\<rparr>) res"
  | (rollout) md' n cache where "rollout_call r md' (CacheKey md) n cache c"
proof -
  have decide: thesis if "decide_run r md warm st o2 t2" "c \<in> set t2" for warm st o2 t2
    using decide_run_calls [OF that] depth event by blast
  have wr: thesis if "write_run md n o3 t3" "c \<in> set t3" for n o3 t3
    using write_run_calls [OF that] writes by blast
  have roll: thesis if "rollout_run r md' (CacheKey md) n ca st o4 t4" "c \<in> set t4" for md' n ca st o4 t4
    using rollout_run_calls [OF that] rollout by blast
  from assms(1) show thesis
  proof cases
    case (cache_fails ca err)
    then show thesis using cache assms(2) by blast
  next
    case (decide_panics ca t1 p t2)
    with assms(2) consider "c \<in> set t1" | "c \<in> set t2" by auto
    then show thesis
      using decide_panics cache [OF decide_panics(3)] decide [OF decide_panics(4)] by cases auto
  next
    case (write_fails ca t1 n scaleErr st t2 err t3)
    with assms(2) consider "c \<in> set t1" | "c \<in> set t2" | "c \<in> set t3" by auto
    then show thesis
      using write_fails(2) cache [OF write_fails(3)] decide [OF write_fails(4)] wr [OF write_fails(5)]
      by cases auto
  next
    case (rolls_out ca t1 n scaleErr st t2 md' t3 t4)
    with assms(2) consider "c \<in> set t1" | "c \<in> set t2" | "c \<in> set t3" | "c \<in> set t4" by auto
    then show thesis
      using rolls_out(1) cache [OF rolls_out(2)] decide [OF rolls_out(3)] wr [OF rolls_out(4)]
        roll [OF rolls_out(5)]
      by cases auto
  qed
qed

lemma sync_run_claim:
  assumes "sync_run r md out t"
  shows "Delete (PVCObject pvc) policy e \<notin> set t"
    and "Create (PVCObject pvc) e \<in> set t \<Longrightarrow>
      \<exists>pvc0 x. OwnsPVC md \<and> PVC md = Inr pvc0 \<and> own r md (PVCObject pvc0) = Inr (PVCObject pvc) \<and>
        GetPVC (own_key md (PVCName md)) (Inl x) \<in> set t \<and> IsNotFound (R_Lib r) x"
proof -
  show "Delete (PVCObject pvc) policy e \<notin> set t"
  proof
    assume "Delete (PVCObject pvc) policy e \<in> set t"
    with assms show False
      by (rule sync_run_call) (auto dest: cache_run_calls(1))
  qed
next
  assume "Create (PVCObject pvc) e \<in> set t"
  with assms obtain o1 t1 where t1: "cache_run r md (CacheKey md) o1 t1" "Create (PVCObject pvc) e \<in> set t1"
    "set t1 \<subseteq> set t"
    by (rule sync_run_call) auto
  then have "\<exists>x. GetPVC (own_key md (PVCName md)) (Inl x) \<in> set t1 \<and> IsNotFound (R_Lib r) x"
    by (auto simp: cache_run_def split: if_splits)
  moreover have "\<exists>pvc0. OwnsPVC md \<and> PVC md = Inr pvc0 \<and> own r md (PVCObject pvc0) = Inr (PVCObject pvc)"
    using cache_run_calls(1) [OF t1(1,2)] by (auto simp: own_Inr_iff)
  ultimately show "\<exists>pvc0 x. OwnsPVC md \<and> PVC md = Inr pvc0 \<and> own r md (PVCObject pvc0) = Inr (PVCObject pvc) \<and>
        GetPVC (own_key md (PVCName md)) (Inl x) \<in> set t \<and> IsNotFound (R_Lib r) x"
    using t1(3) by blast
qed

lemma apply_run_ok:
  "apply_run r md obj None t \<Longrightarrow> \<exists>cfg. applies r md obj cfg \<and> t = [Apply cfg FieldOwner True None]"
  by (auto simp: apply_run_def)

subsection \<open>The status a reconcile writes\<close>

text \<open>Conditions are keyed by type in every object the API server answers with.\<close>

definition keyed :: "ModelDeployment \<Rightarrow> bool" where
  "keyed md \<longleftrightarrow> distinct (map Condition_Type (Status_Conditions (MD_Status md)))"

fun keyed_answer :: "('e, 'u) call \<Rightarrow> bool" where
  "keyed_answer (GetModelDeployment key (Inr md)) \<longleftrightarrow> keyed md"
| "keyed_answer (Update md (Inr md')) \<longleftrightarrow> keyed md'"
| "keyed_answer _ \<longleftrightarrow> True"

lemma reconcile_run_status:
  assumes "reconcile_run r req out t" "documented_finalizers (R_Lib r)" "StatusUpdate md' res \<in> set t"
  obtains md t' where "t = GetModelDeployment req (Inr md) # t'" "sync_run r md out t'"
    "StatusUpdate md' res \<in> set t'"
  using assms(1,2)
proof (cases rule: reconcile_run_cases)
  case (finalizes md t')
  from finalizes(3) finalizes(1) assms(3) show thesis by cases auto
next
  case (syncs md t')
  then show thesis using assms(3) that by simp
qed (use assms(3) in auto)

lemma written_status:
  assumes "reconcile_run r req out t" "documented_finalizers (R_Lib r)" "documented_conditions (R_Lib r)"
    and "list_all keyed_answer t" "StatusUpdate md' res \<in> set t"
  obtains md cache n scaleErr st md1 g t2 b where
    "cache_warm cache \<longrightarrow> (\<exists>job. GetJob (own_key md (WarmJobName md (CacheKey md))) (Inr job) \<in> set t \<and>
       0 <s JobStatus_Succeeded (Job_Status job))"
    "decide_run r md (cache_warm cache) (applyCache (newStatusBuilder md (CacheKey md)) cache)
       (Inr (n, scaleErr, st)) t2"
    "\<forall>ns m sel q. QueueDepth ns m sel q \<in> set t \<longrightarrow> QueueDepth ns m sel q \<in> set t2"
    "b = applyWorkload ((note_error st scaleErr)\<lparr>sb_md := md1\<rparr>) (workload_of g) (held md1 cache)"
    "MD_Spec md' = MD_Spec md1" "MD_ObjectMeta md' = MD_ObjectMeta md1"
    "GetModelDeployment req (Inr md) \<in> set t"
    "GetDeployment (own_key md' (DeploymentName md')) g \<in> set t"
    "Status_ObservedQueueDepth (MD_Status md') = sb_queueDepth st"
    "\<forall>c \<in> set (built (ErrorText (R_Lib r)) b).
       \<exists>c'. condition_of (Condition_Type c) (Status_Conditions (MD_Status md')) = Some c' \<and>
            Condition_Status c' = Condition_Status c"
proof -
  obtain md t' where t: "t = GetModelDeployment req (Inr md) # t'" "sync_run r md out t'"
    "StatusUpdate md' res \<in> set t'"
    using reconcile_run_status [OF assms(1,2,5)] .
  obtain cache n scaleErr st md1 nxt g t2 b where
    s: "cache_warm cache \<longrightarrow> (\<exists>job. GetJob (own_key md (WarmJobName md (CacheKey md))) (Inr job) \<in> set t' \<and>
         0 <s JobStatus_Succeeded (Job_Status job))"
      "decide_run r md (cache_warm cache) (applyCache (newStatusBuilder md (CacheKey md)) cache)
         (Inr (n, scaleErr, st)) t2"
      "\<forall>ns m sel q. QueueDepth ns m sel q \<in> set t' \<longrightarrow> QueueDepth ns m sel q \<in> set t2"
      "n = Replicas md \<and> md1 = md \<or> Update (md\<lparr>MD_Spec := (MD_Spec md)\<lparr>Spec_Replicas := n\<rparr>\<rparr>) (Inr md1) \<in> set t'"
      "b = applyWorkload ((note_error st scaleErr)\<lparr>sb_md := md1\<rparr>) (workload_of g) (held md1 cache)"
      "answers (build (R_Lib r) b (MD_Status md1)) nxt" "md' = md1\<lparr>MD_Status := nxt\<rparr>"
      "GetDeployment (own_key md1 (DeploymentName md1)) g \<in> set t'"
      "case res of Inl e \<Rightarrow> \<exists>err. out = fail err | Inr md2 \<Rightarrow> out = Inr (result_for md2, None)"
    using sync_run_status [OF t(2,3)] .
  have keyed: "distinct (map Condition_Type (Status_Conditions (MD_Status md1)))"
    using s(4) assms(4) t(1) by (auto simp: list_all_iff keyed_def)
  from s(6) obtain v v' where run: "run_state (build (R_Lib r) b (MD_Status md1)) v = (nxt, v')" by blast
  have same: "own_key md1 (DeploymentName md1) = own_key md' (DeploymentName md')"
    by (simp add: s(7) own_key_def DeploymentName_def)
  have depth: "Status_ObservedQueueDepth (MD_Status md') = sb_queueDepth st"
    using build_fields [OF run] s(7) by (cases nxt) (simp add: s(5))
  have look: "\<forall>c \<in> set (built (ErrorText (R_Lib r)) b).
      \<exists>c'. condition_of (Condition_Type c) (Status_Conditions (MD_Status md')) = Some c' \<and>
           Condition_Status c' = Condition_Status c"
  proof
    fix c assume "c \<in> set (built (ErrorText (R_Lib r)) b)"
    then obtain u where "condition_of (Condition_Type c) (Status_Conditions nxt) =
        Some (stored u (Status_Conditions (MD_Status md1)) c)"
      using build_lookup [OF assms(3) keyed run] by blast
    then show "\<exists>c'. condition_of (Condition_Type c) (Status_Conditions (MD_Status md')) = Some c' \<and>
        Condition_Status c' = Condition_Status c" by (simp add: s(7) stored_def)
  qed
  have warm: "cache_warm cache \<longrightarrow> (\<exists>job. GetJob (own_key md (WarmJobName md (CacheKey md))) (Inr job) \<in> set t \<and>
      0 <s JobStatus_Succeeded (Job_Status job))"
    using s(1) t(1) by auto
  have q: "\<forall>ns m sel q. QueueDepth ns m sel q \<in> set t \<longrightarrow> QueueDepth ns m sel q \<in> set t2"
    using t(1) s(3) by simp
  have md: "MD_Spec md' = MD_Spec md1" "MD_ObjectMeta md' = MD_ObjectMeta md1"
    "GetModelDeployment req (Inr md) \<in> set t"
    "GetDeployment (own_key md' (DeploymentName md')) g \<in> set t"
    using s(7,8) t(1) same by simp_all
  show thesis by (rule that [OF warm s(2) q s(5) md depth look])
qed

subsection \<open>The queue source as its client sees it\<close>

text \<open>
  With a source that reports no negative depth, neither does the status builder, unless the previous
  status already did.
\<close>

context queue_source
begin

lemma decide_depth:
  assumes "R_Queue r = Some depth" "decide_run r md warm st (Inr (n, err, st')) t"
  shows "sb_queueDepth st' = sb_queueDepth st \<or> 0 \<le> sint (sb_queueDepth st')"
  using assms(2) by cases (use assms(1) depth_nonneg in auto)

end

lemma sync_run_metric_failure:
  assumes "sync_run r md out t" "QueueDepth ns m sel (Inl err) \<in> set t"
  shows "Update md' res \<notin> set t"
proof -
  have none: "QueueDepth ns m sel (Inl err) \<notin> set t1" "Update md' res \<notin> set t1"
    if "cache_run r md k o1 t1" for k o1 t1
    using cache_run_calls(1) [OF that] by fastforce+
  have kept: "n = Replicas md" "Update md' res \<notin> set t2"
    if "decide_run r md warm st (Inr (n, e, st')) t2" "QueueDepth ns m sel (Inl err) \<in> set t2" for warm st n e st' t2
    using that by (cases; auto)+
  have roll: "QueueDepth ns m sel (Inl err) \<notin> set t4" "Update md' res \<notin> set t4"
    if "rollout_run r md1 k n ca st o4 t4" for md1 k n ca st o4 t4
    using rollout_run_calls [OF that] by fastforce+
  have wr: "QueueDepth ns m sel (Inl err) \<notin> set t3" if "write_run md n o3 t3" for n o3 t3
    using write_run_calls [OF that] by fastforce
  from assms(1) show ?thesis
  proof cases
    case (cache_fails ca e)
    then show ?thesis using none by blast
  next
    case (decide_panics ca t1 p t2)
    from decide_panics(4) have "Update md' res \<notin> set t2" by cases auto
    with decide_panics none show ?thesis by auto
  next
    case (write_fails ca t1 n scaleErr st t2 e t3)
    have "QueueDepth ns m sel (Inl err) \<in> set t2"
      using write_fails(2) assms(2) none [OF write_fails(3)] wr [OF write_fails(5)] by auto
    with kept [OF write_fails(4)] write_fails(5) show ?thesis by (auto simp: write_run_def)
  next
    case (rolls_out ca t1 n scaleErr st t2 md1 t3 t4)
    have "QueueDepth ns m sel (Inl err) \<in> set t2"
      using rolls_out(1) assms(2) none [OF rolls_out(2)] wr [OF rolls_out(4)] roll [OF rolls_out(5)] by auto
    with kept [OF rolls_out(3)] rolls_out none [OF rolls_out(2)] roll [OF rolls_out(5)] show ?thesis
      by (auto simp: write_run_def)
  qed
qed

end
