(* ===== verification/Scenarios.thy ===== *)
theory Scenarios
  imports Runs
begin

section \<open>Concrete reconciles\<close>

text \<open>
  Reconciles of the repository's fixture on the concrete cluster, evaluated: one whose first apply
  fails, one that succeeds, one whose metrics service is down, one that scales up and then fails, and
  a teardown. The witnesses of the properties use their traces. The cache key stays symbolic, its value plays
  no role.
\<close>

definition request :: ObjectKey where
  "request = object_key ''inference'' ''qwen''"

definition live_cache :: WeightCacheSpec where
  "live_cache = the (WeightCache fixture)"

text \<open>The live fixture with an autoscaling policy.\<close>

definition scaling_spec :: AutoscalingSpec where
  "scaling_spec =
     \<lparr>AutoscalingSpec_MinReplicas = 1, AutoscalingSpec_MaxReplicas = 8, AutoscalingSpec_TargetQueueDepth = 4,
      AutoscalingSpec_MetricName = ''vllm_num_requests_waiting'',
      AutoscalingSpec_ScaleUpStabilizationSeconds = 60, AutoscalingSpec_ScaleDownStabilizationSeconds = 900,
      AutoscalingSpec_MaxScaleUpStep = 2\<rparr>"

definition scaled :: ModelDeployment where
  "scaled = live\<lparr>MD_Spec := (MD_Spec live)\<lparr>Spec_Autoscaling := Some scaling_spec\<rparr>\<rparr>"

lemma live_simps [simp]:
  "\<not> deleting live" "has_finalizer Finalizer live" "Spec_Autoscaling (MD_Spec live) = None"
  "WeightCache live = Some live_cache" "OwnsPVC live" "Replicas live = 2" "keyed live"
  "MD_Name live = ''qwen''" "PDBMinAvailable live 2 = (1, True)" "Status_CacheKey (MD_Status live) = ''''"
  by (simp_all add: live_def live_cache_def set_finalizers_def fixture_def object_meta_def deleting_def keyed_def
      metaTime_IsZero_def has_finalizer_def OwnsPVC_def PDBMinAvailable_def go_min_def word_sless_alt word_sle_eq)

lemma scaled_simps [simp]:
  "\<not> deleting scaled" "has_finalizer Finalizer scaled" "Spec_Autoscaling (MD_Spec scaled) = Some scaling_spec"
  "WeightCache scaled = Some live_cache" "OwnsPVC scaled" "Replicas scaled = 2" "keyed scaled"
  "MD_Name scaled = ''qwen''" "lastScaleTime scaled = 0"
  using live_simps
  by (simp_all add: scaled_def deleting_def has_finalizer_def OwnsPVC_def keyed_def lastScaleTime_def)
     (simp add: live_def set_finalizers_def fixture_def)

lemma no_deletion [simp]: "\<not> deleting md \<Longrightarrow> metaTime_IsZero (ObjectMeta_DeletionTimestamp (MD_ObjectMeta md))"
  by (simp add: deleting_def)

lemma live_valid: "crd_valid (MD_Spec live)"
  using fixture_valid by (simp add: live_def set_finalizers_def)

definition live_pvc :: "ModelDeployment \<Rightarrow> PersistentVolumeClaim" where
  "live_pvc md = (case PVC md of Inr pvc \<Rightarrow> pvc | Inl p \<Rightarrow> undefined)"

lemma PVC_live [simp]: "WeightCache md = Some live_cache \<Longrightarrow> PVC md = Inr (live_pvc md)"
  by (simp add: live_pvc_def PVC_def)

lemma test_job_simps [simp]:
  "JobStatus_Succeeded (Job_Status (test_job n)) = n" "findJobCondition (test_job n) t = None"
  by (simp_all add: test_job_def findJobCondition_def)

subsection \<open>The controller's functions on the concrete cluster\<close>

lemmas test_calls = call_defs perform_def silently_def

abbreviation test_run where
  "test_run md job dep pods applied q \<equiv> test_reconciler (test_client md job dep pods applied) q"

definition owned :: "ModelDeployment \<Rightarrow> Object \<Rightarrow> Object" where
  "owned md obj = with_meta obj ((Object_meta obj)\<lparr>ObjectMeta_OwnerReferences := [test_owner md]\<rparr>)"

lemma run_own [simp]: "own (test_reconciler c q) md obj = Inr (owned md obj)"
  by (simp add: own_def owned_def)

lemma owned_simps [simp]:
  "Object_type (owned md obj) = Object_type obj" "GetName (owned md obj) = GetName obj"
  by (cases obj; simp add: owned_def)+

lemma owned_PVC: "\<exists>pvc'. owned md (PVCObject pvc) = PVCObject pvc'"
  by (simp add: owned_def)

lemma test_applyConfiguration [simp]:
  "applyConfiguration test_library obj = Inr (ApplyConfigurationFromUnstructured obj)"
  by (simp add: applyConfiguration_def test_library_def)

lemma run_apply [simp]:
  "run_state (applyOwned (test_run md job dep pods applied q) md' obj) s =
     (map_option (\<lambda>e. Wrapf (''apply '' @ Object_type obj @ '' '' @ GetName obj) (Library_error e)) applied,
      s\<lparr>calls := calls s @ [Apply (ApplyConfigurationFromUnstructured (owned md' obj)) FieldOwner True applied]\<rparr>)"
  unfolding applyOwned_def by (simp del: append.simps) (simp add: test_calls)

definition warm_cache :: "ModelDeployment \<Rightarrow> string \<Rightarrow> cacheState" where
  "warm_cache md k = \<lparr>cache_enabled = True, cache_warm = True, cache_failed = False,
                      cache_jobName = WarmJobName md k, cache_message = ''''\<rparr>"

lemma warm_cache_warm [simp]: "cache_warm (warm_cache md k)" "\<not> cache_failed (warm_cache md k)"
  by (simp_all add: warm_cache_def)

text \<open>The calls of the weight cache when the claim is missing and the Job has succeeded.\<close>

definition cache_calls :: "ModelDeployment \<Rightarrow> string \<Rightarrow> (string, Object) call list" where
  "cache_calls md k =
     [GetPVC (own_key md (PVCName md)) (Inl NotFound), Create (owned md (PVCObject (live_pvc md))) None,
      GetJob (own_key md (WarmJobName md k)) (Inr (test_job 1)),
      ListJobs (MD_Namespace md) (warm_selector md) (Inr [])]"

lemma run_claim [simp]:
  assumes "WeightCache md = Some live_cache" "OwnsPVC md"
  shows "run_state (ensureClaim (test_run md0 job dep pods applied q) md) s =
     (Inr None, s\<lparr>calls := calls s @
        [GetPVC (own_key md (PVCName md)) (Inl NotFound), Create (owned md (PVCObject (live_pvc md))) None]\<rparr>)"
  using assms by (simp add: ensureClaim_def create_tolerant_def test_calls own_key_def Let_def)

lemma run_prune [simp]:
  "run_state (pruneStaleWarmJobs (test_run md0 job dep pods applied q) md k) s =
     (None, s\<lparr>calls := calls s @ [ListJobs (MD_Namespace md) (warm_selector md) (Inr [])]\<rparr>)"
  by (simp add: pruneStaleWarmJobs_def test_calls warm_selector_def)

lemma run_cache [simp]:
  assumes "WeightCache md = Some live_cache" "OwnsPVC md"
  shows "run_state (reconcileWeightCache (test_run md0 (Inr (test_job 1)) dep pods applied q) md k) s =
     (Inr (warm_cache md k, None), s\<lparr>calls := calls s @ cache_calls md k\<rparr>)"
  using assms
  by (simp add: reconcileWeightCache_def warmJobState_def test_calls own_key_def cache_calls_def
      cacheState0_def warm_cache_def Let_def word_sless_alt)

lemma run_decide_live [simp]: "run_state (decideReplicas r live warm st) s = (Inr (2, None, st), s)"
  by (simp add: decideReplicas_def)

lemma run_write_same [simp]: "Replicas md = n \<Longrightarrow> run_state (writeReplicas r md n) s = (Inr md, s)"
  by (simp add: writeReplicas_def)

lemma run_get:
  assumes "\<not> deleting md" "has_finalizer Finalizer md"
  shows "reconcile_trace (test_run md job dep pods applied q) request w =
     (case run_state (sync (test_run md job dep pods applied q) md)
        \<lparr>world = w, calls = [GetModelDeployment request (Inr md)]\<rparr> of (out, s) \<Rightarrow> (out, calls s))"
  using assms by (simp add: reconcile_trace_def Reconcile_def test_calls)

subsection \<open>An apply that fails\<close>

definition failing :: "(gotime, string, Object) ModelDeploymentReconciler" where
  "failing = test_run live (Inr (test_job 1)) (Inr (test_deployment 2)) [] (Some ''boom'') None"

abbreviation deployed where
  "deployed md n e \<equiv> Apply (ApplyConfigurationFromUnstructured
     (owned md (DeploymentObject (Deployment md (CacheKey md) n False)))) FieldOwner True e"

lemma failing_trace:
  "reconcile_trace failing request 0 =
    (fail (Wrapf ''apply *v1.Deployment qwen'' (Library_error ''boom'')),
     GetModelDeployment request (Inr live) # cache_calls live (CacheKey live) @ [deployed live 2 (Some ''boom'')])"
  unfolding failing_def run_get [OF live_simps(1,2)]
  by (simp add: sync_def rollout_def Let_def object_meta_def DeploymentName_def)

subsection \<open>A reconcile that succeeds\<close>

definition serving where
  "serving q = test_run live (Inr (test_job 1)) (Inr (test_deployment 2)) [] None q"

definition serving_builder :: "string statusBuilder" where
  "serving_builder =
     applyWorkload ((applyCache (newStatusBuilder live (CacheKey live)) (warm_cache live (CacheKey live)))
         \<lparr>sb_md := live\<rparr>)
       \<lparr>workload_replicas = 2, workload_readyReplicas = 2, workload_exists = True\<rparr> False"

definition served :: ModelDeployment where
  "served = live\<lparr>MD_Status := fst (run_state (build test_library serving_builder (MD_Status live)) 0)\<rparr>"

lemma served_run:
  "\<exists>w. run_state (build test_library serving_builder (MD_Status live)) 0 = (MD_Status served, w)"
  by (simp add: served_def) (metis prod.collapse)

lemma served_differs: "MD_Status live \<noteq> MD_Status served"
proof
  assume eq: "MD_Status live = MD_Status served"
  obtain w where "run_state (build test_library serving_builder (MD_Status live)) 0 = (MD_Status served, w)"
    using served_run ..
  from build_fields [OF this] have "Status_CacheKey (MD_Status served) = CacheKey live"
    by (cases "MD_Status served") (simp add: serving_builder_def applyWorkload_def applyCache_def newStatusBuilder_def)
  with eq have "CacheKey live = ''''" by (metis live_simps(10))
  with CacheKey_length [of live] show False by simp
qed

lemma served_ready:
  "\<exists>c. condition_of ConditionReady (Status_Conditions (MD_Status served)) = Some c \<and>
       Condition_Status c = ConditionTrue"
proof -
  obtain w where run: "run_state (build test_library serving_builder (MD_Status live)) 0 = (MD_Status served, w)"
    using served_run ..
  have "Condition_Status (ready serving_builder) = ConditionTrue"
    by (simp add: ready_true serving_builder_def applyCache_def newStatusBuilder_def applyWorkload_def word_sle_eq)
  moreover have "(ready serving_builder)\<lparr>Condition_ObservedGeneration := MD_Generation (sb_md serving_builder)\<rparr>
      \<in> set (built (ErrorText test_library) serving_builder)"
    by (simp add: built_def)
  ultimately show ?thesis
    using build_lookup [OF test_library_documented(4) live_simps(7) [unfolded keyed_def] run]
    by (force simp: stored_def)
qed

lemma test_deployment_status [simp]:
  "Deployment_Status (test_deployment n) = \<lparr>DeploymentStatus_Replicas = n, DeploymentStatus_ReadyReplicas = n\<rparr>"
  by (simp add: test_deployment_def)

definition rollout_calls :: "(string, Object) call list" where
  "rollout_calls =
     [deployed live 2 None,
      Apply (ApplyConfigurationFromUnstructured (owned live (ServiceObject (Service live)))) FieldOwner True None,
      Apply (ApplyConfigurationFromUnstructured (owned live (PDBObject (PDB live 1)))) FieldOwner True None,
      GetDeployment (own_key live (DeploymentName live)) (Inr (test_deployment 2)),
      StatusUpdate served (Inr served)]"

lemma run_status [simp]:
  "run_state (writeStatus (test_run md0 job dep pods applied q) live serving_builder) \<lparr>world = 0, calls = t\<rparr> =
     ((served, None),
      \<lparr>world = snd (run_state (build test_library serving_builder (MD_Status live)) 0),
       calls = t @ [StatusUpdate served (Inr served)]\<rparr>)"
  using served_differs
  by (cases "run_state (build test_library serving_builder (MD_Status live)) 0")
     (simp add: writeStatus_def test_calls served_def Let_def)

lemma served_autoscaling [simp]: "Spec_Autoscaling (MD_Spec served) = None"
  by (simp add: served_def)

lemma serving_trace:
  "reconcile_trace (serving q) request 0 =
    (Inr (Result0, None),
     GetModelDeployment request (Inr live) # cache_calls live (CacheKey live) @ rollout_calls)"
  unfolding serving_def run_get [OF live_simps(1,2)]
  by (simp add: sync_def rollout_def Let_def reconcilePDB_def observeDeployment_def Get_Deployment_def perform_def
      serving_builder_def [symmetric] rollout_calls_def own_key_def)

subsection \<open>Autoscaling\<close>

definition down :: "(gotime, string, Object) ModelDeploymentReconciler" where
  "down = test_run scaled (Inr (test_job 1)) (Inr (test_deployment 2)) [] (Some ''boom'')
            (Some (\<lambda>_ _ _. State_Monad.return (Inl (Errorf ''down''))))"

abbreviation asked where
  "asked res \<equiv> depth_call scaled scaling_spec res"

lemma down_trace:
  "reconcile_trace down request 0 =
    (fail (Wrapf ''apply *v1.Deployment qwen'' (Library_error ''boom'')),
     GetModelDeployment request (Inr scaled) # cache_calls scaled (CacheKey scaled) @
       [asked (Inl (Errorf ''down'')), deployed scaled 2 (Some ''boom'')])"
  unfolding down_def run_get [OF scaled_simps(1,2)]
  by (simp add: sync_def rollout_def Let_def decideReplicas_def Queue_Depth_def perform_def object_meta_def
      DeploymentName_def)

definition flooded :: "(gotime, string, Object) ModelDeploymentReconciler" where
  "flooded = test_run scaled (Inr (test_job 1)) (Inr (test_deployment 2)) [] (Some ''boom'')
               (Some (\<lambda>_ _ _. State_Monad.return (Inr 400)))"

lemma flooded_decision:
  "Decide (policy_of scaling_spec)
     \<lparr>State_CurrentReplicas = 2, State_QueueDepth = 400, State_WeightsCached = True,
      State_LastScale = 0, State_Now = t\<rparr> =
   Inr \<lparr>Decision_Replicas = 4, Decision_Changed = True, Decision_Reason = ReasonQueueAboveTarget\<rparr>"
  by (simp add: Decide_def policy_of_def scaling_spec_def ceilDiv_def clamp_def go_div_def go_min_def go_max_def
      elapsed_def time_defs word_sless_alt word_sle_eq signed_divide_int_def)

definition grown :: ModelDeployment where
  "grown = scaled\<lparr>MD_Spec := (MD_Spec scaled)\<lparr>Spec_Replicas := 4\<rparr>\<rparr>"

lemma grown_simps [simp]: "WeightCache grown = Some live_cache" "MD_Name grown = ''qwen''"
  by (simp_all add: grown_def)

lemma flooded_trace:
  "reconcile_trace flooded request 0 =
    (fail (Wrapf ''apply *v1.Deployment qwen'' (Library_error ''boom'')),
     GetModelDeployment request (Inr scaled) # cache_calls scaled (CacheKey scaled) @
       [asked (Inr 400),
        Eventf scaled ''Normal'' ReasonQueueAboveTarget ''Scaling'' (scaling_note 2 4 400),
        Update grown (Inr grown),
        Apply (ApplyConfigurationFromUnstructured
          (owned grown (DeploymentObject (Deployment grown (CacheKey scaled) 4 False)))) FieldOwner True (Some ''boom'')])"
  unfolding flooded_def run_get [OF scaled_simps(1,2)]
  by (simp add: sync_def rollout_def Let_def decideReplicas_def now_def writeReplicas_def test_calls object_meta_def
      DeploymentName_def flooded_decision grown_def [symmetric] split: prod.split)

subsection \<open>A teardown\<close>

definition torn_down :: "(gotime, string, Object) ModelDeploymentReconciler" where
  "torn_down = test_run dying (Inl NotFound) (Inl NotFound) [] None None"

definition released :: ModelDeployment where
  "released = set_finalizers [] dying"

lemma dying_simps [simp]:
  "deleting dying" "has_finalizer Finalizer dying"
  "RemoveFinalizer test_library dying Finalizer = released"
  by (simp_all add: dying_def live_def set_finalizers_def deleting_def metaTime_IsZero_def time_IsZero_def
      has_finalizer_def released_def test_library_def)

lemma torn_down_trace:
  "reconcile_trace torn_down request 0 =
    (Inr (Result0, None),
     [GetModelDeployment request (Inr dying), delete_deployment dying (Some NotFound), delete_jobs dying None,
      list_pods dying (Inr []), Update released (Inr released)])"
  using dying_simps(1)
  by (simp add: reconcile_trace_def Reconcile_def finalize_def torn_down_def test_calls deleting_def)

end
