(* ===== verification/Convergence.thy ===== *)
theory Convergence
  imports Runs Scenarios
begin

section \<open>Sequences of reconciles\<close>

text \<open>
  What one reconcile leaves for the next. Two reconciles of one object that see the same Job and the
  same Deployment settle: the second writes neither the object nor its status, so the controller does not
  wake itself up again. And the teardown ends: driven by its own requests to be called again, it
  releases the finalizer as soon as the pods are gone.
\<close>

subsection \<open>An unchanged object\<close>

text \<open>The object the API server stores for an update: the one that was sent, with a new resource version.\<close>

definition stored_as :: "ModelDeployment \<Rightarrow> ModelDeployment \<Rightarrow> bool" where
  "stored_as md md' \<longleftrightarrow>
     (\<exists>v. md' = md\<lparr>MD_ObjectMeta := (MD_ObjectMeta md)\<lparr>ObjectMeta_ResourceVersion := v\<rparr>\<rparr>)"

text \<open>Two traces have the same answers to the reads of Jobs and Deployments.\<close>

definition same_reads :: "('e, 'u) call list \<Rightarrow> ('e, 'u) call list \<Rightarrow> bool" where
  "same_reads t t' \<longleftrightarrow>
     (\<forall>key x y. GetJob key x \<in> set t \<longrightarrow> GetJob key y \<in> set t' \<longrightarrow> x = y) \<and>
     (\<forall>key x y. GetDeployment key x \<in> set t \<longrightarrow> GetDeployment key y \<in> set t' \<longrightarrow> x = y)"

lemma same_reads_subset:
  "same_reads t t' \<Longrightarrow> set s \<subseteq> set t \<Longrightarrow> set s' \<subseteq> set t' \<Longrightarrow> same_reads s s'"
  unfolding same_reads_def by (meson subsetD)

text \<open>Everything that is derived from an object apart from its status and its resource version.\<close>

lemma stored_as_status:
  assumes "stored_as (md\<lparr>MD_Status := nxt\<rparr>) md'"
  shows "MD_Spec md' = MD_Spec md" "MD_Status md' = nxt" "MD_Name md' = MD_Name md"
    "MD_Namespace md' = MD_Namespace md" "MD_Generation md' = MD_Generation md"
    "has_finalizer f md' = has_finalizer f md" "deleting md' = deleting md"
    "CacheKey md' = CacheKey md" "Endpoint md' = Endpoint md" "SelectorLabels md' = SelectorLabels md"
    "held md' = held md" "DeploymentName md' = DeploymentName md" "WarmJobName md' = WarmJobName md"
    "own_key md' = own_key md"
  using assms
  by (auto simp: stored_as_def has_finalizer_def deleting_def CacheKey_def cacheKeyInput_def Engine_def
      Endpoint_def ServiceName_def SelectorLabels_def held_def DeploymentName_def WarmJobName_def
      own_key_def fun_eq_iff)

text \<open>The status depends on the builder's object only through these.\<close>

lemma build_cong:
  assumes "MD_Spec md' = MD_Spec md" "MD_Generation md' = MD_Generation md"
    "Endpoint md' = Endpoint md" "SelectorLabels md' = SelectorLabels md"
  shows "build L (b\<lparr>sb_md := md'\<rparr>) = build L (b\<lparr>sb_md := md\<rparr>)"
proof -
  have "weightsCached (b\<lparr>sb_md := md'\<rparr>) = weightsCached (b\<lparr>sb_md := md\<rparr>)"
    by (simp add: weightsCached_def cong: if_cong)
  moreover have "ready (b\<lparr>sb_md := md'\<rparr>) = ready (b\<lparr>sb_md := md\<rparr>)"
    by (simp add: ready_def assms cong: if_cong)
  moreover have "degraded f (b\<lparr>sb_md := md'\<rparr>) = degraded f (b\<lparr>sb_md := md\<rparr>)"
    for f
    by (simp add: degraded_def cong: if_cong option.case_cong)
  ultimately have "build L (b\<lparr>sb_md := md'\<rparr>) prev = build L (b\<lparr>sb_md := md\<rparr>) prev" for prev
    by (simp add: build_def assms cong: option.case_cong)
  then show ?thesis by (rule ext)
qed

lemma cache_run_unique:
  assumes "cache_run r md k (Inr (c, None)) t" "cache_run r' md' k (Inr (c', None)) t'" "same_reads t t'"
    and "WeightCache md' = WeightCache md" "own_key md' = own_key md" "WarmJobName md' = WarmJobName md"
  shows "c' = c"
proof (cases "WeightCache md = None")
  case True
  then show ?thesis using assms by (simp add: cache_run_def)
next
  case False
  obtain res where 1: "GetJob (own_key md (WarmJobName md k)) res \<in> set t" "job_says md k res c"
    using assms(1) False by (auto simp: cache_run_def)
  obtain res' where 2: "GetJob (own_key md (WarmJobName md k)) res' \<in> set t'" "job_says md' k res' c'"
    using assms(2) False by (auto simp: cache_run_def assms(4-6))
  have "res' = res" using assms(3) 1(1) 2(1) by (auto simp: same_reads_def)
  then have "job_says md k res c'" using 2(2) by (simp add: job_says_def assms(6))
  then show ?thesis using job_says_unique 1(2) by blast
qed

text \<open>Without an autoscaling policy the decision is the count in the spec, and nothing is written to the object.\<close>

lemma decide_run_fixed:
  assumes "decide_run r md warm st (Inr (n, err, st')) t" "Spec_Autoscaling (MD_Spec md) = None"
  shows "n = Replicas md" "err = None" "st' = st" "t = []"
  using assms by (cases; simp)+

lemma sync_run_no_update:
  assumes "sync_run r md out t" "Spec_Autoscaling (MD_Spec md) = None"
  shows "Update md' res \<notin> set t"
proof
  assume u: "Update md' res \<in> set t"
  have no_policy: "write_run md n o3 t3 \<Longrightarrow> t3 = []" 
    if "decide_run r md warm st (Inr (n, err, st')) t2" for warm st n err st' t2 o3 and t3 :: "('b, 'c) call list"
    using decide_run_fixed [OF that assms(2)] by (simp add: write_run_def)
  have quiet: "Update md' res \<notin> set t2" if "decide_run r md warm st o2 t2" for warm st o2 t2
    using decide_run_calls [OF that, of "Update md' res"] by auto
  from assms(1) show False
  proof cases
    case (rolls_out cache t1 n scaleErr st t2 md1 t3 t4)
    then show False
      using u no_policy [OF rolls_out(3,4)] quiet [OF rolls_out(3)]
        cache_run_calls(3) [OF rolls_out(2), of "Update md' res"]
        rollout_run_calls [OF rolls_out(5), of "Update md' res"]
      by auto
  next
    case (cache_fails cache err)
    then show False using u cache_run_calls(3) [of r md "CacheKey md" _ t "Update md' res"] by auto
  next
    case (decide_panics cache t1 p t2)
    then show False
      using u cache_run_calls(3) [OF decide_panics(3), of "Update md' res"] quiet [OF decide_panics(4)] by auto
  next
    case (write_fails cache t1 n scaleErr st t2 err t3)
    then show False
      using u no_policy [OF write_fails(4,5)] quiet [OF write_fails(4)]
        cache_run_calls(3) [OF write_fails(3), of "Update md' res"] by auto
  qed
qed

subsection \<open>Settling\<close>

text \<open>The builder of a reconcile without a policy.\<close>

definition fixed_builder :: "ModelDeployment \<Rightarrow> cacheState \<Rightarrow> 'e + Deployment \<Rightarrow> 'e statusBuilder" where
  "fixed_builder md cache g =
     applyWorkload ((applyCache (newStatusBuilder md (CacheKey md)) cache)\<lparr>sb_md := md\<rparr>)
       (workload_of g) (held md cache)"

lemma written_without_policy:
  assumes "sync_run r md out t" "StatusUpdate md' res \<in> set t" "Spec_Autoscaling (MD_Spec md) = None"
  obtains cache t1 g nxt b where
    "cache_run r md (CacheKey md) (Inr (cache, None)) t1" "set t1 \<subseteq> set t"
    "GetDeployment (own_key md (DeploymentName md)) g \<in> set t"
    "b = fixed_builder md cache g"
    "answers (build (R_Lib r) b (MD_Status md)) nxt" "md' = md\<lparr>MD_Status := nxt\<rparr>"
    "\<not> Semantic_DeepEqual (R_Lib r) (MD_Status md) nxt"
proof -
  obtain cache t1 n scaleErr st t2 md1 t3 t4 where p: "t = t1 @ t2 @ t3 @ t4"
    "cache_run r md (CacheKey md) (Inr (cache, None)) t1"
    "decide_run r md (cache_warm cache) (applyCache (newStatusBuilder md (CacheKey md)) cache)
       (Inr (n, scaleErr, st)) t2"
    "write_run md n (Inr md1) t3"
    "rollout_run r md1 (CacheKey md) n cache ((note_error st scaleErr)\<lparr>sb_md := md1\<rparr>) out t4"
    "StatusUpdate md' res \<in> set t4"
    by (rule sync_run_rolls_out [OF assms(1,2)])
  note fixed = decide_run_fixed [OF p(3) assms(3)]
  have md1: "md1 = md" using p(4) fixed(1) by (simp add: write_run_def)
  from rollout_run_status [OF p(5,6)] obtain nxt g where
    s: "answers (build (R_Lib r) (applyWorkload ((note_error st scaleErr)\<lparr>sb_md := md1\<rparr>)
          (workload_of g) (held md1 cache)) (MD_Status md1)) nxt"
      "md' = md1\<lparr>MD_Status := nxt\<rparr>" "GetDeployment (own_key md1 (DeploymentName md1)) g \<in> set t4"
      "\<not> Semantic_DeepEqual (R_Lib r) (MD_Status md1) nxt" .
  show thesis
    by (rule that [OF p(2) _ _ refl]) (use s p(1) fixed in \<open>auto simp: md1 note_error_def fixed_builder_def\<close>)
qed

text \<open>The builder of a reconcile that reads the stored object builds what the one before it built.\<close>

lemma build_later:
  assumes "stored_as (md\<lparr>MD_Status := nxt\<rparr>) md2"
    and "run_state (build L (fixed_builder md cache g) (MD_Status md)) v = (nxt, v')"
  shows "build L (fixed_builder md2 cache g) = build L (fixed_builder md cache g)"
proof -
  note same = stored_as_status [OF assms(1)]
  have "Status_ObservedQueueDepth nxt = Status_ObservedQueueDepth (MD_Status md)"
    using build_fields [OF assms(2)]
    by (cases nxt) (simp add: fixed_builder_def applyWorkload_def applyCache_def newStatusBuilder_def split: option.splits)
  then have "fixed_builder md2 cache g = (fixed_builder md cache g)\<lparr>sb_md := md2\<rparr>"
    by (simp add: fixed_builder_def same applyWorkload_def applyCache_def newStatusBuilder_def)
  moreover have "fixed_builder md cache g = (fixed_builder md cache g)\<lparr>sb_md := md\<rparr>"
    by (simp add: fixed_builder_def applyWorkload_def)
  ultimately show ?thesis
    using build_cong [OF same(1,5,9,10), of L "fixed_builder md cache g"] by simp
qed

text \<open>
  C19. A reconcile settles. Take a reconcile of an object without an autoscaling policy that has written its status, and
  a later reconcile that reads the object as the API server stored it, and gets the same answers when it
  reads the warm-up Job and the Deployment. Then the later reconcile writes neither the object nor
  its status: it causes no event that would wake the controller again. The later reconcile may be
  one of another process (\<open>r'\<close>), after a restart.
\<close>

theorem settled_reconcile_is_quiet:
  assumes lib: "documented_finalizers (R_Lib r)" "documented_conditions (R_Lib r)" "documented_equality (R_Lib r)"
    and first: "snd (reconcile_trace r req w) = GetModelDeployment req (Inr md) # t"
      "StatusUpdate md1 (Inr md2) \<in> set t"
    and md: "Spec_Autoscaling (MD_Spec md) = None" "keyed md"
    and later: "R_Lib r' = R_Lib r" "stored_as md1 md2" "snd (reconcile_trace r' req w') = GetModelDeployment req (Inr md2) # t'"
      "same_reads t t'"
  shows "Update md3 res \<notin> set t' \<and> StatusUpdate md3 res \<notin> set t'"
proof -
  obtain out where run: "sync_run r md out t" and live: "\<not> deleting md" "has_finalizer Finalizer md"
    using trace_split [OF first(1)] lib(1)
    by (cases rule: reconcile_run_cases) (use first(2) in \<open>auto elim!: finalize_runE\<close>)
  obtain cache t1 g nxt b where s:
    "cache_run r md (CacheKey md) (Inr (cache, None)) t1" "set t1 \<subseteq> set t"
    "GetDeployment (own_key md (DeploymentName md)) g \<in> set t"
    "b = fixed_builder md cache g"
    "answers (build (R_Lib r) b (MD_Status md)) nxt" "md1 = md\<lparr>MD_Status := nxt\<rparr>"
    using written_without_policy [OF run first(2) md(1)] .
  note same = stored_as_status [OF later(2) [unfolded s(6)]]
  have policy2: "Spec_Autoscaling (MD_Spec md2) = None" by (simp add: same md)
  obtain out2 where run2: "sync_run r' md2 out2 t'"
    using trace_split [OF later(3)] lib(1) [folded later(1)]
    by (cases rule: reconcile_run_cases) (use live same in auto)
  have "StatusUpdate md3 res \<notin> set t'"
  proof
    assume "StatusUpdate md3 res \<in> set t'"
    from written_without_policy [OF run2 this policy2] obtain cache2 t2 g2 nxt2 b2 where s2:
      "cache_run r' md2 (CacheKey md2) (Inr (cache2, None)) t2" "set t2 \<subseteq> set t'"
      "GetDeployment (own_key md2 (DeploymentName md2)) g2 \<in> set t'"
      "b2 = fixed_builder md2 cache2 g2"
      "answers (build (R_Lib r') b2 (MD_Status md2)) nxt2"
      "\<not> Semantic_DeepEqual (R_Lib r') (MD_Status md2) nxt2" .
    have cache: "cache2 = cache"
      by (rule cache_run_unique [OF s(1) s2(1) [unfolded same(8)] same_reads_subset [OF later(4) s(2) s2(2)]])
        (simp_all add: same)
    have g: "g2 = g" 
      using later(4) s(3) s2(3) unfolding same_reads_def same by blast
    obtain v v' where bv: "run_state (build (R_Lib r) b (MD_Status md)) v = (nxt, v')" using s(5) by blast
    have "build (R_Lib r) b2 = build (R_Lib r) b"
      unfolding s2(4) s(4) cache g by (rule build_later [OF later(2) [unfolded s(6)] bv [unfolded s(4)]])
    then have "nxt2 = nxt"
      using s2(5) [unfolded later(1)] build_again [OF lib(2) md(2) [unfolded keyed_def] bv] by (auto simp: same) (metis fst_conv)
    then show False using s2(6) [unfolded later(1)] lib(3) by (simp add: documented_equality_def same)
  qed
  then show ?thesis using sync_run_no_update [OF run2 policy2] by blast
qed

text \<open>The reconcile of \<open>Scenarios\<close> that succeeds, and the one after it.\<close>

definition settling :: "(gotime, string, Object) ModelDeploymentReconciler" where
  "settling = test_run served (Inr (test_job 1)) (Inr (test_deployment 2)) [] None None"

lemma served_simps [simp]:
  "\<not> deleting served" "has_finalizer Finalizer served" "WeightCache served = Some live_cache" "OwnsPVC served"
  "Replicas served = 2" "PDBMinAvailable served 2 = (1, True)"
  using live_simps
  by (simp_all add: served_def deleting_def has_finalizer_def OwnsPVC_def PDBMinAvailable_def)

lemma writeStatus_calls:
  assumes "run_state (writeStatus r md st) s = (x, s')"
  shows "calls s' = calls s \<or> (\<exists>m res. calls s' = calls s @ [StatusUpdate m res])"
proof -
  obtain t where "calls s' = calls s @ t" "status_run r md st x t"
    by (rule emits_run [OF writeStatus_emits assms])
  then show ?thesis by (auto simp: status_run_def split: if_splits)
qed

definition settling_calls :: "(string, Object) call list" where
  "settling_calls =
     cache_calls served (CacheKey served) @
     [deployed served 2 None,
      Apply (ApplyConfigurationFromUnstructured (owned served (ServiceObject (Service served)))) FieldOwner True None,
      Apply (ApplyConfigurationFromUnstructured (owned served (PDBObject (PDB served 1)))) FieldOwner True None,
      GetDeployment (own_key served (DeploymentName served)) (Inr (test_deployment 2))]"

lemma settling_trace:
  "\<exists>t. snd (reconcile_trace settling request 1) = GetModelDeployment request (Inr served) # settling_calls @ t \<and>
     (t = [] \<or> (\<exists>m res. t = [StatusUpdate m res]))"
proof -
  let ?s = "\<lparr>world = 1, calls = GetModelDeployment request (Inr served) # settling_calls\<rparr>"
  let ?b = "applyWorkload ((applyCache (newStatusBuilder served (CacheKey served)) (warm_cache served (CacheKey served)))
         \<lparr>sb_md := served\<rparr>) \<lparr>workload_replicas = 2, workload_readyReplicas = 2, workload_exists = True\<rparr> False"
  obtain x s' where ws: "run_state (writeStatus settling served ?b) ?s = (x, s')" by fastforce
  have "snd (reconcile_trace settling request 1) = calls s'"
    using ws unfolding settling_def run_get [OF served_simps(1,2)]
    by (simp add: sync_def rollout_def Let_def decideReplicas_def reconcilePDB_def observeDeployment_def
        Get_Deployment_def perform_def settling_calls_def own_key_def split: prod.splits option.splits)
  then show ?thesis using writeStatus_calls [OF ws] by auto
qed

lemma settled_reconcile_is_quiet_witness:
  "snd (reconcile_trace settling request 1) = GetModelDeployment request (Inr served) # settling_calls"
proof -
  obtain t where t: "snd (reconcile_trace settling request 1) = GetModelDeployment request (Inr served) # settling_calls @ t"
    "t = [] \<or> (\<exists>m res. t = [StatusUpdate m res])"
    using settling_trace by blast
  have first: "snd (reconcile_trace (serving None) request 0) =
      GetModelDeployment request (Inr live) # cache_calls live (CacheKey live) @ rollout_calls"
    by (simp add: serving_trace)
  have upd: "StatusUpdate served (Inr served) \<in> set (cache_calls live (CacheKey live) @ rollout_calls)"
    by (simp add: rollout_calls_def)
  have lib: "R_Lib settling = R_Lib (serving None)" "stored_as served served"
    by (simp_all add: settling_def serving_def stored_as_def exI [of _ "ObjectMeta_ResourceVersion (MD_ObjectMeta served)"])
  have reads: "same_reads (cache_calls live (CacheKey live) @ rollout_calls) (settling_calls @ t)"
    using t(2) by (auto simp: same_reads_def cache_calls_def rollout_calls_def settling_calls_def)
  have "StatusUpdate m res \<notin> set (settling_calls @ t)" for m res
    using settled_reconcile_is_quiet [OF _ _ _ first upd _ _ lib t(1) reads] by (simp add: serving_def)
  then have "t = []" using t(2) by fastforce
  then show ?thesis using t(1) by simp
qed

subsection \<open>Teardown\<close>

text \<open>
  The controller's work queue calls \<open>Reconcile\<close> again when the result asks for it, after some time in which
  the cluster goes on by itself (\<open>passes\<close>). The loop ends with the first result that does not ask
  to be called again; with too little fuel there is no answer.
\<close>

fun requeued ::
  "('w, 'e, 'u) ModelDeploymentReconciler \<Rightarrow> ObjectKey \<Rightarrow> ('w \<Rightarrow> 'w) \<Rightarrow> nat \<Rightarrow> 'w \<Rightarrow>
   ('e outcome \<times> ('e, 'u) call list) option" where
  "requeued r req passes 0 w = None"
| "requeued r req passes (Suc n) w =
     (case run_state (Reconcile r req) \<lparr>world = w, calls = []\<rparr> of
        (out, s) \<Rightarrow>
          (case out of
             Inr (res, None) \<Rightarrow>
               if RequeueAfter res = 0 then Some (out, calls s)
               else requeued r req passes n (passes (world s))
           | _ \<Rightarrow> Some (out, calls s)))"

text \<open>
  A cluster in which a deleted object can be torn down: the object is read as it is, the two deletions
  find their objects or nothing, the pods of a world can be listed and no call adds to them, and the
  object without the finalizer is accepted.
\<close>

definition drains ::
  "('w, 'e, 'u) ModelDeploymentReconciler \<Rightarrow> ObjectKey \<Rightarrow> ModelDeployment \<Rightarrow> ('w \<Rightarrow> Pod list) \<Rightarrow> bool" where
  "drains r req md pods \<longleftrightarrow>
     (\<forall>w. \<exists>w'. run_state (Client_Get_ModelDeployment (R_Client r) req) w = (Inr md, w') \<and>
        length (pods w') \<le> length (pods w)) \<and>
     (\<forall>w. \<exists>e w'. run_state (Client_Delete (R_Client r)
          (DeploymentObject (named_deployment (DeploymentName md) (MD_Namespace md)))
          (Some DeletePropagationBackground)) w = (e, w') \<and>
        (\<forall>x. e = Some x \<longrightarrow> IsNotFound (R_Lib r) x) \<and> length (pods w') \<le> length (pods w)) \<and>
     (\<forall>w. \<exists>w'. run_state (Client_DeleteAllOf_Job (R_Client r) (MD_Namespace md) [LabelInstance \<mapsto> MD_Name md]
          (Some DeletePropagationBackground)) w = (None, w') \<and> length (pods w') \<le> length (pods w)) \<and>
     (\<forall>w. \<exists>w'. run_state (Client_List_Pod (R_Client r) (MD_Namespace md) [LabelInstance \<mapsto> MD_Name md]) w =
          (Inr (pods w), w') \<and> length (pods w') \<le> length (pods w)) \<and>
     (\<forall>w. \<exists>md' w'. run_state (Client_Update (R_Client r) (RemoveFinalizer (R_Lib r) md Finalizer)) w = (Inr md', w'))"

lemma terminationPollInterval_nonzero: "terminationPollInterval \<noteq> 0"
  by (simp add: terminationPollInterval_def second_def)

text \<open>One reconcile of the teardown: it waits while pods are left and releases the finalizer otherwise.\<close>

lemma drain_step:
  assumes "documented_finalizers (R_Lib r)" "documented_errors (R_Lib r)" "drains r req md pods"
    and "deleting md" "has_finalizer Finalizer md"
  obtains s e and ps :: "Pod list" where "\<forall>x. e = Some x \<longrightarrow> IsNotFound (R_Lib r) x"
    "length ps \<le> length (pods w)"
    "ps \<noteq> [] \<Longrightarrow> run_state (Reconcile r req) \<lparr>world = w, calls = []\<rparr> =
       (Inr (\<lparr>RequeueAfter = terminationPollInterval\<rparr>, None), s) \<and> length (pods (world s)) \<le> length ps"
    "ps = [] \<Longrightarrow> \<exists>md'. run_state (Reconcile r req) \<lparr>world = w, calls = []\<rparr> = (Inr (Result0, None), s) \<and>
       calls s = [GetModelDeployment req (Inr md), delete_deployment md e, delete_jobs md None,
         list_pods md (Inr []), Update (RemoveFinalizer (R_Lib r) md Finalizer) (Inr md')]"
proof -
  note cluster = assms(3) [unfolded drains_def]
  obtain w1 where g: "run_state (Client_Get_ModelDeployment (R_Client r) req) w = (Inr md, w1)"
    "length (pods w1) \<le> length (pods w)" using cluster by blast
  obtain e w2 where d: "run_state (Client_Delete (R_Client r)
      (DeploymentObject (named_deployment (DeploymentName md) (MD_Namespace md)))
      (Some DeletePropagationBackground)) w1 = (e, w2)"
    "\<forall>x. e = Some x \<longrightarrow> IsNotFound (R_Lib r) x" "length (pods w2) \<le> length (pods w1)" using cluster by blast
  obtain w3 where j: "run_state (Client_DeleteAllOf_Job (R_Client r) (MD_Namespace md) [LabelInstance \<mapsto> MD_Name md]
      (Some DeletePropagationBackground)) w2 = (None, w3)" "length (pods w3) \<le> length (pods w2)"
    using cluster by blast
  obtain w4 where l: "run_state (Client_List_Pod (R_Client r) (MD_Namespace md) [LabelInstance \<mapsto> MD_Name md]) w3 =
      (Inr (pods w3), w4)" "length (pods w4) \<le> length (pods w3)" using cluster by blast
  obtain md' w5 where u:
    "run_state (Client_Update (R_Client r) (RemoveFinalizer (R_Lib r) md Finalizer)) w4 = (Inr md', w5)"
    using cluster by blast
  have ignored: "IgnoreNotFound (R_Lib r) e = None"
    using d(2) assms(2) by (cases e) (auto simp: documented_errors_def)
  have start: "run_state (Reconcile r req) \<lparr>world = w, calls = []\<rparr> =
      run_state (finalize r md) \<lparr>world = w1, calls = [GetModelDeployment req (Inr md)]\<rparr>"
    using g(1) assms(4) by (simp add: Reconcile_def call_defs perform_def deleting_def)
  have ours: "ContainsFinalizer (R_Lib r) md Finalizer"
    using assms(1,5) by (simp add: documented_finalizers_def)
  note run = start finalize_def call_defs perform_def ours ignored d(1) j(1) l(1) u
  let ?t = "[GetModelDeployment req (Inr md), delete_deployment md e, delete_jobs md None, list_pods md (Inr (pods w3))]"
  show thesis
  proof (cases "pods w3 = []")
    case True
    then show thesis
      by (intro that [of e "pods w3" "\<lparr>world = w5, calls = ?t @ [Update (RemoveFinalizer (R_Lib r) md Finalizer) (Inr md')]\<rparr>"])
        (use d(2) in \<open>simp_all add: run\<close>)
  next
    case False
    then show thesis
      by (intro that [of e "pods w3" "\<lparr>world = w4, calls = ?t\<rparr>"])
        (use d(2,3) g(2) j(2) l(2) in \<open>simp_all add: run\<close>)
  qed
qed

text \<open>
  C10. Teardown terminates. Let the object be one that is being deleted and carries the finalizer, in a
  cluster in which every call of the teardown succeeds (or finds the Deployment gone) and none adds a pod, and in which, between two
  reconciles, at least one of the pods ends while any is left, and none is added. (The role in \<open>config/rbac\<close> does
  not give such a cluster: it refuses the deletion of the Jobs.)
  Then the reconciles of the object, repeated as their results ask for, come to an end after at most
  one more round than there were pods, without an error; and the last one has deleted the Deployment and
  the Jobs, found no pods left and taken off the finalizer.
\<close>

theorem teardown_terminates:
  assumes "documented_finalizers (R_Lib r)" "documented_errors (R_Lib r)" "drains r req md pods"
    and "deleting md" "has_finalizer Finalizer md"
    and "\<And>w. length (pods (passes w)) \<le> length (pods w) - 1"
    and "length (pods w) < fuel"
  shows "\<exists>e md'. (\<forall>x. e = Some x \<longrightarrow> IsNotFound (R_Lib r) x) \<and>
    requeued r req passes fuel w =
      Some (Inr (Result0, None),
        [GetModelDeployment req (Inr md), delete_deployment md e, delete_jobs md None,
         list_pods md (Inr []), Update (RemoveFinalizer (R_Lib r) md Finalizer) (Inr md')])"
  using assms(7)
proof (induction fuel arbitrary: w)
  case (Suc n)
  obtain s e and ps :: "Pod list" where step: "\<forall>x. e = Some x \<longrightarrow> IsNotFound (R_Lib r) x"
    "length ps \<le> length (pods w)"
    "ps \<noteq> [] \<Longrightarrow> run_state (Reconcile r req) \<lparr>world = w, calls = []\<rparr> =
       (Inr (\<lparr>RequeueAfter = terminationPollInterval\<rparr>, None), s) \<and> length (pods (world s)) \<le> length ps"
    "ps = [] \<Longrightarrow> \<exists>md'. run_state (Reconcile r req) \<lparr>world = w, calls = []\<rparr> = (Inr (Result0, None), s) \<and>
       calls s = [GetModelDeployment req (Inr md), delete_deployment md e, delete_jobs md None,
         list_pods md (Inr []), Update (RemoveFinalizer (R_Lib r) md Finalizer) (Inr md')]"
    by (rule drain_step [OF assms(1-5), of w]) blast
  show ?case
  proof (cases "ps = []")
    case True
    then show ?thesis using step(1,4) by (fastforce simp: Result0_def)
  next
    case False
    have "length (pods (passes (world s))) < n"
      using assms(6) [of "world s"] step(2) step(3) [OF False] Suc.prems False
      by (cases ps) auto
    then show ?thesis using Suc.IH step(3) [OF False] by (simp add: terminationPollInterval_nonzero)
  qed
qed simp

text \<open>Three pods that end one by one.\<close>

definition remaining :: "gotime \<Rightarrow> Pod list" where
  "remaining t = replicate (nat (3 - t)) \<lparr>Pod_ObjectMeta = object_meta ''pod'' ''inference'' Map.empty\<rparr>"

definition draining :: "(gotime, string, Object) ModelDeploymentReconciler" where
  "draining = test_reconciler
     ((test_client dying (Inl NotFound) (Inl NotFound) [] None)
        \<lparr>Client_List_Pod := (\<lambda>_ _. State (\<lambda>t. (Inr (remaining t), t)))\<rparr>) None"

lemma teardown_terminates_witness:
  "\<exists>e md'. requeued draining request (\<lambda>t. t + 1) 4 0 =
     Some (Inr (Result0, None),
       [GetModelDeployment request (Inr dying), delete_deployment dying e, delete_jobs dying None,
        list_pods dying (Inr []), Update released (Inr md')])"
proof -
  have "drains draining request dying remaining"
    by (simp add: drains_def draining_def test_client_def test_library_def)
  moreover have "length (remaining (t + 1)) \<le> length (remaining t) - 1" for t
    by (simp add: remaining_def)
  moreover have "length (remaining 0) < 4" by (simp add: remaining_def)
  ultimately show ?thesis
    using teardown_terminates [of draining request dying remaining "\<lambda>t. t + 1" 0 4]
    by (auto simp: draining_def)
qed

end
