(* ===== verification/Heap.thy ===== *)
theory Heap
  imports Prelude "HOL-Library.Sublist"
begin

section \<open>Memory: pointers, slices and the contract of a deep copy\<close>

text \<open>
  Go's memory, for the one place where the source depends on aliasing: the generated deep copies.
  A heap is the list of its cells and an address is an index into it, so \<open>new\<close> appends and \<open>store\<close>
  updates in place. The type of the cells is left open. A nil pointer, slice or map is \<open>None\<close>; a slice
  is the address of a cell with its elements (no two slices of the source share a backing array).
  Go's type system gives that a pointer leads to a cell of its type; a \<open>load\<close> is optional and the
  readers built on it give a zero value on a dangling address, so no typing of heaps is needed.

  The locale \<open>deep_copy\<close> is the contract: the heap only grows, the copy reads as the same value, all
  that can be reached from it is fresh, and what is read depends on the reachable cells alone.
  Inside it stand the consequences its clients use; after it, the contract is shown to be closed under
  the ways Go composes types: embedded fields, pairs of fields, pointers and slices.
\<close>

type_synonym addr = nat
type_synonym 'c heap = "'c list"

definition new :: "'c \<Rightarrow> 'c heap \<Rightarrow> addr \<times> 'c heap" where
  "new c h = (length h, h @ [c])"

definition store :: "addr \<Rightarrow> 'c \<Rightarrow> 'c heap \<Rightarrow> 'c heap" where
  "store a c h = h[a := c]"

definition load :: "'c heap \<Rightarrow> addr \<Rightarrow> 'c option" where
  "load h a = (if a < length h then Some (h ! a) else None)"

text \<open>All addresses of a set are allocated; two heaps hold the same cells on a set.\<close>

definition bounded :: "'c heap \<Rightarrow> addr set \<Rightarrow> bool" where
  "bounded h A \<longleftrightarrow> A \<subseteq> {..<length h}"

definition agree :: "addr set \<Rightarrow> 'c heap \<Rightarrow> 'c heap \<Rightarrow> bool" where
  "agree A h h' \<longleftrightarrow> (\<forall>a\<in>A. load h' a = load h a)"

lemma load_prefix: "prefix h h' \<Longrightarrow> a < length h \<Longrightarrow> load h' a = load h a"
  by (auto simp: load_def prefix_def nth_append)

lemma agree_prefix: "prefix h h' \<Longrightarrow> bounded h A \<Longrightarrow> agree A h h'"
  by (auto simp: agree_def bounded_def load_prefix)

lemma bounded_prefix: "prefix h h' \<Longrightarrow> bounded h A \<Longrightarrow> bounded h' A"
  by (auto simp: bounded_def dest!: prefix_length_le)

lemma agree_Un [simp]: "agree (A \<union> B) h h' \<longleftrightarrow> agree A h h' \<and> agree B h h'"
  by (auto simp: agree_def)

lemma agree_insert [simp]: "agree (insert a A) h h' \<longleftrightarrow> load h' a = load h a \<and> agree A h h'"
  by (auto simp: agree_def)

lemma agree_empty [simp]: "agree {} h h'"
  by (simp add: agree_def)

lemma agree_UNION: "agree (\<Union>x\<in>X. f x) h h' \<longleftrightarrow> (\<forall>x\<in>X. agree (f x) h h')"
  by (auto simp: agree_def)

lemma bounded_Un [simp]: "bounded h (A \<union> B) \<longleftrightarrow> bounded h A \<and> bounded h B"
  by (auto simp: bounded_def)

lemma bounded_insert [simp]: "bounded h (insert a A) \<longleftrightarrow> a < length h \<and> bounded h A"
  by (auto simp: bounded_def)

lemma bounded_empty [simp]: "bounded h {}"
  by (simp add: bounded_def)

lemma bounded_UNION: "bounded h (\<Union>x\<in>X. f x) \<longleftrightarrow> (\<forall>x\<in>X. bounded h (f x))"
  by (auto simp: bounded_def)

lemma load_store: "load (store q c h) a = (if a = q \<and> a < length h then Some c else load h a)"
  by (auto simp: load_def store_def)

lemma length_store [simp]: "length (store q c h) = length h"
  by (simp add: store_def)

lemma agree_store: "q \<notin> A \<Longrightarrow> agree A h (store q c h)"
  by (auto simp: agree_def load_store)

lemma prefix_store: "prefix h h' \<Longrightarrow> length h \<le> q \<Longrightarrow> prefix h (store q c h')"
  by (auto simp: prefix_def store_def list_update_append)

lemma prefix_new [simp]: "prefix h (h @ [c])"
  by simp

text \<open>The addresses allocated between two states.\<close>

abbreviation fresh :: "'c heap \<Rightarrow> 'c heap \<Rightarrow> addr set" where
  "fresh h h' \<equiv> {length h..<length h'}"

lemma bounded_fresh: "A \<subseteq> fresh h h' \<Longrightarrow> bounded h' A"
  by (auto simp: bounded_def)

subsection \<open>The contract\<close>

locale heap_view =
  fixes read :: "'c heap \<Rightarrow> 'a \<Rightarrow> 'v"
    and reach :: "'c heap \<Rightarrow> 'a \<Rightarrow> addr set"
  assumes read_local: "agree (reach h x) h h' \<Longrightarrow> read h' x = read h x"
    and reach_local: "agree (reach h x) h h' \<Longrightarrow> reach h' x = reach h x"
begin

lemma read_prefix: "prefix h h' \<Longrightarrow> bounded h (reach h x) \<Longrightarrow> read h' x = read h x"
  by (rule read_local [OF agree_prefix])

lemma reach_prefix: "prefix h h' \<Longrightarrow> bounded h (reach h x) \<Longrightarrow> reach h' x = reach h x"
  by (rule reach_local [OF agree_prefix])

end

locale deep_copy = heap_view read reach
  for read :: "'c heap \<Rightarrow> 'a \<Rightarrow> 'v"
    and reach :: "'c heap \<Rightarrow> 'a \<Rightarrow> addr set" +
  fixes copy :: "'a \<Rightarrow> 'c heap \<Rightarrow> 'a \<times> 'c heap"
  assumes copy_extends: "bounded h (reach h x) \<Longrightarrow> copy x h = (y, h') \<Longrightarrow> prefix h h'"
    and copy_read: "bounded h (reach h x) \<Longrightarrow> copy x h = (y, h') \<Longrightarrow> read h' y = read h x"
    and copy_fresh: "bounded h (reach h x) \<Longrightarrow> copy x h = (y, h') \<Longrightarrow> reach h' y \<subseteq> fresh h h'"
begin

text \<open>Nothing reachable from the copy is reachable from the original.\<close>

lemma disjoint:
  assumes "bounded h (reach h x)" "copy x h = (y, h')"
  shows "reach h' x \<inter> reach h' y = {}"
proof -
  have "reach h' x \<subseteq> {..<length h}"
    using assms(1) reach_prefix [OF copy_extends [OF assms] assms(1)] by (simp add: bounded_def)
  then show ?thesis using copy_fresh [OF assms] by fastforce
qed

text \<open>Writes to the cells of the original leave the copy unchanged.\<close>

lemma isolated_copy:
  assumes "bounded h (reach h x)" "copy x h = (y, h')" "agree (- reach h' x) h' h''"
  shows "read h'' y = read h x"
proof -
  have "agree (reach h' y) h' h''" using assms(3) disjoint [OF assms(1,2)] by (auto simp: agree_def)
  then have "read h'' y = read h' y" by (rule read_local)
  then show ?thesis by (simp add: copy_read [OF assms(1,2)])
qed

text \<open>Writes to the cells of the copy leave everything that was there before unchanged, the original included.\<close>

lemma isolated_other:
  assumes "bounded h (reach h x)" "copy x h = (y, h')" "agree (- reach h' y) h' h''"
    and v: "heap_view r f" and "bounded h (f h z)"
  shows "r h'' z = r h z"
proof -
  note ext = copy_extends [OF assms(1,2)]
  have "f h' z = f h z" by (rule heap_view.reach_prefix [OF v ext assms(5)])
  then have "f h' z \<inter> reach h' y = {}"
    using assms(5) copy_fresh [OF assms(1,2)] by (fastforce simp: bounded_def)
  then have "agree (f h' z) h' h''" using assms(3) by (auto simp: agree_def)
  then have "r h'' z = r h' z" by (rule heap_view.read_local [OF v])
  then show ?thesis by (simp add: heap_view.read_prefix [OF v ext assms(5)])
qed

lemma isolated_original:
  "bounded h (reach h x) \<Longrightarrow> copy x h = (y, h') \<Longrightarrow> agree (- reach h' y) h' h'' \<Longrightarrow> read h'' x = read h x"
  by (rule isolated_other [OF _ _ _ heap_view_axioms])

end

lemmas copied_read_local = heap_view.read_local [OF deep_copy.axioms(1)]
lemmas copied_reach_local = heap_view.reach_local [OF deep_copy.axioms(1)]
lemmas copied_read_prefix = heap_view.read_prefix [OF deep_copy.axioms(1)]
lemmas copied_reach_prefix = heap_view.reach_prefix [OF deep_copy.axioms(1)]

subsection \<open>Values and fields\<close>

text \<open>\<open>*out = *in\<close> for a type without pointers, and a rebuilt value that reads the same.\<close>

lemma deep_copy_value:
  assumes "\<And>x. r (g x) = r x"
  shows "deep_copy (\<lambda>h. r) (\<lambda>h x. {}) (\<lambda>x h. (g x, h))"
  by unfold_locales (auto simp: assms)

lemmas deep_copy_plain = deep_copy_value [where g = "\<lambda>x. x", OF refl]

text \<open>Copying two fields one after the other.\<close>

definition copy_pair ::
  "('a \<Rightarrow> 'c heap \<Rightarrow> 'a \<times> 'c heap) \<Rightarrow> ('b \<Rightarrow> 'c heap \<Rightarrow> 'b \<times> 'c heap) \<Rightarrow>
   'a \<times> 'b \<Rightarrow> 'c heap \<Rightarrow> ('a \<times> 'b) \<times> 'c heap" where
  "copy_pair c d xy h = (let (x', h) = c (fst xy) h; (y', h) = d (snd xy) h in ((x', y'), h))"

lemma deep_copy_pair:
  assumes "deep_copy r f c" "deep_copy s g d"
  shows "deep_copy (\<lambda>h xy. (r h (fst xy), s h (snd xy))) (\<lambda>h xy. f h (fst xy) \<union> g h (snd xy)) (copy_pair c d)"
proof -
  have steps: "prefix h h' \<and> r h' (fst z) = r h (fst xy) \<and> s h' (snd z) = s h (snd xy) \<and>
      f h' (fst z) \<subseteq> fresh h h' \<and> g h' (snd z) \<subseteq> fresh h h'"
    if b: "bounded h (f h (fst xy))" "bounded h (g h (snd xy))" and eq: "copy_pair c d xy h = (z, h')"
    for h xy z h'
  proof -
    obtain x' h1 where c1: "c (fst xy) h = (x', h1)" by fastforce
    obtain y' where d1: "d (snd xy) h1 = (y', h')" and z: "z = (x', y')"
      using eq by (auto simp: copy_pair_def c1 split: prod.splits)
    note p1 = deep_copy.copy_extends [OF assms(1) b(1) c1]
    note g1 = copied_reach_prefix [OF assms(2) p1 b(2)]
    have b1: "bounded h1 (g h1 (snd xy))" using bounded_prefix [OF p1 b(2)] by (simp add: g1)
    note p2 = deep_copy.copy_extends [OF assms(2) b1 d1]
    note f1 = deep_copy.copy_fresh [OF assms(1) b(1) c1]
    note f2 = copied_reach_prefix [OF assms(1) p2 bounded_fresh [OF f1]]
    have "r h' x' = r h (fst xy)"
      by (simp add: copied_read_prefix [OF assms(1) p2 bounded_fresh [OF f1]]
          deep_copy.copy_read [OF assms(1) b(1) c1])
    moreover have "s h' y' = s h (snd xy)"
      by (simp add: deep_copy.copy_read [OF assms(2) b1 d1] copied_read_prefix [OF assms(2) p1 b(2)])
    moreover have "f h' x' \<subseteq> fresh h h'"
      using f1 f2 prefix_length_le [OF p2] by auto
    moreover have "g h' y' \<subseteq> fresh h h'"
      using deep_copy.copy_fresh [OF assms(2) b1 d1] prefix_length_le [OF p1] by auto
    ultimately show ?thesis using p1 p2 z by (auto intro: prefix_order.trans)
  qed
  show ?thesis
  proof unfold_locales
    fix h xy z h'
    assume b: "bounded h (f h (fst xy) \<union> g h (snd xy))" and eq: "copy_pair c d xy h = (z, h')"
    note st = steps [OF _ _ eq]
    show "prefix h h'" "(r h' (fst z), s h' (snd z)) = (r h (fst xy), s h (snd xy))"
      "f h' (fst z) \<union> g h' (snd z) \<subseteq> fresh h h'"
      using st b by simp_all
  next
    fix h xy h'
    assume "agree (f h (fst xy) \<union> g h (snd xy)) h h'"
    then have a: "agree (f h (fst xy)) h h'" "agree (g h (snd xy)) h h'" by simp_all
    show "(r h' (fst xy), s h' (snd xy)) = (r h (fst xy), s h (snd xy))"
      by (simp add: copied_read_local [OF assms(1) a(1)] copied_read_local [OF assms(2) a(2)])
    show "f h' (fst xy) \<union> g h' (snd xy) = f h (fst xy) \<union> g h (snd xy)"
      by (simp add: copied_reach_local [OF assms(1) a(1)] copied_reach_local [OF assms(2) a(2)])
  qed
qed

text \<open>
  A struct with the part \<open>get\<close> that is copied, the rest being assigned with \<open>*out = *in\<close>.
\<close>

lemma deep_copy_struct:
  assumes "deep_copy r f c"
    and "\<And>x y. get (put y x) = y"
    and "\<And>h x. reads h x = build x (r h (get x))" "\<And>x y v. build (put y x) v = build x v"
    and "\<And>h x. reach h x = f h (get x)"
    and "\<And>x h. copies x h = (let (y, h') = c (get x) h in (put y x, h'))"
  shows "deep_copy reads reach copies"
proof unfold_locales
  fix h x y h'
  assume b: "bounded h (reach h x)" and "copies x h = (y, h')"
  then obtain z where z: "c (get x) h = (z, h')" "y = put z x"
    using assms(6) by (auto split: prod.splits)
  note b' = b [unfolded assms(5)]
  show "prefix h h'" by (rule deep_copy.copy_extends [OF assms(1) b' z(1)])
  show "reads h' y = reads h x"
    using deep_copy.copy_read [OF assms(1) b' z(1)] by (simp add: assms(2-4) z(2))
  show "reach h' y \<subseteq> fresh h h'"
    using deep_copy.copy_fresh [OF assms(1) b' z(1)] by (simp add: assms(2,5) z(2))
next
  fix h x h'
  assume "agree (reach h x) h h'"
  then have a: "agree (f h (get x)) h h'" by (simp add: assms(5))
  show "reads h' x = reads h x" by (simp add: assms(3) copied_read_local [OF assms(1) a])
  show "reach h' x = reach h x" by (simp add: assms(5) copied_reach_local [OF assms(1) a])
qed

subsection \<open>Pointers\<close>

text \<open>
  \<open>if in.F != nil { *out = new(T); (*in).DeepCopyInto(*out) }\<close>: the cell is allocated with a zero value
  first, the pointee is copied, and the result is assigned to the new cell. \<open>wrap\<close> and \<open>unwrap\<close> are
  the cells of type \<open>T\<close>; \<open>zero\<close> is what \<open>new\<close> or \<open>make\<close> puts there.
\<close>

definition copy_pointer ::
  "('a \<Rightarrow> 'c) \<Rightarrow> ('c option \<Rightarrow> 'a) \<Rightarrow> ('a \<Rightarrow> 'a) \<Rightarrow> ('a \<Rightarrow> 'c heap \<Rightarrow> 'a \<times> 'c heap) \<Rightarrow>
   addr option \<Rightarrow> 'c heap \<Rightarrow> addr option \<times> 'c heap" where
  "copy_pointer wrap unwrap zero c p h =
     (case p of
        None \<Rightarrow> (None, h)
      | Some a \<Rightarrow>
          (let (q, h) = new (wrap (zero (unwrap (load h a)))) h;
               (y, h) = c (unwrap (load h a)) h
           in (Some q, store q (wrap y) h)))"

text \<open>\<open>x := (*in).DeepCopy(); *out = &x\<close>: the pointee is copied first and its cell allocated after.\<close>

definition copy_boxed ::
  "('a \<Rightarrow> 'c) \<Rightarrow> ('c option \<Rightarrow> 'a) \<Rightarrow> ('a \<Rightarrow> 'c heap \<Rightarrow> 'a \<times> 'c heap) \<Rightarrow>
   addr option \<Rightarrow> 'c heap \<Rightarrow> addr option \<times> 'c heap" where
  "copy_boxed wrap unwrap c p h =
     (case p of
        None \<Rightarrow> (None, h)
      | Some a \<Rightarrow>
          (let (y, h) = c (unwrap (load h a)) h;
               (q, h) = new (wrap y) h
           in (Some q, h)))"

definition read_pointer ::
  "('c option \<Rightarrow> 'a) \<Rightarrow> ('c heap \<Rightarrow> 'a \<Rightarrow> 'v) \<Rightarrow> 'c heap \<Rightarrow> addr option \<Rightarrow> 'v option" where
  "read_pointer unwrap r h p = map_option (\<lambda>a. r h (unwrap (load h a))) p"

definition reach_pointer ::
  "('c option \<Rightarrow> 'a) \<Rightarrow> ('c heap \<Rightarrow> 'a \<Rightarrow> addr set) \<Rightarrow> 'c heap \<Rightarrow> addr option \<Rightarrow> addr set" where
  "reach_pointer unwrap f h p = (case p of None \<Rightarrow> {} | Some a \<Rightarrow> insert a (f h (unwrap (load h a))))"

text \<open>
  A copy of a pointer is a deep copy as soon as a non-nil one gives a fresh cell that reads as the
  pointee.
\<close>

lemma deep_copy_pointerI:
  assumes v: "heap_view r f"
    and nil: "\<And>h. copies None h = (None, h)"
    and ptr: "\<And>a h y h'. a < length h \<Longrightarrow> bounded h (f h (unwrap (load h a))) \<Longrightarrow>
                copies (Some a) h = (y, h') \<Longrightarrow>
                \<exists>q. y = Some q \<and> prefix h h' \<and> q \<in> fresh h h' \<and>
                    r h' (unwrap (load h' q)) = r h (unwrap (load h a)) \<and>
                    f h' (unwrap (load h' q)) \<subseteq> fresh h h'"
  shows "deep_copy (read_pointer unwrap r) (reach_pointer unwrap f) copies"
proof unfold_locales
  fix h p y h'
  assume b: "bounded h (reach_pointer unwrap f h p)" and eq: "copies p h = (y, h')"
  show "prefix h h'" "read_pointer unwrap r h' y = read_pointer unwrap r h p"
    "reach_pointer unwrap f h' y \<subseteq> fresh h h'"
    using b eq nil ptr [of _ h y h']
    by (cases p; fastforce simp: read_pointer_def reach_pointer_def)+
next
  fix h p h'
  assume "agree (reach_pointer unwrap f h p) h h'"
  then show "read_pointer unwrap r h' p = read_pointer unwrap r h p"
    "reach_pointer unwrap f h' p = reach_pointer unwrap f h p"
    by (auto simp: read_pointer_def reach_pointer_def heap_view.read_local [OF v]
        heap_view.reach_local [OF v] split: option.splits)
qed

lemma deep_copy_pointer:
  assumes c: "deep_copy r f c" and uw: "\<And>x. unwrap (Some (wrap x)) = x"
  shows "deep_copy (read_pointer unwrap r) (reach_pointer unwrap f) (copy_pointer wrap unwrap zero c)"
proof (rule deep_copy_pointerI [OF deep_copy.axioms(1) [OF c]])
  show "copy_pointer wrap unwrap zero c None h = (None, h)" for h
    by (simp add: copy_pointer_def)
next
  fix a h y h'
  assume a: "a < length h" and b: "bounded h (f h (unwrap (load h a)))"
    and eq: "copy_pointer wrap unwrap zero c (Some a) h = (y, h')"
  let ?x = "unwrap (load h a)" and ?q = "length h" and ?h1 = "h @ [wrap (zero (unwrap (load h a)))]"
  have x1: "load ?h1 a = load h a" using a by (simp add: load_prefix)
  obtain z h2 where z: "c ?x ?h1 = (z, h2)" by fastforce
  have y: "y = Some ?q" and h': "h' = store ?q (wrap z) h2"
    using eq z by (auto simp: copy_pointer_def new_def x1)
  have b1: "bounded ?h1 (f ?h1 ?x)"
    using bounded_prefix [OF prefix_new b] copied_reach_prefix [OF c prefix_new b] by simp
  note p2 = deep_copy.copy_extends [OF c b1 z]
  note f2 = deep_copy.copy_fresh [OF c b1 z]
  have q: "?q < length h2" using prefix_length_le [OF p2] by simp
  then have lq: "unwrap (load h' ?q) = z" by (simp add: h' load_store uw)
  have "?q \<notin> f h2 z" using f2 by auto
  then have ag: "agree (f h2 z) h2 h'" unfolding h' by (rule agree_store)
  have "r h' z = r h ?x"
    using copied_read_local [OF c ag] deep_copy.copy_read [OF c b1 z]
      copied_read_prefix [OF c prefix_new b] by simp
  moreover have "f h' z \<subseteq> fresh h h'"
    using f2 copied_reach_local [OF c ag] by (auto simp: h')
  moreover have "prefix h h'"
    unfolding h' using p2 by (auto intro: prefix_store dest: append_prefixD)
  ultimately show "\<exists>q. y = Some q \<and> prefix h h' \<and> q \<in> fresh h h' \<and>
      r h' (unwrap (load h' q)) = r h ?x \<and> f h' (unwrap (load h' q)) \<subseteq> fresh h h'"
    using y q lq by (simp add: h')
qed

lemma deep_copy_boxed:
  assumes c: "deep_copy r f c" and uw: "\<And>x. unwrap (Some (wrap x)) = x"
  shows "deep_copy (read_pointer unwrap r) (reach_pointer unwrap f) (copy_boxed wrap unwrap c)"
proof (rule deep_copy_pointerI [OF deep_copy.axioms(1) [OF c]])
  show "copy_boxed wrap unwrap c None h = (None, h)" for h
    by (simp add: copy_boxed_def)
next
  fix a h y h'
  assume a: "a < length h" and b: "bounded h (f h (unwrap (load h a)))"
    and eq: "copy_boxed wrap unwrap c (Some a) h = (y, h')"
  obtain z h1 where z: "c (unwrap (load h a)) h = (z, h1)" by fastforce
  have y: "y = Some (length h1)" and h': "h' = h1 @ [wrap z]"
    using eq z by (auto simp: copy_boxed_def new_def)
  have lq: "unwrap (load h' (length h1)) = z" by (simp add: h' load_def uw)
  note p1 = deep_copy.copy_extends [OF c b z]
  note f1 = deep_copy.copy_fresh [OF c b z]
  have p2: "prefix h1 h'" by (simp add: h')
  show "\<exists>q. y = Some q \<and> prefix h h' \<and> q \<in> fresh h h' \<and>
      r h' (unwrap (load h' q)) = r h (unwrap (load h a)) \<and> f h' (unwrap (load h' q)) \<subseteq> fresh h h'"
    using y lq f1 prefix_length_le [OF p1] prefix_order.trans [OF p1 p2]
      copied_read_prefix [OF c p2 bounded_fresh [OF f1]] deep_copy.copy_read [OF c b z]
      copied_reach_prefix [OF c p2 bounded_fresh [OF f1]]
    by (auto simp: h')
qed

subsection \<open>Slices\<close>

text \<open>
  \<open>*out = make([]T, len(*in)); for i := range *in { (*in)[i].DeepCopyInto(&(*out)[i]) }\<close>: iteration \<open>i\<close>
  reads element \<open>i\<close> of the old array and assigns element \<open>i\<close> of the new one.
\<close>

fun copy_range ::
  "('a list \<Rightarrow> 'c) \<Rightarrow> ('c option \<Rightarrow> 'a list) \<Rightarrow> ('a \<Rightarrow> 'c heap \<Rightarrow> 'a \<times> 'c heap) \<Rightarrow>
   addr \<Rightarrow> addr \<Rightarrow> nat list \<Rightarrow> 'c heap \<Rightarrow> 'c heap" where
  "copy_range wrap unwrap c a q [] h = h"
| "copy_range wrap unwrap c a q (i # is) h =
     (let (y, h) = c (unwrap (load h a) ! i) h
      in copy_range wrap unwrap c a q is (store q (wrap ((unwrap (load h q))[i := y])) h))"

definition copy_slice ::
  "('a list \<Rightarrow> 'c) \<Rightarrow> ('c option \<Rightarrow> 'a list) \<Rightarrow> 'a \<Rightarrow> ('a \<Rightarrow> 'c heap \<Rightarrow> 'a \<times> 'c heap) \<Rightarrow>
   addr option \<Rightarrow> 'c heap \<Rightarrow> addr option \<times> 'c heap" where
  "copy_slice wrap unwrap zero c p h =
     (case p of
        None \<Rightarrow> (None, h)
      | Some a \<Rightarrow>
          (let n = length (unwrap (load h a));
               (q, h) = new (wrap (replicate n zero)) h
           in (Some q, copy_range wrap unwrap c a q [0..<n] h)))"

text \<open>What is read of a list of elements, and reached from it.\<close>

abbreviation read_elements :: "('c heap \<Rightarrow> 'a \<Rightarrow> 'v) \<Rightarrow> 'c heap \<Rightarrow> 'a list \<Rightarrow> 'v list" where
  "read_elements r h xs \<equiv> map (r h) xs"

abbreviation reach_elements :: "('c heap \<Rightarrow> 'a \<Rightarrow> addr set) \<Rightarrow> 'c heap \<Rightarrow> 'a list \<Rightarrow> addr set" where
  "reach_elements f h xs \<equiv> \<Union>x\<in>set xs. f h x"

text \<open>The state of the loop before iteration \<open>i\<close>: a list \<open>zs\<close> in the new array whose first \<open>i\<close> elements are done.\<close>

definition range_inv ::
  "('a list \<Rightarrow> 'c) \<Rightarrow> ('c heap \<Rightarrow> 'a \<Rightarrow> 'v) \<Rightarrow> ('c heap \<Rightarrow> 'a \<Rightarrow> addr set) \<Rightarrow>
   'c heap \<Rightarrow> 'a list \<Rightarrow> nat \<Rightarrow> 'c heap \<Rightarrow> bool" where
  "range_inv wrap r f h0 xs i h \<longleftrightarrow>
     prefix h0 h \<and> length h0 < length h \<and>
     (\<exists>zs. load h (length h0) = Some (wrap zs) \<and> length zs = length xs \<and>
        (\<forall>j<i. r h (zs ! j) = r h0 (xs ! j) \<and> f h (zs ! j) \<subseteq> {Suc (length h0)..<length h}))"

lemma range_inv_step:
  assumes c: "deep_copy r f c" and uw: "\<And>x. unwrap (Some (wrap x)) = x"
    and inv: "range_inv wrap r f h0 xs i h" and i: "i < length xs"
    and b: "bounded h0 (f h0 (xs ! i))" and eq: "c (xs ! i) h = (y, h1)"
  shows "range_inv wrap r f h0 xs (Suc i)
           (store (length h0) (wrap ((unwrap (load h1 (length h0)))[i := y])) h1)"
proof -
  let ?q = "length h0"
  obtain zs where p: "prefix h0 h" and q: "?q < length h" and zs: "load h ?q = Some (wrap zs)"
    "length zs = length xs"
    and J: "\<And>j. j < i \<Longrightarrow> r h (zs ! j) = r h0 (xs ! j) \<and> f h (zs ! j) \<subseteq> {Suc ?q..<length h}"
    using inv by (auto simp: range_inv_def)
  have b1: "bounded h (f h (xs ! i))"
    using bounded_prefix [OF p b] copied_reach_prefix [OF c p b] by simp
  note p1 = deep_copy.copy_extends [OF c b1 eq]
  note f1 = deep_copy.copy_fresh [OF c b1 eq]
  have l1: "load h1 ?q = Some (wrap zs)" using load_prefix [OF p1 q] zs(1) by simp
  let ?h2 = "store ?q (wrap (zs[i := y])) h1"
  have q1: "?q < length h1" using prefix_length_le [OF p1] q by simp
  have keep: "r ?h2 z = r h1 z \<and> f ?h2 z = f h1 z" if "?q \<notin> f h1 z" for z
    using copied_read_local [OF c agree_store [OF that]]
      copied_reach_local [OF c agree_store [OF that]] by blast
  have "r ?h2 (zs[i := y] ! j) = r h0 (xs ! j) \<and> f ?h2 (zs[i := y] ! j) \<subseteq> {Suc ?q..<length h1}"
    if "j < Suc i" for j
  proof (cases "j = i")
    case True
    have "?q \<notin> f h1 y" using f1 q by auto
    then show ?thesis
      using True keep f1 q i zs(2) deep_copy.copy_read [OF c b1 eq] copied_read_prefix [OF c p b]
      by fastforce
  next
    case False
    then have j: "j < i" using that by simp
    have bz: "bounded h (f h (zs ! j))" using J [OF j] by (auto simp: bounded_def)
    note fz = copied_reach_prefix [OF c p1 bz] and rz = copied_read_prefix [OF c p1 bz]
    have "?q \<notin> f h1 (zs ! j)" using J [OF j] by (auto simp: fz)
    then show ?thesis using False keep J [OF j] fz rz prefix_length_le [OF p1] by fastforce
  qed
  then show ?thesis
    unfolding range_inv_def l1 uw using q1 zs(2) prefix_store [OF prefix_order.trans [OF p p1]]
    by (auto simp: load_store intro!: exI [of _ "zs[i := y]"])
qed

lemma copy_range_inv:
  assumes c: "deep_copy r f c" and uw: "\<And>x. unwrap (Some (wrap x)) = x"
    and a: "a < length h0" "xs = unwrap (load h0 a)" "bounded h0 (reach_elements f h0 xs)"
  shows "range_inv wrap r f h0 xs i h \<Longrightarrow> i \<le> length xs \<Longrightarrow>
    range_inv wrap r f h0 xs (length xs) (copy_range wrap unwrap c a (length h0) [i..<length xs] h)"
proof (induction "length xs - i" arbitrary: i h)
  case (Suc n)
  then have i: "i < length xs" by simp
  have "load h a = load h0 a" using Suc.prems a by (auto simp: range_inv_def load_prefix)
  then have xi: "unwrap (load h a) ! i = xs ! i" by (simp add: a)
  obtain y h1 where y: "c (xs ! i) h = (y, h1)" by fastforce
  have "bounded h0 (f h0 (xs ! i))" using a(3) i by (simp add: bounded_UNION)
  from range_inv_step [OF c uw Suc.prems(1) i this y]
  show ?case using Suc.hyps i by (simp add: upt_conv_Cons xi y)
qed simp

definition read_slice ::
  "('c option \<Rightarrow> 'a list) \<Rightarrow> ('c heap \<Rightarrow> 'a \<Rightarrow> 'v) \<Rightarrow> 'c heap \<Rightarrow> addr option \<Rightarrow> 'v list option" where
  "read_slice unwrap r = read_pointer unwrap (read_elements r)"

definition reach_slice ::
  "('c option \<Rightarrow> 'a list) \<Rightarrow> ('c heap \<Rightarrow> 'a \<Rightarrow> addr set) \<Rightarrow> 'c heap \<Rightarrow> addr option \<Rightarrow> addr set" where
  "reach_slice unwrap f = reach_pointer unwrap (reach_elements f)"

lemma heap_view_elements:
  assumes "heap_view r f"
  shows "heap_view (read_elements r) (reach_elements f)"
  by unfold_locales
    (auto simp: agree_UNION heap_view.read_local [OF assms] heap_view.reach_local [OF assms]
      intro!: SUP_cong)

lemma deep_copy_slice:
  assumes c: "deep_copy r f c" and uw: "\<And>x. unwrap (Some (wrap x)) = x"
  shows "deep_copy (read_slice unwrap r) (reach_slice unwrap f) (copy_slice wrap unwrap zero c)"
  unfolding read_slice_def reach_slice_def
proof (rule deep_copy_pointerI [OF heap_view_elements [OF deep_copy.axioms(1) [OF c]]])
  show "copy_slice wrap unwrap zero c None h = (None, h)" for h
    by (simp add: copy_slice_def)
next
  fix a h y h'
  define xs where "xs = unwrap (load h a)"
  assume a: "a < length h" and "bounded h (reach_elements f h (unwrap (load h a)))"
    and eq: "copy_slice wrap unwrap zero c (Some a) h = (y, h')"
  then have b: "bounded h (reach_elements f h xs)" by (simp add: xs_def)
  let ?h1 = "h @ [wrap (replicate (length xs) zero)]"
  have y: "y = Some (length h)"
    and h': "h' = copy_range wrap unwrap c a (length h) [0..<length xs] ?h1"
    using eq by (auto simp: copy_slice_def new_def xs_def Let_def)
  have "range_inv wrap r f h xs 0 ?h1"
    by (simp add: range_inv_def load_def) (rule exI [of _ "replicate (length xs) zero"], simp)
  from copy_range_inv [OF c uw a xs_def b this]
  have "range_inv wrap r f h xs (length xs) h'" by (simp add: h')
  then obtain zs where zs: "prefix h h'" "length h < length h'" "load h' (length h) = Some (wrap zs)"
    "length zs = length xs"
    "\<And>j. j < length xs \<Longrightarrow> r h' (zs ! j) = r h (xs ! j) \<and> f h' (zs ! j) \<subseteq> {Suc (length h)..<length h'}"
    by (auto simp: range_inv_def)
  have "read_elements r h' zs = read_elements r h xs"
    using zs(4,5) by (simp add: list_eq_iff_nth_eq)
  moreover have "f h' z \<subseteq> fresh h h'" if "z \<in> set zs" for z
    using that zs(4,5) by (force simp: in_set_conv_nth)
  ultimately show "\<exists>q. y = Some q \<and> prefix h h' \<and> q \<in> fresh h h' \<and>
      read_elements r h' (unwrap (load h' q)) = read_elements r h (unwrap (load h a)) \<and>
      reach_elements f h' (unwrap (load h' q)) \<subseteq> fresh h h'"
    using y zs(1-3) by (simp add: uw UN_least flip: xs_def)
qed

end
