(* ===== verification/Deep_Copy.thy ===== *)
theory Deep_Copy
  imports Heap API_Types "HOL-Library.DAList"
begin

section \<open>zz_generated.deepcopy.go: the deep copies of the API types\<close>

text \<open>
  The API structs as they lie in memory, with their pointers, slices and maps as addresses, and the
  generated \<open>DeepCopyInto\<close>, \<open>DeepCopy\<close> and \<open>DeepCopyObject\<close> methods over a heap. A \<open>DeepCopyInto\<close> takes the
  struct \<open>*in\<close> and gives the struct written to \<open>*out\<close>, with the heap after it; \<open>DeepCopy\<close> allocates.
  The structs of the Kubernetes packages with methods of their own (\<open>ObjectMeta\<close>, \<open>ListMeta\<close>,
  \<open>ResourceRequirements\<close>, \<open>Toleration\<close>, \<open>Condition\<close>, \<open>Time\<close>, \<open>Quantity\<close>) are values of the type parameter \<open>'x\<close>,
  and their deep copy is a parameter of the model; what it promises is \<open>documented_deepcopy\<close>.

  What a struct in memory means is the value-level record of the rest of the development: the
  functions \<open>read_\<dots>\<close> are that abstraction. The contract \<open>deep_copy\<close> is shown for every type, so the
  copy of an object means the same object and no later write through it shows in the original. This is
  what lets \<open>build\<close> of \<open>status.go\<close> change the conditions of \<open>*prev.DeepCopy()\<close> in place, and what lets the
  other theories treat the status as a value.
\<close>

subsection \<open>Structs in memory\<close>

record ModelSpec_mem =
  mem_Name :: string
  mem_Revision :: string
  mem_SecretRef :: "addr option"

record 'x RuntimeSpec_mem =
  mem_Engine :: Engine
  mem_Image :: string
  mem_ExtraArgs :: "addr option"
  mem_Port :: int32
  mem_LoadTimeoutSeconds :: int32
  mem_Resources :: 'x
  mem_NodeSelector :: "addr option"
  mem_Tolerations :: "addr option"

record WeightCacheSpec_mem =
  mem_Size :: "addr option"
  mem_StorageClassName :: "addr option"
  mem_ExistingClaimName :: string
  mem_MountPath :: string
  mem_WarmImage :: string
  mem_WarmTimeoutSeconds :: int32

record 'x ModelDeploymentSpec_mem =
  mem_Model :: ModelSpec_mem
  mem_Runtime :: "'x RuntimeSpec_mem"
  mem_Replicas :: int32
  mem_WeightCache :: "addr option"
  mem_Autoscaling :: "addr option"
  mem_Disruption :: DisruptionSpec

record ModelDeploymentStatus_mem =
  mem_ObservedGeneration :: int64
  mem_Conditions :: "addr option"
  mem_CacheKey :: string
  mem_StatusReplicas :: int32
  mem_ReadyReplicas :: int32
  mem_ObservedQueueDepth :: int32
  mem_LastScaleTime :: "addr option"
  mem_Endpoint :: string
  mem_Selector :: string

record 'x ModelDeployment_mem =
  mem_TypeMeta :: TypeMeta
  mem_ObjectMeta :: 'x
  mem_Spec :: "'x ModelDeploymentSpec_mem"
  mem_Status :: ModelDeploymentStatus_mem

record 'x ModelDeploymentList_mem =
  mem_ListTypeMeta :: TypeMeta
  mem_ListMeta :: 'x
  mem_Items :: "addr option"

text \<open>A cell: what a pointer, slice or map of these types leads to.\<close>

datatype 'x cell =
    Cell_String string
  | Cell_Strings "string list"
  | Cell_StringMap "(string, string) alist"
  | Cell_LocalObjectReference LocalObjectReference
  | Cell_Foreign 'x
  | Cell_Foreigns "'x list"
  | Cell_AutoscalingSpec AutoscalingSpec
  | Cell_DisruptionSpec DisruptionSpec
  | Cell_ModelSpec ModelSpec_mem
  | Cell_RuntimeSpec "'x RuntimeSpec_mem"
  | Cell_WeightCacheSpec WeightCacheSpec_mem
  | Cell_ModelDeploymentSpec "'x ModelDeploymentSpec_mem"
  | Cell_ModelDeploymentStatus ModelDeploymentStatus_mem
  | Cell_ModelDeployment "'x ModelDeployment_mem"
  | Cell_ModelDeployments "'x ModelDeployment_mem list"
  | Cell_ModelDeploymentList "'x ModelDeploymentList_mem"

subsection \<open>Zero values\<close>

definition zero_ModelSpec :: ModelSpec_mem where
  "zero_ModelSpec = \<lparr>mem_Name = '''', mem_Revision = '''', mem_SecretRef = None\<rparr>"

definition zero_RuntimeSpec :: "'x \<Rightarrow> 'x RuntimeSpec_mem" where
  "zero_RuntimeSpec z = \<lparr>mem_Engine = '''', mem_Image = '''', mem_ExtraArgs = None, mem_Port = 0,
     mem_LoadTimeoutSeconds = 0, mem_Resources = z, mem_NodeSelector = None, mem_Tolerations = None\<rparr>"

definition zero_WeightCacheSpec :: WeightCacheSpec_mem where
  "zero_WeightCacheSpec = \<lparr>mem_Size = None, mem_StorageClassName = None, mem_ExistingClaimName = '''',
     mem_MountPath = '''', mem_WarmImage = '''', mem_WarmTimeoutSeconds = 0\<rparr>"

definition zero_AutoscalingSpec :: AutoscalingSpec where
  "zero_AutoscalingSpec = \<lparr>AutoscalingSpec_MinReplicas = 0, AutoscalingSpec_MaxReplicas = 0,
     AutoscalingSpec_TargetQueueDepth = 0, AutoscalingSpec_MetricName = '''',
     AutoscalingSpec_ScaleUpStabilizationSeconds = 0, AutoscalingSpec_ScaleDownStabilizationSeconds = 0,
     AutoscalingSpec_MaxScaleUpStep = 0\<rparr>"

definition zero_DisruptionSpec :: DisruptionSpec where
  "zero_DisruptionSpec = \<lparr>DisruptionSpec_MinAvailable = 0\<rparr>"

definition zero_ModelDeploymentSpec :: "'x \<Rightarrow> 'x ModelDeploymentSpec_mem" where
  "zero_ModelDeploymentSpec z = \<lparr>mem_Model = zero_ModelSpec, mem_Runtime = zero_RuntimeSpec z,
     mem_Replicas = 0, mem_WeightCache = None, mem_Autoscaling = None,
     mem_Disruption = zero_DisruptionSpec\<rparr>"

definition zero_ModelDeploymentStatus :: ModelDeploymentStatus_mem where
  "zero_ModelDeploymentStatus = \<lparr>mem_ObservedGeneration = 0, mem_Conditions = None, mem_CacheKey = '''',
     mem_StatusReplicas = 0, mem_ReadyReplicas = 0, mem_ObservedQueueDepth = 0, mem_LastScaleTime = None,
     mem_Endpoint = '''', mem_Selector = ''''\<rparr>"

definition zero_TypeMeta :: TypeMeta where
  "zero_TypeMeta = \<lparr>TypeMeta_APIVersion = '''', TypeMeta_Kind = ''''\<rparr>"

definition zero_ModelDeployment :: "'x \<Rightarrow> 'x ModelDeployment_mem" where
  "zero_ModelDeployment z = \<lparr>mem_TypeMeta = zero_TypeMeta, mem_ObjectMeta = z,
     mem_Spec = zero_ModelDeploymentSpec z, mem_Status = zero_ModelDeploymentStatus\<rparr>"

definition zero_ModelDeploymentList :: "'x \<Rightarrow> 'x ModelDeploymentList_mem" where
  "zero_ModelDeploymentList z = \<lparr>mem_ListTypeMeta = zero_TypeMeta, mem_ListMeta = z, mem_Items = None\<rparr>"

subsection \<open>The pointee of an address, by its type\<close>

definition the_String :: "'x cell option \<Rightarrow> string" where
  "the_String c = (case c of Some (Cell_String s) \<Rightarrow> s | _ \<Rightarrow> '''')"

definition the_Strings :: "'x cell option \<Rightarrow> string list" where
  "the_Strings c = (case c of Some (Cell_Strings s) \<Rightarrow> s | _ \<Rightarrow> [])"

definition the_StringMap :: "'x cell option \<Rightarrow> (string, string) alist" where
  "the_StringMap c = (case c of Some (Cell_StringMap m) \<Rightarrow> m | _ \<Rightarrow> DAList.empty)"

definition the_LocalObjectReference :: "'x cell option \<Rightarrow> LocalObjectReference" where
  "the_LocalObjectReference c =
     (case c of Some (Cell_LocalObjectReference r) \<Rightarrow> r | _ \<Rightarrow> \<lparr>LocalObjectReference_Name = ''''\<rparr>)"

definition the_Foreign :: "'x \<Rightarrow> 'x cell option \<Rightarrow> 'x" where
  "the_Foreign z c = (case c of Some (Cell_Foreign x) \<Rightarrow> x | _ \<Rightarrow> z)"

definition the_Foreigns :: "'x cell option \<Rightarrow> 'x list" where
  "the_Foreigns c = (case c of Some (Cell_Foreigns xs) \<Rightarrow> xs | _ \<Rightarrow> [])"

definition the_AutoscalingSpec :: "'x cell option \<Rightarrow> AutoscalingSpec" where
  "the_AutoscalingSpec c =
     (case c of Some (Cell_AutoscalingSpec s) \<Rightarrow> s | _ \<Rightarrow> zero_AutoscalingSpec)"

definition the_DisruptionSpec :: "'x cell option \<Rightarrow> DisruptionSpec" where
  "the_DisruptionSpec c = (case c of Some (Cell_DisruptionSpec s) \<Rightarrow> s | _ \<Rightarrow> zero_DisruptionSpec)"

definition the_ModelSpec :: "'x cell option \<Rightarrow> ModelSpec_mem" where
  "the_ModelSpec c = (case c of Some (Cell_ModelSpec s) \<Rightarrow> s | _ \<Rightarrow> zero_ModelSpec)"

definition the_RuntimeSpec :: "'x \<Rightarrow> 'x cell option \<Rightarrow> 'x RuntimeSpec_mem" where
  "the_RuntimeSpec z c = (case c of Some (Cell_RuntimeSpec s) \<Rightarrow> s | _ \<Rightarrow> zero_RuntimeSpec z)"

definition the_WeightCacheSpec :: "'x cell option \<Rightarrow> WeightCacheSpec_mem" where
  "the_WeightCacheSpec c =
     (case c of Some (Cell_WeightCacheSpec s) \<Rightarrow> s | _ \<Rightarrow> zero_WeightCacheSpec)"

definition the_ModelDeploymentSpec :: "'x \<Rightarrow> 'x cell option \<Rightarrow> 'x ModelDeploymentSpec_mem" where
  "the_ModelDeploymentSpec z c =
     (case c of Some (Cell_ModelDeploymentSpec s) \<Rightarrow> s | _ \<Rightarrow> zero_ModelDeploymentSpec z)"

definition the_ModelDeploymentStatus :: "'x cell option \<Rightarrow> ModelDeploymentStatus_mem" where
  "the_ModelDeploymentStatus c =
     (case c of Some (Cell_ModelDeploymentStatus s) \<Rightarrow> s | _ \<Rightarrow> zero_ModelDeploymentStatus)"

definition the_ModelDeployment :: "'x \<Rightarrow> 'x cell option \<Rightarrow> 'x ModelDeployment_mem" where
  "the_ModelDeployment z c =
     (case c of Some (Cell_ModelDeployment s) \<Rightarrow> s | _ \<Rightarrow> zero_ModelDeployment z)"

definition the_ModelDeployments :: "'x cell option \<Rightarrow> 'x ModelDeployment_mem list" where
  "the_ModelDeployments c = (case c of Some (Cell_ModelDeployments s) \<Rightarrow> s | _ \<Rightarrow> [])"

definition the_ModelDeploymentList :: "'x \<Rightarrow> 'x cell option \<Rightarrow> 'x ModelDeploymentList_mem" where
  "the_ModelDeploymentList z c =
     (case c of Some (Cell_ModelDeploymentList s) \<Rightarrow> s | _ \<Rightarrow> zero_ModelDeploymentList z)"

lemma the_cell [simp]:
  "the_String (Some (Cell_String str)) = str"
  "the_Strings (Some (Cell_Strings strs)) = strs"
  "the_StringMap (Some (Cell_StringMap m)) = m"
  "the_LocalObjectReference (Some (Cell_LocalObjectReference ref)) = ref"
  "the_Foreign z (Some (Cell_Foreign x)) = x"
  "the_Foreigns (Some (Cell_Foreigns xs)) = xs"
  "the_AutoscalingSpec (Some (Cell_AutoscalingSpec as)) = as"
  "the_DisruptionSpec (Some (Cell_DisruptionSpec d)) = d"
  "the_ModelSpec (Some (Cell_ModelSpec ms)) = ms"
  "the_RuntimeSpec z (Some (Cell_RuntimeSpec rt)) = rt"
  "the_WeightCacheSpec (Some (Cell_WeightCacheSpec wc)) = wc"
  "the_ModelDeploymentSpec z (Some (Cell_ModelDeploymentSpec sp)) = sp"
  "the_ModelDeploymentStatus (Some (Cell_ModelDeploymentStatus st)) = st"
  "the_ModelDeployment z (Some (Cell_ModelDeployment md)) = md"
  "the_ModelDeployments (Some (Cell_ModelDeployments mds)) = mds"
  "the_ModelDeploymentList z (Some (Cell_ModelDeploymentList mdl)) = mdl"
  by (simp_all add: the_String_def the_Strings_def the_StringMap_def
    the_LocalObjectReference_def the_Foreign_def the_Foreigns_def the_AutoscalingSpec_def
    the_DisruptionSpec_def the_ModelSpec_def the_RuntimeSpec_def the_WeightCacheSpec_def
    the_ModelDeploymentSpec_def the_ModelDeploymentStatus_def the_ModelDeployment_def
    the_ModelDeployments_def the_ModelDeploymentList_def)

subsection \<open>The copies of the Kubernetes packages\<close>

text \<open>
  The deep copy of the third-party structs and their zero value; for the specification, what such a
  struct means in a heap, per type, and the addresses it reaches.
\<close>

record 'x Foreign =
  Foreign_DeepCopy :: "'x \<Rightarrow> 'x cell heap \<Rightarrow> 'x \<times> 'x cell heap"
  Foreign_zero :: 'x
  Foreign_reach :: "'x cell heap \<Rightarrow> 'x \<Rightarrow> addr set"
  as_ObjectMeta :: "'x cell heap \<Rightarrow> 'x \<Rightarrow> ObjectMeta"
  as_ListMeta_ResourceVersion :: "'x cell heap \<Rightarrow> 'x \<Rightarrow> string"
  as_ResourceRequirements :: "'x cell heap \<Rightarrow> 'x \<Rightarrow> ResourceRequirements"
  as_Toleration :: "'x cell heap \<Rightarrow> 'x \<Rightarrow> Toleration"
  as_Condition :: "'x cell heap \<Rightarrow> 'x \<Rightarrow> Condition"
  as_Time :: "'x cell heap \<Rightarrow> 'x \<Rightarrow> gotime"
  as_Quantity :: "'x cell heap \<Rightarrow> 'x \<Rightarrow> Quantity"

text \<open>
  What the packages document of \<open>DeepCopyInto\<close>: a deep copy, for each of the types the source has in
  its structs.
\<close>

definition documented_deepcopy :: "'x Foreign \<Rightarrow> bool" where
  "documented_deepcopy lib \<longleftrightarrow>
     deep_copy (as_ObjectMeta lib) (Foreign_reach lib) (Foreign_DeepCopy lib) \<and>
     deep_copy (as_ListMeta_ResourceVersion lib) (Foreign_reach lib) (Foreign_DeepCopy lib) \<and>
     deep_copy (as_ResourceRequirements lib) (Foreign_reach lib) (Foreign_DeepCopy lib) \<and>
     deep_copy (as_Toleration lib) (Foreign_reach lib) (Foreign_DeepCopy lib) \<and>
     deep_copy (as_Condition lib) (Foreign_reach lib) (Foreign_DeepCopy lib) \<and>
     deep_copy (as_Time lib) (Foreign_reach lib) (Foreign_DeepCopy lib) \<and>
     deep_copy (as_Quantity lib) (Foreign_reach lib) (Foreign_DeepCopy lib)"

subsection \<open>DeepCopyInto\<close>

text \<open>\<open>*out = *in\<close> and \<open>**out = **in\<close>: Go's assignment of a struct.\<close>

definition assign :: "'a \<Rightarrow> 'c heap \<Rightarrow> 'a \<times> 'c heap" where
  "assign x h = (x, h)"

definition AutoscalingSpec_DeepCopyInto ::
  "AutoscalingSpec \<Rightarrow> 'x cell heap \<Rightarrow> AutoscalingSpec \<times> 'x cell heap" where
  "AutoscalingSpec_DeepCopyInto = assign"

definition DisruptionSpec_DeepCopyInto ::
  "DisruptionSpec \<Rightarrow> 'x cell heap \<Rightarrow> DisruptionSpec \<times> 'x cell heap" where
  "DisruptionSpec_DeepCopyInto = assign"

definition ModelSpec_DeepCopyInto :: "ModelSpec_mem \<Rightarrow> 'x cell heap \<Rightarrow> ModelSpec_mem \<times> 'x cell heap" where
  "ModelSpec_DeepCopyInto s h =
     (let out = s;
          (p, h) = copy_pointer Cell_LocalObjectReference the_LocalObjectReference
                     (\<lambda>_. \<lparr>LocalObjectReference_Name = ''''\<rparr>) assign (mem_SecretRef s) h
      in (out\<lparr>mem_SecretRef := p\<rparr>, h))"

text \<open>\<open>make([]string, len(*in))\<close> and \<open>copy(*out, *in)\<close>, which moves the strings over.\<close>

definition copy_strings :: "addr option \<Rightarrow> 'x cell heap \<Rightarrow> addr option \<times> 'x cell heap" where
  "copy_strings = copy_pointer Cell_Strings the_Strings (\<lambda>xs. replicate (length xs) '''') assign"

text \<open>\<open>make(map[string]string, len(*in))\<close> and \<open>(*out)[key] = val\<close> for every entry, in any order.\<close>

definition insert_entries :: "(string, string) alist \<Rightarrow> 'c heap \<Rightarrow> (string, string) alist \<times> 'c heap" where
  "insert_entries m h =
     (foldl (\<lambda>out (key, val). DAList.update key val out) DAList.empty (DAList.impl_of m), h)"

definition copy_string_map :: "addr option \<Rightarrow> 'x cell heap \<Rightarrow> addr option \<times> 'x cell heap" where
  "copy_string_map = copy_pointer Cell_StringMap the_StringMap (\<lambda>_. DAList.empty) insert_entries"

definition RuntimeSpec_DeepCopyInto ::
  "'x Foreign \<Rightarrow> 'x RuntimeSpec_mem \<Rightarrow> 'x cell heap \<Rightarrow> 'x RuntimeSpec_mem \<times> 'x cell heap" where
  "RuntimeSpec_DeepCopyInto lib s h =
     (let out = s;
          (args, h) = copy_strings (mem_ExtraArgs s) h;
          (res, h) = Foreign_DeepCopy lib (mem_Resources s) h;
          (sel, h) = copy_string_map (mem_NodeSelector s) h;
          (tols, h) = copy_slice Cell_Foreigns the_Foreigns (Foreign_zero lib) (Foreign_DeepCopy lib)
                        (mem_Tolerations s) h
      in (out\<lparr>mem_ExtraArgs := args, mem_Resources := res, mem_NodeSelector := sel,
              mem_Tolerations := tols\<rparr>, h))"

definition WeightCacheSpec_DeepCopyInto ::
  "'x Foreign \<Rightarrow> WeightCacheSpec_mem \<Rightarrow> 'x cell heap \<Rightarrow> WeightCacheSpec_mem \<times> 'x cell heap" where
  "WeightCacheSpec_DeepCopyInto lib s h =
     (let out = s;
          (size, h) = copy_boxed Cell_Foreign (the_Foreign (Foreign_zero lib)) (Foreign_DeepCopy lib)
                        (mem_Size s) h;
          (class, h) = copy_pointer Cell_String the_String (\<lambda>_. '''') assign (mem_StorageClassName s) h
      in (out\<lparr>mem_Size := size, mem_StorageClassName := class\<rparr>, h))"

definition ModelDeploymentSpec_DeepCopyInto ::
  "'x Foreign \<Rightarrow> 'x ModelDeploymentSpec_mem \<Rightarrow> 'x cell heap \<Rightarrow>
   'x ModelDeploymentSpec_mem \<times> 'x cell heap" where
  "ModelDeploymentSpec_DeepCopyInto lib s h =
     (let out = s;
          (model, h) = ModelSpec_DeepCopyInto (mem_Model s) h;
          (rt, h) = RuntimeSpec_DeepCopyInto lib (mem_Runtime s) h;
          (wc, h) = copy_pointer Cell_WeightCacheSpec the_WeightCacheSpec (\<lambda>_. zero_WeightCacheSpec)
                      (WeightCacheSpec_DeepCopyInto lib) (mem_WeightCache s) h;
          (as, h) = copy_pointer Cell_AutoscalingSpec the_AutoscalingSpec (\<lambda>_. zero_AutoscalingSpec)
                      assign (mem_Autoscaling s) h
      in (out\<lparr>mem_Model := model, mem_Runtime := rt, mem_WeightCache := wc, mem_Autoscaling := as,
              mem_Disruption := mem_Disruption s\<rparr>, h))"

text \<open>
  \<open>metav1.Time\<close> has a \<open>DeepCopy\<close> that returns a pointer: a copy of the value in a cell of its own, as for
  \<open>Size\<close> above.
\<close>

definition ModelDeploymentStatus_DeepCopyInto ::
  "'x Foreign \<Rightarrow> ModelDeploymentStatus_mem \<Rightarrow> 'x cell heap \<Rightarrow>
   ModelDeploymentStatus_mem \<times> 'x cell heap" where
  "ModelDeploymentStatus_DeepCopyInto lib s h =
     (let out = s;
          (conds, h) = copy_slice Cell_Foreigns the_Foreigns (Foreign_zero lib) (Foreign_DeepCopy lib)
                         (mem_Conditions s) h;
          (last, h) = copy_boxed Cell_Foreign (the_Foreign (Foreign_zero lib)) (Foreign_DeepCopy lib)
                        (mem_LastScaleTime s) h
      in (out\<lparr>mem_Conditions := conds, mem_LastScaleTime := last\<rparr>, h))"

definition ModelDeployment_DeepCopyInto ::
  "'x Foreign \<Rightarrow> 'x ModelDeployment_mem \<Rightarrow> 'x cell heap \<Rightarrow> 'x ModelDeployment_mem \<times> 'x cell heap" where
  "ModelDeployment_DeepCopyInto lib s h =
     (let out = s;
          (om, h) = Foreign_DeepCopy lib (mem_ObjectMeta s) h;
          (sp, h) = ModelDeploymentSpec_DeepCopyInto lib (mem_Spec s) h;
          (st, h) = ModelDeploymentStatus_DeepCopyInto lib (mem_Status s) h
      in (out\<lparr>mem_TypeMeta := mem_TypeMeta s, mem_ObjectMeta := om, mem_Spec := sp,
              mem_Status := st\<rparr>, h))"

definition ModelDeploymentList_DeepCopyInto ::
  "'x Foreign \<Rightarrow> 'x ModelDeploymentList_mem \<Rightarrow> 'x cell heap \<Rightarrow>
   'x ModelDeploymentList_mem \<times> 'x cell heap" where
  "ModelDeploymentList_DeepCopyInto lib s h =
     (let out = s;
          (lm, h) = Foreign_DeepCopy lib (mem_ListMeta s) h;
          (items, h) = copy_slice Cell_ModelDeployments the_ModelDeployments
                         (zero_ModelDeployment (Foreign_zero lib)) (ModelDeployment_DeepCopyInto lib)
                         (mem_Items s) h
      in (out\<lparr>mem_ListTypeMeta := mem_ListTypeMeta s, mem_ListMeta := lm, mem_Items := items\<rparr>, h))"

subsection \<open>DeepCopy and DeepCopyObject\<close>

text \<open>
  \<open>if in == nil { return nil }; out := new(T); in.DeepCopyInto(out); return out\<close> is \<open>copy_pointer\<close> at \<open>T\<close>.
\<close>

type_synonym 'x copier = "addr option \<Rightarrow> 'x cell heap \<Rightarrow> addr option \<times> 'x cell heap"

definition AutoscalingSpec_DeepCopy :: "'x copier" where
  "AutoscalingSpec_DeepCopy =
     copy_pointer Cell_AutoscalingSpec the_AutoscalingSpec (\<lambda>_. zero_AutoscalingSpec)
       AutoscalingSpec_DeepCopyInto"

definition DisruptionSpec_DeepCopy :: "'x copier" where
  "DisruptionSpec_DeepCopy =
     copy_pointer Cell_DisruptionSpec the_DisruptionSpec (\<lambda>_. zero_DisruptionSpec)
       DisruptionSpec_DeepCopyInto"

definition ModelSpec_DeepCopy :: "'x copier" where
  "ModelSpec_DeepCopy =
     copy_pointer Cell_ModelSpec the_ModelSpec (\<lambda>_. zero_ModelSpec) ModelSpec_DeepCopyInto"

definition RuntimeSpec_DeepCopy :: "'x Foreign \<Rightarrow> 'x copier" where
  "RuntimeSpec_DeepCopy lib =
     copy_pointer Cell_RuntimeSpec (the_RuntimeSpec (Foreign_zero lib))
       (\<lambda>_. zero_RuntimeSpec (Foreign_zero lib)) (RuntimeSpec_DeepCopyInto lib)"

definition WeightCacheSpec_DeepCopy :: "'x Foreign \<Rightarrow> 'x copier" where
  "WeightCacheSpec_DeepCopy lib =
     copy_pointer Cell_WeightCacheSpec the_WeightCacheSpec (\<lambda>_. zero_WeightCacheSpec)
       (WeightCacheSpec_DeepCopyInto lib)"

definition ModelDeploymentSpec_DeepCopy :: "'x Foreign \<Rightarrow> 'x copier" where
  "ModelDeploymentSpec_DeepCopy lib =
     copy_pointer Cell_ModelDeploymentSpec (the_ModelDeploymentSpec (Foreign_zero lib))
       (\<lambda>_. zero_ModelDeploymentSpec (Foreign_zero lib)) (ModelDeploymentSpec_DeepCopyInto lib)"

definition ModelDeploymentStatus_DeepCopy :: "'x Foreign \<Rightarrow> 'x copier" where
  "ModelDeploymentStatus_DeepCopy lib =
     copy_pointer Cell_ModelDeploymentStatus the_ModelDeploymentStatus (\<lambda>_. zero_ModelDeploymentStatus)
       (ModelDeploymentStatus_DeepCopyInto lib)"

definition ModelDeployment_DeepCopy :: "'x Foreign \<Rightarrow> 'x copier" where
  "ModelDeployment_DeepCopy lib =
     copy_pointer Cell_ModelDeployment (the_ModelDeployment (Foreign_zero lib))
       (\<lambda>_. zero_ModelDeployment (Foreign_zero lib)) (ModelDeployment_DeepCopyInto lib)"

definition ModelDeploymentList_DeepCopy :: "'x Foreign \<Rightarrow> 'x copier" where
  "ModelDeploymentList_DeepCopy lib =
     copy_pointer Cell_ModelDeploymentList (the_ModelDeploymentList (Foreign_zero lib))
       (\<lambda>_. zero_ModelDeploymentList (Foreign_zero lib)) (ModelDeploymentList_DeepCopyInto lib)"

text \<open>
  A \<open>runtime.Object\<close> is an interface value: nil, or a type with a pointer of that type, which may
  itself be nil. \<open>DeepCopyObject\<close> turns a nil pointer into a nil interface.
\<close>

datatype runtime_Object = Ptr_ModelDeployment "addr option" | Ptr_ModelDeploymentList "addr option"

definition ModelDeployment_DeepCopyObject ::
  "'x Foreign \<Rightarrow> addr option \<Rightarrow> 'x cell heap \<Rightarrow> runtime_Object option \<times> 'x cell heap" where
  "ModelDeployment_DeepCopyObject lib p h =
     (let (c, h) = ModelDeployment_DeepCopy lib p h
      in if c \<noteq> None then (Some (Ptr_ModelDeployment c), h) else (None, h))"

definition ModelDeploymentList_DeepCopyObject ::
  "'x Foreign \<Rightarrow> addr option \<Rightarrow> 'x cell heap \<Rightarrow> runtime_Object option \<times> 'x cell heap" where
  "ModelDeploymentList_DeepCopyObject lib p h =
     (let (c, h) = ModelDeploymentList_DeepCopy lib p h
      in if c \<noteq> None then (Some (Ptr_ModelDeploymentList c), h) else (None, h))"

end
