(* ===== verification/Copy_Contract.thy ===== *)
theory Copy_Contract
  imports Deep_Copy
begin

section \<open>What the deep copies promise\<close>

text \<open>
  The meaning of the structs in memory as the value-level records of \<open>API_Types\<close>, the addresses they
  reach, and the contract \<open>deep_copy\<close> for every generated method, composed type by type from the closure
  lemmas of \<open>Heap\<close>. At the end, the properties: a copied object means the same object, is isolated from it
  under writes, and a nil pointer stays nil.
\<close>

subsection \<open>Reading structs\<close>

definition nil_list :: "'a list option \<Rightarrow> 'a list" where
  "nil_list xs = (case xs of None \<Rightarrow> [] | Some ys \<Rightarrow> ys)"

definition nil_map :: "('a \<rightharpoonup> 'b) option \<Rightarrow> 'a \<rightharpoonup> 'b" where
  "nil_map m = (case m of None \<Rightarrow> Map.empty | Some n \<Rightarrow> n)"

abbreviation itself :: "'c heap \<Rightarrow> 'a \<Rightarrow> 'a" where
  "itself h x \<equiv> x"

abbreviation nowhere :: "'c heap \<Rightarrow> 'a \<Rightarrow> addr set" where
  "nowhere h x \<equiv> {}"

definition read_ModelSpec :: "'x cell heap \<Rightarrow> ModelSpec_mem \<Rightarrow> ModelSpec" where
  "read_ModelSpec h s =
     \<lparr>ModelSpec_Name = mem_Name s, ModelSpec_Revision = mem_Revision s,
      ModelSpec_SecretRef = read_pointer the_LocalObjectReference itself h (mem_SecretRef s)\<rparr>"

definition read_RuntimeSpec :: "'x Foreign \<Rightarrow> 'x cell heap \<Rightarrow> 'x RuntimeSpec_mem \<Rightarrow> RuntimeSpec" where
  "read_RuntimeSpec lib h s =
     \<lparr>RuntimeSpec_Engine = mem_Engine s, RuntimeSpec_Image = mem_Image s,
      RuntimeSpec_ExtraArgs = nil_list (read_pointer the_Strings itself h (mem_ExtraArgs s)),
      RuntimeSpec_Port = mem_Port s, RuntimeSpec_LoadTimeoutSeconds = mem_LoadTimeoutSeconds s,
      RuntimeSpec_Resources = as_ResourceRequirements lib h (mem_Resources s),
      RuntimeSpec_NodeSelector =
        nil_map (read_pointer the_StringMap (\<lambda>h. DAList.lookup) h (mem_NodeSelector s)),
      RuntimeSpec_Tolerations =
        nil_list (read_slice the_Foreigns (as_Toleration lib) h (mem_Tolerations s))\<rparr>"

definition read_WeightCacheSpec ::
  "'x Foreign \<Rightarrow> 'x cell heap \<Rightarrow> WeightCacheSpec_mem \<Rightarrow> WeightCacheSpec" where
  "read_WeightCacheSpec lib h s =
     \<lparr>WeightCacheSpec_Size =
        read_pointer (the_Foreign (Foreign_zero lib)) (as_Quantity lib) h (mem_Size s),
      WeightCacheSpec_StorageClassName = read_pointer the_String itself h (mem_StorageClassName s),
      WeightCacheSpec_ExistingClaimName = mem_ExistingClaimName s,
      WeightCacheSpec_MountPath = mem_MountPath s, WeightCacheSpec_WarmImage = mem_WarmImage s,
      WeightCacheSpec_WarmTimeoutSeconds = mem_WarmTimeoutSeconds s\<rparr>"

definition read_ModelDeploymentSpec ::
  "'x Foreign \<Rightarrow> 'x cell heap \<Rightarrow> 'x ModelDeploymentSpec_mem \<Rightarrow> ModelDeploymentSpec" where
  "read_ModelDeploymentSpec lib h s =
     \<lparr>Spec_Model = read_ModelSpec h (mem_Model s),
      Spec_Runtime = read_RuntimeSpec lib h (mem_Runtime s),
      Spec_Replicas = mem_Replicas s,
      Spec_WeightCache =
        read_pointer the_WeightCacheSpec (read_WeightCacheSpec lib) h (mem_WeightCache s),
      Spec_Autoscaling = read_pointer the_AutoscalingSpec itself h (mem_Autoscaling s),
      Spec_Disruption = mem_Disruption s\<rparr>"

definition read_ModelDeploymentStatus ::
  "'x Foreign \<Rightarrow> 'x cell heap \<Rightarrow> ModelDeploymentStatus_mem \<Rightarrow> ModelDeploymentStatus" where
  "read_ModelDeploymentStatus lib h s =
     \<lparr>Status_ObservedGeneration = mem_ObservedGeneration s,
      Status_Conditions = nil_list (read_slice the_Foreigns (as_Condition lib) h (mem_Conditions s)),
      Status_CacheKey = mem_CacheKey s, Status_Replicas = mem_StatusReplicas s,
      Status_ReadyReplicas = mem_ReadyReplicas s,
      Status_ObservedQueueDepth = mem_ObservedQueueDepth s,
      Status_LastScaleTime =
        read_pointer (the_Foreign (Foreign_zero lib)) (as_Time lib) h (mem_LastScaleTime s),
      Status_Endpoint = mem_Endpoint s, Status_Selector = mem_Selector s\<rparr>"

definition read_ModelDeployment ::
  "'x Foreign \<Rightarrow> 'x cell heap \<Rightarrow> 'x ModelDeployment_mem \<Rightarrow> ModelDeployment" where
  "read_ModelDeployment lib h s =
     \<lparr>MD_ObjectMeta = as_ObjectMeta lib h (mem_ObjectMeta s),
      MD_Spec = read_ModelDeploymentSpec lib h (mem_Spec s),
      MD_Status = read_ModelDeploymentStatus lib h (mem_Status s)\<rparr>"

definition read_ModelDeploymentList ::
  "'x Foreign \<Rightarrow> 'x cell heap \<Rightarrow> 'x ModelDeploymentList_mem \<Rightarrow> string \<times> ModelDeployment list" where
  "read_ModelDeploymentList lib h s =
     (as_ListMeta_ResourceVersion lib h (mem_ListMeta s),
      nil_list (read_slice the_ModelDeployments (read_ModelDeployment lib) h (mem_Items s)))"

subsection \<open>Addresses reached\<close>

definition reach_ModelSpec :: "'x cell heap \<Rightarrow> ModelSpec_mem \<Rightarrow> addr set" where
  "reach_ModelSpec h s = reach_pointer the_LocalObjectReference nowhere h (mem_SecretRef s)"

definition reach_RuntimeSpec :: "'x Foreign \<Rightarrow> 'x cell heap \<Rightarrow> 'x RuntimeSpec_mem \<Rightarrow> addr set" where
  "reach_RuntimeSpec lib h s =
     reach_pointer the_Strings nowhere h (mem_ExtraArgs s) \<union>
     (Foreign_reach lib h (mem_Resources s) \<union>
     (reach_pointer the_StringMap nowhere h (mem_NodeSelector s) \<union>
      reach_slice the_Foreigns (Foreign_reach lib) h (mem_Tolerations s)))"

definition reach_WeightCacheSpec :: "'x Foreign \<Rightarrow> 'x cell heap \<Rightarrow> WeightCacheSpec_mem \<Rightarrow> addr set" where
  "reach_WeightCacheSpec lib h s =
     reach_pointer (the_Foreign (Foreign_zero lib)) (Foreign_reach lib) h (mem_Size s) \<union>
     reach_pointer the_String nowhere h (mem_StorageClassName s)"

definition reach_ModelDeploymentSpec ::
  "'x Foreign \<Rightarrow> 'x cell heap \<Rightarrow> 'x ModelDeploymentSpec_mem \<Rightarrow> addr set" where
  "reach_ModelDeploymentSpec lib h s =
     reach_ModelSpec h (mem_Model s) \<union>
     (reach_RuntimeSpec lib h (mem_Runtime s) \<union>
     (reach_pointer the_WeightCacheSpec (reach_WeightCacheSpec lib) h (mem_WeightCache s) \<union>
      reach_pointer the_AutoscalingSpec nowhere h (mem_Autoscaling s)))"

definition reach_ModelDeploymentStatus ::
  "'x Foreign \<Rightarrow> 'x cell heap \<Rightarrow> ModelDeploymentStatus_mem \<Rightarrow> addr set" where
  "reach_ModelDeploymentStatus lib h s =
     reach_slice the_Foreigns (Foreign_reach lib) h (mem_Conditions s) \<union>
     reach_pointer (the_Foreign (Foreign_zero lib)) (Foreign_reach lib) h (mem_LastScaleTime s)"

definition reach_ModelDeployment ::
  "'x Foreign \<Rightarrow> 'x cell heap \<Rightarrow> 'x ModelDeployment_mem \<Rightarrow> addr set" where
  "reach_ModelDeployment lib h s =
     Foreign_reach lib h (mem_ObjectMeta s) \<union>
     (reach_ModelDeploymentSpec lib h (mem_Spec s) \<union>
      reach_ModelDeploymentStatus lib h (mem_Status s))"

definition reach_ModelDeploymentList ::
  "'x Foreign \<Rightarrow> 'x cell heap \<Rightarrow> 'x ModelDeploymentList_mem \<Rightarrow> addr set" where
  "reach_ModelDeploymentList lib h s =
     Foreign_reach lib h (mem_ListMeta s) \<union>
     reach_slice the_ModelDeployments (reach_ModelDeployment lib) h (mem_Items s)"

subsection \<open>The contract, type by type\<close>

lemma deep_copy_assign: "deep_copy itself nowhere assign"
  using deep_copy_plain [where r = "\<lambda>x. x"] by (simp add: assign_def [abs_def])

text \<open>Inserting the entries of a Go map into an empty one gives the same map.\<close>

lemma lookup_inserts:
  "distinct (map fst es) \<Longrightarrow>
   DAList.lookup (foldl (\<lambda>out (key, val). DAList.update key val out) m es) = DAList.lookup m ++ map_of es"
proof (induction es arbitrary: m)
  case (Cons e es)
  obtain k v where "e = (k, v)" by fastforce
  moreover have "map_of es (fst e) = None" using Cons.prems by (simp add: map_of_eq_None_iff)
  ultimately show ?case using Cons by (auto simp: map_add_def lookup_update split: option.splits)
qed simp

lemma lookup_insert_entries: "DAList.lookup (fst (insert_entries m h)) = DAList.lookup m"
proof -
  have "DAList.lookup (fst (insert_entries m h)) = DAList.lookup DAList.empty ++ map_of (DAList.impl_of m)"
    unfolding insert_entries_def fst_conv by (rule lookup_inserts) simp
  then show ?thesis by (simp add: DAList.lookup.rep_eq empty.rep_eq)
qed

lemma deep_copy_insert_entries: "deep_copy (\<lambda>h. DAList.lookup) nowhere insert_entries"
proof -
  have eq: "insert_entries = (\<lambda>m h. (fst (insert_entries m []), h))"
    by (simp add: insert_entries_def fun_eq_iff)
  show ?thesis by (subst eq) (rule deep_copy_value, rule lookup_insert_entries)
qed

lemma deep_copy_foreign:
  assumes "documented_deepcopy lib"
  shows "deep_copy (as_ObjectMeta lib) (Foreign_reach lib) (Foreign_DeepCopy lib)"
    "deep_copy (as_ListMeta_ResourceVersion lib) (Foreign_reach lib) (Foreign_DeepCopy lib)"
    "deep_copy (as_ResourceRequirements lib) (Foreign_reach lib) (Foreign_DeepCopy lib)"
    "deep_copy (as_Toleration lib) (Foreign_reach lib) (Foreign_DeepCopy lib)"
    "deep_copy (as_Condition lib) (Foreign_reach lib) (Foreign_DeepCopy lib)"
    "deep_copy (as_Time lib) (Foreign_reach lib) (Foreign_DeepCopy lib)"
    "deep_copy (as_Quantity lib) (Foreign_reach lib) (Foreign_DeepCopy lib)"
  using assms by (simp_all add: documented_deepcopy_def)

lemma deep_copy_ModelSpec: "deep_copy read_ModelSpec reach_ModelSpec ModelSpec_DeepCopyInto"
  by (rule deep_copy_struct [OF deep_copy_pointer [OF deep_copy_assign],
        where get = mem_SecretRef and put = "\<lambda>p s. s\<lparr>mem_SecretRef := p\<rparr>"
          and build = "\<lambda>s v. \<lparr>ModelSpec_Name = mem_Name s, ModelSpec_Revision = mem_Revision s,
                           ModelSpec_SecretRef = v\<rparr>"])
    (simp_all add: read_ModelSpec_def reach_ModelSpec_def ModelSpec_DeepCopyInto_def Let_def)

lemma deep_copy_strings:
  "deep_copy (read_pointer the_Strings itself) (reach_pointer the_Strings nowhere) copy_strings"
  unfolding copy_strings_def by (rule deep_copy_pointer [OF deep_copy_assign]) simp

lemma deep_copy_string_map:
  "deep_copy (read_pointer the_StringMap (\<lambda>h. DAList.lookup)) (reach_pointer the_StringMap nowhere)
     copy_string_map"
  unfolding copy_string_map_def by (rule deep_copy_pointer [OF deep_copy_insert_entries]) simp

lemma deep_copy_RuntimeSpec:
  assumes "documented_deepcopy lib"
  shows "deep_copy (read_RuntimeSpec lib) (reach_RuntimeSpec lib) (RuntimeSpec_DeepCopyInto lib)"
  by (rule deep_copy_struct
        [OF deep_copy_pair [OF deep_copy_strings deep_copy_pair [OF deep_copy_foreign(3) [OF assms]
             deep_copy_pair [OF deep_copy_string_map
               deep_copy_slice [OF deep_copy_foreign(4) [OF assms], where wrap = Cell_Foreigns and
                 unwrap = the_Foreigns and zero = "Foreign_zero lib"]]]],
         where get = "\<lambda>s. (mem_ExtraArgs s, mem_Resources s, mem_NodeSelector s, mem_Tolerations s)"
           and put = "\<lambda>(a, r, n, t) s. s\<lparr>mem_ExtraArgs := a, mem_Resources := r, mem_NodeSelector := n,
                        mem_Tolerations := t\<rparr>"
           and build = "\<lambda>s (a, r, n, t).
                \<lparr>RuntimeSpec_Engine = mem_Engine s, RuntimeSpec_Image = mem_Image s,
                 RuntimeSpec_ExtraArgs = nil_list a, RuntimeSpec_Port = mem_Port s,
                 RuntimeSpec_LoadTimeoutSeconds = mem_LoadTimeoutSeconds s, RuntimeSpec_Resources = r,
                 RuntimeSpec_NodeSelector = nil_map n, RuntimeSpec_Tolerations = nil_list t\<rparr>"])
    (auto simp: read_RuntimeSpec_def reach_RuntimeSpec_def RuntimeSpec_DeepCopyInto_def copy_pair_def
      Let_def split: prod.splits)

lemma deep_copy_WeightCacheSpec:
  assumes "documented_deepcopy lib"
  shows "deep_copy (read_WeightCacheSpec lib) (reach_WeightCacheSpec lib)
           (WeightCacheSpec_DeepCopyInto lib)"
  by (rule deep_copy_struct
        [OF deep_copy_pair [OF
             deep_copy_boxed [OF deep_copy_foreign(7) [OF assms], where wrap = Cell_Foreign
               and unwrap = "the_Foreign (Foreign_zero lib)"]
             deep_copy_pointer [OF deep_copy_assign, where wrap = Cell_String and unwrap = the_String
               and zero = "\<lambda>_. ''''"]],
         where get = "\<lambda>s. (mem_Size s, mem_StorageClassName s)"
           and put = "\<lambda>(z, c) s. s\<lparr>mem_Size := z, mem_StorageClassName := c\<rparr>"
           and build = "\<lambda>s (z, c).
                \<lparr>WeightCacheSpec_Size = z, WeightCacheSpec_StorageClassName = c,
                 WeightCacheSpec_ExistingClaimName = mem_ExistingClaimName s,
                 WeightCacheSpec_MountPath = mem_MountPath s, WeightCacheSpec_WarmImage = mem_WarmImage s,
                 WeightCacheSpec_WarmTimeoutSeconds = mem_WarmTimeoutSeconds s\<rparr>"])
    (auto simp: read_WeightCacheSpec_def reach_WeightCacheSpec_def WeightCacheSpec_DeepCopyInto_def
      copy_pair_def Let_def split: prod.splits)

lemma deep_copy_ModelDeploymentSpec:
  assumes "documented_deepcopy lib"
  shows "deep_copy (read_ModelDeploymentSpec lib) (reach_ModelDeploymentSpec lib)
           (ModelDeploymentSpec_DeepCopyInto lib)"
  by (rule deep_copy_struct
        [OF deep_copy_pair [OF deep_copy_ModelSpec deep_copy_pair [OF deep_copy_RuntimeSpec [OF assms]
             deep_copy_pair [OF
               deep_copy_pointer [OF deep_copy_WeightCacheSpec [OF assms], where
                 wrap = Cell_WeightCacheSpec and unwrap = the_WeightCacheSpec
                 and zero = "\<lambda>_. zero_WeightCacheSpec"]
               deep_copy_pointer [OF deep_copy_assign, where wrap = Cell_AutoscalingSpec and
                 unwrap = the_AutoscalingSpec and zero = "\<lambda>_. zero_AutoscalingSpec"]]]],
         where get = "\<lambda>s. (mem_Model s, mem_Runtime s, mem_WeightCache s, mem_Autoscaling s)"
           and put = "\<lambda>(m, r, w, a) s. s\<lparr>mem_Model := m, mem_Runtime := r, mem_WeightCache := w,
                        mem_Autoscaling := a\<rparr>"
           and build = "\<lambda>s (m, r, w, a).
                \<lparr>Spec_Model = m, Spec_Runtime = r, Spec_Replicas = mem_Replicas s,
                 Spec_WeightCache = w, Spec_Autoscaling = a, Spec_Disruption = mem_Disruption s\<rparr>"])
    (auto simp: read_ModelDeploymentSpec_def reach_ModelDeploymentSpec_def
      ModelDeploymentSpec_DeepCopyInto_def copy_pair_def Let_def split: prod.splits)

lemma deep_copy_ModelDeploymentStatus:
  assumes "documented_deepcopy lib"
  shows "deep_copy (read_ModelDeploymentStatus lib) (reach_ModelDeploymentStatus lib)
           (ModelDeploymentStatus_DeepCopyInto lib)"
  by (rule deep_copy_struct
        [OF deep_copy_pair [OF
             deep_copy_slice [OF deep_copy_foreign(5) [OF assms], where wrap = Cell_Foreigns and
               unwrap = the_Foreigns and zero = "Foreign_zero lib"]
             deep_copy_boxed [OF deep_copy_foreign(6) [OF assms], where wrap = Cell_Foreign
               and unwrap = "the_Foreign (Foreign_zero lib)"]],
         where get = "\<lambda>s. (mem_Conditions s, mem_LastScaleTime s)"
           and put = "\<lambda>(c, t) s. s\<lparr>mem_Conditions := c, mem_LastScaleTime := t\<rparr>"
           and build = "\<lambda>s (c, t).
                \<lparr>Status_ObservedGeneration = mem_ObservedGeneration s, Status_Conditions = nil_list c,
                 Status_CacheKey = mem_CacheKey s, Status_Replicas = mem_StatusReplicas s,
                 Status_ReadyReplicas = mem_ReadyReplicas s,
                 Status_ObservedQueueDepth = mem_ObservedQueueDepth s, Status_LastScaleTime = t,
                 Status_Endpoint = mem_Endpoint s, Status_Selector = mem_Selector s\<rparr>"])
    (auto simp: read_ModelDeploymentStatus_def reach_ModelDeploymentStatus_def
      ModelDeploymentStatus_DeepCopyInto_def copy_pair_def Let_def split: prod.splits)

lemma deep_copy_ModelDeployment:
  assumes "documented_deepcopy lib"
  shows "deep_copy (read_ModelDeployment lib) (reach_ModelDeployment lib)
           (ModelDeployment_DeepCopyInto lib)"
  by (rule deep_copy_struct
        [OF deep_copy_pair [OF deep_copy_foreign(1) [OF assms] deep_copy_pair [OF
             deep_copy_ModelDeploymentSpec [OF assms] deep_copy_ModelDeploymentStatus [OF assms]]],
         where get = "\<lambda>s. (mem_ObjectMeta s, mem_Spec s, mem_Status s)"
           and put = "\<lambda>(m, sp, st) s. s\<lparr>mem_ObjectMeta := m, mem_Spec := sp, mem_Status := st\<rparr>"
           and build = "\<lambda>s (m, sp, st). \<lparr>MD_ObjectMeta = m, MD_Spec = sp, MD_Status = st\<rparr>"])
    (auto simp: read_ModelDeployment_def reach_ModelDeployment_def ModelDeployment_DeepCopyInto_def
      copy_pair_def Let_def split: prod.splits)

lemma deep_copy_ModelDeploymentList:
  assumes "documented_deepcopy lib"
  shows "deep_copy (read_ModelDeploymentList lib) (reach_ModelDeploymentList lib)
           (ModelDeploymentList_DeepCopyInto lib)"
  by (rule deep_copy_struct
        [OF deep_copy_pair [OF deep_copy_foreign(2) [OF assms]
             deep_copy_slice [OF deep_copy_ModelDeployment [OF assms], where
               wrap = Cell_ModelDeployments and unwrap = the_ModelDeployments
               and zero = "zero_ModelDeployment (Foreign_zero lib)"]],
         where get = "\<lambda>s. (mem_ListMeta s, mem_Items s)"
           and put = "\<lambda>(m, i) s. s\<lparr>mem_ListMeta := m, mem_Items := i\<rparr>"
           and build = "\<lambda>s (m, i). (m, nil_list i)"])
    (auto simp: read_ModelDeploymentList_def reach_ModelDeploymentList_def
      ModelDeploymentList_DeepCopyInto_def copy_pair_def Let_def split: prod.splits)

subsection \<open>The methods that allocate\<close>

lemma deep_copy_ModelDeployment_DeepCopy:
  assumes "documented_deepcopy lib"
  shows "deep_copy (read_pointer (the_ModelDeployment (Foreign_zero lib)) (read_ModelDeployment lib))
           (reach_pointer (the_ModelDeployment (Foreign_zero lib)) (reach_ModelDeployment lib))
           (ModelDeployment_DeepCopy lib)"
  unfolding ModelDeployment_DeepCopy_def
  by (rule deep_copy_pointer [OF deep_copy_ModelDeployment [OF assms]]) simp

lemma deep_copy_ModelDeploymentStatus_DeepCopy:
  assumes "documented_deepcopy lib"
  shows "deep_copy (read_pointer the_ModelDeploymentStatus (read_ModelDeploymentStatus lib))
           (reach_pointer the_ModelDeploymentStatus (reach_ModelDeploymentStatus lib))
           (ModelDeploymentStatus_DeepCopy lib)"
  unfolding ModelDeploymentStatus_DeepCopy_def
  by (rule deep_copy_pointer [OF deep_copy_ModelDeploymentStatus [OF assms]]) simp

lemma deep_copy_ModelDeploymentList_DeepCopy:
  assumes "documented_deepcopy lib"
  shows "deep_copy (read_pointer (the_ModelDeploymentList (Foreign_zero lib)) (read_ModelDeploymentList lib))
           (reach_pointer (the_ModelDeploymentList (Foreign_zero lib)) (reach_ModelDeploymentList lib))
           (ModelDeploymentList_DeepCopy lib)"
  unfolding ModelDeploymentList_DeepCopy_def
  by (rule deep_copy_pointer [OF deep_copy_ModelDeploymentList [OF assms]]) simp

lemma deep_copy_nested_specs:
  assumes "documented_deepcopy lib"
  shows "deep_copy (read_pointer (the_RuntimeSpec (Foreign_zero lib)) (read_RuntimeSpec lib))
           (reach_pointer (the_RuntimeSpec (Foreign_zero lib)) (reach_RuntimeSpec lib))
           (RuntimeSpec_DeepCopy lib)"
    and "deep_copy (read_pointer the_WeightCacheSpec (read_WeightCacheSpec lib))
           (reach_pointer the_WeightCacheSpec (reach_WeightCacheSpec lib)) (WeightCacheSpec_DeepCopy lib)"
    and "deep_copy (read_pointer (the_ModelDeploymentSpec (Foreign_zero lib)) (read_ModelDeploymentSpec lib))
           (reach_pointer (the_ModelDeploymentSpec (Foreign_zero lib)) (reach_ModelDeploymentSpec lib))
           (ModelDeploymentSpec_DeepCopy lib)"
  unfolding RuntimeSpec_DeepCopy_def WeightCacheSpec_DeepCopy_def ModelDeploymentSpec_DeepCopy_def
  by (rule deep_copy_pointer [OF deep_copy_RuntimeSpec [OF assms]]
      deep_copy_pointer [OF deep_copy_WeightCacheSpec [OF assms]]
      deep_copy_pointer [OF deep_copy_ModelDeploymentSpec [OF assms]], simp)+

text \<open>The types that hold no third-party struct keep the contract whatever the packages do.\<close>

interpretation autoscaling_copy: deep_copy
  "read_pointer the_AutoscalingSpec itself" "reach_pointer the_AutoscalingSpec nowhere" AutoscalingSpec_DeepCopy
  unfolding AutoscalingSpec_DeepCopy_def AutoscalingSpec_DeepCopyInto_def
  by (rule deep_copy_pointer [OF deep_copy_assign]) simp

interpretation disruption_copy: deep_copy
  "read_pointer the_DisruptionSpec itself" "reach_pointer the_DisruptionSpec nowhere" DisruptionSpec_DeepCopy
  unfolding DisruptionSpec_DeepCopy_def DisruptionSpec_DeepCopyInto_def
  by (rule deep_copy_pointer [OF deep_copy_assign]) simp

interpretation model_copy: deep_copy
  "read_pointer the_ModelSpec read_ModelSpec" "reach_pointer the_ModelSpec reach_ModelSpec" ModelSpec_DeepCopy
  unfolding ModelSpec_DeepCopy_def
  by (rule deep_copy_pointer [OF deep_copy_ModelSpec]) simp

subsection \<open>A package to evaluate with\<close>

text \<open>
  Third-party structs for concrete runs: plain values, and a struct behind a pointer, whose copy has
  to allocate.
\<close>

datatype test_struct =
    Test_Meta ObjectMeta
  | Test_Condition Condition
  | Test_Time gotime
  | Test_Boxed addr
  | Test_Zero

definition test_unbox :: "test_struct cell heap \<Rightarrow> test_struct \<Rightarrow> test_struct" where
  "test_unbox h x = (case x of Test_Boxed a \<Rightarrow> the_Foreign Test_Zero (load h a) | _ \<Rightarrow> x)"

definition test_reach :: "test_struct cell heap \<Rightarrow> test_struct \<Rightarrow> addr set" where
  "test_reach h x = (case x of Test_Boxed a \<Rightarrow> {a} | _ \<Rightarrow> {})"

definition test_copy :: "test_struct \<Rightarrow> test_struct cell heap \<Rightarrow> test_struct \<times> test_struct cell heap" where
  "test_copy x h =
     (case x of
        Test_Boxed a \<Rightarrow>
          (let (q, h) = new (Cell_Foreign (the_Foreign Test_Zero (load h a))) h in (Test_Boxed q, h))
      | _ \<Rightarrow> (x, h))"

definition test_condition :: "string \<Rightarrow> Condition" where
  "test_condition t =
     \<lparr>Condition_Type = t, Condition_Status = ConditionTrue, Condition_ObservedGeneration = 1,
      Condition_LastTransitionTime = 0, Condition_Reason = '''', Condition_Message = ''''\<rparr>"

definition test_foreign :: "test_struct Foreign" where
  "test_foreign =
     \<lparr>Foreign_DeepCopy = test_copy, Foreign_zero = Test_Zero, Foreign_reach = test_reach,
      as_ObjectMeta = (\<lambda>h x. case test_unbox h x of Test_Meta m \<Rightarrow> m | _ \<Rightarrow> object_meta '''' '''' Map.empty),
      as_ListMeta_ResourceVersion = (\<lambda>h x. case test_unbox h x of
        Test_Meta m \<Rightarrow> ObjectMeta_ResourceVersion m | _ \<Rightarrow> ''''),
      as_ResourceRequirements =
        (\<lambda>h x. \<lparr>Resources_Limits = Map.empty, Resources_Requests = Map.empty\<rparr>),
      as_Toleration = (\<lambda>h x. \<lparr>Toleration_Key = '''', Toleration_Operator = '''', Toleration_Value = '''',
        Toleration_Effect = ''''\<rparr>),
      as_Condition = (\<lambda>h x. case test_unbox h x of Test_Condition c \<Rightarrow> c | _ \<Rightarrow> test_condition ''''),
      as_Time = (\<lambda>h x. case test_unbox h x of Test_Time t \<Rightarrow> t | _ \<Rightarrow> 0),
      as_Quantity = (\<lambda>h x. MustParse '''')\<rparr>"

lemma deep_copy_test: "deep_copy (\<lambda>h x. p (test_unbox h x)) test_reach test_copy"
  by unfold_locales
    (auto simp: test_unbox_def test_reach_def test_copy_def new_def load_def nth_append bounded_def
      agree_def split: test_struct.splits if_splits)

lemma documented_test: "documented_deepcopy test_foreign"
  unfolding documented_deepcopy_def test_foreign_def Foreign.simps
  by (intro conjI deep_copy_test
      deep_copy_test [where p = "\<lambda>_. MustParse ''''"])

text \<open>An object in memory with two conditions, one of them behind a pointer.\<close>

definition test_memory :: "test_struct cell heap" where
  "test_memory =
     [Cell_Foreigns [Test_Condition (test_condition ''Ready''), Test_Boxed 1],
      Cell_Foreign (Test_Condition (test_condition ''Degraded'')),
      Cell_Foreign (Test_Time 7)]"

definition test_object :: "test_struct ModelDeployment_mem" where
  "test_object = (zero_ModelDeployment Test_Zero)
     \<lparr>mem_ObjectMeta := Test_Meta (object_meta ''chat'' ''ml'' Map.empty),
      mem_Status := zero_ModelDeploymentStatus\<lparr>mem_Conditions := Some 0, mem_LastScaleTime := Some 2\<rparr>\<rparr>"

lemmas test_memory_defs =
  test_memory_def test_object_def zero_ModelDeployment_def zero_ModelDeploymentSpec_def
  zero_RuntimeSpec_def zero_ModelSpec_def zero_ModelDeploymentStatus_def

lemmas reach_defs =
  reach_ModelDeployment_def reach_ModelDeploymentSpec_def reach_ModelDeploymentStatus_def
  reach_RuntimeSpec_def reach_ModelSpec_def reach_slice_def reach_pointer_def

subsection \<open>Properties\<close>

text \<open>The type meta, which is no part of the values read back, is copied with the cell.\<close>

lemma type_meta_copied:
  assumes "ModelDeployment_DeepCopy lib (Some a) h = (Some q, h')" "a < length h" "q < length h'"
  shows "mem_TypeMeta (the_ModelDeployment (Foreign_zero lib) (load h' q)) =
     mem_TypeMeta (the_ModelDeployment (Foreign_zero lib) (load h a))"
  using assms
  by (auto simp: ModelDeployment_DeepCopy_def copy_pointer_def new_def ModelDeployment_DeepCopyInto_def load_def
      store_def Let_def nth_append split: prod.splits)

text \<open>
  C27. \<open>DeepCopyObject\<close> of a \<open>ModelDeployment\<close> refines the identity on objects: a nil pointer gives a nil
  interface; any other gives a pointer to a newly allocated object that means the same
  \<open>ModelDeployment\<close>, with the old heap untouched. From then on the two are independent: writes to
  anything reachable from the copy leave the original as it was, and writes to anything reachable from
  the original leave the copy as it was. What an object means is a record of \<open>API_Types\<close>, which does not tell a nil
  slice or map from an empty one and leaves out the type meta; the copy has the type meta of the original too.
\<close>

theorem DeepCopyObject_refines_identity:
  assumes "documented_deepcopy lib"
    and "bounded h (reach_pointer (the_ModelDeployment (Foreign_zero lib)) (reach_ModelDeployment lib) h p)"
    and "ModelDeployment_DeepCopyObject lib p h = (out, h')"
  shows "prefix h h' \<and>
    (case p of
       None \<Rightarrow> out = None
     | Some a \<Rightarrow> \<exists>q. out = Some (Ptr_ModelDeployment (Some q)) \<and> length h \<le> q \<and>
         mem_TypeMeta (the_ModelDeployment (Foreign_zero lib) (load h' q)) =
           mem_TypeMeta (the_ModelDeployment (Foreign_zero lib) (load h a)) \<and>
         (let object = (\<lambda>h p. read_ModelDeployment lib h (the_ModelDeployment (Foreign_zero lib) (load h p)));
              cells = (\<lambda>p. reach_pointer (the_ModelDeployment (Foreign_zero lib)) (reach_ModelDeployment lib) h' (Some p))
          in object h' q = object h a \<and>
             (\<forall>h''. agree (- cells q) h' h'' \<longrightarrow> object h'' a = object h a) \<and>
             (\<forall>h''. agree (- cells a) h' h'' \<longrightarrow> object h'' q = object h a)))"
proof -
  note dc = deep_copy_ModelDeployment_DeepCopy [OF assms(1)]
  obtain c where c: "ModelDeployment_DeepCopy lib p h = (c, h')" "out = map_option (Ptr_ModelDeployment \<circ> Some) c"
    using assms(3) by (auto simp: ModelDeployment_DeepCopyObject_def split: prod.splits if_splits)
  note same = deep_copy.copy_read [OF dc assms(2) c(1)]
  show ?thesis
  proof (cases p)
    case None
    then show ?thesis using same c(2) deep_copy.copy_extends [OF dc assms(2) c(1)]
      by (simp add: read_pointer_def)
  next
    case (Some a)
    then obtain q where q: "c = Some q" using same by (auto simp: read_pointer_def)
    then have new: "length h \<le> q" "q < length h'"
      using deep_copy.copy_fresh [OF dc assms(2) c(1)] by (simp_all add: reach_pointer_def)
    have "a < length h" using assms(2) Some by (simp add: bounded_def reach_pointer_def)
    then have "mem_TypeMeta (the_ModelDeployment (Foreign_zero lib) (load h' q)) =
        mem_TypeMeta (the_ModelDeployment (Foreign_zero lib) (load h a))"
      using type_meta_copied c(1) new(2) Some q by blast
    then show ?thesis
      using new(1) Some q c(2) same deep_copy.copy_extends [OF dc assms(2) c(1)]
        deep_copy.isolated_original [OF dc assms(2) c(1)] deep_copy.isolated_copy [OF dc assms(2) c(1)]
      by (simp add: read_pointer_def)
  qed
qed

lemma DeepCopyObject_witness:
  "fst (ModelDeployment_DeepCopyObject test_foreign (Some 3) (test_memory @ [Cell_ModelDeployment test_object])) =
     Some (Ptr_ModelDeployment (Some 4))"
proof -
  let ?h = "test_memory @ [Cell_ModelDeployment test_object]"
  obtain out h' where eq: "ModelDeployment_DeepCopyObject test_foreign (Some 3) ?h = (out, h')" by fastforce
  have "bounded ?h (reach_pointer (the_ModelDeployment (Foreign_zero test_foreign))
      (reach_ModelDeployment test_foreign) ?h (Some 3))"
    by (simp add: reach_defs test_memory_defs load_def test_foreign_def test_reach_def)
  from DeepCopyObject_refines_identity [OF documented_test this eq] eq
  show ?thesis
    by (auto simp: ModelDeployment_DeepCopyObject_def ModelDeployment_DeepCopy_def copy_pointer_def new_def
        test_memory_def split: prod.splits if_splits)
qed

text \<open>
  C11. \<open>build\<close> works on \<open>next := *prev.DeepCopy()\<close>, where \<open>prev\<close> shares its conditions and its last
  scale time with the object being reconciled. The copy starts as the object's status, and
  whatever is then written in place to what \<open>next\<close> reaches, such as the array of its conditions, the
  whole \<open>ModelDeployment\<close> still means what it did: comparing the two afterwards compares the old status with
  the new one.
\<close>

theorem status_copy_isolated:
  assumes "documented_deepcopy lib"
    and "bounded h (reach_ModelDeployment lib h md)"
    and "ModelDeploymentStatus_DeepCopyInto lib (mem_Status md) h = (next_status, h')"
    and "agree (- reach_ModelDeploymentStatus lib h' next_status) h' h''"
  shows "read_ModelDeploymentStatus lib h' next_status = MD_Status (read_ModelDeployment lib h md) \<and>
    read_ModelDeployment lib h'' md = read_ModelDeployment lib h md"
proof -
  note dc = deep_copy_ModelDeploymentStatus [OF assms(1)]
    and view = deep_copy.axioms(1) [OF deep_copy_ModelDeployment [OF assms(1)]]
  have b: "bounded h (reach_ModelDeploymentStatus lib h (mem_Status md))"
    using assms(2) by (simp add: reach_ModelDeployment_def)
  show ?thesis
    using deep_copy.copy_read [OF dc b assms(3)]
      deep_copy.isolated_other [OF dc b assms(3,4) view assms(2)]
    by (simp add: read_ModelDeployment_def)
qed

lemma status_copy_isolated_witness:
  "let (next_status, h') = ModelDeploymentStatus_DeepCopyInto test_foreign (mem_Status test_object) test_memory
   in next_status \<noteq> mem_Status test_object \<and>
      map Condition_Type (Status_Conditions (MD_Status
        (read_ModelDeployment test_foreign (store 3 (Cell_Foreigns []) h') test_object))) = [''Ready'', ''Degraded'']"
proof -
  obtain n h' where eq:
    "ModelDeploymentStatus_DeepCopyInto test_foreign (mem_Status test_object) test_memory = (n, h')" by fastforce
  have n: "mem_Conditions n = Some 3"
    using eq by (auto simp: ModelDeploymentStatus_DeepCopyInto_def copy_slice_def new_def test_memory_defs
        Let_def split: prod.splits)
  have b: "bounded test_memory (reach_ModelDeployment test_foreign test_memory test_object)"
    by (simp add: reach_defs test_memory_defs load_def test_foreign_def test_reach_def)
  have "agree (- reach_ModelDeploymentStatus test_foreign h' n) h' (store 3 (Cell_Foreigns []) h')"
    by (rule agree_store) (simp add: reach_defs n)
  from status_copy_isolated [OF documented_test b eq this] eq n
  show ?thesis
    by (auto simp: read_ModelDeployment_def read_ModelDeploymentStatus_def read_slice_def read_pointer_def
        nil_list_def test_memory_defs load_def test_foreign_def test_unbox_def test_condition_def)
qed

end
