(* ===== verification/Command_Line.thy ===== *)
theory Command_Line
  imports Controller
begin

section \<open>cmd/main.go: the command line\<close>

text \<open>
  The flags \<open>run\<close> declares and Go's package \<open>flag\<close>, which parses them: \<open>parseOne\<close> and \<open>FlagSet_Parse\<close>
  follow the methods of the same names, \<open>ParseBool\<close> and \<open>ParseDuration\<close> the functions of \<open>strconv\<close> and
  \<open>time\<close> that read the values. Two things are parameters: the flags the libraries declare on the
  same flag set (\<open>zap.Options.BindFlags\<close> and the \<open>--kubeconfig\<close> flag of controller-runtime), and \<open>fraction\<close>, the
  floating-point product with which \<open>ParseDuration\<close> converts the digits after a decimal point.
\<close>

subsection \<open>The package flag\<close>

record 'f Flag =
  IsBoolFlag :: bool
  Value_Set :: "string \<Rightarrow> 'f \<Rightarrow> 'f option"

type_synonym 'f FlagSet = "string \<Rightarrow> 'f Flag option"

datatype flag_error =
    ErrHelp
  | Bad_syntax string
  | Not_defined string
  | Needs_argument string
  | Invalid_value string string

text \<open>
  One step of the parser: a flag was set and the rest of the arguments is left, or the flags have ended,
  or the parse fails.
\<close>

datatype 'f parsed = Seen 'f "string list" | Ended 'f "string list" | Failed flag_error

definition set_value :: "'f Flag \<Rightarrow> string \<Rightarrow> string \<Rightarrow> 'f \<Rightarrow> string list \<Rightarrow> 'f parsed" where
  "set_value flg name v fl args =
     (case Value_Set flg v fl of None \<Rightarrow> Failed (Invalid_value v name) | Some fl' \<Rightarrow> Seen fl' args)"

text \<open>A name and what stands behind its first equals sign, if it has one.\<close>

definition cut_value :: "string \<Rightarrow> string \<times> string option" where
  "cut_value s =
     (takeWhile (\<lambda>c. c \<noteq> CHR ''='') s,
      case dropWhile (\<lambda>c. c \<noteq> CHR ''='') s of [] \<Rightarrow> None | _ # v \<Rightarrow> Some v)"

definition set_flag :: "'f FlagSet \<Rightarrow> 'f \<Rightarrow> string \<Rightarrow> string option \<Rightarrow> string list \<Rightarrow> 'f parsed" where
  "set_flag formal fl name v args =
     (case formal name of
        None \<Rightarrow> Failed (if name = ''help'' \<or> name = ''h'' then ErrHelp else Not_defined name)
      | Some flg \<Rightarrow>
          if IsBoolFlag flg then set_value flg name (case v of None \<Rightarrow> ''true'' | Some v \<Rightarrow> v) fl args
          else (case v of
                  Some v \<Rightarrow> set_value flg name v fl args
                | None \<Rightarrow>
                    (case args of
                       [] \<Rightarrow> Failed (Needs_argument name)
                     | v # args \<Rightarrow> set_value flg name v fl args)))"

fun parseOne :: "'f FlagSet \<Rightarrow> 'f \<Rightarrow> string list \<Rightarrow> 'f parsed" where
  "parseOne formal fl [] = Ended fl []"
| "parseOne formal fl (s # args) =
     (if length s < 2 \<or> s ! 0 \<noteq> CHR ''-'' then Ended fl (s # args)
      else if s = ''--'' then Ended fl args
      else (let name = drop (if s ! 1 = CHR ''-'' then 2 else 1) s
            in if name = [] \<or> hd name = CHR ''-'' \<or> hd name = CHR ''='' then Failed (Bad_syntax s)
               else (case cut_value name of (name, v) \<Rightarrow> set_flag formal fl name v args)))"

lemma parseOne_shrinks: "parseOne formal fl args = Seen fl' args' \<Longrightarrow> length args' < length args"
  by (cases args)
    (auto simp: Let_def set_flag_def set_value_def split: if_splits option.splits list.splits prod.splits)

function FlagSet_Parse :: "'f FlagSet \<Rightarrow> 'f \<Rightarrow> string list \<Rightarrow> flag_error + 'f" where
  "FlagSet_Parse formal fl args =
     (case parseOne formal fl args of
        Seen fl' args' \<Rightarrow> FlagSet_Parse formal fl' args'
      | Ended fl' _ \<Rightarrow> Inr fl'
      | Failed e \<Rightarrow> Inl e)"
  by pat_completeness auto
termination
  by (relation "measure (\<lambda>(_, _, args). length args)") (auto dest: parseOne_shrinks)

declare FlagSet_Parse.simps [simp del]

text \<open>
  \<open>flag.Parse\<close> on \<open>flag.CommandLine\<close>, whose error handling is \<open>ExitOnError\<close>: on the left the exit status.
\<close>

definition flag_Parse :: "'f FlagSet \<Rightarrow> 'f \<Rightarrow> string list \<Rightarrow> nat + 'f" where
  "flag_Parse formal fl args =
     (case FlagSet_Parse formal fl args of
        Inl e \<Rightarrow> Inl (if e = ErrHelp then 0 else 2)
      | Inr fl' \<Rightarrow> Inr fl')"

subsection \<open>Reading values\<close>

definition ParseBool :: "string \<Rightarrow> bool option" where
  "ParseBool s =
     (if s \<in> set [''1'', ''t'', ''T'', ''TRUE'', ''true'', ''True''] then Some True
      else if s \<in> set [''0'', ''f'', ''F'', ''FALSE'', ''false'', ''False''] then Some False
      else None)"

text \<open>
  \<open>leadingInt\<close> consumes digits and gives up when the number passes \<open>1 << 63\<close>. \<open>leadingFraction\<close> returns the digits as
  a number with how many it used, and skips those beyond its precision.
\<close>

fun leadingInt :: "nat \<Rightarrow> string \<Rightarrow> (nat \<times> string) option" where
  "leadingInt x [] = Some (x, [])"
| "leadingInt x (c # s) =
     (if \<not> is_digit c then Some (x, c # s)
      else if x > 2 ^ 63 div 10 then None
      else (let y = x * 10 + (of_char c - 48)
            in if y > 2 ^ 63 then None else leadingInt y s))"

fun leadingFraction :: "nat \<Rightarrow> nat \<Rightarrow> bool \<Rightarrow> string \<Rightarrow> nat \<times> nat \<times> string" where
  "leadingFraction x digits overflow [] = (x, digits, [])"
| "leadingFraction x digits overflow (c # s) =
     (if \<not> is_digit c then (x, digits, c # s)
      else if overflow \<or> x > (2 ^ 63 - 1) div 10 then leadingFraction x digits True s
      else (let y = x * 10 + (of_char c - 48)
            in if y > 2 ^ 63 then leadingFraction x digits True s
               else leadingFraction y (Suc digits) overflow s))"

definition unitMap :: "string \<Rightarrow> nat option" where
  "unitMap =
     [''ns'' \<mapsto> 1, ''us'' \<mapsto> 1000, [CHR 0xC2, CHR 0xB5, CHR ''s''] \<mapsto> 1000,
      [CHR 0xCE, CHR 0xBC, CHR ''s''] \<mapsto> 1000, ''ms'' \<mapsto> 1000000, ''s'' \<mapsto> 1000000000,
      ''m'' \<mapsto> 60 * 1000000000, ''h'' \<mapsto> 60 * 60 * 1000000000]"

definition in_unit :: "char \<Rightarrow> bool" where
  "in_unit c \<longleftrightarrow> c \<noteq> CHR ''.'' \<and> \<not> is_digit c"

text \<open>
  One number with its unit: the nanoseconds it stands for and what is left of the text. \<open>fraction_part\<close> is the
  part that starts with a decimal point, with whether it had any digit.
\<close>

definition fraction_part :: "string \<Rightarrow> nat \<times> nat \<times> bool \<times> string" where
  "fraction_part s =
     (if s \<noteq> [] \<and> hd s = CHR ''.''
      then (case leadingFraction 0 0 False (tl s) of
              (f, digits, s') \<Rightarrow> (f, digits, length s' \<noteq> length (tl s), s'))
      else (0, 0, False, s))"

definition duration_part :: "(nat \<Rightarrow> nat \<Rightarrow> nat \<Rightarrow> nat) \<Rightarrow> string \<Rightarrow> (nat \<times> string) option" where
  "duration_part fraction s =
     (if in_unit (hd s) then None
      else (case leadingInt 0 s of
              None \<Rightarrow> None
            | Some (v, s1) \<Rightarrow>
                (case fraction_part s1 of (f, digits, post, s2) \<Rightarrow>
                   if length s1 = length s \<and> \<not> post then None
                   else (case unitMap (takeWhile in_unit s2) of
                           None \<Rightarrow> None
                         | Some unt \<Rightarrow>
                             if v > 2 ^ 63 div unt then None
                             else (let v' = v * unt + (if f > 0 then fraction f unt digits else 0)
                                   in if v' > 2 ^ 63 then None else Some (v', dropWhile in_unit s2))))))"

lemma leadingInt_length: "leadingInt x s = Some (v, s') \<Longrightarrow> length s' \<le> length s"
  by (induction x s rule: leadingInt.induct) (auto simp: Let_def split: if_splits)

lemma leadingFraction_length: "leadingFraction x d ov s = (f, d', s') \<Longrightarrow> length s' \<le> length s"
  by (induction s arbitrary: x d ov) (auto simp: Let_def le_SucI split: if_splits)

lemma unitMap_empty [simp]: "unitMap [] = None"
  by (simp add: unitMap_def)

lemma fraction_part_length: "fraction_part s = (f, d, post, s') \<Longrightarrow> length s' \<le> length s"
  by (auto simp: fraction_part_def split: if_splits prod.splits dest!: leadingFraction_length)

lemma dropWhile_shrinks: "takeWhile P s \<noteq> [] \<Longrightarrow> length (dropWhile P s) < length s"
  by (cases s) (auto simp: le_imp_less_Suc length_dropWhile_le split: if_splits)

lemma duration_part_shrinks:
  assumes "duration_part fraction s = Some (v, s')"
  shows "length s' < length s"
proof -
  from assms obtain w s1 f d post s2 where i: "leadingInt 0 s = Some (w, s1)"
    and f: "fraction_part s1 = (f, d, post, s2)"
    and u: "unitMap (takeWhile in_unit s2) \<noteq> None" and r: "s' = dropWhile in_unit s2"
    by (auto simp: duration_part_def Let_def split: if_splits option.splits prod.splits)
  from u have "takeWhile in_unit s2 \<noteq> []" by auto
  then show ?thesis
    using dropWhile_shrinks [of in_unit s2] fraction_part_length [OF f] leadingInt_length [OF i] r by simp
qed

function duration_parts :: "(nat \<Rightarrow> nat \<Rightarrow> nat \<Rightarrow> nat) \<Rightarrow> nat \<Rightarrow> string \<Rightarrow> nat option" where
  "duration_parts fraction d s =
     (if s = [] then Some d
      else (case duration_part fraction s of
              None \<Rightarrow> None
            | Some (v, s') \<Rightarrow> if d + v > 2 ^ 63 then None else duration_parts fraction (d + v) s'))"
  by pat_completeness auto
termination
  by (relation "measure (\<lambda>(_, _, s). length s)") (auto dest: duration_part_shrinks)

declare duration_parts.simps [simp del]

definition ParseDuration :: "(nat \<Rightarrow> nat \<Rightarrow> nat \<Rightarrow> nat) \<Rightarrow> string \<Rightarrow> duration option" where
  "ParseDuration fraction s0 =
     (let signed = (s0 \<noteq> [] \<and> (hd s0 = CHR ''-'' \<or> hd s0 = CHR ''+''));
          neg = (signed \<and> hd s0 = CHR ''-'');
          s = (if signed then tl s0 else s0)
      in if s = ''0'' then Some 0
         else if s = [] then None
         else (case duration_parts fraction 0 s of
                 None \<Rightarrow> None
               | Some d \<Rightarrow> if neg then Some (- of_nat d)
                           else if d > 2 ^ 63 - 1 then None else Some (of_nat d)))"

subsection \<open>The flags of run\<close>

record 'z Flags =
  metricsAddr :: string
  probeAddr :: string
  leaderElection :: bool
  metricsTimeout :: duration
  zapOptions :: 'z

definition flag_defaults :: "'z \<Rightarrow> 'z Flags" where
  "flag_defaults opts =
     \<lparr>metricsAddr = '':8080'', probeAddr = '':8081'', leaderElection = False,
      metricsTimeout = 10 * second, zapOptions = opts\<rparr>"

text \<open>
  The four flags \<open>run\<close> declares, and those of the libraries, each of which sets options of its own. (A name declared twice
  would be a panic in \<open>BindFlags\<close>; the libraries' names all start with \<open>zap-\<close> or are \<open>kubeconfig\<close>.)
\<close>

definition declared_flags :: "(nat \<Rightarrow> nat \<Rightarrow> nat \<Rightarrow> nat) \<Rightarrow> 'z FlagSet \<Rightarrow> 'z Flags FlagSet" where
  "declared_flags fraction library name =
     (if name = ''metrics-bind-address'' then
        Some \<lparr>IsBoolFlag = False, Value_Set = (\<lambda>v fl. Some (fl\<lparr>metricsAddr := v\<rparr>))\<rparr>
      else if name = ''health-probe-bind-address'' then
        Some \<lparr>IsBoolFlag = False, Value_Set = (\<lambda>v fl. Some (fl\<lparr>probeAddr := v\<rparr>))\<rparr>
      else if name = ''leader-elect'' then
        Some \<lparr>IsBoolFlag = True, Value_Set = (\<lambda>v fl. map_option (\<lambda>b. fl\<lparr>leaderElection := b\<rparr>) (ParseBool v))\<rparr>
      else if name = ''queue-metrics-timeout'' then
        Some \<lparr>IsBoolFlag = False,
              Value_Set = (\<lambda>v fl. map_option (\<lambda>d. fl\<lparr>metricsTimeout := d\<rparr>) (ParseDuration fraction v))\<rparr>
      else map_option
        (\<lambda>flg. \<lparr>IsBoolFlag = IsBoolFlag flg,
                Value_Set = (\<lambda>v fl. map_option (\<lambda>z. fl\<lparr>zapOptions := z\<rparr>) (Value_Set flg v (zapOptions fl)))\<rparr>)
        (library name))"

subsection \<open>Printing and parsing\<close>

text \<open>A command line as a list of settings: how each is written, and what it sets.\<close>

datatype setting =
    Metrics_bind_address string
  | Health_probe_bind_address string
  | Leader_elect
  | Leader_elect_is bool
  | Queue_metrics_timeout nat

fun written :: "setting \<Rightarrow> string" where
  "written (Metrics_bind_address a) = ''--metrics-bind-address='' @ a"
| "written (Health_probe_bind_address a) = ''--health-probe-bind-address='' @ a"
| "written Leader_elect = ''--leader-elect''"
| "written (Leader_elect_is b) = ''--leader-elect='' @ (if b then ''true'' else ''false'')"
| "written (Queue_metrics_timeout n) = ''--queue-metrics-timeout='' @ decimal n @ ''s''"

fun meant :: "setting \<Rightarrow> 'z Flags \<Rightarrow> 'z Flags" where
  "meant (Metrics_bind_address a) fl = fl\<lparr>metricsAddr := a\<rparr>"
| "meant (Health_probe_bind_address a) fl = fl\<lparr>probeAddr := a\<rparr>"
| "meant Leader_elect fl = fl\<lparr>leaderElection := True\<rparr>"
| "meant (Leader_elect_is b) fl = fl\<lparr>leaderElection := b\<rparr>"
| "meant (Queue_metrics_timeout n) fl = fl\<lparr>metricsTimeout := of_nat n * second\<rparr>"

text \<open>A number of seconds whose nanoseconds fit into a \<open>time.Duration\<close>.\<close>

fun in_time_range :: "setting \<Rightarrow> bool" where
  "in_time_range (Queue_metrics_timeout n) \<longleftrightarrow> n * 1000000000 < 2 ^ 63"
| "in_time_range _ \<longleftrightarrow> True"

lemma leadingInt_append:
  assumes "\<forall>c \<in> set s. is_digit c" "foldl (\<lambda>n c. 10 * n + (of_char c - 48)) x s \<le> 2 ^ 63"
  shows "leadingInt x (s @ r) = leadingInt (foldl (\<lambda>n c. 10 * n + (of_char c - 48)) x s) r"
  using assms
proof (induction s arbitrary: x)
  case (Cons c s)
  let ?f = "foldl (\<lambda>n c. 10 * n + (of_char c - 48))"
  have grow: "y \<le> ?f y t" for y :: nat and t
  proof (induction t arbitrary: y)
    case (Cons c t)
    show ?case using Cons.IH [of "10 * y + (of_char c - 48)"] by simp
  qed simp
  have le: "10 * x + (of_char c - 48) \<le> 2 ^ 63"
    using Cons.prems(2) grow [of "10 * x + (of_char c - 48)" s] by simp
  then show ?case using Cons by (simp add: Let_def mult.commute)
qed simp

lemma ParseDuration_seconds:
  assumes "n * 1000000000 < 2 ^ 63"
  shows "ParseDuration fraction (decimal n @ ''s'') = Some (of_nat n * second)"
proof -
  have dig: "\<forall>c \<in> set (decimal n). is_digit c"
    using decimal_digits by blast
  have "leadingInt 0 (decimal n @ ''s'') = Some (n, ''s'')"
    using leadingInt_append [OF dig, of 0 "''s''"] read_decimal_decimal [of n] assms
    by (simp add: read_decimal_def is_digit_def)
  moreover have hd: "is_digit (hd (decimal n @ ''s''))" using dig by simp
  ultimately have part: "duration_part fraction (decimal n @ ''s'') = Some (n * 1000000000, [])"
    using assms by (simp add: duration_part_def fraction_part_def in_unit_def unitMap_def is_digit_def div_greater_zero_iff)
  have "duration_parts fraction 0 (decimal n @ ''s'') = Some (n * 1000000000)"
    using assms by (subst duration_parts.simps) (simp add: part duration_parts.simps [of _ _ "[]"])
  moreover have "hd (decimal n @ ''s'') \<noteq> CHR ''-''" "hd (decimal n @ ''s'') \<noteq> CHR ''+''"
    using hd by (auto simp: is_digit_def)
  moreover have "decimal n @ ''s'' \<noteq> ''0''" by (cases "decimal n") auto
  ultimately show ?thesis using assms by (simp add: ParseDuration_def second_def)
qed

lemma parseOne_written:
  assumes "in_time_range c"
  shows "parseOne (declared_flags fraction library) fl (written c # args) = Seen (meant c fl) args"
  using assms
  by (cases c) (auto simp: cut_value_def set_flag_def set_value_def declared_flags_def ParseBool_def ParseDuration_seconds)

text \<open>
  The command line round-trips: any sequence of settings, written as arguments, is parsed to what the
  settings mean, one after the other. A flag that is not given keeps its default, of a flag given twice the
  last one counts, and a timeout of whole seconds within the range of \<open>time.Duration\<close> is read as that duration.
\<close>

lemma parse_settings:
  assumes "\<forall>c \<in> set cs. in_time_range c"
  shows "flag_Parse (declared_flags fraction library) fl (map written cs) = Inr (fold meant cs fl)"
proof -
  have "FlagSet_Parse (declared_flags fraction library) fl (map written cs) = Inr (fold meant cs fl)"
    using assms
    by (induction cs arbitrary: fl) (simp_all add: FlagSet_Parse.simps parseOne_written del: parseOne.simps(2))
  then show ?thesis by (simp add: flag_Parse_def)
qed

text \<open>
  An argument that names a flag nobody declares, with or without a value, fails the parse after any
  settings and whatever follows.
\<close>

definition undeclared :: "'z FlagSet \<Rightarrow> string \<Rightarrow> bool" where
  "undeclared library name \<longleftrightarrow>
     name \<notin> {'''', ''help'', ''h'', ''metrics-bind-address'', ''health-probe-bind-address'', ''leader-elect'',
             ''queue-metrics-timeout''} \<and>
     hd name \<noteq> CHR ''-'' \<and> CHR ''='' \<notin> set name \<and> library name = None"

lemma takeWhile_all: "c \<notin> set s \<Longrightarrow> takeWhile (\<lambda>x. x \<noteq> c) s = s" "c \<notin> set s \<Longrightarrow> dropWhile (\<lambda>x. x \<noteq> c) s = []"
  by (induction s) auto

lemma parse_undeclared:
  assumes "\<forall>c \<in> set cs. in_time_range c" "undeclared library name" "arg = ''--'' @ name \<or> arg = ''--'' @ name @ ''='' @ v"
  shows "flag_Parse (declared_flags fraction library) fl (map written cs @ arg # rest) = Inl 2"
proof -
  have "hd name \<noteq> CHR ''=''" "name \<noteq> []"
    using assms(2) hd_in_set [of name] by (auto simp: undeclared_def simp del: hd_in_set)
  then have bad: "parseOne (declared_flags fraction library) fl (arg # rest) = Failed (Not_defined name)" for fl
    using assms(2,3)
    by (auto simp: undeclared_def cut_value_def takeWhile_all takeWhile_tail set_flag_def declared_flags_def)
  have "FlagSet_Parse (declared_flags fraction library) fl (map written cs @ arg # rest) = Inl (Not_defined name)"
    using assms(1)
    by (induction cs arbitrary: fl) (simp_all add: FlagSet_Parse.simps parseOne_written bad del: parseOne.simps(2))
  then show ?thesis by (simp add: flag_Parse_def)
qed

text \<open>For example:\<close>

lemma parse_settings_example:
  "flag_Parse (declared_flags (\<lambda>f u d. f * u div 10 ^ d) (\<lambda>_. None)) (flag_defaults ())
     [''--leader-elect'', ''--queue-metrics-timeout=30s'', ''--metrics-bind-address=:9090''] =
   Inr \<lparr>metricsAddr = '':9090'', probeAddr = '':8081'', leaderElection = True,
        metricsTimeout = 30 * second, zapOptions = ()\<rparr>"
proof -
  have dec: "decimal 30 = ''30''" by code_simp
  show ?thesis
    using parse_settings
      [of "[Leader_elect, Queue_metrics_timeout 30, Metrics_bind_address '':9090'']"
          "\<lambda>f u d. f * u div 10 ^ d" "\<lambda>_. None" "flag_defaults ()"]
    by (simp add: dec flag_defaults_def)
qed

end
