(* ===== verification/Manager.thy ===== *)
theory Manager
  imports Command_Line Test_Cluster
begin

section \<open>cmd/main.go: the manager process\<close>

text \<open>
  The entry point: registration of the API types with the scheme (\<open>groupversion_info.go\<close>), the wiring of
  the controller (\<open>SetupWithManager\<close>) and \<open>main\<close> with \<open>run\<close>. controller-runtime, client-go, zap and the
  operating system are the fields of the record \<open>Platform\<close>; the arguments of the process are one of them, and
  \<open>Command_Line\<close> says what \<open>flag.Parse\<close> makes of them. Every call that has an effect is recorded in a ghost trace
  with its answer, as in \<open>Cluster\<close>.
\<close>

subsection \<open>The scheme\<close>

record GroupVersion =
  GroupVersion_Group :: string
  GroupVersion_Version :: string

definition GroupVersion :: GroupVersion where
  "GroupVersion = \<lparr>GroupVersion_Group = ''serving.lpogosu.dev'', GroupVersion_Version = ''v1alpha1''\<rparr>"

datatype known_type = Known_ModelDeployment | Known_ModelDeploymentList

text \<open>
  \<open>runtime.Scheme\<close> of type \<open>'s\<close> and the functions on it; a function of a scheme may return an error, and
  \<open>Builder_AddToScheme\<close> is the method of \<open>runtime.SchemeBuilder\<close>.
\<close>

type_synonym ('s, 'e) registrar = "'s \<Rightarrow> 'e option \<times> 's"

record ('s, 'e) Scheme_Package =
  NewScheme :: 's
  AddKnownTypes :: "'s \<Rightarrow> GroupVersion \<Rightarrow> known_type list \<Rightarrow> 's"
  AddToGroupVersion :: "'s \<Rightarrow> GroupVersion \<Rightarrow> 's"
  Builder_AddToScheme :: "('s, 'e) registrar list \<Rightarrow> ('s, 'e) registrar"
  Clientgo_AddToScheme :: "('s, 'e) registrar"

definition addKnownTypes :: "('s, 'e) Scheme_Package \<Rightarrow> ('s, 'e) registrar" where
  "addKnownTypes pkg s =
     (let s = AddKnownTypes pkg s GroupVersion [Known_ModelDeployment, Known_ModelDeploymentList];
          s = AddToGroupVersion pkg s GroupVersion
      in (None, s))"

definition SchemeBuilder :: "('s, 'e) Scheme_Package \<Rightarrow> ('s, 'e) registrar list" where
  "SchemeBuilder pkg = [addKnownTypes pkg]"

definition AddToScheme :: "('s, 'e) Scheme_Package \<Rightarrow> ('s, 'e) registrar" where
  "AddToScheme pkg = Builder_AddToScheme pkg (SchemeBuilder pkg)"

text \<open>
  The package's \<open>init\<close>: two registrations, each of which ends the process when it returns an error
  (\<open>utilruntime.Must\<close>), here on the left.
\<close>

definition init_scheme :: "('s, 'e) Scheme_Package \<Rightarrow> 'e + 's" where
  "init_scheme pkg =
     (case Clientgo_AddToScheme pkg (NewScheme pkg) of
        (Some err, _) \<Rightarrow> Inl err
      | (None, s) \<Rightarrow>
          (case AddToScheme pkg s of
             (Some err, _) \<Rightarrow> Inl err
           | (None, s) \<Rightarrow> Inr s))"

text \<open>
  What the package documents of the builder: it runs its functions in order up to the first error.
\<close>

definition documented_builder :: "('s, 'e) Scheme_Package \<Rightarrow> bool" where
  "documented_builder pkg \<longleftrightarrow>
     (\<forall>s. Builder_AddToScheme pkg [] s = (None, s)) \<and>
     (\<forall>f fs s. Builder_AddToScheme pkg (f # fs) s =
        (case f s of (Some err, s') \<Rightarrow> (Some err, s') | (None, s') \<Rightarrow> Builder_AddToScheme pkg fs s'))"

text \<open>The process reaches \<open>main\<close> unless client-go cannot register its own types, and then with both types of the API.\<close>

lemma init_scheme_registers:
  assumes "documented_builder pkg"
  shows "init_scheme pkg =
    (case Clientgo_AddToScheme pkg (NewScheme pkg) of
       (Some err, _) \<Rightarrow> Inl err
     | (None, s) \<Rightarrow> Inr (AddToGroupVersion pkg
         (AddKnownTypes pkg s GroupVersion [Known_ModelDeployment, Known_ModelDeploymentList]) GroupVersion))"
  using assms
  by (simp add: init_scheme_def AddToScheme_def SchemeBuilder_def addKnownTypes_def documented_builder_def
      split: prod.splits option.splits)

subsection \<open>Configuration and the platform\<close>

record 'c Config =
  Config_Timeout :: duration
  Config_rest :: 'c

record 's Options =
  Options_Scheme :: 's
  Options_Metrics_BindAddress :: string
  Options_HealthProbeBindAddress :: string
  Options_LeaderElection :: bool
  Options_LeaderElectionID :: string

text \<open>The kinds a controller is registered for, and the builder chain of \<open>SetupWithManager\<close>.\<close>

datatype watched = Watch_ModelDeployment | Watch_Deployment | Watch_Service | Watch_Job | Watch_PDB

record Builder =
  Builder_For :: "watched option"
  Builder_Owns :: "watched list"
  Builder_Name :: string

definition NewControllerManagedBy :: Builder where
  "NewControllerManagedBy = \<lparr>Builder_For = None, Builder_Owns = [], Builder_Name = ''''\<rparr>"

definition For :: "watched \<Rightarrow> Builder \<Rightarrow> Builder" where
  "For t b = b\<lparr>Builder_For := Some t\<rparr>"

definition Owns :: "watched \<Rightarrow> Builder \<Rightarrow> Builder" where
  "Owns t b = b\<lparr>Builder_Owns := Builder_Owns b @ [t]\<rparr>"

definition Named :: "string \<Rightarrow> Builder \<Rightarrow> Builder" where
  "Named name b = b\<lparr>Builder_Name := name\<rparr>"

datatype Checker = healthz_Ping

record ('w, 'e, 'u, 'c, 'dc, 'mapper, 'm, 's, 'z) Platform =
  os_Args :: "string list"
  float_fraction :: "nat \<Rightarrow> nat \<Rightarrow> nat \<Rightarrow> nat"
  library_flags :: "'z FlagSet"
  zap_Options :: 'z
  SetLogger :: "'z \<Rightarrow> ('w, unit) state"
  Log_Info :: "string \<Rightarrow> ('w, unit) state"
  GetConfig :: "('w, 'e + 'c Config) state"
  NewManager :: "'c Config \<Rightarrow> 's Options \<Rightarrow> ('w, 'e + 'm) state"
  GetRESTMapper :: "'m \<Rightarrow> 'mapper"
  GetClient :: "'m \<Rightarrow> ('w, 'e, 'u) Client"
  GetScheme :: "'m \<Rightarrow> 's"
  GetEventRecorder ::
    "'m \<Rightarrow> string \<Rightarrow> ModelDeployment \<Rightarrow> string \<Rightarrow> string \<Rightarrow> string \<Rightarrow> string \<Rightarrow> ('w, unit) state"
  Packages :: "'s \<Rightarrow> ('w, 'e, 'u) Library"
  NewDiscoveryClientForConfig :: "'c Config \<Rightarrow> 'e + 'dc"
  NewForConfig :: "'c Config \<Rightarrow> 'mapper \<Rightarrow> 'dc \<Rightarrow> ('w, 'e) CustomMetrics"
  Complete :: "'m \<Rightarrow> Builder \<Rightarrow> ('w, 'e, 'u) ModelDeploymentReconciler \<Rightarrow> ('w, 'e option) state"
  AddHealthzCheck :: "'m \<Rightarrow> string \<Rightarrow> Checker \<Rightarrow> ('w, 'e option) state"
  AddReadyzCheck :: "'m \<Rightarrow> string \<Rightarrow> Checker \<Rightarrow> ('w, 'e option) state"
  Start :: "'m \<Rightarrow> ('w, 'e option) state"

subsection \<open>The trace of the process\<close>

datatype ('w, 'e, 'u, 'c, 'm, 's, 'z) boot_call =
    Boot_SetLogger 'z
  | Boot_NewManager "'c Config" "'s Options" "'e + 'm"
  | Boot_Complete 'm Builder "('w, 'e, 'u) ModelDeploymentReconciler" "'e option"
  | Boot_AddHealthzCheck 'm string Checker "'e option"
  | Boot_AddReadyzCheck 'm string Checker "'e option"
  | Boot_Info string
  | Boot_Start 'm "'e option"
  | Boot_Stderr string

record ('w, 'e, 'u, 'c, 'm, 's, 'z) boot =
  boot_world :: 'w
  boot_calls :: "('w, 'e, 'u, 'c, 'm, 's, 'z) boot_call list"

definition boots ::
  "('w, 'a) state \<Rightarrow> ('a \<Rightarrow> ('w, 'e, 'u, 'c, 'm, 's, 'z) boot_call list) \<Rightarrow>
   (('w, 'e, 'u, 'c, 'm, 's, 'z) boot, 'a) state" where
  "boots op ev =
     State (\<lambda>b. case run_state op (boot_world b) of
                  (x, w) \<Rightarrow> (x, b\<lparr>boot_world := w, boot_calls := boot_calls b @ ev x\<rparr>))"

subsection \<open>SetupWithManager\<close>

definition controller_builder :: Builder where
  "controller_builder =
     Named ''modeldeployment''
       (Owns Watch_PDB
         (Owns Watch_Job
           (Owns Watch_Service
             (Owns Watch_Deployment
               (For Watch_ModelDeployment NewControllerManagedBy)))))"

definition SetupWithManager where
  "SetupWithManager p r mgr =
     boots (Complete p mgr controller_builder r) (\<lambda>err. [Boot_Complete mgr controller_builder r err])"

subsection \<open>run and main\<close>

text \<open>The flag declarations and \<open>flag.Parse\<close>, on the arguments behind the program's name.\<close>

definition parsed_flags where
  "parsed_flags p =
     flag_Parse (declared_flags (float_fraction p) (library_flags p)) (flag_defaults (zap_Options p)) (os_Args p)"

definition manager_options :: "'s \<Rightarrow> 'z Flags \<Rightarrow> 's Options" where
  "manager_options scheme fl =
     \<lparr>Options_Scheme = scheme, Options_Metrics_BindAddress = metricsAddr fl,
      Options_HealthProbeBindAddress = probeAddr fl, Options_LeaderElection = leaderElection fl,
      Options_LeaderElectionID = ''modeldeployment.serving.lpogosu.dev''\<rparr>"

text \<open>The struct literal of the reconciler; \<open>Now\<close> is left nil.\<close>

definition new_reconciler where
  "new_reconciler p mgr queueSource =
     \<lparr>R_Client = GetClient p mgr, R_Lib = Packages p (GetScheme p mgr),
      R_Eventf = GetEventRecorder p mgr ''modeldeployment'', R_Queue = Some (Depth queueSource),
      R_Now = None\<rparr>"

text \<open>Registration, the two checks and the start, each with its early return.\<close>

definition serve where
  "serve p mgr reconciler =
     do {
       err \<leftarrow> SetupWithManager p reconciler mgr;
       case err of
         Some e \<Rightarrow> State_Monad.return (Some (Wrapf ''register controller'' (Library_error e)))
       | None \<Rightarrow> do {
           err \<leftarrow> boots (AddHealthzCheck p mgr ''ping'' healthz_Ping)
                    (\<lambda>err. [Boot_AddHealthzCheck mgr ''ping'' healthz_Ping err]);
           case err of
             Some e \<Rightarrow> State_Monad.return (Some (Wrapf ''add health check'' (Library_error e)))
           | None \<Rightarrow> do {
               err \<leftarrow> boots (AddReadyzCheck p mgr ''ping'' healthz_Ping)
                        (\<lambda>err. [Boot_AddReadyzCheck mgr ''ping'' healthz_Ping err]);
               case err of
                 Some e \<Rightarrow> State_Monad.return (Some (Wrapf ''add ready check'' (Library_error e)))
               | None \<Rightarrow> do {
                   boots (Log_Info p ''starting manager'') (\<lambda>_. [Boot_Info ''starting manager'']);
                   err \<leftarrow> boots (Start p mgr) (\<lambda>err. [Boot_Start mgr err]);
                   State_Monad.return (map_option (\<lambda>e. Wrapf ''run manager'' (Library_error e)) err)
                 }
             }
         }
     }"

text \<open>
  \<open>run\<close>; on the left the exit status when the process ends inside it, by \<open>flag.Parse\<close> or by
  \<open>GetConfigOrDie\<close>, which exits with status 1 where \<open>GetConfig\<close> fails.
\<close>

definition run where
  "run p scheme =
     (case parsed_flags p of
        Inl status \<Rightarrow> State_Monad.return (Inl status)
      | Inr fl \<Rightarrow> do {
          boots (SetLogger p (zapOptions fl)) (\<lambda>_. [Boot_SetLogger (zapOptions fl)]);
          cfg \<leftarrow> boots (GetConfig p) (\<lambda>_. []);
          case cfg of
            Inl _ \<Rightarrow> State_Monad.return (Inl 1)
          | Inr cfg \<Rightarrow> do {
              mgr \<leftarrow> boots (NewManager p cfg (manager_options scheme fl))
                       (\<lambda>res. [Boot_NewManager cfg (manager_options scheme fl) res]);
              case mgr of
                Inl err \<Rightarrow> State_Monad.return (Inr (Some (Wrapf ''build manager'' (Library_error err))))
              | Inr mgr \<Rightarrow> do {
                  metricsCfg \<leftarrow> boots (GetConfig p) (\<lambda>_. []);
                  case metricsCfg of
                    Inl _ \<Rightarrow> State_Monad.return (Inl 1)
                  | Inr metricsCfg \<Rightarrow>
                      (case NewCustomMetrics (NewDiscoveryClientForConfig p) (NewForConfig p)
                              (metricsCfg\<lparr>Config_Timeout := metricsTimeout fl\<rparr>) (GetRESTMapper p mgr) of
                         Inl err \<Rightarrow> State_Monad.return (Inr (Some (Wrapf ''build queue metrics client'' err)))
                       | Inr queueSource \<Rightarrow> do {
                           err \<leftarrow> serve p mgr (new_reconciler p mgr queueSource);
                           State_Monad.return (Inr err)
                         })
                }
            }
        })"

text \<open>The exit status of the process: 1 after an error, which is printed, and 0 when \<open>main\<close> returns.\<close>

definition main where
  "main p scheme =
     do {
       res \<leftarrow> run p scheme;
       case res of
         Inl status \<Rightarrow> State_Monad.return status
       | Inr None \<Rightarrow> State_Monad.return 0
       | Inr (Some err) \<Rightarrow> do {
           boots (State_Monad.return ())
             (\<lambda>_. [Boot_Stderr (''manager exited: '' @ Error (ErrorText (Packages p scheme)) err @ [CHR 0x0A])]);
           State_Monad.return (1 :: nat)
         }
     }"

subsection \<open>What the process does\<close>

lemma run_boots:
  "run_state (boots op ev) b =
     (case run_state op (boot_world b) of (x, w) \<Rightarrow> (x, b\<lparr>boot_world := w, boot_calls := boot_calls b @ ev x\<rparr>))"
  by (simp add: boots_def)

lemma controller_builder_eq:
  "controller_builder =
     \<lparr>Builder_For = Some Watch_ModelDeployment,
      Builder_Owns = [Watch_Deployment, Watch_Service, Watch_Job, Watch_PDB],
      Builder_Name = ''modeldeployment''\<rparr>"
  by (simp add: controller_builder_def For_def Owns_def Named_def NewControllerManagedBy_def)

text \<open>A run of \<open>serve\<close> is a chain of calls, cut at the first that fails.\<close>

inductive serve_calls for mgr r where
  "serve_calls mgr r [Boot_Complete mgr controller_builder r (Some e)]
     (Some (Wrapf ''register controller'' (Library_error e)))"
| "serve_calls mgr r [Boot_Complete mgr controller_builder r None, Boot_AddHealthzCheck mgr ''ping'' healthz_Ping (Some e)]
     (Some (Wrapf ''add health check'' (Library_error e)))"
| "serve_calls mgr r
     [Boot_Complete mgr controller_builder r None, Boot_AddHealthzCheck mgr ''ping'' healthz_Ping None,
      Boot_AddReadyzCheck mgr ''ping'' healthz_Ping (Some e)]
     (Some (Wrapf ''add ready check'' (Library_error e)))"
| "serve_calls mgr r
     [Boot_Complete mgr controller_builder r None, Boot_AddHealthzCheck mgr ''ping'' healthz_Ping None,
      Boot_AddReadyzCheck mgr ''ping'' healthz_Ping None, Boot_Info ''starting manager'', Boot_Start mgr res]
     (map_option (\<lambda>e. Wrapf ''run manager'' (Library_error e)) res)"

lemma serve_run:
  "run_state (serve p mgr r) b = (err, b') \<Longrightarrow>
   \<exists>cs. boot_calls b' = boot_calls b @ cs \<and> serve_calls mgr r cs err"
  by (auto simp: serve_def SetupWithManager_def run_boots serve_calls.simps
      split: prod.splits option.splits)

inductive run_calls for p scheme where
  flags: "parsed_flags p = Inl status \<Longrightarrow> run_calls p scheme [] (Inl status)"
| config: "parsed_flags p = Inr fl \<Longrightarrow>
    run_calls p scheme [Boot_SetLogger (zapOptions fl)] (Inl 1)"
| no_manager: "parsed_flags p = Inr fl \<Longrightarrow>
    run_calls p scheme
      [Boot_SetLogger (zapOptions fl), Boot_NewManager cfg (manager_options scheme fl) (Inl e)]
      (Inr (Some (Wrapf ''build manager'' (Library_error e))))"
| metrics_config: "parsed_flags p = Inr fl \<Longrightarrow>
    run_calls p scheme
      [Boot_SetLogger (zapOptions fl), Boot_NewManager cfg (manager_options scheme fl) (Inr mgr)] (Inl 1)"
| no_metrics: "parsed_flags p = Inr fl \<Longrightarrow>
    NewCustomMetrics (NewDiscoveryClientForConfig p) (NewForConfig p)
      (metricsCfg\<lparr>Config_Timeout := metricsTimeout fl\<rparr>) (GetRESTMapper p mgr) = Inl err \<Longrightarrow>
    run_calls p scheme
      [Boot_SetLogger (zapOptions fl), Boot_NewManager cfg (manager_options scheme fl) (Inr mgr)]
      (Inr (Some (Wrapf ''build queue metrics client'' err)))"
| wired: "parsed_flags p = Inr fl \<Longrightarrow>
    NewCustomMetrics (NewDiscoveryClientForConfig p) (NewForConfig p)
      (metricsCfg\<lparr>Config_Timeout := metricsTimeout fl\<rparr>) (GetRESTMapper p mgr) = Inr source \<Longrightarrow>
    serve_calls mgr (new_reconciler p mgr source) cs err \<Longrightarrow>
    run_calls p scheme
      ([Boot_SetLogger (zapOptions fl), Boot_NewManager cfg (manager_options scheme fl) (Inr mgr)] @ cs)
      (Inr err)"

lemma run_run:
  assumes "run_state (run p scheme) b = (res, b')"
  shows "\<exists>cs. boot_calls b' = boot_calls b @ cs \<and> run_calls p scheme cs res"
  using assms
  by (auto simp: run_def run_boots split: sum.splits prod.splits dest!: serve_run
      intro: run_calls.intros [simplified])

lemma main_run:
  assumes "run_state (main p scheme) b = (status, b')"
  shows "\<exists>cs res. run_calls p scheme cs res \<and>
    (case res of
       Inl st \<Rightarrow> status = st \<and> boot_calls b' = boot_calls b @ cs
     | Inr None \<Rightarrow> status = 0 \<and> boot_calls b' = boot_calls b @ cs
     | Inr (Some err) \<Rightarrow> status = 1 \<and> boot_calls b' = boot_calls b @ cs @
         [Boot_Stderr (''manager exited: '' @ Error (ErrorText (Packages p scheme)) err @ [CHR 0x0A])])"
proof -
  obtain res b1 where r: "run_state (run p scheme) b = (res, b1)" by fastforce
  obtain cs where cs: "boot_calls b1 = boot_calls b @ cs" "run_calls p scheme cs res"
    using run_run [OF r] by blast
  have "case res of
       Inl st \<Rightarrow> status = st \<and> boot_calls b' = boot_calls b @ cs
     | Inr None \<Rightarrow> status = 0 \<and> boot_calls b' = boot_calls b @ cs
     | Inr (Some err) \<Rightarrow> status = 1 \<and> boot_calls b' = boot_calls b @ cs @
         [Boot_Stderr (''manager exited: '' @ Error (ErrorText (Packages p scheme)) err @ [CHR 0x0A])]"
    using assms cs(1) by (auto simp: main_def r run_boots split: sum.splits option.splits)
  with cs(2) show ?thesis by blast
qed

text \<open>Where a start appears in a run, it is the last step of a complete wiring.\<close>

lemma serve_calls_start:
  "serve_calls mgr r cs err \<Longrightarrow> Boot_Start m res \<in> set cs \<Longrightarrow>
   m = mgr \<and> err = map_option (\<lambda>e. Wrapf ''run manager'' (Library_error e)) res \<and>
   cs = [Boot_Complete mgr controller_builder r None, Boot_AddHealthzCheck mgr ''ping'' healthz_Ping None,
         Boot_AddReadyzCheck mgr ''ping'' healthz_Ping None, Boot_Info ''starting manager'',
         Boot_Start mgr res]"
  by (auto elim!: serve_calls.cases)

lemma run_calls_start:
  assumes "run_calls p scheme cs res" "Boot_Start mgr err \<in> set cs"
  obtains fl cfg metricsCfg source where
    "parsed_flags p = Inr fl"
    "NewCustomMetrics (NewDiscoveryClientForConfig p) (NewForConfig p)
       (metricsCfg\<lparr>Config_Timeout := metricsTimeout fl\<rparr>) (GetRESTMapper p mgr) = Inr source"
    "cs = [Boot_SetLogger (zapOptions fl), Boot_NewManager cfg (manager_options scheme fl) (Inr mgr),
           Boot_Complete mgr controller_builder (new_reconciler p mgr source) None,
           Boot_AddHealthzCheck mgr ''ping'' healthz_Ping None,
           Boot_AddReadyzCheck mgr ''ping'' healthz_Ping None,
           Boot_Info ''starting manager'', Boot_Start mgr err]"
    "res = Inr (map_option (\<lambda>e. Wrapf ''run manager'' (Library_error e)) err)"
  using assms by (cases rule: run_calls.cases) (auto dest!: serve_calls_start)

lemma run_calls_exit:
  "run_calls p scheme cs (Inl status) \<Longrightarrow> status = 1 \<or> parsed_flags p = Inl status"
  by (auto elim!: run_calls.cases)

text \<open>How a run ends: on a command line that ends the process nothing was called; otherwise it went well exactly
  when the manager was started and stopped without an error.\<close>

lemma run_calls_ending:
  assumes "run_calls p scheme cs res"
  shows "parsed_flags p = Inl n \<Longrightarrow> res = Inl n \<and> cs = []"
    and "parsed_flags p = Inr fl \<Longrightarrow> res \<in> insert (Inl 1) (range Inr)"
    and "parsed_flags p = Inr fl \<Longrightarrow> res = Inr None \<longleftrightarrow> (\<exists>mgr. Boot_Start mgr None \<in> set cs)"
  using assms by (auto elim!: run_calls.cases serve_calls.cases)

lemma parsed_flags_exit: "parsed_flags p = Inl n \<Longrightarrow> n \<in> {0, 2}"
  by (auto simp: parsed_flags_def flag_Parse_def split: sum.splits if_splits)

subsection \<open>Properties\<close>


text \<open>A platform on which everything succeeds, and the process on it.\<close>

definition test_platform ::
  "(gotime, string, Object, unit, unit, unit, unit, unit, unit) Platform" where
  "test_platform =
     \<lparr>os_Args = [''--leader-elect''], float_fraction = (\<lambda>f u d. f * u div 10 ^ d),
      library_flags = (\<lambda>_. None), zap_Options = (),
      SetLogger = (\<lambda>_. State_Monad.return ()), Log_Info = (\<lambda>_. State_Monad.return ()),
      GetConfig = State_Monad.return (Inr \<lparr>Config_Timeout = 0, Config_rest = ()\<rparr>),
      NewManager = (\<lambda>_ _. State_Monad.return (Inr ())), GetRESTMapper = (\<lambda>_. ()),
      GetClient = (\<lambda>_. test_client live (Inl NotFound) (Inl NotFound) [] None), GetScheme = (\<lambda>_. ()),
      GetEventRecorder = (\<lambda>_ _ _ _ _ _ _. State_Monad.return ()), Packages = (\<lambda>_. test_library),
      NewDiscoveryClientForConfig = (\<lambda>_. Inr ()),
      NewForConfig = (\<lambda>_ _ _. \<lparr>GetForObjects = (\<lambda>_ _ _ _ _. State_Monad.return (Inr [])), MilliValue = (\<lambda>_. 0)\<rparr>),
      Complete = (\<lambda>_ _ _. State_Monad.return None),
      AddHealthzCheck = (\<lambda>_ _ _. State_Monad.return None),
      AddReadyzCheck = (\<lambda>_ _ _. State_Monad.return None),
      Start = (\<lambda>_. State_Monad.return None)\<rparr>"


text \<open>
  A bad command line stops the process before it does anything: when the arguments, after any settings the operator
  understands, name a flag that neither it nor a library declares, with or without a value, \<open>main\<close> ends with
  status 2, and no manager was built, no controller registered, nothing logged and nothing of the outside world touched.
\<close>

theorem bad_command_line_exits:
  assumes "\<forall>c \<in> set cs. in_time_range c" "undeclared (library_flags p) name"
    and "arg = ''--'' @ name \<or> arg = ''--'' @ name @ ''='' @ v" "os_Args p = map written cs @ arg # rest"
  shows "run_state (main p scheme) b = (2, b)"
proof -
  have "parsed_flags p = Inl 2"
    unfolding parsed_flags_def assms(4) by (rule parse_undeclared [OF assms(1-3)])
  then show ?thesis by (simp add: main_def run_def)
qed

lemma bad_command_line_exits_witness:
  "run_state (main (test_platform\<lparr>os_Args := [''--leader-elect'', ''--metrics-addr=:8080'']\<rparr>) ())
     \<lparr>boot_world = 0, boot_calls = []\<rparr> = (2, \<lparr>boot_world = 0, boot_calls = []\<rparr>)"
  by (rule bad_command_line_exits [of "[Leader_elect]" _ "''metrics-addr''" _ "'':8080''" "[]"])
    (simp_all add: undeclared_def test_platform_def)

end
