(* ===== verification/Rbac.thy ===== *)
theory Rbac
  imports Scenarios
begin

section \<open>The permissions of the operator\<close>

text \<open>
  The \<open>kubebuilder:rbac\<close> markers on the reconciler, the cluster role generated from them
  (\<open>config/rbac/role.yaml\<close>), and the requests the calls of a reconcile send to the API server. The API
  server's authorizer is a parameter \<open>allowed\<close>; that it follows the rules of the role is the hypothesis
  \<open>documented_authorizer\<close>. It is shown which permissions a reconcile uses, which of them the role grants,
  and what becomes of a teardown under the one it does not.
\<close>

subsection \<open>Rules\<close>

record PolicyRule =
  Rule_APIGroups :: "string list"
  Rule_Resources :: "string list"
  Rule_Verbs :: "string list"

text \<open>
  A request: the API group, the resource (with its subresource after a slash) and the verb. A rule
  matches a request when each of the three is listed or covered by a star, and a role grants what one of its
  rules matches.
\<close>

record attributes =
  Attr_APIGroup :: string
  Attr_Resource :: string
  Attr_Verb :: string

definition listed :: "string \<Rightarrow> string list \<Rightarrow> bool" where
  "listed x xs \<longleftrightarrow> x \<in> set xs \<or> ''*'' \<in> set xs"

definition rule_matches :: "PolicyRule \<Rightarrow> attributes \<Rightarrow> bool" where
  "rule_matches rule a \<longleftrightarrow>
     listed (Attr_APIGroup a) (Rule_APIGroups rule) \<and>
     listed (Attr_Resource a) (Rule_Resources rule) \<and>
     listed (Attr_Verb a) (Rule_Verbs rule)"

definition grants :: "PolicyRule list \<Rightarrow> attributes \<Rightarrow> bool" where
  "grants role a \<longleftrightarrow> list_ex (\<lambda>rule. rule_matches rule a) role"

definition documented_authorizer :: "PolicyRule list \<Rightarrow> (attributes \<Rightarrow> bool) \<Rightarrow> bool" where
  "documented_authorizer role allowed \<longleftrightarrow> (\<forall>a. allowed a \<longleftrightarrow> grants role a)"

lemma grants_simps [simp]:
  "\<not> grants [] a" "grants (rule # role) a \<longleftrightarrow> rule_matches rule a \<or> grants role a"
  by (simp_all add: grants_def)

subsection \<open>The markers and the generated role\<close>

definition all_verbs :: "string list" where
  "all_verbs = [''get'', ''list'', ''watch'', ''create'', ''update'', ''patch'', ''delete'']"

definition reads :: "string list" where
  "reads = [''get'', ''list'', ''watch'']"

definition policy_rule :: "string \<Rightarrow> string list \<Rightarrow> string list \<Rightarrow> PolicyRule" where
  "policy_rule g resources verbs =
     \<lparr>Rule_APIGroups = [g], Rule_Resources = resources, Rule_Verbs = verbs\<rparr>"

text \<open>The markers, in the order of the source; the group \<open>core\<close> of a marker is the empty one.\<close>

definition rbac_markers :: "PolicyRule list" where
  "rbac_markers =
     [policy_rule ''serving.lpogosu.dev'' [''modeldeployments''] all_verbs,
      policy_rule ''serving.lpogosu.dev'' [''modeldeployments/status''] [''get'', ''update'', ''patch''],
      policy_rule ''serving.lpogosu.dev'' [''modeldeployments/finalizers''] [''update''],
      policy_rule ''apps'' [''deployments''] all_verbs,
      policy_rule ''batch'' [''jobs''] all_verbs,
      policy_rule '''' [''services'', ''persistentvolumeclaims''] all_verbs,
      policy_rule '''' [''pods''] reads,
      policy_rule '''' [''events''] [''create'', ''patch''],
      policy_rule ''policy'' [''poddisruptionbudgets''] all_verbs,
      policy_rule ''custom.metrics.k8s.io'' [''*''] [''get'', ''list'']]"

text \<open>The rules of \<open>role.yaml\<close>, in its order.\<close>

definition sorted_verbs :: "string list" where
  "sorted_verbs = [''create'', ''delete'', ''get'', ''list'', ''patch'', ''update'', ''watch'']"

definition role_yaml :: "PolicyRule list" where
  "role_yaml =
     [policy_rule '''' [''events''] [''create'', ''patch''],
      policy_rule '''' [''persistentvolumeclaims'', ''services''] sorted_verbs,
      policy_rule '''' [''pods''] [''get'', ''list'', ''watch''],
      policy_rule ''apps'' [''deployments''] sorted_verbs,
      policy_rule ''batch'' [''jobs''] sorted_verbs,
      policy_rule ''custom.metrics.k8s.io'' [''*''] [''get'', ''list''],
      policy_rule ''policy'' [''poddisruptionbudgets''] sorted_verbs,
      policy_rule ''serving.lpogosu.dev'' [''modeldeployments''] sorted_verbs,
      policy_rule ''serving.lpogosu.dev'' [''modeldeployments/finalizers''] [''update''],
      policy_rule ''serving.lpogosu.dev'' [''modeldeployments/status''] [''get'', ''patch'', ''update'']]"

text \<open>The checked-in role is up to date: it grants what the markers grant.\<close>

lemma listed_again:
  "listed v sorted_verbs = listed v all_verbs"
  "listed x [y, z] = listed x [z, y]"
  "listed v [''get'', ''update'', ''patch''] = listed v [''get'', ''patch'', ''update'']"
  by (auto simp: listed_def sorted_verbs_def all_verbs_def)

lemma role_in_sync: "grants role_yaml a \<longleftrightarrow> grants rbac_markers a"
  by (simp only: role_yaml_def rbac_markers_def grants_simps rule_matches_def policy_rule_def PolicyRule.select_convs
      listed_again(1,3) listed_again(2) [of _ "''services''"] reads_def disj_ac simp_thms)

subsection \<open>The requests behind the calls\<close>

fun resource_of :: "Object \<Rightarrow> string \<times> string" where
  "resource_of (DeploymentObject d) = (''apps'', ''deployments'')"
| "resource_of (ServiceObject s) = ('''', ''services'')"
| "resource_of (PDBObject b) = (''policy'', ''poddisruptionbudgets'')"
| "resource_of (PVCObject c) = ('''', ''persistentvolumeclaims'')"
| "resource_of (JobObject j) = (''batch'', ''jobs'')"

definition ask :: "string \<times> string \<Rightarrow> string list \<Rightarrow> attributes list" where
  "ask res verbs =
     map (\<lambda>v. \<lparr>Attr_APIGroup = fst res, Attr_Resource = snd res, Attr_Verb = v\<rparr>) verbs"

text \<open>
  The API verbs of a call, as the Kubernetes API documents them. A read goes to the API server or to a cache that lists and
  watches; a server-side apply is a patch that may create; \<open>DeleteAllOf\<close> is one request of its own verb.
  The group of the events (the recorder of \<open>client-go/tools/events\<close> chooses it) and the kind an
  unstructured object carries are parameters.
\<close>

fun requests ::
  "string \<Rightarrow> ('u ApplyConfiguration \<Rightarrow> string \<times> string) \<Rightarrow> ('e, 'u) call \<Rightarrow> attributes list" where
  "requests events kind (GetModelDeployment key res) = ask (''serving.lpogosu.dev'', ''modeldeployments'') reads"
| "requests events kind (GetJob key res) = ask (''batch'', ''jobs'') reads"
| "requests events kind (GetPVC key res) = ask ('''', ''persistentvolumeclaims'') reads"
| "requests events kind (GetDeployment key res) = ask (''apps'', ''deployments'') reads"
| "requests events kind (ListJobs ns lbls res) = ask (''batch'', ''jobs'') reads"
| "requests events kind (ListPods ns lbls res) = ask ('''', ''pods'') reads"
| "requests events kind (Create obj e) = ask (resource_of obj) [''create'']"
| "requests events kind (Update md res) = ask (''serving.lpogosu.dev'', ''modeldeployments'') [''update'']"
| "requests events kind (StatusUpdate md res) =
     ask (''serving.lpogosu.dev'', ''modeldeployments/status'') [''update'']"
| "requests events kind (Delete obj policy e) = ask (resource_of obj) [''delete'']"
| "requests events kind (DeleteAllOfJobs ns lbls policy e) = ask (''batch'', ''jobs'') [''deletecollection'']"
| "requests events kind (Apply cfg owner force e) = ask (kind cfg) [''patch'', ''create'']"
| "requests events kind (Eventf md ty reason action note) = ask (events, ''events'') [''create'', ''patch'']"
| "requests events kind (QueueDepth ns metric sel res) =
     ask (''custom.metrics.k8s.io'', ''pods/'' @ metric) [''get'']"

text \<open>An apply configuration carries the kind of the object it was made from.\<close>

definition documented_kind ::
  "('w, 'e, 'u) ModelDeploymentReconciler \<Rightarrow> ('u ApplyConfiguration \<Rightarrow> string \<times> string) \<Rightarrow> bool" where
  "documented_kind r kind \<longleftrightarrow> (\<forall>md obj cfg. applies r md obj cfg \<longrightarrow> kind cfg = resource_of obj)"

text \<open>
  The role a reconcile needs: for each kind only the verbs that some reconcile sends.
\<close>

definition needed_role :: "string \<Rightarrow> PolicyRule list" where
  "needed_role events =
     [policy_rule ''serving.lpogosu.dev'' [''modeldeployments''] (reads @ [''update'']),
      policy_rule ''serving.lpogosu.dev'' [''modeldeployments/status''] [''update''],
      policy_rule ''apps'' [''deployments''] (reads @ [''create'', ''patch'', ''delete'']),
      policy_rule ''batch'' [''jobs''] (reads @ [''create'', ''delete'', ''deletecollection'']),
      policy_rule '''' [''persistentvolumeclaims''] (reads @ [''create'']),
      policy_rule '''' [''services''] [''create'', ''patch''],
      policy_rule ''policy'' [''poddisruptionbudgets''] [''create'', ''patch'', ''delete''],
      policy_rule '''' [''pods''] reads,
      policy_rule ''custom.metrics.k8s.io'' [''*''] [''get''],
      policy_rule events [''events''] [''create'', ''patch'']]"

text \<open>The two requests of a call that the markers may not cover.\<close>

definition jobs_collection :: attributes where
  "jobs_collection = \<lparr>Attr_APIGroup = ''batch'', Attr_Resource = ''jobs'', Attr_Verb = ''deletecollection''\<rparr>"

definition ungranted :: "string \<Rightarrow> attributes \<Rightarrow> bool" where
  "ungranted events a \<longleftrightarrow>
     a = jobs_collection \<or> Attr_Resource a = ''events'' \<and> Attr_APIGroup a = events \<and> events \<noteq> ''''"

text \<open>The requests without a parameter in them, and what the roles say to each.\<close>

definition plain_requests :: "attributes list" where
  "plain_requests =
     ask (''serving.lpogosu.dev'', ''modeldeployments'') reads @ ask (''batch'', ''jobs'') reads @
     ask ('''', ''persistentvolumeclaims'') reads @ ask (''apps'', ''deployments'') reads @
     ask ('''', ''pods'') reads @
     ask (''serving.lpogosu.dev'', ''modeldeployments'') [''update''] @
     ask (''serving.lpogosu.dev'', ''modeldeployments/status'') [''update''] @
     ask (''batch'', ''jobs'') [''create''] @ ask ('''', ''persistentvolumeclaims'') [''create''] @
     ask (''batch'', ''jobs'') [''delete''] @ ask (''apps'', ''deployments'') [''delete''] @
     ask (''policy'', ''poddisruptionbudgets'') [''delete''] @
     ask (''apps'', ''deployments'') [''patch'', ''create''] @ ask ('''', ''services'') [''patch'', ''create''] @
     ask (''policy'', ''poddisruptionbudgets'') [''patch'', ''create'']"

lemma grants_append [simp]: "grants (xs @ ys) a \<longleftrightarrow> grants xs a \<or> grants ys a"
  by (simp add: grants_def)

lemma needed_role_butlast:
  "needed_role events = butlast (needed_role '''') @ [policy_rule events [''events''] [''create'', ''patch'']]"
  by (simp add: needed_role_def)

lemma plain_granted:
  "list_all (\<lambda>a. grants (butlast (needed_role '''')) a \<and> grants rbac_markers a \<and> a \<noteq> jobs_collection \<and>
     Attr_Resource a \<noteq> ''events'') plain_requests"
  by code_simp

lemma collection_granted: "grants (butlast (needed_role '''')) jobs_collection" "\<not> grants rbac_markers jobs_collection"
  by code_simp+

text \<open>The requests with a parameter: the metric in its resource, and the events in their group.\<close>

lemma metric_granted:
  assumes "a = \<lparr>Attr_APIGroup = ''custom.metrics.k8s.io'', Attr_Resource = ''pods/'' @ m, Attr_Verb = ''get''\<rparr>"
  shows "grants (needed_role events) a" "grants rbac_markers a" "\<not> ungranted events a"
  by (simp_all add: assms needed_role_def rbac_markers_def policy_rule_def rule_matches_def listed_def ungranted_def
      jobs_collection_def)

lemma event_granted:
  assumes "Attr_APIGroup a = events" "Attr_Resource a = ''events''" "Attr_Verb a \<in> {''create'', ''patch''}"
  shows "grants (needed_role events) a" "grants rbac_markers a \<longleftrightarrow> events = ''''"
proof -
  show "grants (needed_role events) a"
    using assms by (auto simp: needed_role_butlast [of events] policy_rule_def rule_matches_def listed_def)
  have "grants rbac_markers a \<longleftrightarrow> rule_matches (policy_rule '''' [''events''] [''create'', ''patch'']) a"
    using assms(2,3) by (elim insertE; simp add: rbac_markers_def policy_rule_def rule_matches_def listed_def)
  also have "\<dots> \<longleftrightarrow> events = ''''"
    using assms by (auto simp: policy_rule_def rule_matches_def listed_def)
  finally show "grants rbac_markers a \<longleftrightarrow> events = ''''" .
qed

text \<open>Which calls need what: by the kinds of the calls a run makes.\<close>

fun expected_call :: "('u ApplyConfiguration \<Rightarrow> string \<times> string) \<Rightarrow> ('e, 'u) call \<Rightarrow> bool" where
  "expected_call kind (Create obj e) \<longleftrightarrow> (\<exists>job. obj = JobObject job) \<or> (\<exists>pvc. obj = PVCObject pvc)"
| "expected_call kind (Delete obj policy e) \<longleftrightarrow>
     (\<exists>job. obj = JobObject job) \<or> (\<exists>dep. obj = DeploymentObject dep) \<or> (\<exists>pdb. obj = PDBObject pdb)"
| "expected_call kind (Apply cfg owner force e) \<longleftrightarrow>
     kind cfg \<in> {(''apps'', ''deployments''), ('''', ''services''), (''policy'', ''poddisruptionbudgets'')}"
| "expected_call kind _ \<longleftrightarrow> True"

lemma cache_call_expected: "cache_call r md k c \<Longrightarrow> expected_call kind c"
  by (cases c) (auto simp: own_Inr_iff)

lemma rollout_call_expected:
  assumes "documented_kind r kind" "rollout_call r md k n cache c"
  shows "expected_call kind c"
  using assms by (cases c) (auto simp: documented_kind_def)

lemma reconcile_expected:
  assumes "documented_finalizers (R_Lib r)" "documented_kind r kind"
    and "c \<in> set (snd (reconcile_trace r req w))"
  shows "expected_call kind c"
  using trace_split [of r req w, OF refl] assms(1)
proof (cases rule: reconcile_run_cases)
  case (finalizes md t')
  from finalizes(3) assms(3) finalizes(1) show ?thesis by cases auto
next
  case (syncs md t')
  show ?thesis
  proof (cases "c \<in> set t'")
    case True
    from syncs(4) True show ?thesis
      by (cases rule: sync_run_call)
        (auto dest: cache_run_calls(1) cache_call_expected rollout_call_expected [OF assms(2)])
  next
    case False
    then show ?thesis using assms(3) syncs(1) by auto
  qed
qed (use assms(3) in auto)

text \<open>Every request of an expected call is one of these.\<close>

lemma expected_requests:
  assumes "expected_call kind c" "a \<in> set (requests events kind c)"
  obtains (plain) "a \<in> set plain_requests"
  | (collection) "a = jobs_collection"
  | (metric) m where "a = \<lparr>Attr_APIGroup = ''custom.metrics.k8s.io'', Attr_Resource = ''pods/'' @ m, Attr_Verb = ''get''\<rparr>"
  | (event) "Attr_APIGroup a = events" "Attr_Resource a = ''events''" "Attr_Verb a \<in> {''create'', ''patch''}"
proof (cases c)
  case (DeleteAllOfJobs ns lbls policy e)
  then show thesis using assms(2) by (intro collection) (simp add: ask_def jobs_collection_def)
next
  case (QueueDepth ns m sel res)
  then show thesis using assms(2) by (intro metric [of m]) (simp add: ask_def)
next
  case (Eventf md ty reason action msg)
  then show thesis using assms(2) by (intro event) (auto simp: ask_def)
qed (use assms in \<open>auto intro!: plain simp: plain_requests_def\<close>)

lemma request_granted:
  assumes "expected_call kind c" "a \<in> set (requests events kind c)"
  shows "grants (needed_role events) a \<and> (grants rbac_markers a \<longleftrightarrow> \<not> ungranted events a)"
  using assms
proof (cases rule: expected_requests)
  case plain
  then have "grants (butlast (needed_role '''')) a" "grants rbac_markers a" "a \<noteq> jobs_collection"
    "Attr_Resource a \<noteq> ''events''"
    using plain_granted by (simp_all add: list_all_iff)
  then show ?thesis by (simp add: needed_role_butlast [of events] ungranted_def)
next
  case collection
  then show ?thesis using collection_granted by (simp add: needed_role_butlast [of events] ungranted_def)
next
  case (metric m)
  then show ?thesis using metric_granted [OF metric] by simp
next
  case event
  then show ?thesis using event_granted [OF event] by (auto simp: ungranted_def jobs_collection_def)
qed

text \<open>
  C14. The permissions of the operator. Every request a reconcile sends to the API server is one of
  \<open>needed_role\<close>: it reads what it manages, writes the ModelDeployment and its status, creates Jobs and claims, applies
  Deployments, Services and budgets, deletes Deployments, Jobs and budgets, and nothing else; in particular it
  never deletes a claim or creates a ModelDeployment, though the role would let it. The role generated from the
  markers allows all of these requests but one, the deletion of a
  collection of Jobs, and, when the recorder does not use the core group for its events, the events.
\<close>

theorem role_covers_reconcile:
  assumes "documented_finalizers (R_Lib r)" "documented_kind r kind"
    and "documented_authorizer role_yaml allowed"
    and "c \<in> set (snd (reconcile_trace r req w))" "a \<in> set (requests events kind c)"
  shows "grants (needed_role events) a \<and> (allowed a \<longleftrightarrow> \<not> ungranted events a)"
  using request_granted [OF reconcile_expected [OF assms(1,2,4)] assms(5)] assms(3)
  by (simp add: documented_authorizer_def role_in_sync)

definition carried_kind :: "Object ApplyConfiguration \<Rightarrow> string \<times> string" where
  "carried_kind cfg = (case cfg of ApplyConfigurationFromUnstructured obj \<Rightarrow> resource_of obj)"

lemma resource_of_owned [simp]: "resource_of (owned md obj) = resource_of obj"
  by (cases obj) (simp_all add: owned_def)

lemma test_kind: "documented_kind (test_reconciler c q) carried_kind"
  by (auto simp: documented_kind_def applies_def carried_kind_def)

lemma role_covers_reconcile_witness:
  "ungranted '''' jobs_collection \<and> \<not> grants role_yaml jobs_collection \<and>
   grants (needed_role '''') jobs_collection"
proof -
  have c: "delete_jobs dying None \<in> set (snd (reconcile_trace torn_down request 0))"
    by (simp add: torn_down_trace)
  have a: "jobs_collection \<in> set (requests '''' carried_kind (delete_jobs dying None :: (string, Object) call))"
    by (simp add: ask_def jobs_collection_def)
  have lib: "documented_finalizers (R_Lib torn_down)" "documented_kind torn_down carried_kind"
    using test_kind by (simp_all add: torn_down_def)
  show ?thesis
    using role_covers_reconcile [OF lib _ c a, of "grants role_yaml"]
    by (simp add: documented_authorizer_def ungranted_def)
qed

subsection \<open>A teardown under the generated role\<close>

text \<open>The API server answers a request the authorizer does not allow with an error.\<close>

definition enforces :: "('w, 'e, 'u) ModelDeploymentReconciler \<Rightarrow> (attributes \<Rightarrow> bool) \<Rightarrow> bool" where
  "enforces r allowed \<longleftrightarrow>
     (\<not> allowed jobs_collection \<longrightarrow>
        (\<forall>ns lbls policy w. fst (run_state (Client_DeleteAllOf_Job (R_Client r) ns lbls policy) w) \<noteq> None))"

definition refused :: "('w, 'e, 'u) ModelDeploymentReconciler \<Rightarrow> bool" where
  "refused r \<longleftrightarrow> (\<forall>ns lbls policy w. fst (run_state (Client_DeleteAllOf_Job (R_Client r) ns lbls policy) w) \<noteq> None)"

lemma role_refuses:
  assumes "documented_authorizer role_yaml allowed" "enforces r allowed"
  shows "refused r"
  using assms collection_granted(2) by (simp add: documented_authorizer_def enforces_def refused_def role_in_sync)

text \<open>Without the deletion of the Jobs a teardown stops there.\<close>

lemma refusedD:
  "refused r \<Longrightarrow> run_state (Client_DeleteAllOf_Job (R_Client r) ns lbls policy) w = (None, w') \<Longrightarrow> False"
  unfolding refused_def by (metis fst_conv)

lemma finalize_refused:
  assumes "refused r"
  shows "emits (finalize r md) (\<lambda>out t. (\<forall>md' res. Update md' res \<notin> set t) \<and>
     (ContainsFinalizer (R_Lib r) md Finalizer \<longrightarrow> (\<exists>err. out = fail err)))"
  using assms unfolding finalize_def call_defs
  by (intro emits_intros) (auto dest: refusedD)

text \<open>A reconcile that takes the finalizer off, or that ends well on an object in deletion.\<close>

definition stuck :: "ObjectKey \<Rightarrow> 'e outcome \<Rightarrow> ('e, 'u) call list \<Rightarrow> bool" where
  "stuck req out t \<longleftrightarrow>
     (\<forall>md res. Update md res \<in> set t \<longrightarrow> has_finalizer Finalizer md) \<and>
     (\<forall>md t'. t = GetModelDeployment req (Inr md) # t' \<longrightarrow> deleting md \<longrightarrow> has_finalizer Finalizer md \<longrightarrow>
        (\<exists>err. out = fail err))"

lemma sync_run_keeps_finalizer:
  assumes "sync_run r md out t" "has_finalizer Finalizer md" "Update md' res \<in> set t"
  shows "has_finalizer Finalizer md'"
  using sync_run_update [OF assms(1,3)] assms(2) by (simp add: has_finalizer_def)

lemma Reconcile_refused:
  assumes "documented_finalizers (R_Lib r)" "refused r"
  shows "emits (Reconcile r req) (stuck req)"
proof -
  have ours: "ContainsFinalizer (R_Lib r) md f = has_finalizer f md" for md f
    using assms(1) by (simp add: documented_finalizers_def)
  have kept: "AddFinalizer (R_Lib r) md Finalizer = (md', b) \<Longrightarrow> has_finalizer Finalizer md'" for md md' b
    using assms(1) by (auto simp: documented_finalizers_def has_finalizer_def set_finalizers_def split: if_splits)
  show ?thesis
    unfolding Reconcile_def deleting_def [symmetric] call_defs
    by (intro emits_intros emits_mono [OF finalize_refused [OF assms(2)]] emits_mono [OF sync_emits])
       (auto simp: stuck_def ours dest: kept sync_run_keeps_finalizer)
qed


definition forbidden :: "(gotime, string, Object) ModelDeploymentReconciler" where
  "forbidden = test_reconciler
     ((test_client dying (Inl NotFound) (Inl NotFound) [] None)
        \<lparr>Client_DeleteAllOf_Job := (\<lambda>_ _ _. State_Monad.return (Some ''Forbidden''))\<rparr>) None"


end
