(* ===== verification/Storage.thy ===== *)
theory Storage
  imports Scenarios
begin

section \<open>What the API server stores\<close>

text \<open>
  The operator writes a ModelDeployment as JSON, and the API server fills in the defaults of the CRD
  before it validates and stores it. Both are in the markers and tags of
  \<open>modeldeployment_types.go\<close>: \<open>json:"...,omitempty"\<close> leaves a field out of the JSON when it has the zero value of
  its type, \<open>kubebuilder:default\<close> is what the server puts where a field is left out, and
  \<open>kubebuilder:validation\<close> what it checks then. The \<open>Wire\<close> records are the spec as JSON, with an
  option for every field that may be left out; \<open>encode\<close> and \<open>decode\<close> are \<open>encoding/json\<close> on the structs,
  \<open>defaulted\<close> the defaults, \<open>wire_valid\<close> the checks, and \<open>admit\<close> what a write stores.
\<close>

subsection \<open>The spec as JSON\<close>

record WireModel =
  wire_name :: string
  wire_revision :: "string option"
  wire_secretRef :: "LocalObjectReference option"

text \<open>
  \<open>resources\<close> is a struct, which \<open>omitempty\<close> never leaves out, though a manifest may. A map that is left out
  is an empty one.
\<close>

record WireRuntime =
  wire_engine :: "string option"
  wire_image :: "string option"
  wire_extraArgs :: "string list option"
  wire_port :: "int32 option"
  wire_loadTimeoutSeconds :: "int32 option"
  wire_resources :: "ResourceRequirements option"
  wire_nodeSelector :: labels
  wire_tolerations :: "Toleration list option"

record WireWeightCache =
  wire_size :: "Quantity option"
  wire_storageClassName :: "string option"
  wire_existingClaimName :: "string option"
  wire_mountPath :: "string option"
  wire_warmImage :: "string option"
  wire_warmTimeoutSeconds :: "int32 option"

record WireAutoscaling =
  wire_minReplicas :: "int32 option"
  wire_maxReplicas :: int32
  wire_targetQueueDepth :: "int32 option"
  wire_metricName :: "string option"
  wire_scaleUpStabilizationSeconds :: "int32 option"
  wire_scaleDownStabilizationSeconds :: "int32 option"
  wire_maxScaleUpStep :: "int32 option"

record WireDisruption =
  wire_minAvailable :: "int32 option"

record WireSpec =
  wire_model :: WireModel
  wire_runtime :: "WireRuntime option"
  wire_replicas :: "int32 option"
  wire_weightCache :: "WireWeightCache option"
  wire_autoscaling :: "WireAutoscaling option"
  wire_disruption :: "WireDisruption option"

text \<open>A field with \<open>omitempty\<close>, and how a field that is left out is read: as the zero value.\<close>

definition omitempty :: "'a \<Rightarrow> 'a \<Rightarrow> 'a option" where
  "omitempty zero x = (if x = zero then None else Some x)"

definition field :: "'a \<Rightarrow> 'a option \<Rightarrow> 'a" where
  "field zero f = (case f of None \<Rightarrow> zero | Some x \<Rightarrow> x)"

definition encode_model :: "ModelSpec \<Rightarrow> WireModel" where
  "encode_model m =
     \<lparr>wire_name = ModelSpec_Name m, wire_revision = omitempty '''' (ModelSpec_Revision m),
      wire_secretRef = ModelSpec_SecretRef m\<rparr>"

definition encode_runtime :: "RuntimeSpec \<Rightarrow> WireRuntime" where
  "encode_runtime rt =
     \<lparr>wire_engine = omitempty '''' (RuntimeSpec_Engine rt), wire_image = omitempty '''' (RuntimeSpec_Image rt),
      wire_extraArgs = omitempty [] (RuntimeSpec_ExtraArgs rt), wire_port = omitempty 0 (RuntimeSpec_Port rt),
      wire_loadTimeoutSeconds = omitempty 0 (RuntimeSpec_LoadTimeoutSeconds rt),
      wire_resources = Some (RuntimeSpec_Resources rt), wire_nodeSelector = RuntimeSpec_NodeSelector rt,
      wire_tolerations = omitempty [] (RuntimeSpec_Tolerations rt)\<rparr>"

definition encode_cache :: "WeightCacheSpec \<Rightarrow> WireWeightCache" where
  "encode_cache wc =
     \<lparr>wire_size = WeightCacheSpec_Size wc, wire_storageClassName = WeightCacheSpec_StorageClassName wc,
      wire_existingClaimName = omitempty '''' (WeightCacheSpec_ExistingClaimName wc),
      wire_mountPath = omitempty '''' (WeightCacheSpec_MountPath wc),
      wire_warmImage = omitempty '''' (WeightCacheSpec_WarmImage wc),
      wire_warmTimeoutSeconds = omitempty 0 (WeightCacheSpec_WarmTimeoutSeconds wc)\<rparr>"

definition encode_autoscaling :: "AutoscalingSpec \<Rightarrow> WireAutoscaling" where
  "encode_autoscaling as =
     \<lparr>wire_minReplicas = omitempty 0 (AutoscalingSpec_MinReplicas as),
      wire_maxReplicas = AutoscalingSpec_MaxReplicas as,
      wire_targetQueueDepth = omitempty 0 (AutoscalingSpec_TargetQueueDepth as),
      wire_metricName = omitempty '''' (AutoscalingSpec_MetricName as),
      wire_scaleUpStabilizationSeconds = omitempty 0 (AutoscalingSpec_ScaleUpStabilizationSeconds as),
      wire_scaleDownStabilizationSeconds = omitempty 0 (AutoscalingSpec_ScaleDownStabilizationSeconds as),
      wire_maxScaleUpStep = omitempty 0 (AutoscalingSpec_MaxScaleUpStep as)\<rparr>"

definition encode :: "ModelDeploymentSpec \<Rightarrow> WireSpec" where
  "encode sp =
     \<lparr>wire_model = encode_model (Spec_Model sp), wire_runtime = Some (encode_runtime (Spec_Runtime sp)),
      wire_replicas = omitempty 0 (Spec_Replicas sp),
      wire_weightCache = map_option encode_cache (Spec_WeightCache sp),
      wire_autoscaling = map_option encode_autoscaling (Spec_Autoscaling sp),
      wire_disruption =
        Some \<lparr>wire_minAvailable = omitempty 0 (DisruptionSpec_MinAvailable (Spec_Disruption sp))\<rparr>\<rparr>"

definition decode_model :: "WireModel \<Rightarrow> ModelSpec" where
  "decode_model w =
     \<lparr>ModelSpec_Name = wire_name w, ModelSpec_Revision = field '''' (wire_revision w),
      ModelSpec_SecretRef = wire_secretRef w\<rparr>"

definition decode_runtime :: "WireRuntime \<Rightarrow> RuntimeSpec" where
  "decode_runtime w =
     \<lparr>RuntimeSpec_Engine = field '''' (wire_engine w), RuntimeSpec_Image = field '''' (wire_image w),
      RuntimeSpec_ExtraArgs = field [] (wire_extraArgs w), RuntimeSpec_Port = field 0 (wire_port w),
      RuntimeSpec_LoadTimeoutSeconds = field 0 (wire_loadTimeoutSeconds w),
      RuntimeSpec_Resources = field no_resources (wire_resources w), RuntimeSpec_NodeSelector = wire_nodeSelector w,
      RuntimeSpec_Tolerations = field [] (wire_tolerations w)\<rparr>"

definition decode_cache :: "WireWeightCache \<Rightarrow> WeightCacheSpec" where
  "decode_cache w =
     \<lparr>WeightCacheSpec_Size = wire_size w, WeightCacheSpec_StorageClassName = wire_storageClassName w,
      WeightCacheSpec_ExistingClaimName = field '''' (wire_existingClaimName w),
      WeightCacheSpec_MountPath = field '''' (wire_mountPath w),
      WeightCacheSpec_WarmImage = field '''' (wire_warmImage w),
      WeightCacheSpec_WarmTimeoutSeconds = field 0 (wire_warmTimeoutSeconds w)\<rparr>"

definition decode_autoscaling :: "WireAutoscaling \<Rightarrow> AutoscalingSpec" where
  "decode_autoscaling w =
     \<lparr>AutoscalingSpec_MinReplicas = field 0 (wire_minReplicas w),
      AutoscalingSpec_MaxReplicas = wire_maxReplicas w,
      AutoscalingSpec_TargetQueueDepth = field 0 (wire_targetQueueDepth w),
      AutoscalingSpec_MetricName = field '''' (wire_metricName w),
      AutoscalingSpec_ScaleUpStabilizationSeconds = field 0 (wire_scaleUpStabilizationSeconds w),
      AutoscalingSpec_ScaleDownStabilizationSeconds = field 0 (wire_scaleDownStabilizationSeconds w),
      AutoscalingSpec_MaxScaleUpStep = field 0 (wire_maxScaleUpStep w)\<rparr>"

text \<open>The JSON object \<open>{}\<close> for the runtime, and one for the budget.\<close>

definition empty_runtime :: WireRuntime where
  "empty_runtime =
     \<lparr>wire_engine = None, wire_image = None, wire_extraArgs = None, wire_port = None,
      wire_loadTimeoutSeconds = None, wire_resources = None, wire_nodeSelector = Map.empty,
      wire_tolerations = None\<rparr>"

definition empty_disruption :: WireDisruption where
  "empty_disruption = \<lparr>wire_minAvailable = None\<rparr>"

definition decode :: "WireSpec \<Rightarrow> ModelDeploymentSpec" where
  "decode w =
     \<lparr>Spec_Model = decode_model (wire_model w),
      Spec_Runtime = decode_runtime (field empty_runtime (wire_runtime w)),
      Spec_Replicas = field 0 (wire_replicas w),
      Spec_WeightCache = map_option decode_cache (wire_weightCache w),
      Spec_Autoscaling = map_option decode_autoscaling (wire_autoscaling w),
      Spec_Disruption =
        \<lparr>DisruptionSpec_MinAvailable = field 0 (wire_minAvailable (field empty_disruption (wire_disruption w)))\<rparr>\<rparr>"

lemma field_omitempty [simp]: "field zero (omitempty zero x) = x"
  by (simp add: field_def omitempty_def)

lemma field_simps [simp]: "field zero None = zero" "field zero (Some x) = x"
  by (simp_all add: field_def)

text \<open>Without the server's defaults nothing is lost on the way.\<close>

lemma decode_encode: "decode (encode sp) = sp"
proof -
  have "decode_model (encode_model m) = m" "decode_runtime (encode_runtime rt) = rt"
    "decode_cache (encode_cache wc) = wc" "decode_autoscaling (encode_autoscaling as) = as" for m rt wc as
    by (simp_all add: decode_model_def encode_model_def decode_runtime_def encode_runtime_def decode_cache_def
        encode_cache_def decode_autoscaling_def encode_autoscaling_def)
  then show ?thesis
    by (simp add: decode_def encode_def option.map_comp comp_def option.map_ident)
qed

subsection \<open>Defaults and validation\<close>

definition or_default :: "'a \<Rightarrow> 'a option \<Rightarrow> 'a option" where
  "or_default d f = (case f of None \<Rightarrow> Some d | Some x \<Rightarrow> Some x)"

definition default_model :: "WireModel \<Rightarrow> WireModel" where
  "default_model w = w\<lparr>wire_revision := or_default ''main'' (wire_revision w)\<rparr>"

definition default_runtime :: "WireRuntime \<Rightarrow> WireRuntime" where
  "default_runtime w =
     w\<lparr>wire_engine := or_default ''vllm'' (wire_engine w), wire_port := or_default 8000 (wire_port w),
       wire_loadTimeoutSeconds := or_default 900 (wire_loadTimeoutSeconds w)\<rparr>"

definition default_cache :: "WireWeightCache \<Rightarrow> WireWeightCache" where
  "default_cache w =
     w\<lparr>wire_mountPath := or_default ''/models'' (wire_mountPath w),
       wire_warmTimeoutSeconds := or_default 3600 (wire_warmTimeoutSeconds w)\<rparr>"

definition default_autoscaling :: "WireAutoscaling \<Rightarrow> WireAutoscaling" where
  "default_autoscaling w =
     w\<lparr>wire_minReplicas := or_default 1 (wire_minReplicas w),
       wire_targetQueueDepth := or_default 4 (wire_targetQueueDepth w),
       wire_metricName := or_default ''vllm:num_requests_waiting'' (wire_metricName w),
       wire_scaleUpStabilizationSeconds := or_default 60 (wire_scaleUpStabilizationSeconds w),
       wire_scaleDownStabilizationSeconds := or_default 900 (wire_scaleDownStabilizationSeconds w),
       wire_maxScaleUpStep := or_default 2 (wire_maxScaleUpStep w)\<rparr>"

definition default_disruption :: "WireDisruption \<Rightarrow> WireDisruption" where
  "default_disruption w = w\<lparr>wire_minAvailable := or_default 1 (wire_minAvailable w)\<rparr>"

text \<open>A default of \<open>{}\<close> is filled in first and then gets the defaults of its own fields.\<close>

definition defaulted :: "WireSpec \<Rightarrow> WireSpec" where
  "defaulted w =
     \<lparr>wire_model = default_model (wire_model w),
      wire_runtime = map_option default_runtime (or_default empty_runtime (wire_runtime w)),
      wire_replicas = or_default 1 (wire_replicas w),
      wire_weightCache = map_option default_cache (wire_weightCache w),
      wire_autoscaling = map_option default_autoscaling (wire_autoscaling w),
      wire_disruption = map_option default_disruption (or_default empty_disruption (wire_disruption w))\<rparr>"

text \<open>The validation of a field that is present.\<close>

definition present :: "('a \<Rightarrow> bool) \<Rightarrow> 'a option \<Rightarrow> bool" where
  "present P f = (case f of None \<Rightarrow> True | Some x \<Rightarrow> P x)"

definition at_least :: "int \<Rightarrow> int32 \<Rightarrow> bool" where
  "at_least m x \<longleftrightarrow> m \<le> sint x"

definition wire_valid_runtime :: "WireRuntime \<Rightarrow> bool" where
  "wire_valid_runtime w \<longleftrightarrow>
     present (\<lambda>e. e = ''vllm'' \<or> e = ''ollama'') (wire_engine w) \<and>
     present (\<lambda>p. 1 \<le> sint p \<and> sint p \<le> 65535) (wire_port w) \<and>
     present (at_least 30) (wire_loadTimeoutSeconds w)"

definition wire_valid_cache :: "WireWeightCache \<Rightarrow> bool" where
  "wire_valid_cache w \<longleftrightarrow>
     (wire_size w \<noteq> None \<or> wire_existingClaimName w \<noteq> None) \<and>
     present (at_least 60) (wire_warmTimeoutSeconds w)"

definition wire_valid_autoscaling :: "WireAutoscaling \<Rightarrow> bool" where
  "wire_valid_autoscaling w \<longleftrightarrow>
     present (at_least 0) (wire_minReplicas w) \<and> at_least 1 (wire_maxReplicas w) \<and>
     present (at_least 1) (wire_targetQueueDepth w) \<and>
     present (at_least 0) (wire_scaleUpStabilizationSeconds w) \<and>
     present (at_least 0) (wire_scaleDownStabilizationSeconds w) \<and>
     present (at_least 1) (wire_maxScaleUpStep w)"

definition wire_valid :: "WireSpec \<Rightarrow> bool" where
  "wire_valid w \<longleftrightarrow>
     wire_name (wire_model w) \<noteq> '''' \<and> present wire_valid_runtime (wire_runtime w) \<and>
     present (at_least 0) (wire_replicas w) \<and> present wire_valid_cache (wire_weightCache w) \<and>
     present wire_valid_autoscaling (wire_autoscaling w) \<and>
     present (\<lambda>d. present (at_least 0) (wire_minAvailable d)) (wire_disruption w)"

text \<open>What a write leaves in the store, as a later read decodes it; \<open>None\<close> is a write that is refused.\<close>

definition admit :: "WireSpec \<Rightarrow> ModelDeploymentSpec option" where
  "admit w = (if wire_valid (defaulted w) then Some (decode (defaulted w)) else None)"

subsection \<open>What becomes of a spec the operator writes\<close>

definition refill :: "'a \<Rightarrow> 'a \<Rightarrow> 'a \<Rightarrow> 'a" where
  "refill d zero x = (if x = zero then d else x)"

definition refilled_runtime :: "RuntimeSpec \<Rightarrow> RuntimeSpec" where
  "refilled_runtime rt =
     rt\<lparr>RuntimeSpec_Engine := refill ''vllm'' '''' (RuntimeSpec_Engine rt),
        RuntimeSpec_Port := refill 8000 0 (RuntimeSpec_Port rt),
        RuntimeSpec_LoadTimeoutSeconds := refill 900 0 (RuntimeSpec_LoadTimeoutSeconds rt)\<rparr>"

definition refilled_cache :: "WeightCacheSpec \<Rightarrow> WeightCacheSpec" where
  "refilled_cache wc =
     wc\<lparr>WeightCacheSpec_MountPath := refill ''/models'' '''' (WeightCacheSpec_MountPath wc),
        WeightCacheSpec_WarmTimeoutSeconds := refill 3600 0 (WeightCacheSpec_WarmTimeoutSeconds wc)\<rparr>"

definition refilled_autoscaling :: "AutoscalingSpec \<Rightarrow> AutoscalingSpec" where
  "refilled_autoscaling as =
     as\<lparr>AutoscalingSpec_MinReplicas := refill 1 0 (AutoscalingSpec_MinReplicas as),
        AutoscalingSpec_TargetQueueDepth := refill 4 0 (AutoscalingSpec_TargetQueueDepth as),
        AutoscalingSpec_MetricName := refill ''vllm:num_requests_waiting'' '''' (AutoscalingSpec_MetricName as),
        AutoscalingSpec_ScaleUpStabilizationSeconds := refill 60 0 (AutoscalingSpec_ScaleUpStabilizationSeconds as),
        AutoscalingSpec_ScaleDownStabilizationSeconds :=
          refill 900 0 (AutoscalingSpec_ScaleDownStabilizationSeconds as),
        AutoscalingSpec_MaxScaleUpStep := refill 2 0 (AutoscalingSpec_MaxScaleUpStep as)\<rparr>"

text \<open>The spec with every zero value that has a default replaced by the default.\<close>

definition refilled :: "ModelDeploymentSpec \<Rightarrow> ModelDeploymentSpec" where
  "refilled sp =
     sp\<lparr>Spec_Model := (Spec_Model sp)\<lparr>ModelSpec_Revision := refill ''main'' '''' (ModelSpec_Revision (Spec_Model sp))\<rparr>,
        Spec_Runtime := refilled_runtime (Spec_Runtime sp),
        Spec_Replicas := refill 1 0 (Spec_Replicas sp),
        Spec_WeightCache := map_option refilled_cache (Spec_WeightCache sp),
        Spec_Autoscaling := map_option refilled_autoscaling (Spec_Autoscaling sp),
        Spec_Disruption := \<lparr>DisruptionSpec_MinAvailable =
          refill 1 0 (DisruptionSpec_MinAvailable (Spec_Disruption sp))\<rparr>\<rparr>"

lemma field_default [simp]: "field zero (or_default d (omitempty zero x)) = refill d zero x"
  by (simp add: field_def or_default_def omitempty_def refill_def)

lemma decode_defaulted: "decode (defaulted (encode sp)) = refilled sp"
proof -
  have "decode_runtime (default_runtime (encode_runtime rt)) = refilled_runtime rt"
    "decode_cache (default_cache (encode_cache wc)) = refilled_cache wc"
    "decode_autoscaling (default_autoscaling (encode_autoscaling as)) = refilled_autoscaling as"
    "decode_model (default_model (encode_model m)) = m\<lparr>ModelSpec_Revision := refill ''main'' '''' (ModelSpec_Revision m)\<rparr>"
    for rt wc as m
    by (simp_all add: decode_model_def encode_model_def decode_runtime_def encode_runtime_def decode_cache_def
        encode_cache_def decode_autoscaling_def encode_autoscaling_def default_runtime_def default_cache_def
        default_autoscaling_def default_model_def refilled_runtime_def refilled_cache_def refilled_autoscaling_def)
  then show ?thesis
    by (simp add: decode_def encode_def defaulted_def refilled_def default_disruption_def option.map_comp comp_def
        or_default_def [of _ "Some _"])
qed

text \<open>The zero values a valid spec may have in a field with a default.\<close>

definition explicit_autoscaling :: "AutoscalingSpec \<Rightarrow> bool" where
  "explicit_autoscaling as \<longleftrightarrow>
     AutoscalingSpec_MinReplicas as \<noteq> 0 \<and> AutoscalingSpec_MetricName as \<noteq> '''' \<and>
     AutoscalingSpec_ScaleUpStabilizationSeconds as \<noteq> 0 \<and> AutoscalingSpec_ScaleDownStabilizationSeconds as \<noteq> 0"

definition explicit :: "ModelDeploymentSpec \<Rightarrow> bool" where
  "explicit sp \<longleftrightarrow>
     ModelSpec_Revision (Spec_Model sp) \<noteq> '''' \<and> Spec_Replicas sp \<noteq> 0 \<and>
     DisruptionSpec_MinAvailable (Spec_Disruption sp) \<noteq> 0 \<and>
     present (\<lambda>wc. WeightCacheSpec_MountPath wc \<noteq> '''') (Spec_WeightCache sp) \<and>
     present explicit_autoscaling (Spec_Autoscaling sp)"

text \<open>What \<open>crd_valid\<close> says beyond the markers: an empty name is no name of a claim.\<close>

definition writable :: "ModelDeploymentSpec \<Rightarrow> bool" where
  "writable sp \<longleftrightarrow>
     present (\<lambda>wc. WeightCacheSpec_Size wc \<noteq> None \<or> WeightCacheSpec_ExistingClaimName wc \<noteq> '''') (Spec_WeightCache sp)"

lemma present_simps [simp]:
  "present P None" "present P (Some x) \<longleftrightarrow> P x" "present P (map_option f y) \<longleftrightarrow> present (\<lambda>x. P (f x)) y"
  "present P (or_default d y) \<longleftrightarrow> P (field d y)"
  by (simp_all add: present_def or_default_def field_def split: option.splits)

lemma field_or_default [simp]:
  "field zero (or_default d y) = field d y" "or_default d (Some x) = Some x"
  "field zero (map_option f (or_default d y)) = f (field d y)"
  by (simp_all add: field_def or_default_def split: option.splits)

text \<open>The rest of \<open>crd_valid\<close>: the ranges of the fields.\<close>

definition in_range :: "ModelDeploymentSpec \<Rightarrow> bool" where
  "in_range sp \<longleftrightarrow>
     ModelSpec_Name (Spec_Model sp) \<noteq> '''' \<and> valid_runtime (Spec_Runtime sp) \<and> 0 \<le> sint (Spec_Replicas sp) \<and>
     present (\<lambda>wc. 60 \<le> sint (WeightCacheSpec_WarmTimeoutSeconds wc)) (Spec_WeightCache sp) \<and>
     present valid_autoscaling (Spec_Autoscaling sp) \<and>
     0 \<le> sint (DisruptionSpec_MinAvailable (Spec_Disruption sp))"

lemma crd_valid_iff: "crd_valid sp \<longleftrightarrow> in_range sp \<and> writable sp"
  by (cases "Spec_WeightCache sp"; cases "Spec_Autoscaling sp")
    (auto simp: crd_valid_def in_range_def writable_def valid_weight_cache_def)

lemma admitted_in_range:
  assumes "admit w = Some sp"
  shows "in_range sp"
proof -
  have "wire_valid_runtime (default_runtime rt) \<Longrightarrow> valid_runtime (decode_runtime (default_runtime rt))" for rt
    by (simp add: wire_valid_runtime_def default_runtime_def decode_runtime_def valid_runtime_def EngineVLLM_def
        EngineOllama_def at_least_def)
  moreover have "wire_valid_autoscaling (default_autoscaling as) \<Longrightarrow>
      valid_autoscaling (decode_autoscaling (default_autoscaling as))" for as
    by (simp add: wire_valid_autoscaling_def default_autoscaling_def decode_autoscaling_def valid_autoscaling_def
        at_least_def)
  moreover have "wire_valid_cache (default_cache wc) \<Longrightarrow>
      60 \<le> sint (WeightCacheSpec_WarmTimeoutSeconds (decode_cache (default_cache wc)))" for wc
    by (simp add: wire_valid_cache_def default_cache_def decode_cache_def at_least_def)
  ultimately show ?thesis
    using assms
    by (cases "wire_weightCache w"; cases "wire_autoscaling w")
      (auto simp: admit_def wire_valid_def in_range_def decode_def defaulted_def decode_model_def default_model_def
        default_disruption_def at_least_def split: if_splits)
qed

lemma encoded_valid: "in_range sp \<Longrightarrow> wire_valid (defaulted (encode sp)) \<longleftrightarrow> writable sp"
proof -
  assume sp: "in_range sp"
  have rt: "valid_runtime rt \<Longrightarrow> wire_valid_runtime (default_runtime (encode_runtime rt))" for rt
    by (auto simp: wire_valid_runtime_def default_runtime_def encode_runtime_def valid_runtime_def EngineVLLM_def
        EngineOllama_def at_least_def omitempty_def)
  have as: "valid_autoscaling as \<Longrightarrow> wire_valid_autoscaling (default_autoscaling (encode_autoscaling as))" for as
    by (auto simp: wire_valid_autoscaling_def default_autoscaling_def encode_autoscaling_def valid_autoscaling_def
        at_least_def omitempty_def)
  have wc: "60 \<le> sint (WeightCacheSpec_WarmTimeoutSeconds wc) \<Longrightarrow>
      wire_valid_cache (default_cache (encode_cache wc)) \<longleftrightarrow>
        WeightCacheSpec_Size wc \<noteq> None \<or> WeightCacheSpec_ExistingClaimName wc \<noteq> ''''" for wc
    by (auto simp: wire_valid_cache_def default_cache_def encode_cache_def at_least_def omitempty_def)
  show ?thesis
    using sp rt as wc
    by (cases "Spec_WeightCache sp"; cases "Spec_Autoscaling sp")
      (auto simp: in_range_def writable_def wire_valid_def encode_def defaulted_def encode_model_def default_model_def
        default_disruption_def at_least_def omitempty_def)
qed

lemma refill_same: "refill d zero x = x \<longleftrightarrow> x \<noteq> zero \<or> d = zero"
  by (auto simp: refill_def)

lemma refilled_same:
  assumes "in_range sp"
  shows "refilled sp = sp \<longleftrightarrow> explicit sp"
proof -
  have rt: "valid_runtime rt \<Longrightarrow> refilled_runtime rt = rt" for rt
    by (cases rt) (auto simp: valid_runtime_def refilled_runtime_def refill_def EngineVLLM_def EngineOllama_def)
  have as: "valid_autoscaling as \<Longrightarrow> refilled_autoscaling as = as \<longleftrightarrow> explicit_autoscaling as" for as
    by (cases as) (auto simp: valid_autoscaling_def refilled_autoscaling_def refill_same explicit_autoscaling_def)
  have wc: "60 \<le> sint (WeightCacheSpec_WarmTimeoutSeconds wc) \<Longrightarrow>
      refilled_cache wc = wc \<longleftrightarrow> WeightCacheSpec_MountPath wc \<noteq> ''''" for wc
    by (cases wc) (auto simp: refilled_cache_def refill_same)
  have m: "(m\<lparr>ModelSpec_Revision := x\<rparr> = m) \<longleftrightarrow> x = ModelSpec_Revision m" for m :: ModelSpec and x
    by (cases m) auto
  have d: "(\<lparr>DisruptionSpec_MinAvailable = x\<rparr> = y) \<longleftrightarrow> x = DisruptionSpec_MinAvailable y" for x y
    by (cases y) auto
  have "refilled sp = sp \<longleftrightarrow>
      refill ''main'' '''' (ModelSpec_Revision (Spec_Model sp)) = ModelSpec_Revision (Spec_Model sp) \<and>
      refill 1 0 (Spec_Replicas sp) = Spec_Replicas sp \<and>
      map_option refilled_cache (Spec_WeightCache sp) = Spec_WeightCache sp \<and>
      map_option refilled_autoscaling (Spec_Autoscaling sp) = Spec_Autoscaling sp \<and>
      refill 1 0 (DisruptionSpec_MinAvailable (Spec_Disruption sp)) = DisruptionSpec_MinAvailable (Spec_Disruption sp)"
    using assms m [where m = "Spec_Model sp"] d [where y = "Spec_Disruption sp"] rt [of "Spec_Runtime sp"]
    by (cases sp) (simp add: refilled_def in_range_def)
  then show ?thesis
    using assms as wc
    by (cases "Spec_WeightCache sp"; cases "Spec_Autoscaling sp")
      (auto simp: explicit_def in_range_def refill_same)
qed

text \<open>
  C16. What an update of the operator does to a spec. Take any spec a user can have stored. When the operator reads it
  and writes it back, the API server accepts it exactly if it is valid in the stricter sense that a cache has
  a size or a claim with a name; and then it stores the spec with every zero value that has a default
  replaced by the default. So the spec survives unchanged exactly if it is \<open>explicit\<close>: no zero count,
  minimum, budget or window, and no empty revision, mount path or metric.
\<close>

theorem operator_update_roundtrip:
  assumes "admit w = Some sp"
  shows "admit (encode sp) = (if crd_valid sp then Some (refilled sp) else None) \<and>
     (refilled sp = sp \<longleftrightarrow> explicit sp)"
  using admitted_in_range [OF assms] encoded_valid [of sp] refilled_same [of sp]
  by (simp add: admit_def decode_defaulted crd_valid_iff)

text \<open>A manifest with only the name of a model, one with an idle minimum of zero, and one with an empty claim name.\<close>

definition minimal :: "string \<Rightarrow> WireSpec" where
  "minimal name =
     \<lparr>wire_model = \<lparr>wire_name = name, wire_revision = None, wire_secretRef = None\<rparr>, wire_runtime = None,
      wire_replicas = None, wire_weightCache = None, wire_autoscaling = None, wire_disruption = None\<rparr>"

definition idle :: WireSpec where
  "idle = (minimal ''qwen'')
     \<lparr>wire_replicas := Some 0,
      wire_autoscaling := Some \<lparr>wire_minReplicas = Some 0, wire_maxReplicas = 8, wire_targetQueueDepth = None,
        wire_metricName = None, wire_scaleUpStabilizationSeconds = None,
        wire_scaleDownStabilizationSeconds = None, wire_maxScaleUpStep = None\<rparr>\<rparr>"

definition nameless :: WireSpec where
  "nameless = (minimal ''qwen'')
     \<lparr>wire_weightCache := Some \<lparr>wire_size = None, wire_storageClassName = None,
        wire_existingClaimName = Some '''', wire_mountPath = None, wire_warmImage = None,
        wire_warmTimeoutSeconds = None\<rparr>\<rparr>"

lemmas wire_defs = minimal_def defaulted_def default_model_def default_runtime_def
  default_cache_def default_autoscaling_def default_disruption_def empty_runtime_def empty_disruption_def
  wire_valid_def wire_valid_runtime_def wire_valid_cache_def wire_valid_autoscaling_def at_least_def

lemma examples_admitted:
  "name \<noteq> '''' \<Longrightarrow> admit (minimal name) = Some (decode (defaulted (minimal name)))"
  "admit idle = Some (decode (defaulted idle))" "admit nameless = Some (decode (defaulted nameless))"
  by (simp_all add: admit_def wire_defs idle_def nameless_def)

text \<open>The least manifest is complete: it is valid and survives every write.\<close>

lemma minimal_complete:
  assumes "name \<noteq> ''''"
  shows "explicit (decode (defaulted (minimal name)))" "crd_valid (decode (defaulted (minimal name)))"
  using admitted_in_range [OF examples_admitted(1) [OF assms]]
  by (simp_all add: crd_valid_iff explicit_def writable_def decode_def decode_model_def wire_defs)

lemma operator_update_roundtrip_witness:
  "admit (encode (decode (defaulted (minimal ''qwen'')))) = Some (decode (defaulted (minimal ''qwen''))) \<and>
   refilled (decode (defaulted idle)) \<noteq> decode (defaulted idle) \<and>
   admit (encode (decode (defaulted nameless))) = None"
proof -
  have idle: "\<not> explicit (decode (defaulted idle))"
    by (simp add: explicit_def idle_def decode_def wire_defs)
  have nameless: "\<not> crd_valid (decode (defaulted nameless))"
    by (simp add: crd_valid_iff writable_def nameless_def decode_def decode_cache_def wire_defs)
  show ?thesis
    using operator_update_roundtrip [OF examples_admitted(1) [of "''qwen''"]]
      operator_update_roundtrip [OF examples_admitted(2)] operator_update_roundtrip [OF examples_admitted(3)]
      minimal_complete [of "''qwen''"] idle nameless by simp
qed

subsection \<open>The writes of a reconcile\<close>

text \<open>An API server that stores what \<open>admit\<close> says and answers with what it stored.\<close>

fun stored_update :: "('e, 'u) call \<Rightarrow> bool" where
  "stored_update (Update md (Inr md')) \<longleftrightarrow> admit (encode (MD_Spec md)) = Some (MD_Spec md')"
| "stored_update _ \<longleftrightarrow> True"

lemma admit_encode: "admit (encode sp) = Some sp' \<Longrightarrow> sp' = refilled sp"
  by (simp add: admit_def decode_defaulted split: if_splits)

lemma refill_nonzero: "d \<noteq> zero \<Longrightarrow> refill d zero x \<noteq> zero"
  by (simp add: refill_def)

lemma refilled_nonzero:
  "Spec_Replicas (refilled sp) = (if Spec_Replicas sp = 0 then 1 else Spec_Replicas sp)"
  "DisruptionSpec_MinAvailable (Spec_Disruption (refilled sp)) \<noteq> 0"
  "\<forall>as. Spec_Autoscaling (refilled sp) = Some as \<longrightarrow> AutoscalingSpec_MinReplicas as \<noteq> 0"
proof -
  have "AutoscalingSpec_MinReplicas (refilled_autoscaling as) \<noteq> 0" for as
    by (simp add: refilled_autoscaling_def refill_nonzero)
  then show "\<forall>as. Spec_Autoscaling (refilled sp) = Some as \<longrightarrow> AutoscalingSpec_MinReplicas as \<noteq> 0"
    by (auto simp: refilled_def)
qed (simp_all add: refilled_def refill_nonzero refill_def)

lemma set_finalizers_spec [simp]: "MD_Spec (set_finalizers fs md) = MD_Spec md"
  by (simp add: set_finalizers_def)

lemma reconcile_run_update_spec:
  assumes "reconcile_run r req out t" "documented_finalizers (R_Lib r)" "Update md0 res \<in> set t"
  obtains md where "GetModelDeployment req (Inr md) \<in> set t" "MD_Spec md0 = (MD_Spec md)\<lparr>Spec_Replicas := Replicas md0\<rparr>"
  using assms(1,2)
proof (cases rule: reconcile_run_cases)
  case (finalizes md t')
  from finalizes(3) have "MD_Spec md0 = MD_Spec md"
    by cases (use assms(2,3) finalizes(1) in \<open>auto simp: documented_finalizers_def\<close>)
  then show thesis using finalizes(1) by (intro that [of md]) auto
next
  case (claims md res)
  then show thesis using assms(3) by (intro that [of md]) auto
next
  case (syncs md t')
  then have "Update md0 res \<in> set t'" using assms(3) by simp
  with syncs(4) obtain n where "md0 = md\<lparr>MD_Spec := (MD_Spec md)\<lparr>Spec_Replicas := n\<rparr>\<rparr>"
    by (rule sync_run_call) (auto dest: cache_run_calls(3))
  then show thesis using syncs(1) by (intro that [of md]) auto
qed (use assms(3) in auto)

text \<open>
  C17. No zero survives a write of the operator. Whatever a reconcile writes to the spec (the finalizer, or a replica
  decision), the object that is stored is the one it read, with the count it decided, and with every zero
  value that has a default replaced by the default: a count of zero becomes one, so do a minimum of zero and
  a budget of zero. Scaling to zero and \<open>minReplicas: 0\<close> do not last beyond the first write.
\<close>

theorem zero_is_not_kept:
  assumes "documented_finalizers (R_Lib r)"
    and "list_all stored_update (snd (reconcile_trace r req w))"
    and "Update md0 (Inr md1) \<in> set (snd (reconcile_trace r req w))"
  shows "(\<exists>md. GetModelDeployment req (Inr md) \<in> set (snd (reconcile_trace r req w)) \<and>
       MD_Spec md1 = refilled ((MD_Spec md)\<lparr>Spec_Replicas := Replicas md0\<rparr>)) \<and>
     Replicas md1 = (if Replicas md0 = 0 then 1 else Replicas md0) \<and>
     DisruptionSpec_MinAvailable (Spec_Disruption (MD_Spec md1)) \<noteq> 0 \<and>
     (\<forall>as. Spec_Autoscaling (MD_Spec md1) = Some as \<longrightarrow> AutoscalingSpec_MinReplicas as \<noteq> 0)"
proof -
  have spec: "MD_Spec md1 = refilled (MD_Spec md0)"
    using assms(2,3) admit_encode by (metis list_all_iff stored_update.simps(1))
  obtain md where md: "GetModelDeployment req (Inr md) \<in> set (snd (reconcile_trace r req w))"
    "MD_Spec md0 = (MD_Spec md)\<lparr>Spec_Replicas := Replicas md0\<rparr>"
    by (rule reconcile_run_update_spec [OF trace_split [OF refl] assms(1,3)])
  then have "MD_Spec md1 = refilled ((MD_Spec md)\<lparr>Spec_Replicas := Replicas md0\<rparr>)" using spec by simp
  moreover have "Replicas md1 = (if Replicas md0 = 0 then 1 else Replicas md0)"
    "DisruptionSpec_MinAvailable (Spec_Disruption (MD_Spec md1)) \<noteq> 0"
    "\<forall>as. Spec_Autoscaling (MD_Spec md1) = Some as \<longrightarrow> AutoscalingSpec_MinReplicas as \<noteq> 0"
    using refilled_nonzero [of "MD_Spec md0"] by (simp_all add: spec)
  ultimately show ?thesis using md(1) by blast
qed

text \<open>A new object that asks for no replicas, in a cluster that stores what it is sent.\<close>

definition switched_off :: ModelDeployment where
  "switched_off = fixture\<lparr>MD_Spec := (MD_Spec fixture)\<lparr>Spec_Replicas := 0\<rparr>\<rparr>"

definition storing :: "ModelDeployment \<Rightarrow> (gotime, string, Object) ModelDeploymentReconciler" where
  "storing md = test_reconciler
     ((test_client md (Inl NotFound) (Inl NotFound) [] None)
        \<lparr>Client_Update := (\<lambda>md. State_Monad.return
           (case admit (encode (MD_Spec md)) of
              None \<Rightarrow> Inl ''Invalid''
            | Some sp \<Rightarrow> Inr (md\<lparr>MD_Spec := sp\<rparr>)))\<rparr>) None"

lemma switched_off_simps:
  "\<not> deleting switched_off" "\<not> has_finalizer Finalizer switched_off" "Replicas switched_off = 0"
  "crd_valid (MD_Spec switched_off)"
  using fixture_valid
  by (simp_all add: switched_off_def deleting_def has_finalizer_def crd_valid_def)
    (simp_all add: fixture_def object_meta_def metaTime_IsZero_def)

lemma switched_off_trace:
  "snd (reconcile_trace (storing switched_off) request 0) =
     [GetModelDeployment request (Inr switched_off),
      Update (set_finalizers [Finalizer] switched_off)
        (Inr ((set_finalizers [Finalizer] switched_off)\<lparr>MD_Spec := refilled (MD_Spec switched_off)\<rparr>))]"
proof -
  have "admit (encode (MD_Spec switched_off)) = Some (refilled (MD_Spec switched_off))"
    using switched_off_simps(4) encoded_valid by (simp add: admit_def decode_defaulted crd_valid_iff)
  moreover have "ObjectMeta_Finalizers (MD_ObjectMeta switched_off) = []"
    by (simp add: switched_off_def fixture_def object_meta_def)
  ultimately show ?thesis
    using switched_off_simps(1,2)
    by (simp add: reconcile_trace_def Reconcile_def storing_def test_calls test_library_def)
qed

lemma zero_is_not_kept_witness:
  "Replicas switched_off = 0 \<and>
   (\<exists>md0 md1. Update md0 (Inr md1) \<in> set (snd (reconcile_trace (storing switched_off) request 0)) \<and>
      Replicas md1 = 1)"
proof -
  let ?md0 = "set_finalizers [Finalizer] switched_off"
  let ?md1 = "?md0\<lparr>MD_Spec := refilled (MD_Spec switched_off)\<rparr>"
  have "list_all stored_update (snd (reconcile_trace (storing switched_off) request 0))"
    using switched_off_simps(4) encoded_valid
    by (simp add: switched_off_trace admit_def decode_defaulted crd_valid_iff)
  moreover have upd: "Update ?md0 (Inr ?md1) \<in> set (snd (reconcile_trace (storing switched_off) request 0))"
    by (simp add: switched_off_trace)
  ultimately have "Replicas ?md1 = 1"
    using zero_is_not_kept [of "storing switched_off" request 0 ?md0 ?md1] switched_off_simps(3)
    by (simp add: storing_def)
  with upd switched_off_simps(3) show ?thesis by blast
qed

end
