(* ===== verification/Patterns.thy ===== *)
theory Patterns
  imports Prelude
begin

section \<open>The regular expressions of the CRD\<close>

text \<open>
  The \<open>pattern\<close> of a string schema is a regular expression. Here is the part of the syntax that the file uses, the set of strings an
  expression stands for, a matcher by derivatives that computes, and the pattern of a quantity, with
  what it says about a string.
\<close>

subsection \<open>Expressions and their strings\<close>

datatype regex =
    Nothing
  | Empty
  | OneOf string
  | Seq regex regex
  | Alt regex regex
  | Rep regex

inductive_set repeated :: "string set \<Rightarrow> string set" for A where
  none: "[] \<in> repeated A"
| more: "s \<in> A \<Longrightarrow> t \<in> repeated A \<Longrightarrow> s @ t \<in> repeated A"

primrec strings :: "regex \<Rightarrow> string set" where
  "strings Nothing = {}"
| "strings Empty = {[]}"
| "strings (OneOf cs) = {[c] | c. c \<in> set cs}"
| "strings (Seq a b) = {s @ t | s t. s \<in> strings a \<and> t \<in> strings b}"
| "strings (Alt a b) = strings a \<union> strings b"
| "strings (Rep a) = repeated (strings a)"

text \<open>\<open>a?\<close> and \<open>a+\<close>.\<close>

definition Opt :: "regex \<Rightarrow> regex" where
  "Opt a = Alt Empty a"

definition Rep1 :: "regex \<Rightarrow> regex" where
  "Rep1 a = Seq a (Rep a)"

subsection \<open>Matching\<close>

text \<open>What is left to match after one character, with the dead branches cut off.\<close>

fun seq :: "regex \<Rightarrow> regex \<Rightarrow> regex" where
  "seq Nothing b = Nothing"
| "seq Empty b = b"
| "seq a b = Seq a b"

fun alt :: "regex \<Rightarrow> regex \<Rightarrow> regex" where
  "alt Nothing b = b"
| "alt a b = (if b = Nothing then a else Alt a b)"

primrec nullable :: "regex \<Rightarrow> bool" where
  "nullable Nothing \<longleftrightarrow> False"
| "nullable Empty \<longleftrightarrow> True"
| "nullable (OneOf cs) \<longleftrightarrow> False"
| "nullable (Seq a b) \<longleftrightarrow> nullable a \<and> nullable b"
| "nullable (Alt a b) \<longleftrightarrow> nullable a \<or> nullable b"
| "nullable (Rep a) \<longleftrightarrow> True"

primrec after :: "char \<Rightarrow> regex \<Rightarrow> regex" where
  "after c Nothing = Nothing"
| "after c Empty = Nothing"
| "after c (OneOf cs) = (if c \<in> set cs then Empty else Nothing)"
| "after c (Seq a b) = (if nullable a then alt (seq (after c a) b) (after c b) else seq (after c a) b)"
| "after c (Alt a b) = alt (after c a) (after c b)"
| "after c (Rep a) = seq (after c a) (Rep a)"

definition matches :: "regex \<Rightarrow> string \<Rightarrow> bool" where
  "matches r s \<longleftrightarrow> nullable (fold after s r)"

lemma strings_seq [simp]: "strings (seq a b) = strings (Seq a b)"
  by (induction a b rule: seq.induct) simp_all

lemma strings_alt [simp]: "strings (alt a b) = strings (Alt a b)"
  by (induction a b rule: alt.induct) simp_all

lemma nullable_iff: "nullable r \<longleftrightarrow> [] \<in> strings r"
  by (induction r) (auto intro: repeated.none)

lemma Cons_repeated: "c # s \<in> repeated A \<longleftrightarrow> (\<exists>u v. s = u @ v \<and> c # u \<in> A \<and> v \<in> repeated A)"
proof
  assume "c # s \<in> repeated A"
  then show "\<exists>u v. s = u @ v \<and> c # u \<in> A \<and> v \<in> repeated A"
  proof (induction "c # s" arbitrary: s rule: repeated.induct)
    case (more x t)
    then show ?case by (cases x) auto
  qed
next
  assume "\<exists>u v. s = u @ v \<and> c # u \<in> A \<and> v \<in> repeated A"
  then show "c # s \<in> repeated A" using repeated.more by fastforce
qed

lemma strings_after: "s \<in> strings (after c r) \<longleftrightarrow> c # s \<in> strings r"
proof (induction r arbitrary: s)
  case (Seq a b)
  have "(\<exists>u v. c # s = u @ v \<and> u \<in> strings a \<and> v \<in> strings b) \<longleftrightarrow>
      [] \<in> strings a \<and> c # s \<in> strings b \<or> (\<exists>u v. s = u @ v \<and> c # u \<in> strings a \<and> v \<in> strings b)"
    by (auto simp: Cons_eq_append_conv)
  with Seq show ?case by (auto simp: nullable_iff)
next
  case (Rep a)
  then show ?case by (auto simp: Cons_repeated)
qed auto

text \<open>The matcher decides membership.\<close>

lemma matches_iff: "matches r s \<longleftrightarrow> s \<in> strings r"
proof -
  have "nullable (fold after s r) \<longleftrightarrow> s \<in> strings r" for r
    by (induction s arbitrary: r) (simp_all add: nullable_iff strings_after)
  then show ?thesis by (simp add: matches_def)
qed

lemma repeated_chars: "s \<in> repeated {[c] | c. c \<in> C} \<longleftrightarrow> set s \<subseteq> C"
proof
  show "s \<in> repeated {[c] | c. c \<in> C} \<Longrightarrow> set s \<subseteq> C"
    by (induction rule: repeated.induct) auto
  show "set s \<subseteq> C \<Longrightarrow> s \<in> repeated {[c] | c. c \<in> C}"
  proof (induction s)
    case (Cons c s)
    then have "[c] @ s \<in> repeated {[c] | c. c \<in> C}" by (intro repeated.more) auto
    then show ?case by simp
  qed (rule repeated.none)
qed

lemma strings_Opt [simp]: "strings (Opt a) = insert [] (strings a)"
  by (simp add: Opt_def)

lemma strings_Rep_OneOf [simp]: "strings (Rep (OneOf cs)) = {s. set s \<subseteq> set cs}"
  by (auto simp: repeated_chars)

lemma strings_OneOf_Seq: "s \<in> strings (Seq (OneOf cs) r) \<longleftrightarrow> (\<exists>c t. s = c # t \<and> c \<in> set cs \<and> t \<in> strings r)"
  unfolding strings.simps by (auto; metis append_Cons append_Nil)

lemma strings_Opt_Seq: "s \<in> strings (Seq (Opt a) r) \<longleftrightarrow> s \<in> strings r \<or> s \<in> strings (Seq a r)"
  unfolding strings.simps(4) strings_Opt by (auto; metis append_Nil)

lemma strings_Rep1_OneOf [simp]: "s \<in> strings (Rep1 (OneOf cs)) \<longleftrightarrow> s \<noteq> [] \<and> set s \<subseteq> set cs"
  unfolding Rep1_def strings_OneOf_Seq strings_Rep_OneOf by (cases s) auto

subsection \<open>Quantities\<close>

abbreviation digits :: string where
  "digits \<equiv> ''0123456789''"

text \<open>
  The pattern of \<open>size\<close>, of \<open>limits\<close> and of \<open>requests\<close>, piece by piece: \<open>([0-9]+(\.[0-9]*)?)|(\.[0-9]+)\<close>, which it has
  twice, \<open>([KMGTPE]i)|[numkMGTPE]|([eE](\+|-)?(...))\<close>, and the whole, \<open>^(\+|-)?(...)(...)?$\<close>.
\<close>

definition number_pattern :: regex where
  "number_pattern =
     Alt (Seq (Rep1 (OneOf digits)) (Opt (Seq (OneOf ''.'') (Rep (OneOf digits)))))
         (Seq (OneOf ''.'') (Rep1 (OneOf digits)))"

definition suffix_pattern :: regex where
  "suffix_pattern =
     Alt (Alt (Seq (OneOf ''KMGTPE'') (OneOf ''i'')) (OneOf ''numkMGTPE''))
         (Seq (OneOf ''eE'') (Seq (Opt (OneOf ''+-'')) number_pattern))"

definition quantity_pattern :: regex where
  "quantity_pattern = Seq (Opt (OneOf ''+-'')) (Seq number_pattern (Opt suffix_pattern))"

text \<open>
  What a quantity is, in the words of the documentation of \<open>resource.Quantity\<close>: a signed number and a suffix. A number is
  digits with at most one point, and at least one digit; a suffix is binary (\<open>Ki\<close> and so on), decimal (a single letter
  or none) or an exponent, which is a signed number.
\<close>

definition is_number :: "string \<Rightarrow> bool" where
  "is_number s \<longleftrightarrow>
     (\<exists>whole. s = whole \<and> set whole \<subseteq> set digits \<and> whole \<noteq> []) \<or>
     (\<exists>whole frac. s = whole @ ''.'' @ frac \<and> set (whole @ frac) \<subseteq> set digits \<and> whole @ frac \<noteq> [])"

definition is_signed :: "string \<Rightarrow> bool" where
  "is_signed s \<longleftrightarrow> (\<exists>sign number. s = sign @ number \<and> sign \<in> {'''', ''+'', ''-''} \<and> is_number number)"

definition is_suffix :: "string \<Rightarrow> bool" where
  "is_suffix s \<longleftrightarrow>
     s = '''' \<or> s \<in> {''Ki'', ''Mi'', ''Gi'', ''Ti'', ''Pi'', ''Ei''} \<or>
     s \<in> {''n'', ''u'', ''m'', ''k'', ''M'', ''G'', ''T'', ''P'', ''E''} \<or>
     (\<exists>e power. s = e @ power \<and> e \<in> {''e'', ''E''} \<and> is_signed power)"

definition is_quantity :: "string \<Rightarrow> bool" where
  "is_quantity s \<longleftrightarrow> (\<exists>number suffix. s = number @ suffix \<and> is_signed number \<and> is_suffix suffix)"

lemma number_forms:
  "(\<exists>u v. s = u @ v \<and> (u \<noteq> [] \<and> set u \<subseteq> D) \<and> (v = [] \<or> (\<exists>t. v = d # t \<and> set t \<subseteq> D))) \<or>
     (\<exists>t. s = d # t \<and> t \<noteq> [] \<and> set t \<subseteq> D) \<longleftrightarrow>
   (s \<noteq> [] \<and> set s \<subseteq> D) \<or> (\<exists>u t. s = u @ d # t \<and> (u \<noteq> [] \<or> t \<noteq> []) \<and> set u \<subseteq> D \<and> set t \<subseteq> D)"
proof (intro iffI; elim disjE exE conjE)
  fix u t assume "s = u @ d # t" "u \<noteq> []" "set u \<subseteq> D" "set t \<subseteq> D"
  then show "(\<exists>u v. s = u @ v \<and> (u \<noteq> [] \<and> set u \<subseteq> D) \<and> (v = [] \<or> (\<exists>t. v = d # t \<and> set t \<subseteq> D))) \<or>
     (\<exists>t. s = d # t \<and> t \<noteq> [] \<and> set t \<subseteq> D)" by blast
next
  fix u t assume "s = u @ d # t" "t \<noteq> []" "set u \<subseteq> D" "set t \<subseteq> D"
  then show "(\<exists>u v. s = u @ v \<and> (u \<noteq> [] \<and> set u \<subseteq> D) \<and> (v = [] \<or> (\<exists>t. v = d # t \<and> set t \<subseteq> D))) \<or>
     (\<exists>t. s = d # t \<and> t \<noteq> [] \<and> set t \<subseteq> D)" by (cases "u = []") auto
next
  fix t assume "s = d # t" "t \<noteq> []" "set t \<subseteq> D"
  then show "(s \<noteq> [] \<and> set s \<subseteq> D) \<or> (\<exists>u t. s = u @ d # t \<and> (u \<noteq> [] \<or> t \<noteq> []) \<and> set u \<subseteq> D \<and> set t \<subseteq> D)"
    by (intro disjI2 exI [of _ "[]"] exI [of _ t]) simp
qed auto

lemma strings_number: "s \<in> strings number_pattern \<longleftrightarrow> is_number s"
proof -
  let ?D = "set digits" and ?dot = "CHR ''.''"
  have "s \<in> strings number_pattern \<longleftrightarrow>
      (\<exists>u v. s = u @ v \<and> (u \<noteq> [] \<and> set u \<subseteq> ?D) \<and> (v = [] \<or> (\<exists>t. v = ?dot # t \<and> set t \<subseteq> ?D))) \<or>
      (\<exists>t. s = ?dot # t \<and> t \<noteq> [] \<and> set t \<subseteq> ?D)"
    unfolding number_pattern_def strings.simps(5) Un_iff strings_OneOf_Seq strings_Rep1_OneOf
      strings.simps(4) [of "Rep1 r" for r] strings_Opt insert_iff mem_Collect_eq strings_Rep_OneOf
    by (simp only: list.set insert_iff empty_iff simp_thms ex_simps) blast
  also have "\<dots> \<longleftrightarrow>
      (s \<noteq> [] \<and> set s \<subseteq> ?D) \<or> (\<exists>u t. s = u @ ?dot # t \<and> (u \<noteq> [] \<or> t \<noteq> []) \<and> set u \<subseteq> ?D \<and> set t \<subseteq> ?D)"
    by (rule number_forms)
  also have "\<dots> \<longleftrightarrow> is_number s"
    unfolding is_number_def set_append Un_subset_iff append_is_Nil_conv append_Cons append_Nil by blast
  finally show ?thesis .
qed

lemma strings_signed: "s \<in> strings (Seq (Opt (OneOf ''+-'')) r) \<longleftrightarrow>
    (\<exists>sign t. s = sign @ t \<and> sign \<in> {'''', ''+'', ''-''} \<and> t \<in> strings r)"
proof -
  have "(\<exists>sign t. s = sign @ t \<and> sign \<in> {'''', ''+'', ''-''} \<and> t \<in> strings r) \<longleftrightarrow>
      (\<exists>t. s = t \<and> t \<in> strings r) \<or> (\<exists>t. s = CHR ''+'' # t \<and> t \<in> strings r) \<or> (\<exists>t. s = CHR ''-'' # t \<and> t \<in> strings r)"
    by (simp add: ex_disj_distrib conj_disj_distribR conj_disj_distribL)
  then show ?thesis unfolding strings_Opt_Seq strings_OneOf_Seq by auto
qed

lemma strings_suffix: "s \<in> strings (Opt suffix_pattern) \<longleftrightarrow> is_suffix s"
proof -
  have exponent: "s \<in> strings (Seq (OneOf ''eE'') (Seq (Opt (OneOf ''+-'')) number_pattern)) \<longleftrightarrow>
      (\<exists>e power. s = e @ power \<and> e \<in> {''e'', ''E''} \<and> is_signed power)"
  proof -
    have "is_signed power \<longleftrightarrow> power \<in> strings (Seq (Opt (OneOf ''+-'')) number_pattern)" for power
      unfolding strings_signed strings_number is_signed_def by simp
    then show ?thesis unfolding strings_OneOf_Seq
      by (simp del: strings.simps add: ex_disj_distrib conj_disj_distribR conj_disj_distribL)
  qed
  have binary: "s \<in> strings (Seq (OneOf ''KMGTPE'') (OneOf ''i'')) \<longleftrightarrow>
      s \<in> {''Ki'', ''Mi'', ''Gi'', ''Ti'', ''Pi'', ''Ei''}" by auto
  have decimal: "s \<in> strings (OneOf ''numkMGTPE'') \<longleftrightarrow>
      s \<in> {''n'', ''u'', ''m'', ''k'', ''M'', ''G'', ''T'', ''P'', ''E''}" by auto
  show ?thesis
    unfolding suffix_pattern_def strings_Opt strings.simps(5) insert_iff [of s "[]"] Un_iff exponent binary decimal
      is_suffix_def by (simp only: disj_assoc)
qed

text \<open>The pattern says that a string is a quantity.\<close>

lemma matches_quantity: "matches quantity_pattern s \<longleftrightarrow> is_quantity s"
proof -
  have "matches quantity_pattern s \<longleftrightarrow>
      (\<exists>sign n x. s = sign @ n @ x \<and> sign \<in> {'''', ''+'', ''-''} \<and> is_number n \<and> is_suffix x)"
    unfolding matches_iff quantity_pattern_def strings_signed strings.simps(4) [of number_pattern] mem_Collect_eq
      strings_number strings_suffix by blast
  also have "\<dots> \<longleftrightarrow> is_quantity s"
    unfolding is_quantity_def is_signed_def by (metis append_assoc)
  finally show ?thesis .
qed

lemma quantity_examples:
  "list_all (matches quantity_pattern) [''300Gi'', ''1'', ''0.5'', ''100m'', ''1e3'', ''-.5E+2'', ''5.'']"
  "\<not> list_ex (matches quantity_pattern) ['''', ''lots'', ''5GB'', ''1.2.3'', ''Gi'', ''10 Gi'']"
  by code_simp+

end
