(* ===== verification/Crd.thy ===== *)
theory Crd
  imports Storage Patterns
begin

section \<open>config/crd: the schema the API server enforces\<close>

text \<open>
  \<open>Storage\<close> reads the defaults and the checks off the markers in the Go source. What an API server
  enforces is the file generated from them, \<open>serving.lpogosu.dev_modeldeployments.yaml\<close>. Here are JSON
  values, the part of the OpenAPI schemas the file uses, with the documented meaning of a default
  and of a validation for every schema, and the schema of \<open>spec\<close> as the file has it. On the JSON form of a
  spec this schema fills in exactly \<open>defaulted\<close> and accepts exactly \<open>wire_valid\<close> with well-formed quantities.
\<close>

subsection \<open>JSON and schemas\<close>

datatype json =
    JInt int
  | JString string
  | JArray "json list"
  | JObject "string \<Rightarrow> json option"

text \<open>A rule of \<open>x-kubernetes-validations\<close>, as far as the file needs the language: \<open>has(self.f)\<close> and \<open>||\<close>.\<close>

datatype rule = Has string | Or rule rule

text \<open>
  \<open>SString\<close> has the \<open>enum\<close> and the \<open>minLength\<close> of a string (no limit where it has none), \<open>SInteger\<close> the
  \<open>format\<close>, the \<open>minimum\<close> and the \<open>maximum\<close>, \<open>SIntOrString\<close> is \<open>x-kubernetes-int-or-string\<close> with a \<open>pattern\<close>, which
  only speaks of strings, \<open>SListMap\<close> an array with \<open>x-kubernetes-list-type: map\<close> and its key, \<open>SMap\<close> has the schema of
  \<open>additionalProperties\<close>, and \<open>SObject\<close> the properties, each with its \<open>default\<close> and its schema, the \<open>required\<close> ones
  and the rules.
\<close>

datatype int_format = Int32 | Int64

datatype schema =
    SString "string list option" nat
  | SInteger int_format "int option" "int option"
  | SIntOrString regex
  | SArray schema
  | SListMap string schema
  | SMap schema
  | SObject "(string \<times> json option \<times> schema) list" "string list" "rule list"

type_synonym property = "string \<times> json option \<times> schema"

text \<open>
  Defaulting: a property that is left out and has a default gets it, and the defaults inside a value, the
  one just filled in included, are filled in next.
\<close>

fun fill :: "schema \<Rightarrow> json \<Rightarrow> json"
and fill_props :: "property list \<Rightarrow> (string \<Rightarrow> json option) \<Rightarrow> string \<Rightarrow> json option" where
  "fill (SArray s) (JArray xs) = JArray (map (fill s) xs)"
| "fill (SListMap key s) (JArray xs) = JArray (map (fill s) xs)"
| "fill (SMap s) (JObject m) = JObject (\<lambda>k. map_option (fill s) (m k))"
| "fill (SObject ps req rules) (JObject m) = JObject (fill_props ps m)"
| "fill _ j = j"
| "fill_props [] m = m"
| "fill_props ((k, d, s) # ps) m =
     fill_props ps
       (case (case m k of None \<Rightarrow> d | Some v \<Rightarrow> Some v) of None \<Rightarrow> m | Some v \<Rightarrow> m(k \<mapsto> fill s v))"

fun holds :: "(string \<Rightarrow> json option) \<Rightarrow> rule \<Rightarrow> bool" where
  "holds m (Has f) \<longleftrightarrow> m f \<noteq> None"
| "holds m (Or a b) \<longleftrightarrow> holds m a \<or> holds m b"

definition within :: "int option \<Rightarrow> int option \<Rightarrow> int \<Rightarrow> bool" where
  "within lo hi i \<longleftrightarrow> (case lo of None \<Rightarrow> True | Some l \<Rightarrow> l \<le> i) \<and> (case hi of None \<Rightarrow> True | Some h \<Rightarrow> i \<le> h)"

fun in_format :: "int_format \<Rightarrow> int \<Rightarrow> bool" where
  "in_format Int32 i \<longleftrightarrow> - (2 ^ 31) \<le> i \<and> i < 2 ^ 31"
| "in_format Int64 i \<longleftrightarrow> - (2 ^ 63) \<le> i \<and> i < 2 ^ 63"

text \<open>The key of an element of a list that is a map, a string: no two elements may share it.\<close>

fun key_of :: "string \<Rightarrow> json \<Rightarrow> string option" where
  "key_of k (JObject m) = (case m k of Some (JString s) \<Rightarrow> Some s | _ \<Rightarrow> None)"
| "key_of k _ = None"

fun valid :: "schema \<Rightarrow> json \<Rightarrow> bool"
and valid_props :: "property list \<Rightarrow> (string \<Rightarrow> json option) \<Rightarrow> bool" where
  "valid (SString enm len) (JString s) \<longleftrightarrow>
     (case enm of None \<Rightarrow> True | Some xs \<Rightarrow> s \<in> set xs) \<and> len \<le> length s"
| "valid (SInteger fmt lo hi) (JInt i) \<longleftrightarrow> in_format fmt i \<and> within lo hi i"
| "valid (SIntOrString pat) (JInt i) \<longleftrightarrow> True"
| "valid (SIntOrString pat) (JString s) \<longleftrightarrow> matches pat s"
| "valid (SArray s) (JArray xs) \<longleftrightarrow> list_all (valid s) xs"
| "valid (SListMap key s) (JArray xs) \<longleftrightarrow> list_all (valid s) xs \<and> distinct (map (key_of key) xs)"
| "valid (SMap s) (JObject m) \<longleftrightarrow> (\<forall>k. pred_option (valid s) (m k))"
| "valid (SObject ps req rules) (JObject m) \<longleftrightarrow>
     valid_props ps m \<and> list_all (\<lambda>k. m k \<noteq> None) req \<and> list_all (holds m) rules"
| "valid _ j \<longleftrightarrow> False"
| "valid_props [] m \<longleftrightarrow> True"
| "valid_props ((k, d, s) # ps) m \<longleftrightarrow>
     (case m k of None \<Rightarrow> True | Some v \<Rightarrow> valid s v) \<and> valid_props ps m"

text \<open>What a write stores, by this file alone: the defaults filled in, if the result is valid.\<close>

definition crd_store_by :: "schema \<Rightarrow> json \<Rightarrow> json option" where
  "crd_store_by s j = (if valid s (fill s j) then Some (fill s j) else None)"

subsection \<open>The schema of spec\<close>

definition text_field :: "string \<Rightarrow> property" where
  "text_field k = (k, None, SString None 0)"

definition text_default :: "string \<Rightarrow> string \<Rightarrow> property" where
  "text_default k d = (k, Some (JString d), SString None 0)"

definition int_default :: "string \<Rightarrow> int \<Rightarrow> int \<Rightarrow> property" where
  "int_default k d lo = (k, Some (JInt d), SInteger Int32 (Some lo) None)"

definition crd_autoscaling :: schema where
  "crd_autoscaling =
     SObject
       [(''maxReplicas'', None, SInteger Int32 (Some 1) None),
        int_default ''maxScaleUpStep'' 2 1,
        text_default ''metricName'' ''vllm:num_requests_waiting'',
        int_default ''minReplicas'' 1 0,
        int_default ''scaleDownStabilizationSeconds'' 900 0,
        int_default ''scaleUpStabilizationSeconds'' 60 0,
        int_default ''targetQueueDepth'' 4 1]
       [''maxReplicas''] []"

definition crd_disruption :: schema where
  "crd_disruption = SObject [int_default ''minAvailable'' 1 0] [] []"

definition crd_model :: schema where
  "crd_model =
     SObject
       [(''name'', None, SString None 1),
        text_default ''revision'' ''main'',
        (''secretRef'', None, SObject [text_default ''name'' ''''] [] [])]
       [''name''] []"

definition crd_resources :: schema where
  "crd_resources =
     SObject
       [(''claims'', None, SListMap ''name'' (SObject [text_field ''name'', text_field ''request''] [''name''] [])),
        (''limits'', None, SMap (SIntOrString quantity_pattern)),
        (''requests'', None, SMap (SIntOrString quantity_pattern))]
       [] []"

definition crd_toleration :: schema where
  "crd_toleration =
     SObject
       [text_field ''effect'', text_field ''key'', text_field ''operator'',
        (''tolerationSeconds'', None, SInteger Int64 None None), text_field ''value'']
       [] []"

definition crd_runtime :: schema where
  "crd_runtime =
     SObject
       [(''engine'', Some (JString ''vllm''), SString (Some [''vllm'', ''ollama'']) 0),
        (''extraArgs'', None, SArray (SString None 0)),
        text_field ''image'',
        int_default ''loadTimeoutSeconds'' 900 30,
        (''nodeSelector'', None, SMap (SString None 0)),
        (''port'', Some (JInt 8000), SInteger Int32 (Some 1) (Some 65535)),
        (''resources'', None, crd_resources),
        (''tolerations'', None, SArray crd_toleration)]
       [] []"

definition crd_weightCache :: schema where
  "crd_weightCache =
     SObject
       [text_field ''existingClaimName'',
        text_default ''mountPath'' ''/models'',
        (''size'', None, SIntOrString quantity_pattern),
        text_field ''storageClassName'',
        text_field ''warmImage'',
        int_default ''warmTimeoutSeconds'' 3600 60]
       [] [Or (Has ''size'') (Has ''existingClaimName'')]"

text \<open>An empty object, the default \<open>{}\<close> of \<open>runtime\<close> and \<open>disruption\<close>.\<close>

definition crd_spec :: schema where
  "crd_spec =
     SObject
       [(''autoscaling'', None, crd_autoscaling),
        (''disruption'', Some (JObject Map.empty), crd_disruption),
        (''model'', None, crd_model),
        int_default ''replicas'' 1 0,
        (''runtime'', Some (JObject Map.empty), crd_runtime),
        (''weightCache'', None, crd_weightCache)]
       [''model''] []"

subsection \<open>A spec as a JSON value\<close>

text \<open>An object from its fields, in the order of the schema; a field that is \<open>None\<close> is left out.\<close>

fun entry :: "(string \<times> json option) list \<Rightarrow> string \<Rightarrow> json option" where
  "entry [] k = None"
| "entry ((k', v) # kvs) k = (if k = k' then v else entry kvs k)"

definition json_object :: "(string \<times> json option) list \<Rightarrow> json" where
  "json_object kvs = JObject (entry kvs)"

definition json_map :: "('a \<Rightarrow> json) \<Rightarrow> (string \<rightharpoonup> 'a) \<Rightarrow> json option" where
  "json_map f m = (if m = Map.empty then None else Some (JObject (\<lambda>k. map_option f (m k))))"

definition json_int :: "int32 \<Rightarrow> json" where
  "json_int x = JInt (sint x)"

definition json_text :: "string \<Rightarrow> json option" where
  "json_text s = (if s = '''' then None else Some (JString s))"

fun json_quantity :: "Quantity \<Rightarrow> json" where
  "json_quantity (MustParse s) = JString s"

definition json_resources :: "ResourceRequirements \<Rightarrow> json" where
  "json_resources rr =
     json_object [(''claims'', None), (''limits'', json_map json_quantity (Resources_Limits rr)),
          (''requests'', json_map json_quantity (Resources_Requests rr))]"

definition json_toleration :: "Toleration \<Rightarrow> json" where
  "json_toleration t =
     json_object [(''effect'', json_text (Toleration_Effect t)), (''key'', json_text (Toleration_Key t)),
          (''operator'', json_text (Toleration_Operator t)), (''tolerationSeconds'', None),
          (''value'', json_text (Toleration_Value t))]"

definition json_autoscaling :: "WireAutoscaling \<Rightarrow> json" where
  "json_autoscaling w =
     json_object [(''maxReplicas'', Some (json_int (wire_maxReplicas w))),
          (''maxScaleUpStep'', map_option json_int (wire_maxScaleUpStep w)),
          (''metricName'', map_option JString (wire_metricName w)),
          (''minReplicas'', map_option json_int (wire_minReplicas w)),
          (''scaleDownStabilizationSeconds'', map_option json_int (wire_scaleDownStabilizationSeconds w)),
          (''scaleUpStabilizationSeconds'', map_option json_int (wire_scaleUpStabilizationSeconds w)),
          (''targetQueueDepth'', map_option json_int (wire_targetQueueDepth w))]"

definition json_disruption :: "WireDisruption \<Rightarrow> json" where
  "json_disruption w = json_object [(''minAvailable'', map_option json_int (wire_minAvailable w))]"

definition json_model :: "WireModel \<Rightarrow> json" where
  "json_model w =
     json_object [(''name'', Some (JString (wire_name w))), (''revision'', map_option JString (wire_revision w)),
          (''secretRef'', map_option (\<lambda>ref. json_object [(''name'', Some (JString (LocalObjectReference_Name ref)))])
             (wire_secretRef w))]"

definition json_runtime :: "WireRuntime \<Rightarrow> json" where
  "json_runtime w =
     json_object [(''engine'', map_option JString (wire_engine w)),
          (''extraArgs'', map_option (\<lambda>xs. JArray (map JString xs)) (wire_extraArgs w)),
          (''image'', map_option JString (wire_image w)),
          (''loadTimeoutSeconds'', map_option json_int (wire_loadTimeoutSeconds w)),
          (''nodeSelector'', json_map JString (wire_nodeSelector w)),
          (''port'', map_option json_int (wire_port w)),
          (''resources'', map_option json_resources (wire_resources w)),
          (''tolerations'', map_option (\<lambda>ts. JArray (map json_toleration ts)) (wire_tolerations w))]"

definition json_weightCache :: "WireWeightCache \<Rightarrow> json" where
  "json_weightCache w =
     json_object [(''existingClaimName'', map_option JString (wire_existingClaimName w)),
          (''mountPath'', map_option JString (wire_mountPath w)),
          (''size'', map_option json_quantity (wire_size w)),
          (''storageClassName'', map_option JString (wire_storageClassName w)),
          (''warmImage'', map_option JString (wire_warmImage w)),
          (''warmTimeoutSeconds'', map_option json_int (wire_warmTimeoutSeconds w))]"

definition json_spec :: "WireSpec \<Rightarrow> json" where
  "json_spec w =
     json_object [(''autoscaling'', map_option json_autoscaling (wire_autoscaling w)),
          (''disruption'', map_option json_disruption (wire_disruption w)),
          (''model'', Some (json_model (wire_model w))),
          (''replicas'', map_option json_int (wire_replicas w)),
          (''runtime'', map_option json_runtime (wire_runtime w)),
          (''weightCache'', map_option json_weightCache (wire_weightCache w))]"

subsection \<open>Defaults and checks of an object, field by field\<close>

lemma fill_props_lookup:
  "distinct (map fst ps) \<Longrightarrow>
   fill_props ps m k =
     (case map_of ps k of
        None \<Rightarrow> m k
      | Some (d, s) \<Rightarrow> map_option (fill s) (case m k of None \<Rightarrow> d | Some v \<Rightarrow> Some v))"
proof (induction ps arbitrary: m)
  case (Cons p ps)
  obtain k' d s where p: "p = (k', d, s)" by (cases p)
  have "k' \<notin> dom (map_of ps)" using Cons.prems by (simp add: p dom_map_of_conv_image_fst)
  then have "map_of ps k' = None" by blast
  then show ?case using Cons by (auto simp: p split: option.splits)
qed simp

fun filled_field :: "property \<Rightarrow> string \<times> json option \<Rightarrow> string \<times> json option" where
  "filled_field (k, d, s) (_, v) = (k, map_option (fill s) (case v of None \<Rightarrow> d | Some v \<Rightarrow> Some v))"

lemma filled_lookup:
  "map fst kvs = map fst ps \<Longrightarrow>
   (case map_of ps k of
      None \<Rightarrow> entry kvs k
    | Some (d, s) \<Rightarrow> map_option (fill s) (case entry kvs k of None \<Rightarrow> d | Some v \<Rightarrow> Some v)) =
   entry (map2 filled_field ps kvs) k"
proof (induction ps arbitrary: kvs)
  case (Cons p ps)
  obtain v rest where "kvs = (fst p, v) # rest" "map fst rest = map fst ps"
    using Cons.prems by (cases kvs) auto
  with Cons.IH [of rest] show ?case by (cases p) (auto cong: option.case_cong)
qed simp

lemma fill_obj:
  assumes "map fst kvs = map fst ps" "distinct (map fst ps)"
  shows "fill (SObject ps req rules) (json_object kvs) = json_object (map2 filled_field ps kvs)"
  using assms by (simp add: json_object_def fill_props_lookup filled_lookup fun_eq_iff)

fun valid_field :: "property \<Rightarrow> string \<times> json option \<Rightarrow> bool" where
  "valid_field (k, d, s) (_, v) \<longleftrightarrow> pred_option (valid s) v"

lemma valid_props_entry:
  "map fst kvs = map fst ps \<Longrightarrow> distinct (map fst ps) \<Longrightarrow> (\<And>k. k \<in> fst ` set ps \<Longrightarrow> m k = entry kvs k) \<Longrightarrow>
   valid_props ps m \<longleftrightarrow> list_all2 valid_field ps kvs"
proof (induction ps arbitrary: kvs)
  case (Cons p ps)
  obtain v rest where kvs: "kvs = (fst p, v) # rest" "map fst rest = map fst ps"
    using Cons.prems(1) by (cases kvs) auto
  have "m k = entry rest k" if "k \<in> fst ` set ps" for k
    using Cons.prems(2) Cons.prems(3) [of k] that kvs by (cases "k = fst p") auto
  then have "valid_props ps m \<longleftrightarrow> list_all2 valid_field ps rest"
    using Cons.IH [of rest] Cons.prems(2) kvs by simp
  moreover have "m (fst p) = v" using Cons.prems(3) [of "fst p"] kvs by simp
  ultimately show ?case by (cases p) (auto simp: kvs split: option.splits)
qed simp

lemma valid_obj:
  assumes "map fst kvs = map fst ps" "distinct (map fst ps)"
  shows "valid (SObject ps req rules) (json_object kvs) \<longleftrightarrow>
    list_all2 valid_field ps kvs \<and> list_all (\<lambda>k. entry kvs k \<noteq> None) req \<and> list_all (holds (entry kvs)) rules"
  using valid_props_entry [OF assms, of "entry kvs"] by (simp add: json_object_def)

subsection \<open>The objects of the spec\<close>

lemmas field_defs = text_field_def text_default_def int_default_def

text \<open>A field without a default keeps its value; one with a default has it where the value is left out.\<close>

lemma filled_field_simps:
  "filled_field (k, None, s) (k', v) = (k, map_option (fill s) v)"
  "filled_field (k, Some d, s) (k', v) = (k, map_option (fill s) (or_default d v))"
  by (simp_all add: or_default_def split: option.split)

lemma map_or_default: "or_default (f d) (map_option f v) = map_option f (or_default d v)"
  by (simp add: or_default_def split: option.split)

lemma or_default_leaf:
  "or_default (JString d) (map_option JString v) = map_option JString (or_default d v)"
  "or_default (JInt 1) (map_option json_int x) = map_option json_int (or_default 1 x)"
  "sint (numeral n :: int32) = numeral n \<Longrightarrow>
   or_default (JInt (numeral n)) (map_option json_int x) = map_option json_int (or_default (numeral n) x)"
  "or_default j (Some v') = Some v'" "or_default j None = Some j"
  using map_or_default [of JString d v] map_or_default [of json_int 1 x] map_or_default [of json_int "numeral n" x]
  by (simp_all add: json_int_def or_default_def)

lemma fill_leaf [simp]:
  "fill (SInteger fmt lo hi) = (\<lambda>j. j)" "fill (SString e n) = (\<lambda>j. j)" "fill (SIntOrString pat) = (\<lambda>j. j)"
  by (rule ext, case_tac j; simp)+

lemma map_option_same [simp]: "map_option (\<lambda>j. j) v = v"
  by (rule option.map_ident)

lemma fill_map [simp]:
  "map_option (fill (SMap (SString e n))) (json_map f m) = json_map f m"
  "map_option (fill (SMap (SIntOrString quantity_pattern))) (json_map f m) = json_map f m"
  by (simp_all add: json_map_def)

declare filled_field.simps [simp del]

lemmas filling = fill_obj field_defs filled_field_simps or_default_leaf

lemma fill_autoscaling: "fill crd_autoscaling (json_autoscaling w) = json_autoscaling (default_autoscaling w)"
  by (simp add: crd_autoscaling_def json_autoscaling_def filling default_autoscaling_def)

lemma fill_disruption: "fill crd_disruption (json_disruption w) = json_disruption (default_disruption w)"
  by (simp add: crd_disruption_def json_disruption_def filling default_disruption_def)

lemma fill_weightCache: "fill crd_weightCache (json_weightCache w) = json_weightCache (default_cache w)"
  by (simp add: crd_weightCache_def json_weightCache_def filling default_cache_def)

lemma fill_model: "fill crd_model (json_model w) = json_model (default_model w)"
  by (simp add: crd_model_def json_model_def filling default_model_def option.map_comp comp_def)

lemma fill_resources: "fill crd_resources (json_resources rr) = json_resources rr"
  by (simp add: crd_resources_def json_resources_def filling)

lemma fill_toleration: "fill crd_toleration (json_toleration t) = json_toleration t"
  by (simp add: crd_toleration_def json_toleration_def filling)

lemma fill_runtime: "fill crd_runtime (json_runtime w) = json_runtime (default_runtime w)"
  by (simp add: crd_runtime_def json_runtime_def filling default_runtime_def fill_resources fill_toleration
      comp_def option.map_comp)

lemma empty_objects:
  "json_runtime empty_runtime = JObject Map.empty" "json_disruption empty_disruption = JObject Map.empty"
  by (auto simp: json_runtime_def json_disruption_def empty_runtime_def empty_disruption_def json_map_def json_object_def)

lemma default_objects:
  "or_default (JObject Map.empty) (map_option json_runtime v) = map_option json_runtime (or_default empty_runtime v)"
  "or_default (JObject Map.empty) (map_option json_disruption d) =
   map_option json_disruption (or_default empty_disruption d)"
  using map_or_default [of json_runtime empty_runtime v] map_or_default [of json_disruption empty_disruption d]
  by (simp_all only: empty_objects)

lemma fill_spec: "fill crd_spec (json_spec w) = json_spec (defaulted w)"
  by (simp add: crd_spec_def json_spec_def filling default_objects defaulted_def option.map_comp comp_def
      fill_model fill_runtime fill_disruption fill_weightCache fill_autoscaling)

subsection \<open>Validity\<close>

text \<open>The quantities of a spec: the size of the claim, and the limits and requests of the server.\<close>

fun well_formed :: "Quantity \<Rightarrow> bool" where
  "well_formed (MustParse s) \<longleftrightarrow> is_quantity s"

definition resources_well_formed :: "ResourceRequirements \<Rightarrow> bool" where
  "resources_well_formed rr \<longleftrightarrow>
     (\<forall>k. pred_option well_formed (Resources_Limits rr k)) \<and> (\<forall>k. pred_option well_formed (Resources_Requests rr k))"

definition quantities_well_formed :: "WireSpec \<Rightarrow> bool" where
  "quantities_well_formed w \<longleftrightarrow>
     present (\<lambda>wc. present well_formed (wire_size wc)) (wire_weightCache w) \<and>
     present (\<lambda>rt. present resources_well_formed (wire_resources rt)) (wire_runtime w)"

lemmas validating = valid_obj field_defs

lemma pred_present: "pred_option P (map_option f v) \<longleftrightarrow> present (\<lambda>x. P (f x)) v"
  by (cases v) (simp_all add: present_def)

lemma valid_leaf [simp]:
  "valid (SInteger Int32 (Some lo) None) (json_int x) \<longleftrightarrow> at_least lo x"
  "valid (SInteger Int32 (Some lo) (Some hi)) (json_int x) \<longleftrightarrow> lo \<le> sint x \<and> sint x \<le> hi"
  "valid (SIntOrString quantity_pattern) (json_quantity q) \<longleftrightarrow> well_formed q"
  using sint32_range [of x]
  by (simp_all add: json_int_def within_def at_least_def) (cases q; simp add: matches_quantity)

lemma valid_maps [simp]:
  "pred_option (valid (SMap (SString None 0))) (json_map JString m)"
  "pred_option (valid (SMap (SIntOrString quantity_pattern))) (json_map json_quantity q) \<longleftrightarrow>
     (\<forall>k. pred_option well_formed (q k))"
  by (auto simp: json_map_def option.pred_map comp_def option.pred_True)

lemma present_True [simp]: "present (\<lambda>x. True) v"
  by (cases v) (simp_all add: present_def)

lemma valid_autoscaling: "valid crd_autoscaling (json_autoscaling w) \<longleftrightarrow> wire_valid_autoscaling w"
  by (auto simp: crd_autoscaling_def json_autoscaling_def validating pred_present wire_valid_autoscaling_def)

lemma valid_weightCache:
  "valid crd_weightCache (json_weightCache w) \<longleftrightarrow> wire_valid_cache w \<and> present well_formed (wire_size w)"
  by (auto simp: crd_weightCache_def json_weightCache_def validating pred_present wire_valid_cache_def)

lemma valid_model: "valid crd_model (json_model w) \<longleftrightarrow> wire_name w \<noteq> ''''"
  by (auto simp: crd_model_def json_model_def validating pred_present Suc_le_eq)

lemma valid_resources: "valid crd_resources (json_resources rr) \<longleftrightarrow> resources_well_formed rr"
  by (simp add: crd_resources_def json_resources_def validating resources_well_formed_def)

lemma valid_toleration: "valid crd_toleration (json_toleration t)"
  by (simp add: crd_toleration_def json_toleration_def validating json_text_def)

lemma valid_runtime:
  "valid crd_runtime (json_runtime w) \<longleftrightarrow> wire_valid_runtime w \<and> present resources_well_formed (wire_resources w)"
  by (auto simp: crd_runtime_def json_runtime_def validating pred_present wire_valid_runtime_def
      valid_resources valid_toleration list.pred_map comp_def list.pred_True)

lemma present_conj: "present (\<lambda>x. P x \<and> Q x) v \<longleftrightarrow> present P v \<and> present Q v"
  by (cases v) (simp_all add: present_def)

lemma valid_spec: "valid crd_spec (json_spec w) \<longleftrightarrow> wire_valid w \<and> quantities_well_formed w"
  by (auto simp: crd_spec_def json_spec_def validating pred_present wire_valid_def valid_autoscaling
      valid_weightCache valid_model valid_runtime crd_disruption_def json_disruption_def quantities_well_formed_def
      present_conj)

text \<open>Defaulting neither adds a quantity nor changes one.\<close>

lemma quantities_defaulted: "quantities_well_formed (defaulted w) \<longleftrightarrow> quantities_well_formed w"
  by (auto simp: quantities_well_formed_def defaulted_def default_cache_def default_runtime_def empty_runtime_def
      or_default_def present_def split: option.splits)


text \<open>What the schema makes of quantities and numbers that no marker speaks of.\<close>

lemma crd_limits:
  "valid (SIntOrString quantity_pattern) (JString ''300Gi'')" "\<not> valid (SIntOrString quantity_pattern) (JString ''lots'')"
  "\<not> valid (SInteger Int32 None None) (JInt (2 ^ 31))"
  using quantity_examples by simp_all

subsection \<open>The schema of the conditions\<close>

text \<open>
  The status has a schema too. A condition must have a type and a reason of the right form, one of three statuses, a
  generation that is not negative and a message of at most 32768 characters, and no two conditions have the
  same type. \<open>RuneCount\<close> counts the characters of a UTF-8 string, the bytes that do not continue one.
\<close>

definition is_lower :: "char \<Rightarrow> bool" where
  "is_lower c \<longleftrightarrow> 97 \<le> (of_char c :: nat) \<and> (of_char c :: nat) \<le> 122"

definition is_upper :: "char \<Rightarrow> bool" where
  "is_upper c \<longleftrightarrow> 65 \<le> (of_char c :: nat) \<and> (of_char c :: nat) \<le> 90"

definition alphanumeric :: "char \<Rightarrow> bool" where
  "alphanumeric c \<longleftrightarrow> is_lower c \<or> is_upper c \<or> is_digit c"

definition reason_pattern :: "string \<Rightarrow> bool" where
  "reason_pattern s \<longleftrightarrow>
     s \<noteq> [] \<and> (is_lower (hd s) \<or> is_upper (hd s)) \<and>
     list_all (\<lambda>c. alphanumeric c \<or> c \<in> set ''_,:'') s \<and> (alphanumeric (last s) \<or> last s = CHR ''_'')"

definition name_pattern :: "string \<Rightarrow> bool" where
  "name_pattern s \<longleftrightarrow>
     s \<noteq> [] \<and> alphanumeric (hd s) \<and> list_all (\<lambda>c. alphanumeric c \<or> c \<in> set ''-_.'') s \<and> alphanumeric (last s)"

definition label_pattern :: "string \<Rightarrow> bool" where
  "label_pattern s \<longleftrightarrow>
     s \<noteq> [] \<and> (is_lower (hd s) \<or> is_digit (hd s)) \<and>
     list_all (\<lambda>c. is_lower c \<or> is_digit c \<or> c = CHR ''-'') s \<and> (is_lower (last s) \<or> is_digit (last s))"

fun cut_at :: "char \<Rightarrow> string \<Rightarrow> string list" where
  "cut_at x [] = [[]]"
| "cut_at x (c # cs) =
     (if c = x then [] # cut_at x cs
      else (case cut_at x cs of [] \<Rightarrow> [[c]] | e # es \<Rightarrow> (c # e) # es))"

definition type_pattern :: "string \<Rightarrow> bool" where
  "type_pattern s =
     (case cut_at (CHR ''/'') s of
        [name] \<Rightarrow> name_pattern name
      | [prefix, name] \<Rightarrow> list_all label_pattern (cut_at (CHR ''.'') prefix) \<and> name_pattern name
      | _ \<Rightarrow> False)"

definition RuneCount :: "string \<Rightarrow> nat" where
  "RuneCount s = length (filter (\<lambda>c. (of_char c :: nat) < 128 \<or> 192 \<le> (of_char c :: nat)) s)"

definition condition_valid :: "Condition \<Rightarrow> bool" where
  "condition_valid c \<longleftrightarrow>
     RuneCount (Condition_Message c) \<le> 32768 \<and> 0 \<le> sint (Condition_ObservedGeneration c) \<and>
     reason_pattern (Condition_Reason c) \<and> RuneCount (Condition_Reason c) \<le> 1024 \<and>
     Condition_Status c \<in> set [''True'', ''False'', ''Unknown''] \<and>
     type_pattern (Condition_Type c) \<and> RuneCount (Condition_Type c) \<le> 316"

definition conditions_valid :: "Condition list \<Rightarrow> bool" where
  "conditions_valid cs \<longleftrightarrow> list_all condition_valid cs \<and> distinct (map Condition_Type cs)"

lemma put_condition_set:
  "x \<in> set (put_condition t cs c) \<Longrightarrow> x \<in> set cs \<or> (\<exists>u. x = c\<lparr>Condition_LastTransitionTime := u\<rparr>)"
  by (auto simp: put_condition_def split: if_splits option.splits)

lemma RuneCount_le: "RuneCount s \<le> length s"
  by (simp add: RuneCount_def)

lemma names_valid:
  "t \<in> {ConditionReady, ConditionWeightsCached, ConditionDegraded} \<Longrightarrow> type_pattern t \<and> RuneCount t \<le> 316"
  by (auto simp: condition_type_defs) (code_simp)+

definition reasons :: "string list" where
  "reasons = [ReasonWarming, ReasonWarmFailed, ReasonCacheDisabled, ReasonCached, ReasonReplicasReady,
     ReasonReplicasUnavailable, ReasonWaitingForWeights, ReasonQueueMetricMissing, ReasonScaledToZero, ReasonAsExpected]"

lemma reasons_valid: "r \<in> set reasons \<Longrightarrow> reason_pattern r \<and> RuneCount r \<le> 1024"
proof -
  have "list_all (\<lambda>r. reason_pattern r \<and> RuneCount r \<le> 1024) reasons" by code_simp
  then show "r \<in> set reasons \<Longrightarrow> reason_pattern r \<and> RuneCount r \<le> 1024" by (auto simp: list_all_iff)
qed

lemma built_reasons:
  "c \<in> {weightsCached b, ready b, degraded txt b} \<Longrightarrow>
   Condition_Reason c \<in> set reasons \<and> Condition_Status c \<in> set [''True'', ''False'', ''Unknown'']"
  by (elim insertE emptyE; hypsubst)
    (simp_all add: weightsCached_def ready_def degraded_def condition_def Let_def reasons_def
      ConditionTrue_def ConditionFalse_def split: option.split)

lemma decimal_length: "n < 10 ^ Suc k \<Longrightarrow> length (decimal n) \<le> Suc k"
proof (induction k arbitrary: n)
  case 0
  then show ?case by (simp add: decimal.simps [of n])
next
  case (Suc k)
  show ?case using Suc.IH [of "n div 10"] Suc.prems by (subst decimal.simps) simp
qed

lemma Itoa_length: "length (Itoa (sint (x :: int32))) \<le> 11"
proof -
  have "nat \<bar>sint x\<bar> < 10 ^ Suc 9" using sint32_range [of x] by simp
  then have "length (decimal (nat \<bar>sint x\<bar>)) \<le> 10" using decimal_length by fastforce
  then show ?thesis by (auto simp: Itoa_def)
qed

lemma ready_message_short: "RuneCount (Condition_Message (ready b)) \<le> 32768"
proof -
  have "length (serving_message m n) \<le> 44" for m n
    using Itoa_length [of m] Itoa_length [of n] by (simp add: serving_message_def)
  then have "length (serving_message m n) \<le> 32768" for m n by (rule le_trans) simp
  then have "length (Condition_Message (ready b)) \<le> 32768"
    by (simp add: ready_def condition_def Let_def)
  then show ?thesis by (rule le_trans [OF RuneCount_le])
qed

lemma built_valid_iff:
  assumes "0 \<le> sint (MD_Generation (sb_md b))" "c \<in> set (built txt b)"
  shows "condition_valid (c\<lparr>Condition_LastTransitionTime := t\<rparr>) \<longleftrightarrow> RuneCount (Condition_Message c) \<le> 32768"
proof -
  obtain d where d: "d \<in> {weightsCached b, ready b, degraded txt b}"
    "c = d\<lparr>Condition_ObservedGeneration := MD_Generation (sb_md b)\<rparr>"
    using assms(2) by (auto simp: built_def)
  have "Condition_Type d \<in> {ConditionReady, ConditionWeightsCached, ConditionDegraded}" using d(1) by auto
  then show ?thesis
    using names_valid [of "Condition_Type d"] built_reasons [OF d(1)] reasons_valid assms(1)
    by (simp add: condition_valid_def d(2))
qed

text \<open>
  C30. The status the operator writes passes the schema of the CRD. From conditions that pass it, \<open>build\<close> makes conditions
  that pass it: one per type, with types, reasons and statuses of the required form and a generation that is not
  negative, provided that the message of the warm-up failure and the text of the metric error, which come from outside,
  fit into 32768 characters. Where one does not fit, the conditions are invalid, and the API server refuses the status.
\<close>

theorem built_status_valid:
  assumes "documented_conditions L" "conditions_valid (Status_Conditions prev)"
    and "0 \<le> sint (MD_Generation (sb_md b))" "run_state (build L b prev) w = (next, w')"
  shows "conditions_valid (Status_Conditions next) \<longleftrightarrow>
     RuneCount (Condition_Message (weightsCached b)) \<le> 32768 \<and>
     RuneCount (Condition_Message (degraded (ErrorText L) b)) \<le> 32768"
proof -
  have dist: "distinct (map Condition_Type (Status_Conditions prev))"
    using assms(2) by (simp add: conditions_valid_def)
  obtain t1 t2 t3 c1 c2 c3 where cs: "built (ErrorText L) b = [c1, c2, c3]"
    "Status_Conditions next =
       put_condition t3 (put_condition t2 (put_condition t1 (Status_Conditions prev) c1) c2) c3"
    using build_puts [OF assms(1) dist assms(4)] by metis
  have old_or_built: "x \<in> set (Status_Conditions prev) \<or>
      (\<exists>c \<in> set (built (ErrorText L) b). \<exists>u. x = c\<lparr>Condition_LastTransitionTime := u\<rparr>)"
    if "x \<in> set (Status_Conditions next)" for x
    using that unfolding cs by (auto dest!: put_condition_set)
  have in_next: "\<exists>u. c\<lparr>Condition_LastTransitionTime := u\<rparr> \<in> set (Status_Conditions next)"
    if c: "c \<in> set (built (ErrorText L) b)" for c
  proof -
    obtain t where "condition_of (Condition_Type c) (Status_Conditions next) = Some (stored t (Status_Conditions prev) c)"
      using build_lookup [OF assms(1) dist assms(4) c] .
    then show ?thesis by (auto simp: condition_of_def find_Some_iff stored_def in_set_conv_nth) metis
  qed
  have "list_all condition_valid (Status_Conditions next) \<longleftrightarrow>
      (\<forall>c \<in> set (built (ErrorText L) b). RuneCount (Condition_Message c) \<le> 32768)"
    using old_or_built in_next built_valid_iff [OF assms(3)] assms(2)
    unfolding list_all_iff conditions_valid_def by metis
  then show ?thesis
    using build_other(2) [OF assms(1) dist assms(4)] ready_message_short [of b]
    by (simp add: conditions_valid_def built_def)
qed

text \<open>A metric error with a text of 40000 characters.\<close>

definition verbose_builder :: "string statusBuilder" where
  "verbose_builder = test_builder\<lparr>sb_scaleErr := Some (Errorf (replicate 40000 (CHR ''x'')))\<rparr>"

lemma built_status_valid_witness:
  "conditions_valid (Status_Conditions (fst (run_state (build test_library test_builder (MD_Status live)) 7))) \<and>
   \<not> conditions_valid (Status_Conditions (fst (run_state (build test_library verbose_builder (MD_Status live)) 7)))"
proof -
  obtain s1 w1 where r1: "run_state (build test_library test_builder (MD_Status live)) 7 = (s1, w1)" by fastforce
  obtain s2 w2 where r2: "run_state (build test_library verbose_builder (MD_Status live)) 7 = (s2, w2)" by fastforce
  have gen: "0 \<le> sint (MD_Generation (sb_md test_builder))" "0 \<le> sint (MD_Generation (sb_md verbose_builder))"
    by (simp_all add: verbose_builder_def test_builder_def applyWorkload_def newStatusBuilder_def live_def
        set_finalizers_def fixture_def object_meta_def)
  have prev: "conditions_valid (Status_Conditions (MD_Status live))"
    by (simp add: conditions_valid_def live_def set_finalizers_def fixture_def)
  have short: "RuneCount (Condition_Message (weightsCached test_builder)) \<le> 32768"
    "RuneCount (Condition_Message (degraded show_error test_builder)) \<le> 32768" for show_error
    by (auto simp: weightsCached_def degraded_def condition_def Let_def test_builder_def applyWorkload_def
        newStatusBuilder_def cacheState0_def RuneCount_def)
  have long: "RuneCount (Condition_Message (degraded show_error verbose_builder)) = 40000" for show_error
    by (simp add: degraded_def condition_def Let_def verbose_builder_def test_builder_def applyWorkload_def
        newStatusBuilder_def cacheState0_def RuneCount_def)
  show ?thesis
    using built_status_valid [OF test_library_documented(4) prev gen(1) r1]
      built_status_valid [OF test_library_documented(4) prev gen(2) r2] r1 r2 short long by simp
qed

end
