(* ===== verification/World.thy ===== *)
theory World
  imports Runs
begin

section \<open>Reconciles over a world\<close>

text \<open>
  Two small calculi for what a handler does to the world it runs in: \<open>moves\<close> for what no part of a handler
  undoes, and \<open>ensures\<close> for what a handler achieves. The first is a locale over a reflexive and transitive
  relation of worlds; its lemmas go through the parts of \<open>sync\<close>, given the relation for the operations of
  the client (\<open>leaves_alone\<close>).
\<close>

subsection \<open>Calculi over the world\<close>

text \<open>\<open>moves F m\<close>: the handler takes the world only to worlds related by \<open>F\<close>; likewise for one operation.\<close>

definition op_moves :: "('w \<Rightarrow> 'w \<Rightarrow> bool) \<Rightarrow> ('w, 'a) state \<Rightarrow> bool" where
  "op_moves F op \<longleftrightarrow> (\<forall>w. F w (snd (run_state op w)))"

definition moves :: "('w \<Rightarrow> 'w \<Rightarrow> bool) \<Rightarrow> (('w, 'e, 'u) env, 'a) state \<Rightarrow> bool" where
  "moves F m \<longleftrightarrow> (\<forall>s. F (world s) (world (snd (run_state m s))))"

text \<open>\<open>ensures m Q w\<close>: run in the world \<open>w\<close>, the handler's answer and the world after it satisfy \<open>Q\<close>.\<close>

definition ensures :: "(('w, 'e, 'u) env, 'a) state \<Rightarrow> ('a \<Rightarrow> 'w \<Rightarrow> bool) \<Rightarrow> 'w \<Rightarrow> bool" where
  "ensures m Q w \<longleftrightarrow>
     (\<forall>s. world s = w \<longrightarrow> Q (fst (run_state m s)) (world (snd (run_state m s))))"

named_theorems ensures_intros \<open>rules of the calculus of answers\<close>

lemma ensures_return [ensures_intros]: "Q x w \<Longrightarrow> ensures (State_Monad.return x) Q w"
  by (simp add: ensures_def)

lemma ensures_bind [ensures_intros]:
  assumes "ensures m (\<lambda>x. ensures (f x) Q) w"
  shows "ensures (m \<bind> f) Q w"
  unfolding ensures_def
proof (intro allI impI)
  fix s :: "('a, 'b, 'c) env" assume "world s = w"
  moreover obtain x s1 where "run_state m s = (x, s1)" by fastforce
  ultimately show "Q (fst (run_state (m \<bind> f) s)) (world (snd (run_state (m \<bind> f) s)))"
    using assms unfolding ensures_def by fastforce
qed

lemma ensures_perform [ensures_intros]:
  assumes "\<And>x w'. run_state op w = (x, w') \<Longrightarrow> Q x w'"
  shows "ensures (perform op ev) Q w"
  using assms by (auto simp: ensures_def perform_def split: prod.split)

lemma ensures_silently [ensures_intros]:
  assumes "\<And>x w'. run_state op w = (x, w') \<Longrightarrow> Q x w'"
  shows "ensures (silently op) Q w"
  using assms by (auto simp: ensures_def silently_def split: prod.split)

lemma ensures_if [ensures_intros]:
  "(b \<Longrightarrow> ensures m Q w) \<Longrightarrow> (\<not> b \<Longrightarrow> ensures m' Q w) \<Longrightarrow> ensures (if b then m else m') Q w"
  by simp

lemma ensures_option [ensures_intros]:
  "(z = None \<Longrightarrow> ensures m Q w) \<Longrightarrow> (\<And>x. z = Some x \<Longrightarrow> ensures (f x) Q w) \<Longrightarrow>
   ensures (case z of None \<Rightarrow> m | Some x \<Rightarrow> f x) Q w"
  by (cases z) simp_all

lemma ensures_sum [ensures_intros]:
  "(\<And>x. z = Inl x \<Longrightarrow> ensures (f x) Q w) \<Longrightarrow> (\<And>y. z = Inr y \<Longrightarrow> ensures (g y) Q w) \<Longrightarrow>
   ensures (case z of Inl x \<Rightarrow> f x | Inr y \<Rightarrow> g y) Q w"
  by (cases z) simp_all

lemma ensures_prod [ensures_intros]:
  "(\<And>x y. z = (x, y) \<Longrightarrow> ensures (f x y) Q w) \<Longrightarrow> ensures (case z of (x, y) \<Rightarrow> f x y) Q w"
  by (cases z) simp

lemma ensures_mono:
  "ensures m Q w \<Longrightarrow> (\<And>x w'. Q x w' \<Longrightarrow> Q' x w') \<Longrightarrow> ensures m Q' w"
  by (simp add: ensures_def)

lemma ensures_moves: "moves F m \<Longrightarrow> (\<And>x w'. F w w' \<Longrightarrow> Q x w') \<Longrightarrow> ensures m Q w"
  by (auto simp: ensures_def moves_def)

text \<open>A relation that is reflexive and transitive holds over a handler when it holds over each operation.\<close>

locale world_order =
  fixes le :: "'w \<Rightarrow> 'w \<Rightarrow> bool"
  assumes refl [simp]: "le w w"
    and trans: "le w w1 \<Longrightarrow> le w1 w2 \<Longrightarrow> le w w2"
begin

lemma moves_return: "moves le (State_Monad.return x)"
  by (simp add: moves_def)

lemma moves_bind: "moves le m \<Longrightarrow> (\<And>x. moves le (f x)) \<Longrightarrow> moves le (m \<bind> f)"
  by (auto simp: moves_def split: prod.split intro: trans)

lemma moves_perform: "op_moves le op \<Longrightarrow> moves le (perform op ev)"
  by (auto simp: moves_def op_moves_def perform_def split: prod.split) (metis snd_conv)

lemma moves_silently: "op_moves le op \<Longrightarrow> moves le (silently op)"
  by (auto simp: moves_def op_moves_def silently_def split: prod.split) (metis snd_conv)

lemma moves_if: "(b \<Longrightarrow> moves le m) \<Longrightarrow> (\<not> b \<Longrightarrow> moves le m') \<Longrightarrow> moves le (if b then m else m')"
  by simp

lemma moves_option:
  "moves le m \<Longrightarrow> (\<And>x. z = Some x \<Longrightarrow> moves le (f x)) \<Longrightarrow> moves le (case z of None \<Rightarrow> m | Some x \<Rightarrow> f x)"
  by (cases z) simp_all

lemma moves_sum:
  "(\<And>x. z = Inl x \<Longrightarrow> moves le (f x)) \<Longrightarrow> (\<And>y. z = Inr y \<Longrightarrow> moves le (g y)) \<Longrightarrow>
   moves le (case z of Inl x \<Rightarrow> f x | Inr y \<Rightarrow> g y)"
  by (cases z) simp_all

lemma moves_prod: "(\<And>x y. z = (x, y) \<Longrightarrow> moves le (f x y)) \<Longrightarrow> moves le (case z of (x, y) \<Rightarrow> f x y)"
  by (cases z) simp

lemmas moves_intros = moves_return moves_bind moves_perform moves_silently moves_if moves_option moves_sum moves_prod

lemma op_return: "op_moves le (State_Monad.return x)"
  by (simp add: op_moves_def)

lemma op_bind: "op_moves le m \<Longrightarrow> (\<And>x. op_moves le (f x)) \<Longrightarrow> op_moves le (m \<bind> f)"
  by (auto simp: op_moves_def split: prod.split intro: trans)

lemma op_setConditions:
  assumes "\<And>cs c. op_moves le (SetStatusCondition L cs c)"
  shows "op_moves le (setConditions L g cs conds)"
  by (induction conds arbitrary: cs) (auto intro!: op_return op_bind assms)

lemma op_build: "(\<And>cs c. op_moves le (SetStatusCondition L cs c)) \<Longrightarrow> op_moves le (build L b prev)"
  unfolding build_def Let_def by (intro op_return op_bind op_setConditions)

end

lemma ensures_conj: "ensures m Q w \<Longrightarrow> ensures m Q' w \<Longrightarrow> ensures m (\<lambda>x w'. Q x w' \<and> Q' x w') w"
  by (simp add: ensures_def)

lemma ensures_both: "ensures m Q w \<Longrightarrow> moves F m \<Longrightarrow> ensures m (\<lambda>x w'. F w w' \<and> Q x w') w"
  by (auto simp: ensures_def moves_def)

subsection \<open>The operations of the libraries\<close>

definition alive :: "ModelDeployment \<Rightarrow> bool" where
  "alive md \<longleftrightarrow> \<not> deleting md \<and> has_finalizer Finalizer md"

lemma alive_updates [simp]:
  "alive (md\<lparr>MD_Spec := sp\<rparr>) = alive md" "alive (md\<lparr>MD_Status := st\<rparr>) = alive md"
  by (simp_all add: alive_def deleting_def has_finalizer_def)

definition clock_op :: "('w, 'e, 'u) ModelDeploymentReconciler \<Rightarrow> ('w, gotime) state" where
  "clock_op r = (case R_Now r of Some f \<Rightarrow> f | None \<Rightarrow> Time_Now (R_Lib r))"

lemma now_clock_op: "now r = silently (clock_op r)"
  by (simp add: now_def clock_op_def split: option.split)

text \<open>
  The operations \<open>sync\<close> calls, except updates of the object and of its status, take the world only to worlds related by \<open>F\<close>. Of the deletions
  it is enough to know this for budgets and for the Jobs in \<open>D\<close>, of the applies for the configurations in \<open>A\<close>.
\<close>

definition leaves_alone ::
  "('w, 'e, 'u) ModelDeploymentReconciler \<Rightarrow> ('w \<Rightarrow> 'w \<Rightarrow> bool) \<Rightarrow> (Job \<Rightarrow> bool) \<Rightarrow>
   ('u ApplyConfiguration \<Rightarrow> bool) \<Rightarrow> bool" where
  "leaves_alone r F D A \<longleftrightarrow>
     (\<forall>key. op_moves F (Client_Get_ModelDeployment (R_Client r) key)) \<and>
     (\<forall>key. op_moves F (Client_Get_Job (R_Client r) key)) \<and>
     (\<forall>key. op_moves F (Client_Get_PersistentVolumeClaim (R_Client r) key)) \<and>
     (\<forall>key. op_moves F (Client_Get_Deployment (R_Client r) key)) \<and>
     (\<forall>ns lbls. op_moves F (Client_List_Job (R_Client r) ns lbls)) \<and>
     (\<forall>obj. op_moves F (Client_Create (R_Client r) obj)) \<and>
     (\<forall>pdb policy. op_moves F (Client_Delete (R_Client r) (PDBObject pdb) policy)) \<and>
     (\<forall>job policy. D job \<longrightarrow> op_moves F (Client_Delete (R_Client r) (JobObject job) policy)) \<and>
     (\<forall>cfg owner force. A cfg \<longrightarrow> op_moves F (Client_Apply (R_Client r) cfg owner force)) \<and>
     (\<forall>md a b c d. op_moves F (R_Eventf r md a b c d)) \<and>
     (\<forall>cs c. op_moves F (SetStatusCondition (R_Lib r) cs c)) \<and>
     (\<forall>f ns m sel. R_Queue r = Some f \<longrightarrow> op_moves F (f ns m sel)) \<and>
     op_moves F (clock_op r)"

lemma leaves_alone_mono:
  assumes "leaves_alone r F D A" "\<And>w w'. F w w' \<Longrightarrow> G w w'"
  shows "leaves_alone r G D A"
  using assms unfolding leaves_alone_def op_moves_def by metis

subsection \<open>The parts of sync\<close>

lemma op_movesD: "op_moves F op \<Longrightarrow> run_state op w = (x, w') \<Longrightarrow> F w w'"
  by (metis op_moves_def snd_conv)

context world_order
begin

lemma moves_applyOwned:
  assumes "leaves_alone r le D A" "\<And>cfg. applies r md obj cfg \<Longrightarrow> A cfg"
  shows "moves le (applyOwned r md obj)"
proof -
  have "A cfg" if "own r md obj = Inr obj'" "applyConfiguration (R_Lib r) obj' = Inr cfg" for obj' cfg
    using assms(2) that by (auto simp: applies_def)
  then show ?thesis
    using assms(1) unfolding applyOwned_def call_defs
    by (intro moves_intros) (auto simp: leaves_alone_def)
qed

text \<open>What the second half of \<open>sync\<close> applies.\<close>

lemma moves_rollout_parts:
  assumes "leaves_alone r le D A" "\<And>cfg. snd (PDBMinAvailable md n) \<Longrightarrow>
      applies r md (PDBObject (PDB md (fst (PDBMinAvailable md n)))) cfg \<Longrightarrow> A cfg"
  shows "moves le (reconcilePDB r md n)" "moves le (observeDeployment r md)"
proof -
  show "moves le (reconcilePDB r md n)"
    unfolding reconcilePDB_def call_defs
    by (intro moves_intros moves_applyOwned [OF assms(1)]) (use assms in \<open>auto simp: leaves_alone_def\<close>)
  show "moves le (observeDeployment r md)"
    unfolding observeDeployment_def call_defs
    by (intro moves_intros) (use assms(1) in \<open>simp add: leaves_alone_def\<close>)
qed

lemma moves_status:
  assumes "leaves_alone r le D A" "\<And>md. op_moves le (Client_Status_Update (R_Client r) md)"
  shows "moves le (writeStatus r md st)"
  unfolding writeStatus_def call_defs Let_def
  by (intro moves_intros op_build assms(2)) (use assms(1) in \<open>simp add: leaves_alone_def\<close>)

lemma moves_rollout:
  assumes "leaves_alone r le D A" "\<And>md. op_moves le (Client_Status_Update (R_Client r) md)"
    and "\<And>cfg owner force e. rollout_call r md k n cache (Apply cfg owner force e) \<Longrightarrow> A cfg"
  shows "moves le (rollout r md k n cache st)"
proof -
  have A: "A cfg" if "applies r md (DeploymentObject (Deployment md k n (held md cache))) cfg \<or>
      applies r md (ServiceObject (Service md)) cfg \<or>
      snd (PDBMinAvailable md n) \<and> applies r md (PDBObject (PDB md (fst (PDBMinAvailable md n)))) cfg" for cfg
    using assms(3) [of cfg FieldOwner True] that by simp
  show ?thesis
    unfolding rollout_def Let_def held_def [symmetric]
    by (intro moves_intros moves_applyOwned [OF assms(1)] moves_rollout_parts [OF assms(1)]
        moves_status [OF assms(1)] assms(2)) (auto intro: A)
qed

lemma moves_deleteStale:
  assumes "leaves_alone r le D A" "\<And>job. stale k job \<Longrightarrow> D job"
  shows "moves le (deleteStale r k jobs)"
proof (induction jobs)
  case (Cons job jobs)
  show ?case
  proof (cases "stale k job")
    case True
    then show ?thesis
      using assms Cons unfolding deleteStale_Cons call_defs by (auto intro!: moves_intros simp: leaves_alone_def)
  next
    case False
    then show ?thesis using Cons by (simp add: deleteStale_Cons del: deleteStale.simps)
  qed
qed (simp add: moves_return)

lemma moves_claim: "leaves_alone r le D A \<Longrightarrow> moves le (ensureClaim r md)"
  unfolding ensureClaim_def create_tolerant_def call_defs Let_def
  by (intro moves_intros) (simp_all add: leaves_alone_def)

lemma moves_job: "leaves_alone r le D A \<Longrightarrow> moves le (warmJobState r md k st res)"
  unfolding warmJobState_def create_tolerant_def call_defs Let_def
  by (intro moves_intros) (simp_all add: leaves_alone_def)

lemma moves_prune:
  assumes "leaves_alone r le D A" "\<And>job. stale k job \<Longrightarrow> D job"
  shows "moves le (pruneStaleWarmJobs r md k)"
  unfolding pruneStaleWarmJobs_def call_defs
  by (intro moves_intros moves_deleteStale [OF assms(1)] assms(2)) (use assms(1) in \<open>simp_all add: leaves_alone_def\<close>)

lemma moves_cache:
  assumes "leaves_alone r le D A" "\<And>job. stale k job \<Longrightarrow> D job"
  shows "moves le (reconcileWeightCache r md k)"
  unfolding reconcileWeightCache_def call_defs Let_def
  by (intro moves_intros moves_claim [OF assms(1)] moves_job [OF assms(1)] moves_prune [OF assms(1)] assms(2))
    (use assms(1) in \<open>simp_all add: leaves_alone_def\<close>)

end

subsection \<open>Rounds\<close>

text \<open>The world after a number of reconciles, with \<open>passes\<close> for what happens between two of them.\<close>

fun rounds ::
  "('w, 'e, 'u) ModelDeploymentReconciler \<Rightarrow> ObjectKey \<Rightarrow> ('w \<Rightarrow> 'w) \<Rightarrow> nat \<Rightarrow> 'w \<Rightarrow> 'w" where
  "rounds r req passes 0 w = w"
| "rounds r req passes (Suc n) w =
     rounds r req passes n (passes (world (snd (run_state (Reconcile r req) \<lparr>world = w, calls = []\<rparr>))))"

end
