(* ===== verification/Autoscaling.thy ===== *)
theory Autoscaling
  imports Storage World
begin

section \<open>The closed loop: the operator and an API server that stores what it writes\<close>

text \<open>
  Repeated reconciles of an autoscaled object. The API server is still a parameter; \<open>cooperates\<close> says
  what is needed of it: reads are fresh, an update is stored as \<open>Storage\<close> describes, nobody else
  changes the spec, the weights are cached and the queue is steady. Applies, status writes and every
  other call may fail.
\<close>

subsection \<open>The cluster\<close>

text \<open>
  Two views of a world: the object stored under the request's key, and a time that the clock has reached.
  Between a world and a later one in which nobody has updated the object, its spec is the same, it is still there,
  and the time has not gone back.
\<close>

definition undisturbed :: "('w \<Rightarrow> ModelDeployment) \<Rightarrow> ('w \<Rightarrow> gotime) \<Rightarrow> 'w \<Rightarrow> 'w \<Rightarrow> bool" where
  "undisturbed obj clock w w' \<longleftrightarrow>
     MD_Spec (obj w') = MD_Spec (obj w) \<and> (alive (obj w) \<longrightarrow> alive (obj w')) \<and> clock w \<le> clock w'"

interpretation kept: world_order "undisturbed obj clock" for obj :: "'w \<Rightarrow> ModelDeployment" and clock
  by unfold_locales (auto simp: undisturbed_def)

text \<open>
  The weights of an object are in the cache: its claim and its Job can be read, the Job has succeeded, and stale
  Jobs can be listed and deleted.
\<close>

definition cached :: "('w, 'e, 'u) ModelDeploymentReconciler \<Rightarrow> ModelDeployment \<Rightarrow> bool" where
  "cached r md \<longleftrightarrow>
     (\<forall>w. \<exists>pvc. fst (run_state (Client_Get_PersistentVolumeClaim (R_Client r) (own_key md (PVCName md))) w) = Inr pvc) \<and>
     (\<forall>w. \<exists>job. fst (run_state (Client_Get_Job (R_Client r) (own_key md (WarmJobName md (CacheKey md)))) w) = Inr job \<and>
        0 <s JobStatus_Succeeded (Job_Status job)) \<and>
     (\<forall>ns lbls w. \<exists>jobs. fst (run_state (Client_List_Job (R_Client r) ns lbls) w) = Inr jobs) \<and>
     (\<forall>job policy w. IgnoreNotFound (R_Lib r)
        (fst (run_state (Client_Delete (R_Client r) (JobObject job) policy) w)) = None)"

text \<open>An update of an object whose spec is valid is stored, with the defaults, and answered with what is stored.\<close>

definition stores_updates ::
  "('w, 'e, 'u) ModelDeploymentReconciler \<Rightarrow> ('w \<Rightarrow> ModelDeployment) \<Rightarrow> ('w \<Rightarrow> gotime) \<Rightarrow> bool" where
  "stores_updates r obj clock \<longleftrightarrow>
     (\<forall>md w sp. admit (encode (MD_Spec md)) = Some sp \<longrightarrow>
        (\<exists>md' w'. run_state (Client_Update (R_Client r) md) w = (Inr md', w') \<and> obj w' = md' \<and>
           MD_Spec md' = sp \<and> (alive md \<longrightarrow> alive md') \<and> clock w \<le> clock w'))"

definition cooperates ::
  "('w, 'e, 'u) ModelDeploymentReconciler \<Rightarrow> ObjectKey \<Rightarrow> ('w \<Rightarrow> ModelDeployment) \<Rightarrow> ('w \<Rightarrow> gotime) \<Rightarrow>
   int32 \<Rightarrow> bool" where
  "cooperates r req obj clock depth \<longleftrightarrow>
     documented_finalizers (R_Lib r) \<and> leaves_alone r (undisturbed obj clock) (\<lambda>_. True) (\<lambda>_. True) \<and>
     (\<forall>md. op_moves (undisturbed obj clock) (Client_Status_Update (R_Client r) md)) \<and>
     (\<forall>w. cached r (obj w)) \<and> stores_updates r obj clock \<and>
     (\<forall>w. fst (run_state (Client_Get_ModelDeployment (R_Client r) req) w) = Inr (obj w)) \<and>
     (\<exists>f. R_Queue r = Some f \<and> (\<forall>ns m sel w. fst (run_state (f ns m sel) w) = Inr depth)) \<and>
     (\<forall>w. clock w \<le> fst (run_state (clock_op r) w))"

lemma cooperatesD:
  assumes "cooperates r req obj clock depth"
  shows "documented_finalizers (R_Lib r)" "leaves_alone r (undisturbed obj clock) (\<lambda>_. True) (\<lambda>_. True)" "cached r (obj v)"
    "stores_updates r obj clock"
    "run_state (Client_Get_ModelDeployment (R_Client r) req) w = (x, w') \<Longrightarrow> x = Inr (obj w)"
    "\<exists>f. R_Queue r = Some f"
    "R_Queue r = Some f \<Longrightarrow> run_state (f ns m sel) w = (y, w') \<Longrightarrow> y = Inr depth"
    "run_state (clock_op r) w = (t, w') \<Longrightarrow> clock w \<le> t"
    "op_moves (undisturbed obj clock) (Client_Status_Update (R_Client r) md)"
  using assms unfolding cooperates_def by (auto, (metis fst_conv)+)

subsection \<open>What a reconcile of the loop achieves\<close>

lemma cachedD:
  assumes "cached r md"
  shows "run_state (Client_Get_PersistentVolumeClaim (R_Client r) (own_key md (PVCName md))) w = (x, w') \<Longrightarrow> \<exists>pvc. x = Inr pvc"
    "run_state (Client_Get_Job (R_Client r) (own_key md (WarmJobName md (CacheKey md)))) w = (y, w') \<Longrightarrow>
       \<exists>job. y = Inr job \<and> 0 <s JobStatus_Succeeded (Job_Status job)"
    "run_state (Client_List_Job (R_Client r) ns lbls) w = (z, w') \<Longrightarrow> \<exists>jobs. z = Inr jobs"
    "run_state (Client_Delete (R_Client r) (JobObject job) policy) w = (e, w') \<Longrightarrow> IgnoreNotFound (R_Lib r) e = None"
  using assms unfolding cached_def by (metis fst_conv)+

lemma deleteStale_succeeds: "cached r md \<Longrightarrow> ensures (deleteStale r k jobs) (\<lambda>e _. e = None) w"
proof (induction jobs arbitrary: w)
  case (Cons job jobs)
  then show ?case
    unfolding deleteStale_Cons call_defs by (intro ensures_intros) (auto dest: cachedD(4))
qed (auto intro: ensures_intros)

lemma cache_is_warm:
  assumes "cached r md"
  shows "ensures (reconcileWeightCache r md (CacheKey md))
     (\<lambda>out _. \<exists>cache. out = Inr (cache, None) \<and> (cache_warm cache \<or> WeightCache md = None)) w"
proof (cases "WeightCache md = None")
  case True
  then show ?thesis unfolding reconcileWeightCache_def by (auto intro!: ensures_intros)
next
  case False
  have claim: "ensures (ensureClaim r md) (\<lambda>out _. out = Inr None) w" for w
    unfolding ensureClaim_def call_defs Let_def own_key_def [symmetric]
    by (intro ensures_intros) (auto dest: cachedD(1) [OF assms])
  have prune: "ensures (pruneStaleWarmJobs r md (CacheKey md)) (\<lambda>e _. e = None) w" for w
    unfolding pruneStaleWarmJobs_def call_defs
    by (intro ensures_intros deleteStale_succeeds [OF assms]) (auto dest: cachedD(3) [OF assms])
  have job: "ensures (warmJobState r md (CacheKey md) st (Inr job))
      (\<lambda>out _. \<exists>cache. out = Inr (cache, None) \<and> cache_warm cache) w" if "0 <s JobStatus_Succeeded (Job_Status job)" for st job w
    using that unfolding warmJobState_def Let_def by (auto intro!: ensures_intros split: option.splits)
  have switch: "ensures (warmJobState r md (CacheKey md) st res) Q w"
    if "\<exists>job. res = Inr job \<and> 0 <s JobStatus_Succeeded (Job_Status job)"
      "\<And>cache w. cache_warm cache \<Longrightarrow> Q (Inr (cache, None)) w" for st res Q w
    using that by (auto intro!: ensures_mono [OF job])
  show ?thesis
    unfolding reconcileWeightCache_def if_not_P [OF False] Let_def call_defs own_key_def [symmetric]
    by (intro ensures_bind ensures_mono [OF claim])
      (auto intro!: ensures_perform switch ensures_bind ensures_return ensures_mono [OF prune]
        simp: own_key_def [symmetric] dest: cachedD(2) [OF assms])
qed

lemma decision_is_next:
  assumes "cooperates r req obj clock depth" "Spec_Autoscaling (MD_Spec md) = Some as"
    and "AutoscalingSpec_TargetQueueDepth as \<noteq> 0" "warm \<or> WeightCache md = None"
  shows "ensures (decideReplicas r md warm st)
     (\<lambda>out w'. undisturbed obj clock w w' \<and> (\<exists>t st'. clock w \<le> t \<and>
        out = Inr (next_replicas (policy_of as) depth (lastScaleTime md, t) (Replicas md), None, st'))) w"
proof -
  obtain f where f: "R_Queue r = Some f" using cooperatesD(6) [OF assms(1)] by blast
  have "moves (undisturbed obj clock) (decideReplicas r md warm st)"
    using cooperatesD(2) [OF assms(1)]
    unfolding decideReplicas_def now_clock_op call_defs Let_def
    by (intro kept.moves_intros) (simp_all add: leaves_alone_def f)
  moreover have "ensures (decideReplicas r md warm st) (\<lambda>out w'. \<exists>t st'. clock w \<le> t \<and>
      out = Inr (next_replicas (policy_of as) depth (lastScaleTime md, t) (Replicas md), None, st')) w"
  proof -
    have queue: "y = Inr depth \<and> clock w \<le> clock w1" if "run_state (f ns m sel) w = (y, w1)" for ns m sel y w1
      using that cooperatesD(7) [OF assms(1) f] op_movesD [of "undisturbed obj clock" "f ns m sel"]
        cooperatesD(2) [OF assms(1)] f by (auto simp: leaves_alone_def undisturbed_def)
    have occ: "Decide (policy_of as) \<lparr>State_CurrentReplicas = Replicas md, State_QueueDepth = depth,
        State_WeightsCached = (warm \<or> WeightCache md = None), State_LastScale = lastScaleTime md, State_Now = t\<rparr> =
      Decide (policy_of as) (occasion depth (lastScaleTime md, t) (Replicas md))" for t
      using assms(4) by (auto simp: occasion_def)
    have runs: "\<exists>d. Decide (policy_of as) (occasion depth (lastScaleTime md, t) (Replicas md)) = Inr d \<and>
        next_replicas (policy_of as) depth (lastScaleTime md, t) (Replicas md) = Decision_Replicas d" for t
      using assms(3) Decide_panics_aux [of "policy_of as" "occasion depth (lastScaleTime md, t) (Replicas md)"]
      by (cases "Decide (policy_of as) (occasion depth (lastScaleTime md, t) (Replicas md))")
        (auto simp: next_replicas_def policy_of_def)
    show ?thesis
      using runs
      by (auto simp: decideReplicas_def now_clock_op call_defs Let_def assms(2) f occ
          dest!: queue cooperatesD(8) [OF assms(1)] split: sum.split intro!: ensures_intros)
        (metis Inr_inject order_trans sum.distinct(1))+
  qed
  ultimately show ?thesis by (intro ensures_both)
qed

text \<open>Writing a count that the API server keeps.\<close>

lemma write_is_stored:
  assumes "cooperates r req obj clock depth" "MD_Spec (obj w) = MD_Spec md" "alive (obj w)" "alive md"
    and "crd_valid ((MD_Spec md)\<lparr>Spec_Replicas := n\<rparr>)" "explicit ((MD_Spec md)\<lparr>Spec_Replicas := n\<rparr>)"
  shows "ensures (writeReplicas r md n) (\<lambda>out w'. (\<exists>md'. out = Inr md') \<and>
     MD_Spec (obj w') = (MD_Spec md)\<lparr>Spec_Replicas := n\<rparr> \<and> alive (obj w')) w"
proof -
  let ?sp = "(MD_Spec md)\<lparr>Spec_Replicas := n\<rparr>"
  have sp: "admit (encode ?sp) = Some ?sp"
    using assms(5,6) encoded_valid [of ?sp] refilled_same [of ?sp]
    by (simp add: crd_valid_iff admit_def decode_defaulted)
  have upd: "(\<exists>m. x = Inr m) \<and> MD_Spec (obj w') = ?sp \<and> alive (obj w')"
    if "run_state (Client_Update (R_Client r) (md\<lparr>MD_Spec := ?sp\<rparr>)) w = (x, w')" for x w'
  proof -
    have "alive (md\<lparr>MD_Spec := ?sp\<rparr>)" using assms(4) by (simp add: alive_def deleting_def has_finalizer_def)
    moreover obtain md' w2 where "run_state (Client_Update (R_Client r) (md\<lparr>MD_Spec := ?sp\<rparr>)) w = (Inr md', w2)"
      "obj w2 = md'" "MD_Spec md' = ?sp" "alive (md\<lparr>MD_Spec := ?sp\<rparr>) \<longrightarrow> alive md'"
      using cooperatesD(4) [OF assms(1)] sp unfolding stores_updates_def by force
    ultimately show ?thesis using that by auto
  qed
  have "n = Replicas md \<Longrightarrow> MD_Spec (obj w) = ?sp" using assms(2) by simp
  then show ?thesis
    unfolding writeReplicas_def call_defs Let_def
    by (intro ensures_intros) (use assms(3) in \<open>auto dest: upd\<close>)
qed

lemma windows_open_later: "windows_open p (l, t) \<Longrightarrow> t \<le> t' \<Longrightarrow> windows_open p (l, t')"
  by (auto simp: windows_open_def elapsed_def occasion_def time_Before_def)

lemma next_replicas_bounds:
  assumes "valid_policy p" "depth_fits p q" "windows_open p t"
  shows "within_bounds p (next_replicas p q t n)"
proof (cases "within_bounds p n")
  case True
  then show ?thesis
    using next_replicas_inside [OF assms(1,2) True assms(3)] queue_goal_bounds(1) [OF assms(1), of q]
      queue_goal_bounds(2) [of p q] assms(1)
    by (auto simp: within_bounds_def valid_policy_def sle_iff split: if_splits)
next
  case False
  then have "sint n < sint (Policy_MinReplicas p) \<or> sint (Policy_MaxReplicas p) < sint n"
    by (auto simp: within_bounds_def sle_iff)
  then show ?thesis by (rule next_replicas_outside [OF assms(1)])
qed

text \<open>A spec of the loop: valid, with nothing in it that the defaults would replace, and with a usable policy.\<close>

definition scalable :: "ModelDeploymentSpec \<Rightarrow> AutoscalingSpec \<Rightarrow> int32 \<Rightarrow> bool" where
  "scalable sp as depth \<longleftrightarrow>
     crd_valid sp \<and> explicit sp \<and> Spec_Autoscaling sp = Some as \<and>
     AutoscalingSpec_MinReplicas as \<le>s AutoscalingSpec_MaxReplicas as \<and> depth_fits (policy_of as) depth"

lemma scalable_policy:
  assumes "scalable sp as depth"
  shows "valid_policy (policy_of as)" "depth_fits (policy_of as) depth" "Spec_Autoscaling sp = Some as"
    "AutoscalingSpec_TargetQueueDepth as \<noteq> 0"
  using assms
  by (auto simp: scalable_def valid_policy_def policy_of_def crd_valid_def valid_autoscaling_def sle_iff)

lemma scalable_resized:
  assumes "scalable sp as depth" "within_bounds (policy_of as) n"
  shows "scalable (sp\<lparr>Spec_Replicas := n\<rparr>) as depth"
proof -
  have "AutoscalingSpec_MinReplicas as \<noteq> 0" "0 \<le> sint (AutoscalingSpec_MinReplicas as)"
    using assms(1) by (auto simp: scalable_def explicit_def explicit_autoscaling_def crd_valid_def valid_autoscaling_def)
  then have "0 < sint (AutoscalingSpec_MinReplicas as)" by (simp add: order_less_le sint32_eq_iff [of 0, simplified])
  then have "0 < sint n" using assms(2) by (simp add: within_bounds_def policy_of_def sle_iff)
  then show ?thesis using assms(1) by (auto simp: scalable_def crd_valid_def explicit_def)
qed

text \<open>One round: the object is still there and scalable, and its count is the next one of the decision.\<close>

definition stepped ::
  "('w \<Rightarrow> ModelDeployment) \<Rightarrow> AutoscalingSpec \<Rightarrow> int32 \<Rightarrow> 'w \<Rightarrow> 'w \<Rightarrow> bool" where
  "stepped obj as depth w w' \<longleftrightarrow>
     alive (obj w') \<and> scalable (MD_Spec (obj w')) as depth \<and>
     (\<exists>t. windows_open (policy_of as) t \<and>
        Replicas (obj w') = next_replicas (policy_of as) depth t (Replicas (obj w)))"

lemma loop_step:
  assumes "cooperates r req obj clock depth" "alive (obj w)" "scalable (MD_Spec (obj w)) as depth"
    and "windows_open (policy_of as) (lastScaleTime (obj w), clock w)"
  shows "ensures (Reconcile r req) (\<lambda>_. stepped obj as depth w) w"
proof -
  let ?md = "obj w" and ?n = "\<lambda>t. next_replicas (policy_of as) depth (lastScaleTime (obj w), t) (Replicas (obj w))"
  note policy = scalable_policy [OF assms(3)]
  have get: "x = Inr ?md \<and> undisturbed obj clock w w1"
    if "run_state (Client_Get_ModelDeployment (R_Client r) req) w = (x, w1)" for x w1
    using that cooperatesD(2,5) [OF assms(1)] op_movesD [OF _ that, of "undisturbed obj clock"]
    by (simp add: leaves_alone_def)
  have read: "\<not> deleting ?md" "AddFinalizer (R_Lib r) ?md Finalizer = (?md, False)"
    using assms(2) cooperatesD(1) [OF assms(1)] by (simp_all add: alive_def documented_finalizers_def)
  have resized: "scalable ((MD_Spec ?md)\<lparr>Spec_Replicas := ?n t\<rparr>) as depth" "windows_open (policy_of as) (lastScaleTime ?md, t)"
    if "clock w \<le> t" for t
  proof -
    show open_later: "windows_open (policy_of as) (lastScaleTime ?md, t)"
      using windows_open_later [OF assms(4) that] .
    show "scalable ((MD_Spec ?md)\<lparr>Spec_Replicas := ?n t\<rparr>) as depth"
      by (rule scalable_resized [OF assms(3) next_replicas_bounds [OF policy(1,2) open_later]])
  qed
  have last: "ensures (rollout r md k n cache st) (\<lambda>_. stepped obj as depth w) w3"
    if "MD_Spec (obj w3) = (MD_Spec ?md)\<lparr>Spec_Replicas := ?n t\<rparr>" "alive (obj w3)" "clock w \<le> t" for md k n cache st w3 t
    using that resized [of t]
    by (intro ensures_moves [OF kept.moves_rollout [OF cooperatesD(2,9) [OF assms(1)]]])
      (auto simp: undisturbed_def stepped_def)
  have scale: "ensures (writeReplicas r ?md (?n t)) (\<lambda>out w3. (\<exists>md'. out = Inr md') \<and>
      MD_Spec (obj w3) = (MD_Spec ?md)\<lparr>Spec_Replicas := ?n t\<rparr> \<and> alive (obj w3)) w2"
    if "undisturbed obj clock w w2" "clock w \<le> t" for w2 t
    using that assms(2) resized(1) [of t]
    by (intro write_is_stored [OF assms(1)]) (auto simp: undisturbed_def scalable_def)
  have sync: "ensures (sync r ?md) (\<lambda>_. stepped obj as depth w) w1" if w1: "undisturbed obj clock w w1" for w1
  proof -
    have go_on: "ensures (decideReplicas r ?md (cache_warm cache) st \<bind> rest) (\<lambda>_. stepped obj as depth w) w2"
      if "undisturbed obj clock w w2" "cache_warm cache \<or> WeightCache ?md = None"
        "\<And>t st w3. clock w \<le> t \<Longrightarrow> undisturbed obj clock w w3 \<Longrightarrow>
           ensures (rest (Inr (?n t, None, st))) (\<lambda>_. stepped obj as depth w) w3" for cache st rest w2
      using that(1,3)
      by (intro ensures_bind ensures_mono [OF decision_is_next [OF assms(1) policy(3,4) that(2)]])
        (auto simp: undisturbed_def intro: order_trans kept.trans)
    have write_on: "ensures (writeReplicas r ?md (?n t) \<bind> rest) (\<lambda>_. stepped obj as depth w) w3"
      if "clock w \<le> t" "undisturbed obj clock w w3"
        "\<And>md w4. MD_Spec (obj w4) = (MD_Spec ?md)\<lparr>Spec_Replicas := ?n t\<rparr> \<Longrightarrow> alive (obj w4) \<Longrightarrow>
           ensures (rest (Inr md)) (\<lambda>_. stepped obj as depth w) w4" for t rest w3
      using that by (intro ensures_bind ensures_mono [OF scale [OF that(2,1)]]) auto
    have warm: "ensures (reconcileWeightCache r ?md (CacheKey ?md)) (\<lambda>out w2. undisturbed obj clock w1 w2 \<and>
        (\<exists>cache. out = Inr (cache, None) \<and> (cache_warm cache \<or> WeightCache ?md = None))) w1"
      using cooperatesD(2,3) [OF assms(1)] by (intro ensures_both cache_is_warm kept.moves_cache [where D = "\<lambda>_. True" and A = "\<lambda>_. True"]) simp_all
    show ?thesis
      unfolding sync_def Let_def
      by (rule ensures_bind, rule ensures_mono [OF warm], elim conjE exE, simp only: sum.case prod.case option.case,
          rule go_on, erule kept.trans [OF w1], assumption, simp only: sum.case prod.case option.case,
          rule write_on, assumption+, simp only: sum.case, rule last, assumption+)
  qed
  show ?thesis
    unfolding Reconcile_def call_defs
    by (intro ensures_bind ensures_perform) (auto dest!: get simp: read sync)
qed

subsection \<open>Convergence\<close>

text \<open>Between two reconciles nobody touches the spec, and enough time passes for both windows to open.\<close>

definition rests ::
  "('w \<Rightarrow> ModelDeployment) \<Rightarrow> ('w \<Rightarrow> gotime) \<Rightarrow> AutoscalingSpec \<Rightarrow> ('w \<Rightarrow> 'w) \<Rightarrow> bool" where
  "rests obj clock as passes \<longleftrightarrow>
     (\<forall>w. undisturbed obj clock w (passes w) \<and>
        windows_open (policy_of as) (lastScaleTime (obj (passes w)), clock (passes w)))"

lemma rounds_fold:
  assumes "cooperates r req obj clock depth" "rests obj clock as passes"
    and "alive (obj w)" "scalable (MD_Spec (obj w)) as depth"
    and "windows_open (policy_of as) (lastScaleTime (obj w), clock w)"
  shows "\<exists>ts. length ts = n \<and> (\<forall>t \<in> set ts. windows_open (policy_of as) t) \<and>
     Replicas (obj (rounds r req passes n w)) = fold (next_replicas (policy_of as) depth) ts (Replicas (obj w))"
  using assms(3-5)
proof (induction n arbitrary: w)
  case (Suc n)
  define w1 where "w1 = world (snd (run_state (Reconcile r req) \<lparr>world = w, calls = []\<rparr>))"
  have "stepped obj as depth w w1"
    using loop_step [OF assms(1) Suc.prems] by (simp add: ensures_def w1_def)
  then obtain t where t: "windows_open (policy_of as) t"
    "Replicas (obj w1) = next_replicas (policy_of as) depth t (Replicas (obj w))"
    and w1: "alive (obj w1)" "scalable (MD_Spec (obj w1)) as depth"
    by (auto simp: stepped_def)
  have later: "undisturbed obj clock w1 (passes w1)"
    "windows_open (policy_of as) (lastScaleTime (obj (passes w1)), clock (passes w1))"
    using assms(2) by (simp_all add: rests_def)
  then obtain ts where "length ts = n" "\<forall>t \<in> set ts. windows_open (policy_of as) t"
    "Replicas (obj (rounds r req passes n (passes w1))) =
       fold (next_replicas (policy_of as) depth) ts (Replicas (obj (passes w1)))"
    using Suc.IH [of "passes w1"] w1 by (auto simp: undisturbed_def)
  then show ?case
    using t later(1) by (intro exI [of _ "t # ts"]) (simp add: w1_def undisturbed_def)
qed simp

text \<open>
  C13. The autoscaling loop converges. Take an object with a valid and explicit spec and an autoscaling policy whose
  bounds are in order, \<open>MinReplicas \<le> MaxReplicas\<close>, in a cluster that cooperates: updates are stored, the weights are cached and the
  queue is steady, at a depth for which \<open>ceilDiv\<close> does not overflow; applies and status writes may fail. Reconcile it again and
  again, each time after both stabilization windows have passed since the last change. Then, from any count, after more rounds than \<open>MaxReplicas - MinReplicas\<close> the
  stored object asks for exactly the replicas the queue calls for, and keeps asking for them.
\<close>

theorem autoscaling_converges:
  assumes "cooperates r req obj clock depth" "rests obj clock as passes"
    and "alive (obj w)" "scalable (MD_Spec (obj w)) as depth"
    and "windows_open (policy_of as) (lastScaleTime (obj w), clock w)"
    and "sint (AutoscalingSpec_MaxReplicas as) - sint (AutoscalingSpec_MinReplicas as) < int n"
  shows "sint (Replicas (obj (rounds r req passes n w))) = queue_goal (policy_of as) depth"
proof -
  obtain ts where ts: "length ts = n" "\<forall>t \<in> set ts. windows_open (policy_of as) t"
    "Replicas (obj (rounds r req passes n w)) = fold (next_replicas (policy_of as) depth) ts (Replicas (obj w))"
    using rounds_fold [OF assms(1-5)] by blast
  have "sint (fold (next_replicas (policy_of as) depth) ts (Replicas (obj w))) = queue_goal (policy_of as) depth"
    using scalable_policy [OF assms(4)] assms(6) ts(1,2) by (intro Decide_converges) (simp_all add: policy_of_def)
  then show ?thesis by (simp add: ts(3))
qed

subsection \<open>A cluster that cooperates\<close>

text \<open>A store for one object, and a clock; every apply fails.\<close>

record object_store =
  store_object :: ModelDeployment
  store_clock :: gotime

definition store_library :: "(object_store, string, Object) Library" where
  "store_library =
     \<lparr>IsNotFound = (\<lambda>e. e = NotFound),
      IsAlreadyExists = (\<lambda>e. e = ''AlreadyExists''),
      IgnoreNotFound = (\<lambda>e. if e = Some NotFound then None else e),
      ErrorText = id,
      AddFinalizer = AddFinalizer test_library,
      RemoveFinalizer = RemoveFinalizer test_library,
      ContainsFinalizer = ContainsFinalizer test_library,
      SetControllerReference = SetControllerReference test_library,
      SetStatusCondition = (\<lambda>cs c. State (\<lambda>w. (put_condition (store_clock w) cs c, w))),
      Semantic_DeepEqual = (=),
      Set_String = (\<lambda>_. ''selector''),
      ToUnstructured = Inr,
      RemoveNestedField = (\<lambda>u path. u),
      Time_Now = State (\<lambda>w. (store_clock w, w\<lparr>store_clock := store_clock w + 1\<rparr>))\<rparr>"

definition store_client :: "(object_store, string, Object) Client" where
  "store_client =
     \<lparr>Client_Get_ModelDeployment = (\<lambda>_. State (\<lambda>w. (Inr (store_object w), w))),
      Client_Get_Job = (\<lambda>_. State_Monad.return (Inr (test_job 1))),
      Client_Get_PersistentVolumeClaim = (\<lambda>_. State_Monad.return (Inr (live_pvc live))),
      Client_Get_Deployment = (\<lambda>_. State_Monad.return (Inl NotFound)),
      Client_List_Job = (\<lambda>_ _. State_Monad.return (Inr [])),
      Client_List_Pod = (\<lambda>_ _. State_Monad.return (Inr [])),
      Client_Create = (\<lambda>_. State_Monad.return None),
      Client_Update = (\<lambda>md. State (\<lambda>w.
        case admit (encode (MD_Spec md)) of
          None \<Rightarrow> (Inl ''Invalid'', w)
        | Some sp \<Rightarrow> (Inr (md\<lparr>MD_Spec := sp\<rparr>), w\<lparr>store_object := md\<lparr>MD_Spec := sp\<rparr>\<rparr>))),
      Client_Status_Update = (\<lambda>md. State (\<lambda>w.
        (Inr md, w\<lparr>store_object := (store_object w)\<lparr>MD_Status := MD_Status md\<rparr>\<rparr>))),
      Client_Delete = (\<lambda>_ _. State_Monad.return (Some NotFound)),
      Client_DeleteAllOf_Job = (\<lambda>_ _ _. State_Monad.return None),
      Client_Apply = (\<lambda>_ _ _. State_Monad.return (Some ''boom''))\<rparr>"

definition store_operator :: "int32 \<Rightarrow> (object_store, string, Object) ModelDeploymentReconciler" where
  "store_operator depth =
     \<lparr>R_Client = store_client, R_Lib = store_library,
      R_Eventf = (\<lambda>_ _ _ _ _. State_Monad.return ()),
      R_Queue = Some (\<lambda>_ _ _. State_Monad.return (Inr depth)), R_Now = None\<rparr>"

lemma store_cooperates: "cooperates (store_operator depth) req store_object store_clock depth"
proof -
  have "documented_finalizers (R_Lib (store_operator depth))"
    using test_library_documented(2) by (simp add: documented_finalizers_def store_operator_def store_library_def)
  moreover have "leaves_alone (store_operator depth) (undisturbed store_object store_clock) (\<lambda>_. True) (\<lambda>_. True)"
    by (simp add: leaves_alone_def op_moves_def undisturbed_def store_operator_def store_client_def store_library_def
        clock_op_def)
  moreover have "cached (store_operator depth) md" for md
    by (simp add: cached_def store_operator_def store_client_def store_library_def word_sless_alt)
  moreover have "stores_updates (store_operator depth) store_object store_clock"
    by (simp add: stores_updates_def store_operator_def store_client_def)
  ultimately show ?thesis
    by (simp add: cooperates_def op_moves_def undisturbed_def store_operator_def store_client_def store_library_def
        clock_op_def)
qed

text \<open>An hour after the later of the clock and the last change.\<close>

definition an_hour :: "object_store \<Rightarrow> object_store" where
  "an_hour w = w\<lparr>store_clock := max (store_clock w) (lastScaleTime (store_object w)) + 3600000000000\<rparr>"

lemma scaling_windows: "windows_open (policy_of scaling_spec) (l, max c l + 3600000000000)"
  by (simp add: windows_open_def elapsed_def occasion_def policy_of_def scaling_spec_def seconds_def second_def
      time_defs max_def)

lemma scaled_scalable: "scalable (MD_Spec scaled) scaling_spec 18"
  using fixture_valid
  by (simp add: scalable_def scaled_def live_def crd_valid_def explicit_def explicit_autoscaling_def
      valid_autoscaling_def scaling_spec_def depth_fits_def policy_of_def word_sle_eq)
     (simp add: fixture_def)

lemma autoscaling_converges_witness:
  "Replicas (store_object (rounds (store_operator 18) request an_hour 8
     \<lparr>store_object = scaled, store_clock = 3600000000000\<rparr>)) = 5"
proof -
  have rests: "rests store_object store_clock scaling_spec an_hour"
    using scaling_windows by (auto simp: rests_def an_hour_def undisturbed_def max_def)
  have "sint (Replicas (store_object (rounds (store_operator 18) request an_hour 8
      \<lparr>store_object = scaled, store_clock = 3600000000000\<rparr>))) = queue_goal (policy_of scaling_spec) 18"
    by (rule autoscaling_converges [OF store_cooperates rests])
      (use scaled_scalable scaling_windows [of 0 0] in
        \<open>simp_all add: alive_def\<close>, simp add: scaling_spec_def)
  also have "\<dots> = sint (5 :: int32)"
    by (simp add: queue_goal_def policy_of_def scaling_spec_def)
  finally show ?thesis by (simp only: sint32_eq_iff)
qed

end
