(* ===== verification/Bring_Up.thy ===== *)
theory Bring_Up
  imports Storage World
begin

section \<open>Bringing a deployment up\<close>

text \<open>
  From a new ModelDeployment to a ready one: repeated reconciles in a cluster that attends to what the operator
  asks for. The first round adds the finalizer, the second starts the warm-up Job and holds the rollout, the
  third releases it, the fourth reports it ready. The cluster is a parameter; \<open>views\<close> are what can be
  observed of a world, \<open>attends\<close> says how the operations act on them, and \<open>helps\<close> what happens between two rounds.
\<close>

subsection \<open>The cluster\<close>

text \<open>
  Of a world: the stored object; whether its warm-up Job exists and has succeeded; whether its Deployment
  has been applied for the rollout to go on, and has as many ready replicas as the spec asks for.
\<close>

record 'w views =
  v_object :: "'w \<Rightarrow> ModelDeployment"
  v_started :: "'w \<Rightarrow> bool"
  v_done :: "'w \<Rightarrow> bool"
  v_rolled :: "'w \<Rightarrow> bool"
  v_up :: "'w \<Rightarrow> bool"

definition same :: "ModelDeployment \<Rightarrow> ModelDeployment \<Rightarrow> bool" where
  "same md md' \<longleftrightarrow>
     MD_Spec md' = MD_Spec md \<and> MD_Name md' = MD_Name md \<and> MD_Namespace md' = MD_Namespace md"

text \<open>Progress: nothing that has been achieved is lost.\<close>

definition later :: "'w views \<Rightarrow> 'w \<Rightarrow> 'w \<Rightarrow> bool" where
  "later V w w' \<longleftrightarrow>
     same (v_object V w) (v_object V w') \<and> (alive (v_object V w) \<longrightarrow> alive (v_object V w')) \<and>
     (keyed (v_object V w) \<longrightarrow> keyed (v_object V w')) \<and>
     (v_started V w \<longrightarrow> v_started V w') \<and> (v_done V w \<longrightarrow> v_done V w') \<and>
     (v_rolled V w \<longrightarrow> v_rolled V w') \<and> (v_up V w \<longrightarrow> v_up V w')"

text \<open>Progress that does not touch the object either.\<close>

definition quiet :: "'w views \<Rightarrow> 'w \<Rightarrow> 'w \<Rightarrow> bool" where
  "quiet V w w' \<longleftrightarrow> later V w w' \<and> v_object V w' = v_object V w"

interpretation grows: world_order "later V" for V :: "'w views"
  by unfold_locales (auto simp: later_def same_def)

interpretation resting: world_order "quiet V" for V :: "'w views"
  by unfold_locales (auto simp: quiet_def intro: grows.trans)

text \<open>The objects rendered for the deployment, as apply configurations.\<close>

definition rendered ::
  "('w, 'e, 'u) ModelDeploymentReconciler \<Rightarrow> ModelDeployment \<Rightarrow> 'u ApplyConfiguration \<Rightarrow> bool" where
  "rendered r md0 cfg \<longleftrightarrow>
     (\<exists>md obj. same md0 md \<and> applies r md obj cfg \<and>
        ((\<exists>paused. obj = DeploymentObject (Deployment md (CacheKey md) (Replicas md) paused)) \<or>
         obj = ServiceObject (Service md) \<or> (\<exists>m. obj = PDBObject (PDB md m))))"

text \<open>The library and the store: objects are owned and converted, updates are stored with the defaults, the status is stored.\<close>

definition keeps_store ::
  "('w, 'e, 'u) ModelDeploymentReconciler \<Rightarrow> ObjectKey \<Rightarrow> 'w views \<Rightarrow> bool" where
  "keeps_store r req V \<longleftrightarrow>
     documented_finalizers (R_Lib r) \<and> documented_conditions (R_Lib r) \<and> documented_equality (R_Lib r) \<and>
     (\<forall>md obj. \<exists>cfg. applies r md obj cfg) \<and>
     (\<forall>w. fst (run_state (Client_Get_ModelDeployment (R_Client r) req) w) = Inr (v_object V w)) \<and>
     (\<forall>md w sp. admit (encode (MD_Spec md)) = Some sp \<longrightarrow>
        (\<exists>md' w'. run_state (Client_Update (R_Client r) md) w = (Inr md', w') \<and> v_object V w' = md' \<and>
           same (md\<lparr>MD_Spec := sp\<rparr>) md' \<and> (alive md \<longrightarrow> alive md') \<and> (keyed md \<longrightarrow> keyed md'))) \<and>
     (\<forall>md w. keyed md \<longrightarrow> (\<exists>md' w'. run_state (Client_Status_Update (R_Client r) md) w = (Inr md', w') \<and>
        MD_Status (v_object V w') = MD_Status md))"

text \<open>The warm-up: a Job that is created exists, one that has succeeded reads so, and what is stale can be deleted.\<close>

definition runs_jobs ::
  "('w, 'e, 'u) ModelDeploymentReconciler \<Rightarrow> 'w views \<Rightarrow> ModelDeployment \<Rightarrow> bool" where
  "runs_jobs r V md0 \<longleftrightarrow>
     (\<forall>w. case fst (run_state (Client_Get_PersistentVolumeClaim (R_Client r) (own_key md0 (PVCName md0))) w) of
            Inr pvc \<Rightarrow> True | Inl e \<Rightarrow> IsNotFound (R_Lib r) e \<and> OwnsPVC md0) \<and>
     (\<forall>obj w. case fst (run_state (Client_Create (R_Client r) obj) w) of
            None \<Rightarrow> True | Some e \<Rightarrow> IsAlreadyExists (R_Lib r) e) \<and>
     (\<forall>w. case fst (run_state (Client_Get_Job (R_Client r) (own_key md0 (WarmJobName md0 (CacheKey md0)))) w) of
            Inr job \<Rightarrow> v_started V w \<and> (v_done V w \<longrightarrow> 0 <s JobStatus_Succeeded (Job_Status job))
          | Inl e \<Rightarrow> IsNotFound (R_Lib r) e \<and> \<not> v_done V w) \<and>
     (\<forall>md job obj w. same md0 md \<longrightarrow> WarmJob md (CacheKey md) = Inr job \<longrightarrow> own r md (JobObject job) = Inr obj \<longrightarrow>
        v_started V (snd (run_state (Client_Create (R_Client r) obj) w))) \<and>
     (\<forall>ns lbls w. \<exists>jobs. fst (run_state (Client_List_Job (R_Client r) ns lbls) w) = Inr jobs) \<and>
     (\<forall>job policy w. stale (CacheKey md0) job \<longrightarrow>
        IgnoreNotFound (R_Lib r) (fst (run_state (Client_Delete (R_Client r) (JobObject job) policy) w)) = None)"

text \<open>The rollout: what is rendered can be applied, and a Deployment that is up reads so.\<close>

definition rolls_out ::
  "('w, 'e, 'u) ModelDeploymentReconciler \<Rightarrow> 'w views \<Rightarrow> ModelDeployment \<Rightarrow> bool" where
  "rolls_out r V md0 \<longleftrightarrow>
     (\<forall>cfg w. rendered r md0 cfg \<longrightarrow> fst (run_state (Client_Apply (R_Client r) cfg FieldOwner True) w) = None) \<and>
     (\<forall>md cfg w. same md0 md \<longrightarrow>
        applies r md (DeploymentObject (Deployment md (CacheKey md) (Replicas md) False)) cfg \<longrightarrow>
        v_rolled V (snd (run_state (Client_Apply (R_Client r) cfg FieldOwner True) w))) \<and>
     (\<forall>pdb policy w. IgnoreNotFound (R_Lib r) (fst (run_state (Client_Delete (R_Client r) (PDBObject pdb) policy) w)) = None) \<and>
     (\<forall>w. v_up V w \<longrightarrow> (\<exists>dep.
        fst (run_state (Client_Get_Deployment (R_Client r) (own_key md0 (DeploymentName md0))) w) = Inr dep \<and>
        Replicas md0 \<le>s DeploymentStatus_ReadyReplicas (Deployment_Status dep)))"

definition attends ::
  "('w, 'e, 'u) ModelDeploymentReconciler \<Rightarrow> ObjectKey \<Rightarrow> 'w views \<Rightarrow> ModelDeployment \<Rightarrow> bool" where
  "attends r req V md0 \<longleftrightarrow>
     leaves_alone r (quiet V) (stale (CacheKey md0)) (rendered r md0) \<and>
     (\<forall>md. op_moves (later V) (Client_Status_Update (R_Client r) md)) \<and>
     keeps_store r req V \<and> runs_jobs r V md0 \<and> rolls_out r V md0"

text \<open>
  Between two rounds nobody touches the object, a warm-up Job that exists succeeds, and the pods of a
  Deployment that has been released become ready.
\<close>

definition helps :: "'w views \<Rightarrow> ('w \<Rightarrow> 'w) \<Rightarrow> bool" where
  "helps V passes \<longleftrightarrow>
     (\<forall>w. quiet V w (passes w) \<and>
        (v_started V w \<longrightarrow> v_done V (passes w)) \<and> (v_rolled V w \<longrightarrow> v_up V (passes w)))"

text \<open>What depends on the spec and the name only.\<close>

lemma same_simps:
  assumes "same md0 md"
  shows "MD_Spec md = MD_Spec md0" "CacheKey md = CacheKey md0" "WarmJobName md k = WarmJobName md0 k"
    "PVCName md = PVCName md0" "OwnsPVC md = OwnsPVC md0" "own_key md n = own_key md0 n"
    "DeploymentName md = DeploymentName md0"
  using assms
  by (simp_all add: same_def CacheKey_def cacheKeyInput_def Engine_def WarmJobName_def PVCName_def OwnsPVC_def
      own_key_def DeploymentName_def split: option.split)

subsection \<open>One round\<close>

text \<open>With a fixed count \<open>sync\<close> is the weight cache and the rollout.\<close>

lemma sync_fixed:
  assumes "Spec_Autoscaling (MD_Spec md) = None"
  shows "sync r md =
     do {
       out \<leftarrow> reconcileWeightCache r md (CacheKey md);
       case out of
         Inl p \<Rightarrow> State_Monad.return (Inl p)
       | Inr (cache, Some err) \<Rightarrow> State_Monad.return (fail err)
       | Inr (cache, None) \<Rightarrow> rollout r md (CacheKey md) (Replicas md) cache
           ((applyCache (newStatusBuilder md (CacheKey md)) cache)\<lparr>sb_md := md\<rparr>)
     }"
  using assms by (simp add: sync_def decideReplicas_def writeReplicas_def Let_def cong: sum.case_cong option.case_cong)

lemma attendsD:
  assumes "attends r req V md0"
  shows "leaves_alone r (later V) (stale (CacheKey md0)) (rendered r md0)" "keeps_store r req V" "runs_jobs r V md0"
    "rolls_out r V md0" "leaves_alone r (quiet V) (stale (CacheKey md0)) (rendered r md0)"
    "op_moves (later V) (Client_Status_Update (R_Client r) md)"
  using assms by (auto simp: attends_def quiet_def intro: leaves_alone_mono [where F = "quiet V"])

lemma runs_jobsD:
  assumes "runs_jobs r V md0"
  shows "run_state (Client_Get_PersistentVolumeClaim (R_Client r) (own_key md0 (PVCName md0))) w = (Inl e, w') \<Longrightarrow>
      IsNotFound (R_Lib r) e \<and> OwnsPVC md0"
    "run_state (Client_Create (R_Client r) obj) w = (Some e, w') \<Longrightarrow> IsAlreadyExists (R_Lib r) e"
    "run_state (Client_Get_Job (R_Client r) (own_key md0 (WarmJobName md0 (CacheKey md0)))) w = (Inl e, w') \<Longrightarrow>
      IsNotFound (R_Lib r) e \<and> \<not> v_done V w"
    "run_state (Client_Get_Job (R_Client r) (own_key md0 (WarmJobName md0 (CacheKey md0)))) w = (Inr job, w') \<Longrightarrow>
      v_started V w \<and> (v_done V w \<longrightarrow> 0 <s JobStatus_Succeeded (Job_Status job))"
    "same md0 md \<Longrightarrow> WarmJob md (CacheKey md) = Inr j \<Longrightarrow> own r md (JobObject j) = Inr obj \<Longrightarrow>
      run_state (Client_Create (R_Client r) obj) w = (x, w') \<Longrightarrow> v_started V w'"
    "run_state (Client_List_Job (R_Client r) ns lbls) w = (Inl e, w') \<Longrightarrow> False"
    "stale (CacheKey md0) job \<Longrightarrow> run_state (Client_Delete (R_Client r) (JobObject job) policy) w = (y, w') \<Longrightarrow>
      IgnoreNotFound (R_Lib r) y = None"
  using assms unfolding runs_jobs_def
  by (metis fst_conv sum.case option.case, metis fst_conv option.case(2), metis fst_conv sum.case(1),
      metis fst_conv sum.case(2), metis snd_conv, metis fst_conv sum.distinct(1), metis fst_conv)

lemma owns: "attends r req V md0 \<Longrightarrow> own r md obj = Inl e \<Longrightarrow> False"
  using attendsD(2) [of r req V md0] by (auto simp: keeps_store_def applies_def) (metis sum.distinct(1))

lemma created:
  assumes "attends r req V md0" "\<And>x w'. run_state (Client_Create (R_Client r) obj) w = (x, w') \<Longrightarrow> P w'"
  shows "ensures (create_tolerant r obj) (\<lambda>e w'. e = None \<and> P w') w"
  unfolding create_tolerant_def call_defs
  by (intro ensures_intros)
    (auto dest: assms(2) runs_jobsD(2) [OF attendsD(3) [OF assms(1)]] split: option.split)

lemma claim_in_place:
  assumes "attends r req V md0" "same md0 md" "WeightCache md \<noteq> None"
  shows "ensures (ensureClaim r md) (\<lambda>out _. out = Inr None) w"
  using PVC_not_panic [OF assms(3)] same_simps [OF assms(2)]
  unfolding ensureClaim_def call_defs Let_def own_key_def [symmetric]
  by (intro ensures_intros ensures_mono [OF created [OF assms(1), where P = "\<lambda>_. True"]])
    (auto dest: runs_jobsD(1) [OF attendsD(3) [OF assms(1)]] owns [OF assms(1)])

lemma stale_deleted:
  assumes "attends r req V md0"
  shows "ensures (deleteStale r (CacheKey md0) jobs) (\<lambda>e _. e = None) w"
proof (induction jobs arbitrary: w)
  case (Cons job jobs)
  then show ?case
    unfolding deleteStale_Cons call_defs
    by (intro ensures_intros) (auto dest: runs_jobsD(7) [OF attendsD(3) [OF assms]])
qed (auto intro: ensures_intros)

lemma stale_pruned:
  assumes "attends r req V md0" "same md0 md"
  shows "ensures (pruneStaleWarmJobs r md (CacheKey md0)) (\<lambda>e _. e = None) w"
  unfolding pruneStaleWarmJobs_def call_defs
  by (intro ensures_intros stale_deleted [OF assms(1)]) (auto dest: runs_jobsD(6) [OF attendsD(3) [OF assms(1)]])

text \<open>The weight cache in a round: the Job is there afterwards, and when it had succeeded the cache is warm.\<close>

lemma job_round:
  assumes "attends r req V md0" "same md0 md" "WeightCache md \<noteq> None" "v_done V w \<longrightarrow> v_done V w1"
    and "run_state (Client_Get_Job (R_Client r) (own_key md0 (WarmJobName md0 (CacheKey md0)))) w1 = (res, w2)"
  shows "ensures (warmJobState r md (CacheKey md) st res) (\<lambda>out w'. \<exists>cache. out = Inr (cache, None) \<and>
     v_started V w' \<and> (v_done V w \<longrightarrow> cache_warm cache)) w2"
proof (cases res)
  case (Inl e)
  then have e: "IsNotFound (R_Lib r) e" "\<not> v_done V w"
    using runs_jobsD(3) [OF attendsD(3) [OF assms(1)] assms(5) [unfolded Inl]] assms(4) by auto
  have event: "v_started V v'" if "v_started V v" "run_state (R_Eventf r md a b c d) v = (x, v')" for v v' x a b c d
    using attendsD(1) [OF assms(1)] that op_movesD [of "later V", OF _ that(2)] by (auto simp: leaves_alone_def later_def)
  obtain job where job: "WarmJob md (CacheKey md) = Inr job" using WarmJob_not_panic [OF assms(3)] by blast
  obtain obj where obj: "own r md (JobObject job) = Inr obj"
    using owns [OF assms(1)] by (cases "own r md (JobObject job)") auto
  show ?thesis
    using e(2) unfolding warmJobState_def Inl sum.case if_P [OF e(1)] job obj call_defs
    by (intro ensures_intros ensures_mono [OF created [OF assms(1), where P = "v_started V"]])
      (auto dest: event runs_jobsD(5) [OF attendsD(3) [OF assms(1)] assms(2) job obj])
next
  case (Inr job)
  have "later V w1 w2"
    using attendsD(1) [OF assms(1)] op_movesD [of "later V", OF _ assms(5)] by (simp add: leaves_alone_def)
  then show ?thesis
    using runs_jobsD(4) [OF attendsD(3) [OF assms(1)] assms(5) [unfolded Inr]] assms(4)
    unfolding warmJobState_def Inr Let_def
    by (auto intro!: ensures_intros simp: later_def split: option.splits)
qed

lemma cache_round:
  assumes "attends r req V md0" "same md0 md"
  shows "ensures (reconcileWeightCache r md (CacheKey md)) (\<lambda>out w'. \<exists>cache. out = Inr (cache, None) \<and>
     (WeightCache md = None \<or> v_started V w' \<and> (v_done V w \<longrightarrow> cache_warm cache))) w"
proof (cases "WeightCache md = None")
  case True
  then show ?thesis unfolding reconcileWeightCache_def by (auto intro!: ensures_intros)
next
  case False
  have claim: "ensures (ensureClaim r md) (\<lambda>out w1. later V w w1 \<and> out = Inr None) w"
    by (intro ensures_both claim_in_place [OF assms False] grows.moves_claim [OF attendsD(1) [OF assms(1)]])
  have prune: "ensures (pruneStaleWarmJobs r md (CacheKey md)) (\<lambda>e v'. later V v v' \<and> e = None) v" for v
    unfolding same_simps(2) [OF assms(2)]
    by (intro ensures_both stale_pruned [OF assms] grows.moves_prune [OF attendsD(1) [OF assms(1)]]) simp_all
  have job: "ensures (warmJobState r md (CacheKey md) st res) (\<lambda>out w'. \<exists>cache. out = Inr (cache, None) \<and>
      v_started V w' \<and> (v_done V w \<longrightarrow> cache_warm cache)) w2"
    if "later V w w1" "run_state (Client_Get_Job (R_Client r)
      (object_key (MD_Namespace md) (cache_jobName (cacheState0\<lparr>cache_enabled := True, cache_jobName := WarmJobName md (CacheKey md)\<rparr>)))) w1 =
      (res, w2)" for w1 w2 st res
    using that same_simps [OF assms(2)]
    by (intro job_round [OF assms False, of w w1]) (auto simp: later_def own_key_def)
  show ?thesis
    unfolding reconcileWeightCache_def if_not_P [OF False] Let_def call_defs
    by (rule ensures_bind, rule ensures_mono [OF claim], elim conjE, simp only: sum.case option.case,
        intro ensures_bind ensures_perform, rule ensures_mono [OF job], assumption+, elim exE conjE,
        simp only: sum.case option.case prod.case, rule ensures_bind, rule ensures_mono [OF prune],
        intro ensures_return) (auto simp: later_def)
qed

subsection \<open>The rollout in a round\<close>

lemma rendered_parts:
  assumes "same md0 md"
  shows "applies r md (DeploymentObject (Deployment md (CacheKey md) (Replicas md) paused)) cfg \<Longrightarrow> rendered r md0 cfg"
    "applies r md (ServiceObject (Service md)) cfg \<Longrightarrow> rendered r md0 cfg"
    "applies r md (PDBObject (PDB md m)) cfg \<Longrightarrow> rendered r md0 cfg"
  using assms by (auto simp: rendered_def)

lemma applied:
  assumes "attends r req V md0" "\<And>cfg. applies r md obj cfg \<Longrightarrow> rendered r md0 cfg"
    and "\<And>cfg x w'. applies r md obj cfg \<Longrightarrow>
      run_state (Client_Apply (R_Client r) cfg FieldOwner True) w = (x, w') \<Longrightarrow> P w'"
  shows "ensures (applyOwned r md obj) (\<lambda>e w'. e = None \<and> P w') w"
proof -
  obtain obj' cfg where obj: "own r md obj = Inr obj'" "applyConfiguration (R_Lib r) obj' = Inr cfg"
    using attendsD(2) [OF assms(1)] unfolding keeps_store_def applies_def by blast
  then have "applies r md obj cfg" by (auto simp: applies_def)
  moreover have "x = None" if "run_state (Client_Apply (R_Client r) cfg FieldOwner True) w = (x, w')" for x w'
    using that attendsD(4) [OF assms(1)] assms(2) [OF calculation] by (metis fst_conv rolls_out_def)
  ultimately show ?thesis
    unfolding applyOwned_def obj sum.case call_defs
    by (intro ensures_intros) (auto dest: assms(3))
qed

text \<open>Every part of the rollout is progress.\<close>

lemma rollout_progress:
  assumes "attends r req V md0" "same md0 md"
  shows "moves (later V) (rollout r md (CacheKey md) (Replicas md) cache st)"
    "moves (later V) (applyOwned r md (ServiceObject (Service md)))"
    "moves (quiet V) (applyOwned r md (ServiceObject (Service md)))"
    "moves (quiet V) (applyOwned r md (DeploymentObject (Deployment md (CacheKey md) (Replicas md) paused)))"
    "moves (later V) (reconcilePDB r md (Replicas md))" "moves (quiet V) (reconcilePDB r md (Replicas md))"
    "moves (later V) (observeDeployment r md)" "moves (quiet V) (observeDeployment r md)"
    "moves (later V) (writeStatus r md st')"
proof -
  note rend = rendered_parts [OF assms(2), of r]
  note L = attendsD(1) [OF assms(1)] and Q = attendsD(5) [OF assms(1)] and S = attendsD(6) [OF assms(1)]
  show "moves (later V) (rollout r md (CacheKey md) (Replicas md) cache st)"
    by (intro grows.moves_rollout [OF L S]) (auto dest: rend)
  show "moves (later V) (applyOwned r md (ServiceObject (Service md)))"
    "moves (later V) (reconcilePDB r md (Replicas md))"
    by (intro grows.moves_applyOwned [OF L] grows.moves_rollout_parts [OF L]; erule rend)+
  show "moves (quiet V) (applyOwned r md (ServiceObject (Service md)))"
    "moves (quiet V) (applyOwned r md (DeploymentObject (Deployment md (CacheKey md) (Replicas md) paused)))"
    "moves (quiet V) (reconcilePDB r md (Replicas md))"
    by (intro resting.moves_applyOwned [OF Q] resting.moves_rollout_parts [OF Q]; erule rend)+
  show "moves (later V) (observeDeployment r md)"
    by (rule grows.moves_rollout_parts(2) [OF L, where n = "Replicas md"]) (erule rend)
  show "moves (quiet V) (observeDeployment r md)"
    by (rule resting.moves_rollout_parts(2) [OF Q, where n = "Replicas md"]) (erule rend)
  show "moves (later V) (writeStatus r md st')" by (rule grows.moves_status [OF L S])
qed

text \<open>A rollout that is not held releases the Deployment.\<close>

lemma release_round:
  assumes "attends r req V md0" "same md0 md" "\<not> held md cache"
  shows "ensures (rollout r md (CacheKey md) (Replicas md) cache st) (\<lambda>_. v_rolled V) w"
proof -
  have dep: "ensures (applyOwned r md (DeploymentObject (Deployment md (CacheKey md) (Replicas md) False)))
      (\<lambda>e w'. e = None \<and> v_rolled V w') w"
    using attendsD(4) [OF assms(1)] assms(2) unfolding rolls_out_def
    by (intro applied [OF assms(1)] rendered_parts [OF assms(2)]) (blast, metis snd_conv)
  have unheld: "(WeightCache md \<noteq> None \<and> \<not> cache_warm cache) = False" using assms(3) by (simp add: held_def)
  show ?thesis
    unfolding rollout_def Let_def unheld
    by (rule ensures_bind, rule ensures_mono [OF dep], elim conjE, simp only: option.case,
        rule ensures_moves [where F = "later V"],
        intro grows.moves_intros rollout_progress [OF assms(1,2)]) (simp add: later_def)
qed

text \<open>A Deployment that is up is reported ready.\<close>

definition shows_ready :: "ModelDeployment \<Rightarrow> bool" where
  "shows_ready md \<longleftrightarrow>
     (\<exists>c. condition_of ConditionReady (Status_Conditions (MD_Status md)) = Some c \<and>
        Condition_Status c = ConditionTrue)"

lemma built_ready:
  assumes "documented_conditions L" "keyed md" "run_state (build L b (MD_Status md)) w = (nxt, w')"
    and "Condition_Status (ready b) = ConditionTrue"
  shows "\<exists>c. condition_of ConditionReady (Status_Conditions nxt) = Some c \<and> Condition_Status c = ConditionTrue"
proof -
  let ?c = "(ready b)\<lparr>Condition_ObservedGeneration := MD_Generation (sb_md b)\<rparr>"
  have "?c \<in> set (built (ErrorText L) b)" by (simp add: built_def)
  then obtain t where "condition_of (Condition_Type ?c) (Status_Conditions nxt) =
      Some (stored t (Status_Conditions (MD_Status md)) ?c)"
    using build_lookup [OF assms(1) assms(2) [unfolded keyed_def] assms(3)] by blast
  moreover have "Condition_Type ?c = ConditionReady"
    by (simp add: ready_def condition_def Let_def)
  ultimately show ?thesis using assms(4) by (simp add: stored_def)
qed

lemma status_round:
  assumes "attends r req V md0" "v_object V w = md" "Condition_Status (ready b) = ConditionTrue" "keyed md"
  shows "ensures (writeStatus r md b) (\<lambda>_ w'. shows_ready (v_object V w')) w"
proof -
  note store = attendsD(2) [OF assms(1), unfolded keeps_store_def]
  have built: "shows_ready (md\<lparr>MD_Status := nxt\<rparr>) \<and> keyed (md\<lparr>MD_Status := nxt\<rparr>) \<and> v_object V w1 = md"
    if "run_state (build (R_Lib r) b (MD_Status md)) w = (nxt, w1)" for nxt w1
  proof -
    have "shows_ready (md\<lparr>MD_Status := nxt\<rparr>)" "keyed (md\<lparr>MD_Status := nxt\<rparr>)"
      using built_ready [OF _ assms(4) that assms(3)] build_other(2) [OF _ assms(4) [unfolded keyed_def] that] store
      by (simp_all add: shows_ready_def keyed_def)
    moreover have "op_moves (quiet V) (build (R_Lib r) b (MD_Status md))"
      by (intro resting.op_build) (use attendsD(5) [OF assms(1)] in \<open>simp add: leaves_alone_def\<close>)
    then have "quiet V w w1" using that by (rule op_movesD)
    ultimately show ?thesis using assms(2) by (simp add: quiet_def)
  qed
  have kept: "shows_ready (v_object V w1)"
    if "run_state (build (R_Lib r) b (MD_Status md)) w = (nxt, w1)" "Semantic_DeepEqual (R_Lib r) (MD_Status md) nxt"
    for nxt w1
  proof -
    have "MD_Status md = nxt" using that(2) store by (simp add: documented_equality_def)
    then show ?thesis using built [OF that(1)] by (cases md) simp
  qed
  have put: "shows_ready (v_object V w2)"
    if "shows_ready m" "keyed m" "run_state (Client_Status_Update (R_Client r) m) w1 = (x, w2)" for m x w1 w2
  proof -
    have "MD_Status (v_object V w2) = MD_Status m" using store that(2,3) by (metis snd_conv)
    then show ?thesis using that(1) by (simp add: shows_ready_def)
  qed
  show ?thesis
    unfolding writeStatus_def call_defs Let_def
    by (intro ensures_intros) (auto dest: kept built put)
qed

lemma observed_up:
  assumes "attends r req V md0" "same md0 md" "v_up V w"
  shows "ensures (observeDeployment r md) (\<lambda>out _. case out of (wl, e) \<Rightarrow>
     e = None \<and> workload_exists wl \<and> Replicas md \<le>s workload_readyReplicas wl) w"
proof -
  have "\<exists>dep. x = Inr dep \<and> Replicas md \<le>s DeploymentStatus_ReadyReplicas (Deployment_Status dep)"
    if "run_state (Client_Get_Deployment (R_Client r) (object_key (MD_Namespace md) (DeploymentName md))) w = (x, w')" for x w'
    using that attendsD(4) [OF assms(1)] assms(3) same_simps [OF assms(2)] unfolding rolls_out_def own_key_def
    by (metis fst_conv)
  then show ?thesis
    unfolding observeDeployment_def call_defs by (intro ensures_intros) fastforce
qed

lemma budget_round:
  assumes "attends r req V md0" "same md0 md"
  shows "ensures (reconcilePDB r md n) (\<lambda>e _. e = None) w"
proof -
  have "IgnoreNotFound (R_Lib r) e = None"
    if "run_state (Client_Delete (R_Client r) (PDBObject pdb) policy) w = (e, w')" for pdb policy e w'
    using that attendsD(4) [OF assms(1)] unfolding rolls_out_def by (metis fst_conv)
  then show ?thesis
    unfolding reconcilePDB_def call_defs
    by (intro ensures_intros ensures_mono [OF applied [OF assms(1), where P = "\<lambda>_. True"]]
          rendered_parts [OF assms(2)]) auto
qed

lemma report_round:
  assumes "attends r req V md0" "same md0 md" "\<not> held md cache" "Replicas md \<noteq> 0"
    and "v_up V w" "v_object V w = md" "sb_md st = md" "keyed md"
  shows "ensures (rollout r md (CacheKey md) (Replicas md) cache st) (\<lambda>_ w'. shows_ready (v_object V w')) w"
proof -
  note rend = rendered_parts [OF assms(2), of r] and progress = rollout_progress [OF assms(1,2)]
  have unheld: "(WeightCache md \<noteq> None \<and> \<not> cache_warm cache) = False" using assms(3) by (simp add: held_def)
  define good where "good = (\<lambda>v. v_up V v \<and> v_object V v = md)"
  have good: "good v'" if "good v" "quiet V v v'" for v v'
    using that by (auto simp: good_def quiet_def later_def)
  have dep: "ensures (applyOwned r md (DeploymentObject (Deployment md (CacheKey md) (Replicas md) False)))
      (\<lambda>e v'. quiet V v v' \<and> e = None \<and> True) v" for v
    by (intro ensures_both applied [OF assms(1)] progress) (erule rend, simp)
  have svc: "ensures (applyOwned r md (ServiceObject (Service md))) (\<lambda>e v'. quiet V v v' \<and> e = None \<and> True) v" for v
    by (intro ensures_both applied [OF assms(1)] progress) (erule rend, simp)
  have pdb: "ensures (reconcilePDB r md (Replicas md)) (\<lambda>e v'. quiet V v v' \<and> e = None) v" for v
    by (intro ensures_both budget_round [OF assms(1,2)] progress)
  have seen: "ensures (observeDeployment r md) (\<lambda>out v'. quiet V v v' \<and> (case out of (wl, e) \<Rightarrow>
      e = None \<and> workload_exists wl \<and> Replicas md \<le>s workload_readyReplicas wl)) v" if "good v" for v
    using that by (intro ensures_both observed_up [OF assms(1,2)] progress) (simp add: good_def)
  have last: "ensures (writeStatus r md (applyWorkload st wl False) \<bind> rest) (\<lambda>_ w'. shows_ready (v_object V w')) v"
    if "good v" "workload_exists wl" "Replicas md \<le>s workload_readyReplicas wl"
      "\<And>out. \<exists>x. rest out = State_Monad.return x" for v wl rest
  proof -
    have "Condition_Status (ready (applyWorkload st wl False)) = ConditionTrue"
      using that(2,3) assms(4,7) by (simp add: ready_true)
    then have "ensures (writeStatus r md (applyWorkload st wl False)) (\<lambda>_ w'. shows_ready (v_object V w')) v"
      using that(1) by (intro status_round [OF assms(1) _ _ assms(8)]) (simp_all add: good_def)
    then show ?thesis
      using that(4) by (intro ensures_bind) (elim ensures_mono, metis ensures_return)
  qed
  have start: "good w" using assms(5,6) by (simp add: good_def)
  show ?thesis
    unfolding rollout_def Let_def unheld
    by (rule ensures_bind, rule ensures_mono [OF dep], elim conjE, drule good [OF start], simp only: option.case,
        rule ensures_bind, rule ensures_mono [OF svc], elim conjE, drule (1) good, simp only: option.case,
        rule ensures_bind, rule ensures_mono [OF pdb], elim conjE, drule (1) good, simp only: option.case,
        rule ensures_bind, rule ensures_mono [OF seen], assumption, elim conjE, drule (1) good,
        clarsimp, rule last)
      (auto split: option.split)
qed

subsection \<open>The stages\<close>

text \<open>What one reconcile of a live object achieves.\<close>

definition advanced :: "'w views \<Rightarrow> ModelDeployment \<Rightarrow> 'w \<Rightarrow> 'w \<Rightarrow> bool" where
  "advanced V md0 w w' \<longleftrightarrow>
     later V w w' \<and> (WeightCache md0 = None \<or> v_started V w') \<and>
     (WeightCache md0 = None \<or> v_done V w \<longrightarrow>
        v_rolled V w' \<and> (v_up V w \<longrightarrow> shows_ready (v_object V w')))"

lemma rollout_advances:
  assumes "attends r req V md0" "same md0 (v_object V w)" "Replicas md0 \<noteq> 0" "quiet V w w2"
    and "WeightCache md0 = None \<or> v_started V w2 \<and> (v_done V w \<longrightarrow> cache_warm cache)" "sb_md st = v_object V w"
    and "keyed (v_object V w)"
  shows "ensures (rollout r (v_object V w) (CacheKey (v_object V w)) (Replicas (v_object V w)) cache st)
     (\<lambda>_. advanced V md0 w) w2"
proof -
  let ?md = "v_object V w" and ?roll = "rollout r (v_object V w) (CacheKey (v_object V w)) (Replicas (v_object V w)) cache st"
  note same = same_simps [OF assms(2)]
  have on: "ensures ?roll (\<lambda>_ w'. later V w2 w') w2"
    by (rule ensures_moves [OF rollout_progress(1) [OF assms(1,2)]])
  have since: "later V w w' \<and> (WeightCache md0 = None \<or> v_started V w')" if "later V w2 w'" for w'
  proof -
    have "later V w w2" using assms(4) by (simp add: quiet_def)
    then show ?thesis using grows.trans [OF _ that] assms(5) that by (auto simp: later_def)
  qed
  show ?thesis
  proof (cases "WeightCache md0 = None \<or> v_done V w")
    case True
    then have free: "\<not> held ?md cache" using assms(5) same(1) by (auto simp: held_def)
    have "ensures ?roll (\<lambda>_ w'. later V w2 w' \<and> v_rolled V w' \<and> (v_up V w \<longrightarrow> shows_ready (v_object V w'))) w2"
    proof (cases "v_up V w")
      case True
      have "v_up V w2" "v_object V w2 = ?md" "Replicas ?md \<noteq> 0"
        using True assms(3,4) same(1) by (auto simp: quiet_def later_def)
      then have "ensures ?roll (\<lambda>_ w'. later V w2 w' \<and> v_rolled V w' \<and> shows_ready (v_object V w')) w2"
        by (intro ensures_conj on release_round [OF assms(1,2) free] report_round [OF assms(1,2) free _ _ _ assms(6,7)])
      then show ?thesis by (rule ensures_mono) simp
    next
      case False
      then show ?thesis by (intro ensures_mono [OF ensures_conj [OF on release_round [OF assms(1,2) free]]]) simp
    qed
    then show ?thesis by (rule ensures_mono) (use since in \<open>auto simp: advanced_def\<close>)
  next
    case False
    then show ?thesis by (intro ensures_mono [OF on]) (use since in \<open>auto simp: advanced_def\<close>)
  qed
qed

lemma reconcile_advances:
  assumes "attends r req V md0" "same md0 (v_object V w)" "Replicas md0 \<noteq> 0" "alive (v_object V w)"
    and "Spec_Autoscaling (MD_Spec md0) = None" "keyed (v_object V w)"
  shows "ensures (Reconcile r req) (\<lambda>_. advanced V md0 w) w"
proof -
  let ?md = "v_object V w"
  note store = attendsD(2) [OF assms(1), unfolded keeps_store_def] and same = same_simps [OF assms(2)]
  have get: "x = Inr ?md \<and> quiet V w w1"
    if "run_state (Client_Get_ModelDeployment (R_Client r) req) w = (x, w1)" for x w1
  proof -
    have "op_moves (quiet V) (Client_Get_ModelDeployment (R_Client r) req)"
      using attendsD(5) [OF assms(1)] by (simp add: leaves_alone_def)
    then show ?thesis using op_movesD [OF _ that] store that by (metis fst_conv)
  qed
  have read: "\<not> deleting ?md" "AddFinalizer (R_Lib r) ?md Finalizer = (?md, False)"
    using assms(4) store by (simp_all add: alive_def documented_finalizers_def)
  have cache: "ensures (reconcileWeightCache r ?md (CacheKey ?md)) (\<lambda>out w2. quiet V w1 w2 \<and> (\<exists>cache. out = Inr (cache, None) \<and>
      (WeightCache ?md = None \<or> v_started V w2 \<and> (v_done V w1 \<longrightarrow> cache_warm cache)))) w1" for w1
    by (intro ensures_both cache_round [OF assms(1,2)] resting.moves_cache [OF attendsD(5) [OF assms(1)]])
      (simp add: same(2))
  have "ensures (sync r ?md) (\<lambda>_. advanced V md0 w) w1" if w1: "quiet V w w1" for w1
  proof -
    have still_done: "v_done V w \<Longrightarrow> v_done V w1" using w1 by (simp add: quiet_def later_def)
    show ?thesis
      unfolding sync_fixed [OF assms(5) [folded same(1)]]
      by (rule ensures_bind, rule ensures_mono [OF cache], elim conjE exE, simp only: sum.case prod.case option.case,
          rule rollout_advances [OF assms(1-3)], erule resting.trans [OF w1])
        (use still_done same(1) assms(6) in auto)
  qed
  then show ?thesis
    unfolding Reconcile_def call_defs
    by (intro ensures_bind ensures_perform) (auto dest!: get simp: read deleting_def [symmetric])
qed

text \<open>A spec to bring up: valid, with nothing the defaults would replace, and with a fixed count.\<close>

definition plain :: "ModelDeployment \<Rightarrow> bool" where
  "plain md \<longleftrightarrow> crd_valid (MD_Spec md) \<and> explicit (MD_Spec md) \<and> Spec_Autoscaling (MD_Spec md) = None"

lemma claim_round:
  assumes "attends r req V md0" "same md0 (v_object V w)" "plain md0"
    and "\<not> deleting (v_object V w)" "\<not> alive (v_object V w)" "keyed (v_object V w)"
  shows "ensures (Reconcile r req)
     (\<lambda>_ w'. same md0 (v_object V w') \<and> alive (v_object V w') \<and> keyed (v_object V w')) w"
proof -
  let ?md = "v_object V w"
  let ?md' = "set_finalizers (ObjectMeta_Finalizers (MD_ObjectMeta ?md) @ [Finalizer]) ?md"
  note store = attendsD(2) [OF assms(1), unfolded keeps_store_def]
  have sp: "admit (encode (MD_Spec ?md')) = Some (MD_Spec ?md')"
    using assms(3) same_simps(1) [OF assms(2)] encoded_valid [of "MD_Spec md0"] refilled_same [of "MD_Spec md0"]
    by (simp add: plain_def admit_def decode_defaulted crd_valid_iff)
  have alive: "alive ?md'" "keyed ?md'"
    using assms(4,6) by (simp_all add: alive_def set_finalizers_def deleting_def has_finalizer_def keyed_def)
  have get: "x = Inr ?md" if "run_state (Client_Get_ModelDeployment (R_Client r) req) w = (x, w1)" for x w1
    using store that by (metis fst_conv)
  have add: "AddFinalizer (R_Lib r) ?md Finalizer = (?md', True)"
    using store assms(4,5) by (simp add: alive_def documented_finalizers_def)
  have upd: "same md0 (v_object V w2) \<and> alive (v_object V w2) \<and> keyed (v_object V w2)"
    if "run_state (Client_Update (R_Client r) ?md') w1 = (x, w2)" for x w1 w2
  proof -
    obtain m v where "run_state (Client_Update (R_Client r) ?md') w1 = (Inr m, v)" "v_object V v = m"
      "same (?md'\<lparr>MD_Spec := MD_Spec ?md'\<rparr>) m" "alive ?md' \<longrightarrow> alive m" "keyed ?md' \<longrightarrow> keyed m"
      using store sp by blast
    with that alive assms(2) show ?thesis by (auto simp: same_def set_finalizers_def)
  qed
  show ?thesis
    unfolding Reconcile_def call_defs
    by (intro ensures_bind ensures_perform)
      (auto dest!: get simp: add assms(4) deleting_def [symmetric] intro!: ensures_intros dest: upd)
qed

text \<open>The stages on the way up, and that every round reaches at least the next one.\<close>

definition reached :: "'w views \<Rightarrow> ModelDeployment \<Rightarrow> nat \<Rightarrow> 'w \<Rightarrow> bool" where
  "reached V md0 k w \<longleftrightarrow>
     same md0 (v_object V w) \<and> \<not> deleting (v_object V w) \<and> keyed (v_object V w) \<and>
     (1 \<le> k \<longrightarrow> alive (v_object V w)) \<and> (2 \<le> k \<longrightarrow> WeightCache md0 = None \<or> v_done V w) \<and>
     (3 \<le> k \<longrightarrow> v_up V w) \<and> (4 \<le> k \<longrightarrow> shows_ready (v_object V w))"

lemma reached_next:
  assumes "attends r req V md0" "helps V passes" "plain md0" "reached V md0 k w"
  shows "ensures (Reconcile r req) (\<lambda>_ w'. reached V md0 (Suc k) (passes w')) w"
proof (cases "alive (v_object V w)")
  case True
  have "Replicas md0 \<noteq> 0" "Spec_Autoscaling (MD_Spec md0) = None"
    using assms(3) by (auto simp: plain_def explicit_def)
  then have "ensures (Reconcile r req) (\<lambda>_. advanced V md0 w) w"
    using assms(4) True by (intro reconcile_advances [OF assms(1)]) (simp_all add: reached_def)
  moreover have "reached V md0 (Suc k) (passes w')" if "advanced V md0 w w'" for w'
  proof -
    have "quiet V w' (passes w')" using assms(2) by (simp add: helps_def)
    then have obj: "v_object V (passes w') = v_object V w'" by (simp add: quiet_def)
    have "alive (v_object V w')" "same md0 (v_object V w')" "keyed (v_object V w')"
      using that True assms(4) by (auto simp: advanced_def later_def reached_def same_def)
    moreover have "WeightCache md0 = None \<or> v_done V (passes w')"
      using that assms(2) by (auto simp: advanced_def helps_def)
    moreover have "v_up V (passes w')" if "2 \<le> k"
      using that \<open>advanced V md0 w w'\<close> assms(2,4) by (auto simp: advanced_def reached_def helps_def)
    moreover have "shows_ready (v_object V w')" if "3 \<le> k"
      using that \<open>advanced V md0 w w'\<close> assms(4) by (auto simp: advanced_def reached_def)
    ultimately show ?thesis by (simp add: reached_def obj alive_def)
  qed
  ultimately show ?thesis by (rule ensures_mono)
next
  case False
  then have "k = 0" using assms(4) by (cases k) (simp_all add: reached_def)
  moreover have "ensures (Reconcile r req) (\<lambda>_ w'. same md0 (v_object V w') \<and> alive (v_object V w') \<and>
      keyed (v_object V w')) w"
    using assms(4) False by (intro claim_round [OF assms(1) _ assms(3)]) (simp_all add: reached_def)
  ultimately show ?thesis
    using assms(2) by (elim ensures_mono) (auto simp: reached_def helps_def quiet_def alive_def)
qed

lemma rounds_reach:
  assumes "attends r req V md0" "helps V passes" "plain md0" "reached V md0 k w"
  shows "reached V md0 (k + n) (rounds r req passes n w)"
  using assms(4)
proof (induction n arbitrary: k w)
  case (Suc n)
  have "reached V md0 (Suc k) (passes (world (snd (run_state (Reconcile r req) \<lparr>world = w, calls = []\<rparr>))))"
    using reached_next [OF assms(1-3) Suc.prems] by (simp add: ensures_def)
  from Suc.IH [OF this] show ?case by simp
qed simp

text \<open>
  C12. A deployment comes up. Take a ModelDeployment with a valid and explicit spec and a fixed replica count, that is not
  being deleted, in a cluster that attends to the operator: what is written is stored, a Job that is created
  is run and succeeds by the next round, and the pods of a released Deployment are ready by the next
  round. Then after four reconciles, and after every later one, its stored status says that it is ready.
\<close>

theorem deployment_comes_up:
  assumes "attends r req V (v_object V w)" "helps V passes" "plain (v_object V w)" "\<not> deleting (v_object V w)"
    and "keyed (v_object V w)" "4 \<le> n"
  shows "\<exists>c. condition_of ConditionReady (Status_Conditions (MD_Status (v_object V (rounds r req passes n w)))) = Some c \<and>
     Condition_Status c = ConditionTrue"
proof -
  have "reached V (v_object V w) 0 w" using assms(4,5) by (simp add: reached_def same_def)
  then have "reached V (v_object V w) (0 + n) (rounds r req passes n w)"
    by (rule rounds_reach [OF assms(1-3)])
  then show ?thesis using assms(6) by (simp add: reached_def shows_ready_def)
qed

subsection \<open>A cluster that attends\<close>

text \<open>A cluster with one object, the state of its warm-up Job and the state of its rollout.\<close>

datatype job_state = Job_missing | Job_running | Job_succeeded

datatype rollout_state = Rollout_held | Rollout_released | Rollout_complete

record bench =
  bench_object :: ModelDeployment
  bench_job :: job_state
  bench_rollout :: rollout_state

definition bench_views :: "bench views" where
  "bench_views =
     \<lparr>v_object = bench_object,
      v_started = (\<lambda>w. bench_job w \<noteq> Job_missing), v_done = (\<lambda>w. bench_job w = Job_succeeded),
      v_rolled = (\<lambda>w. bench_rollout w \<noteq> Rollout_held), v_up = (\<lambda>w. bench_rollout w = Rollout_complete)\<rparr>"

definition bench_library :: "(bench, string, Object) Library" where
  "bench_library =
     \<lparr>IsNotFound = (\<lambda>e. e = NotFound),
      IsAlreadyExists = (\<lambda>e. e = ''AlreadyExists''),
      IgnoreNotFound = (\<lambda>e. if e = Some NotFound then None else e),
      ErrorText = id,
      AddFinalizer = AddFinalizer test_library,
      RemoveFinalizer = RemoveFinalizer test_library,
      ContainsFinalizer = ContainsFinalizer test_library,
      SetControllerReference = SetControllerReference test_library,
      SetStatusCondition = (\<lambda>cs c. State (\<lambda>w. (put_condition 1 cs c, w))),
      Semantic_DeepEqual = (=),
      Set_String = (\<lambda>_. ''selector''),
      ToUnstructured = Inr,
      RemoveNestedField = (\<lambda>u path. u),
      Time_Now = State (\<lambda>w. (1, w))\<rparr>"

fun start_job :: "Object \<Rightarrow> bench \<Rightarrow> string option \<times> bench" where
  "start_job (JobObject job) w =
     (if bench_job w = Job_missing then (None, w\<lparr>bench_job := Job_running\<rparr>) else (Some ''AlreadyExists'', w))"
| "start_job _ w = (None, w)"

fun release :: "Object \<Rightarrow> bench \<Rightarrow> bench" where
  "release (DeploymentObject dep) w =
     (if \<not> DeploymentSpec_Paused (Deployment_Spec dep) \<and> bench_rollout w = Rollout_held
      then w\<lparr>bench_rollout := Rollout_released\<rparr> else w)"
| "release _ w = w"

definition bench_client :: "(bench, string, Object) Client" where
  "bench_client =
     \<lparr>Client_Get_ModelDeployment = (\<lambda>_. State (\<lambda>w. (Inr (bench_object w), w))),
      Client_Get_Job = (\<lambda>_. State (\<lambda>w.
        (if bench_job w = Job_missing then Inl NotFound
         else Inr (test_job (if bench_job w = Job_succeeded then 1 else 0)), w))),
      Client_Get_PersistentVolumeClaim = (\<lambda>_. State_Monad.return (Inl NotFound)),
      Client_Get_Deployment = (\<lambda>_. State (\<lambda>w.
        (Inr (test_deployment (if bench_rollout w = Rollout_complete then Replicas fixture else 0)), w))),
      Client_List_Job = (\<lambda>_ _. State_Monad.return (Inr [])),
      Client_List_Pod = (\<lambda>_ _. State_Monad.return (Inr [])),
      Client_Create = (\<lambda>obj. State (start_job obj)),
      Client_Update = (\<lambda>md. State (\<lambda>w.
        case admit (encode (MD_Spec md)) of
          None \<Rightarrow> (Inl ''Invalid'', w)
        | Some sp \<Rightarrow> (Inr (md\<lparr>MD_Spec := sp\<rparr>), w\<lparr>bench_object := md\<lparr>MD_Spec := sp\<rparr>\<rparr>))),
      Client_Status_Update = (\<lambda>md. State (\<lambda>w.
        if keyed md
        then (Inr md, w\<lparr>bench_object := (bench_object w)\<lparr>MD_Status := MD_Status md\<rparr>\<rparr>)
        else (Inl ''Invalid'', w))),
      Client_Delete = (\<lambda>_ _. State_Monad.return (Some NotFound)),
      Client_DeleteAllOf_Job = (\<lambda>_ _ _. State_Monad.return None),
      Client_Apply = (\<lambda>cfg _ _. State (\<lambda>w.
        case cfg of ApplyConfigurationFromUnstructured obj \<Rightarrow> (None, release obj w)))\<rparr>"

definition bench_operator :: "(bench, string, Object) ModelDeploymentReconciler" where
  "bench_operator =
     \<lparr>R_Client = bench_client, R_Lib = bench_library,
      R_Eventf = (\<lambda>_ _ _ _ _. State_Monad.return ()), R_Queue = None, R_Now = None\<rparr>"

text \<open>Between two rounds the Job is run and the released pods start.\<close>

definition bench_passes :: "bench \<Rightarrow> bench" where
  "bench_passes w = w
     \<lparr>bench_job := (if bench_job w = Job_running then Job_succeeded else bench_job w),
      bench_rollout := (if bench_rollout w = Rollout_released then Rollout_complete else bench_rollout w)\<rparr>"

lemma bench_simps:
  "R_Client bench_operator = bench_client" "R_Lib bench_operator = bench_library"
  "IsNotFound bench_library e \<longleftrightarrow> e = NotFound" "IsAlreadyExists bench_library e \<longleftrightarrow> e = ''AlreadyExists''"
  "IgnoreNotFound bench_library (Some NotFound) = None"
  by (simp_all add: bench_operator_def bench_library_def)

lemma bench_applies: "applies bench_operator md obj cfg \<longleftrightarrow> cfg = ApplyConfigurationFromUnstructured (owned md obj)"
  by (auto simp: applies_def own_def owned_def applyConfiguration_def bench_operator_def bench_library_def)

lemma bench_moves:
  "quiet bench_views w (snd (start_job obj w))" "quiet bench_views w (release obj w)"
  by (cases obj; simp add: quiet_def later_def same_def bench_views_def)+

lemma bench_leaves_alone: "leaves_alone bench_operator (quiet bench_views) D A"
  using bench_moves
  by (auto simp: leaves_alone_def op_moves_def bench_operator_def bench_client_def bench_library_def clock_op_def
      split: ApplyConfiguration.split)

lemma bench_keeps_store: "keeps_store bench_operator req bench_views"
proof -
  have "documented_finalizers bench_library" "documented_conditions bench_library" "documented_equality bench_library"
    using test_library_documented(2)
    by (auto simp: documented_finalizers_def documented_conditions_def documented_equality_def bench_library_def)
  moreover have "\<exists>cfg. applies bench_operator md obj cfg" for md obj by (simp add: bench_applies)
  moreover have "keyed (md\<lparr>MD_Spec := sp\<rparr>) = keyed md" for md sp by (simp add: keyed_def)
  ultimately show ?thesis
    by (simp add: keeps_store_def) (simp add: bench_operator_def bench_client_def bench_views_def same_def)
qed

lemma start_job_answers: "start_job obj w = (Some e, w') \<Longrightarrow> e = ''AlreadyExists''"
  by (cases "(obj, w)" rule: start_job.cases) (auto split: if_splits)

lemma bench_runs_jobs: "runs_jobs bench_operator bench_views fixture"
proof -
  have owns: "OwnsPVC fixture" using live_simps by (simp add: live_def set_finalizers_def OwnsPVC_def)
  have created: "case fst (start_job obj w) of None \<Rightarrow> True | Some e \<Rightarrow> e = ''AlreadyExists''" for obj w
    using start_job_answers [of obj w] by (cases "start_job obj w") (auto split: option.split)
  have started: "bench_job (snd (start_job obj w)) \<noteq> Job_missing"
    if "own bench_operator md (JobObject job) = Inr obj" for md job obj w
  proof -
    have "\<exists>job'. obj = JobObject job'" using that by (auto simp: own_Inr_iff)
    then show ?thesis by (auto split: if_splits)
  qed
  show ?thesis
    unfolding runs_jobs_def bench_simps
    using owns created started
    by (auto simp: bench_views_def bench_client_def bench_simps word_sless_alt)
qed

lemma bench_rolls_out: "rolls_out bench_operator bench_views fixture"
proof -
  have "DeploymentSpec_Paused (Deployment_Spec (Deployment md k n False)) = False" for md k n
    by (simp add: Deployment_def Let_def)
  then have "bench_rollout (release (owned md (DeploymentObject (Deployment md k n False))) w) \<noteq> Rollout_held" for md k n w
    by (simp add: owned_def)
  then show ?thesis
    unfolding rolls_out_def bench_applies
    by (auto simp: bench_views_def bench_operator_def bench_client_def bench_library_def
        split: ApplyConfiguration.split)
qed

lemma bench_attends: "attends bench_operator req bench_views fixture"
  using bench_leaves_alone bench_keeps_store bench_runs_jobs bench_rolls_out
  by (auto simp: attends_def op_moves_def later_def same_def keyed_def bench_views_def bench_operator_def bench_client_def)

lemma bench_helps: "helps bench_views bench_passes"
  by (simp add: helps_def quiet_def later_def same_def bench_views_def bench_passes_def)
    (metis job_state.exhaust rollout_state.exhaust)

lemma fixture_plain: "plain fixture" "\<not> deleting fixture" "keyed fixture"
  using live_simps(1,7) fixture_valid
  by (simp_all add: plain_def live_def set_finalizers_def deleting_def keyed_def explicit_def) (simp add: fixture_def)

lemma deployment_comes_up_witness:
  "\<exists>c. condition_of ConditionReady (Status_Conditions (MD_Status (bench_object (rounds bench_operator request bench_passes 4
       \<lparr>bench_object = fixture, bench_job = Job_missing, bench_rollout = Rollout_held\<rparr>)))) = Some c \<and>
     Condition_Status c = ConditionTrue"
proof -
  let ?w = "\<lparr>bench_object = fixture, bench_job = Job_missing, bench_rollout = Rollout_held\<rparr>"
  have V: "v_object bench_views = bench_object" by (simp add: bench_views_def)
  have w: "v_object bench_views ?w = fixture" by (simp add: V)
  show ?thesis
    using deployment_comes_up [of bench_operator request bench_views ?w bench_passes 4, unfolded w]
      bench_attends bench_helps fixture_plain by (simp add: V)
qed

end
