(* ===== verification/Manifests.thy ===== *)
theory Manifests
  imports Manager Rbac Crd
begin

section \<open>config: the manifests the operator is installed with\<close>

text \<open>
  The Deployment of the manager (\<open>config/manager\<close>), the bindings of its roles (\<open>config/rbac\<close>) and the
  samples (\<open>config/samples\<close>), with what they have to do with the code: the arguments are parsed by the
  flags of \<open>cmd/main.go\<close>, the probes ask the port the manager listens on, the service account is bound to the role
  generated from the markers and to the one for leader election, and the samples pass the CRD.
  \<open>config/default\<close> passes the manifests through kustomize, which renames the objects together with the
  references to them and moves them into one namespace: the renaming \<open>nm\<close> and the namespace \<open>ns\<close> are parameters.
\<close>

subsection \<open>The manager\<close>

record HTTPGet =
  HTTPGet_Path :: string
  HTTPGet_Port :: IntOrString

record ManagerDeployment =
  Manager_Replicas :: int32
  Manager_Selector :: labels
  Manager_PodLabels :: labels
  Manager_ServiceAccountName :: string
  Manager_Args :: "string list"
  Manager_Ports :: "ContainerPort list"
  Manager_LivenessProbe :: HTTPGet
  Manager_ReadinessProbe :: HTTPGet

definition manager_yaml :: ManagerDeployment where
  "manager_yaml =
     \<lparr>Manager_Replicas = 2,
      Manager_Selector = [''app.kubernetes.io/name'' \<mapsto> ''k8s-model-operator''],
      Manager_PodLabels = [''app.kubernetes.io/name'' \<mapsto> ''k8s-model-operator''],
      Manager_ServiceAccountName = ''controller-manager'',
      Manager_Args = [''--leader-elect'', ''--health-probe-bind-address=:8081'', ''--metrics-bind-address=:8080''],
      Manager_Ports =
        [\<lparr>ContainerPort_Name = ''metrics'', ContainerPort_ContainerPort = 8080, ContainerPort_Protocol = ''TCP''\<rparr>,
         \<lparr>ContainerPort_Name = ''probes'', ContainerPort_ContainerPort = 8081, ContainerPort_Protocol = ''TCP''\<rparr>],
      Manager_LivenessProbe = \<lparr>HTTPGet_Path = ''/healthz'', HTTPGet_Port = FromString ''probes''\<rparr>,
      Manager_ReadinessProbe = \<lparr>HTTPGet_Path = ''/readyz'', HTTPGet_Port = FromString ''probes''\<rparr>\<rparr>"

text \<open>The port a probe asks: a name is looked up among the ports of the container.\<close>

fun probe_port :: "ContainerPort list \<Rightarrow> IntOrString \<Rightarrow> int32 option" where
  "probe_port ports (FromInt32 n) = Some n"
| "probe_port ports (FromString s) =
     map_option ContainerPort_ContainerPort (find (\<lambda>p. ContainerPort_Name p = s) ports)"

text \<open>The address of a listener on a port of every interface.\<close>

definition any_interface :: "int32 \<Rightarrow> string" where
  "any_interface port = '':'' @ Itoa (sint port)"

subsection \<open>Roles and bindings\<close>

record Role =
  Role_Namespace :: "string option"
  Role_Name :: string
  Role_Rules :: "PolicyRule list"

datatype RoleRef = ClusterRole string | NamespacedRole string

record RoleBinding =
  Binding_Namespace :: "string option"
  Binding_RoleRef :: RoleRef
  Binding_Subjects :: "(string \<times> string) list"

definition leader_election_role :: "PolicyRule list" where
  "leader_election_role =
     [policy_rule ''coordination.k8s.io'' [''leases'']
        [''get'', ''list'', ''watch'', ''create'', ''update'', ''patch'', ''delete''],
      policy_rule '''' [''events''] [''create'', ''patch'']]"

definition config_roles :: "(string \<Rightarrow> string) \<Rightarrow> string \<Rightarrow> Role list" where
  "config_roles nm ns =
     [\<lparr>Role_Namespace = None, Role_Name = nm ''model-operator'', Role_Rules = role_yaml\<rparr>,
      \<lparr>Role_Namespace = Some ns, Role_Name = nm ''leader-election'', Role_Rules = leader_election_role\<rparr>]"

definition role_binding :: "(string \<Rightarrow> string) \<Rightarrow> string \<Rightarrow> RoleBinding" where
  "role_binding nm ns =
     \<lparr>Binding_Namespace = None, Binding_RoleRef = ClusterRole (nm ''model-operator''),
      Binding_Subjects = [(ns, nm ''controller-manager'')]\<rparr>"

definition leader_election_role_binding :: "(string \<Rightarrow> string) \<Rightarrow> string \<Rightarrow> RoleBinding" where
  "leader_election_role_binding nm ns =
     \<lparr>Binding_Namespace = Some ns, Binding_RoleRef = NamespacedRole (nm ''leader-election''),
      Binding_Subjects = [(ns, nm ''controller-manager'')]\<rparr>"

definition config_bindings :: "(string \<Rightarrow> string) \<Rightarrow> string \<Rightarrow> RoleBinding list" where
  "config_bindings nm ns = [role_binding nm ns, leader_election_role_binding nm ns]"

text \<open>
  What a service account may do in a namespace, as Kubernetes documents it: a binding counts in its own
  namespace, or everywhere when it has none, for its subjects, and gives the rules of the role it refers to.
\<close>

definition refers_to :: "RoleBinding \<Rightarrow> Role \<Rightarrow> bool" where
  "refers_to b role =
     (case Binding_RoleRef b of
        ClusterRole n \<Rightarrow> Role_Namespace role = None \<and> Role_Name role = n
      | NamespacedRole n \<Rightarrow> Role_Namespace role = Binding_Namespace b \<and> Role_Name role = n)"

definition may :: "Role list \<Rightarrow> RoleBinding list \<Rightarrow> string \<times> string \<Rightarrow> string \<Rightarrow> attributes \<Rightarrow> bool" where
  "may roles bindings account space a \<longleftrightarrow>
     list_ex (\<lambda>b. account \<in> set (Binding_Subjects b) \<and>
                  (Binding_Namespace b = None \<or> Binding_Namespace b = Some space) \<and>
                  list_ex (\<lambda>role. refers_to b role \<and> grants (Role_Rules role) a) roles) bindings"

text \<open>The installed service account has the generated role everywhere and the other one at home, and nothing else.\<close>

lemma manager_may:
  "may (config_roles nm ns) (config_bindings nm ns) (ns, nm (Manager_ServiceAccountName manager_yaml)) space a \<longleftrightarrow>
     grants role_yaml a \<or> (space = ns \<and> grants leader_election_role a)"
  by (auto simp: may_def config_roles_def config_bindings_def role_binding_def
      leader_election_role_binding_def refers_to_def manager_yaml_def)

definition lease_request :: "string \<Rightarrow> attributes" where
  "lease_request verb =
     \<lparr>Attr_APIGroup = ''coordination.k8s.io'', Attr_Resource = ''leases'', Attr_Verb = verb\<rparr>"

lemma lease_granted:
  "verb \<in> set all_verbs \<Longrightarrow> grants leader_election_role (lease_request verb)"
  "\<not> grants role_yaml (lease_request verb)"
  by (auto simp: leader_election_role_def lease_request_def rule_matches_def policy_rule_def listed_def all_verbs_def)
    (simp add: role_yaml_def rule_matches_def policy_rule_def listed_def)

subsection \<open>The manager as it is deployed\<close>

lemma run_calls_options:
  "run_calls p scheme cs res \<Longrightarrow> Boot_NewManager cfg opts r \<in> set cs \<Longrightarrow>
   \<exists>fl. parsed_flags p = Inr fl \<and> opts = manager_options scheme fl"
  by (auto elim!: run_calls.cases serve_calls.cases)

lemma deployed_flags:
  assumes "os_Args p = Manager_Args manager_yaml"
  shows "parsed_flags p =
    Inr \<lparr>metricsAddr = '':8080'', probeAddr = '':8081'', leaderElection = True, metricsTimeout = 10 * second,
         zapOptions = zap_Options p\<rparr>"
  using parse_settings [of "[Leader_elect, Health_probe_bind_address '':8081'', Metrics_bind_address '':8080'']"
      "float_fraction p" "library_flags p" "flag_defaults (zap_Options p)"]
  by (simp add: parsed_flags_def assms manager_yaml_def flag_defaults_def)

lemma any_interface_ports: "any_interface 8080 = '':8080''" "any_interface 8081 = '':8081''"
  by (simp_all add: any_interface_def Itoa_def decimal.simps digit_def char_of_def bit_0)

text \<open>
  C25. The replicas of the manager elect a leader. A process started with the arguments of \<open>manager.yaml\<close> never fails on
  its command line, and every manager it builds has leader election on, under the same name in both
  replicas, with its health endpoint on 8081, the container port that the two probes of the manifest ask, and its
  metrics on 8080, the container port that is named \<open>metrics\<close>. The service account it runs under, whatever kustomize renames it to, may use the
  lease of the election with every verb in the namespace it is installed in, and in no other namespace.
\<close>

theorem deployed_manager_elects:
  assumes "os_Args p = Manager_Args manager_yaml"
    and "run_state (main p scheme) \<lparr>boot_world = w, boot_calls = []\<rparr> = (status, b)"
  shows "(\<forall>cfg opts res. Boot_NewManager cfg opts res \<in> set (boot_calls b) \<longrightarrow>
      opts = \<lparr>Options_Scheme = scheme, Options_Metrics_BindAddress = any_interface 8080,
              Options_HealthProbeBindAddress = any_interface 8081, Options_LeaderElection = True,
              Options_LeaderElectionID = ''modeldeployment.serving.lpogosu.dev''\<rparr>) \<and>
    status \<le> 1 \<and>
    probe_port (Manager_Ports manager_yaml) (FromString ''metrics'') = Some 8080 \<and>
    (\<forall>probe \<in> {Manager_LivenessProbe manager_yaml, Manager_ReadinessProbe manager_yaml}.
       probe_port (Manager_Ports manager_yaml) (HTTPGet_Port probe) = Some 8081) \<and>
    (\<forall>verb \<in> set all_verbs. \<forall>space.
       may (config_roles nm ns) (config_bindings nm ns) (ns, nm (Manager_ServiceAccountName manager_yaml)) space
         (lease_request verb) \<longleftrightarrow> space = ns)"
proof (intro conjI)
  obtain cs res where cs: "run_calls p scheme cs res" and res: "case res of
       Inl st \<Rightarrow> status = st \<and> boot_calls b = cs
     | Inr None \<Rightarrow> status = 0 \<and> boot_calls b = cs
     | Inr (Some err) \<Rightarrow> status = 1 \<and> boot_calls b = cs @
         [Boot_Stderr (''manager exited: '' @ Error (ErrorText (Packages p scheme)) err @ [CHR 0x0A])]"
    using main_run [OF assms(2), unfolded boot.simps append_Nil] by blast
  show "\<forall>cfg opts res. Boot_NewManager cfg opts res \<in> set (boot_calls b) \<longrightarrow>
      opts = \<lparr>Options_Scheme = scheme, Options_Metrics_BindAddress = any_interface 8080,
              Options_HealthProbeBindAddress = any_interface 8081, Options_LeaderElection = True,
              Options_LeaderElectionID = ''modeldeployment.serving.lpogosu.dev''\<rparr>"
  proof (intro allI impI)
    fix cfg opts r assume "Boot_NewManager cfg opts r \<in> set (boot_calls b)"
    then have "Boot_NewManager cfg opts r \<in> set cs" using res by (auto split: sum.splits option.splits)
    from run_calls_options [OF cs this] deployed_flags [OF assms(1)]
    show "opts = \<lparr>Options_Scheme = scheme, Options_Metrics_BindAddress = any_interface 8080,
              Options_HealthProbeBindAddress = any_interface 8081, Options_LeaderElection = True,
              Options_LeaderElectionID = ''modeldeployment.serving.lpogosu.dev''\<rparr>"
      by (auto simp: manager_options_def any_interface_ports)
  qed
  show "status \<le> 1"
    using res cs run_calls_exit [of p scheme cs] deployed_flags [OF assms(1)]
    by (auto split: sum.splits option.splits)
  show "probe_port (Manager_Ports manager_yaml) (FromString ''metrics'') = Some 8080"
    by (simp add: manager_yaml_def)
  show "\<forall>probe \<in> {Manager_LivenessProbe manager_yaml, Manager_ReadinessProbe manager_yaml}.
       probe_port (Manager_Ports manager_yaml) (HTTPGet_Port probe) = Some 8081"
    by (simp add: manager_yaml_def)
  show "\<forall>verb \<in> set all_verbs. \<forall>space.
       may (config_roles nm ns) (config_bindings nm ns) (ns, nm (Manager_ServiceAccountName manager_yaml)) space
         (lease_request verb) \<longleftrightarrow> space = ns"
    using lease_granted by (simp add: manager_may)
qed

lemma deployed_manager_elects_witness:
  "case run_state (main (test_platform\<lparr>os_Args := Manager_Args manager_yaml\<rparr>) ()) \<lparr>boot_world = 0, boot_calls = []\<rparr> of
     (status, b) \<Rightarrow> \<exists>cfg opts res. Boot_NewManager cfg opts res \<in> set (boot_calls b) \<and> Options_LeaderElection opts"
proof -
  let ?p = "test_platform\<lparr>os_Args := Manager_Args manager_yaml\<rparr>"
  obtain status b where eq: "run_state (main ?p ()) \<lparr>boot_world = 0, boot_calls = []\<rparr> = (status, b)" by fastforce
  have fl: "parsed_flags ?p =
      Inr \<lparr>metricsAddr = '':8080'', probeAddr = '':8081'', leaderElection = True, metricsTimeout = 10 * second,
           zapOptions = zap_Options ?p\<rparr>"
    by (rule deployed_flags) simp
  have "\<exists>cfg opts res. Boot_NewManager cfg opts res \<in> set (boot_calls b)"
    using eq fl
    by (auto simp: main_def run_def serve_def SetupWithManager_def run_boots test_platform_def NewCustomMetrics_def)
  then show ?thesis
    using deployed_manager_elects [OF _ eq, of "\<lambda>n. ''model-operator-'' @ n" "''model-operator-system''"]
    by (fastforce simp: eq)
qed

subsection \<open>The samples\<close>

definition gpu_sample :: WireSpec where
  "gpu_sample =
     \<lparr>wire_model = \<lparr>wire_name = ''Qwen/Qwen2.5-7B-Instruct'',
        wire_revision = Some ''bb46c15ee4bb56c5b63245ef50fd7637234d6f75'',
        wire_secretRef = Some \<lparr>LocalObjectReference_Name = ''huggingface-token''\<rparr>\<rparr>,
      wire_runtime = Some
        \<lparr>wire_engine = Some ''vllm'', wire_image = Some ''vllm/vllm-openai:v0.11.0'',
         wire_extraArgs = Some [''--max-model-len'', ''8192'', ''--gpu-memory-utilization'', ''0.90''],
         wire_port = None, wire_loadTimeoutSeconds = Some 900,
         wire_resources = Some
           \<lparr>Resources_Limits = [''nvidia.com/gpu'' \<mapsto> MustParse ''1'', ''memory'' \<mapsto> MustParse ''48Gi''],
            Resources_Requests = [''cpu'' \<mapsto> MustParse ''4'', ''memory'' \<mapsto> MustParse ''32Gi'',
                                  ''nvidia.com/gpu'' \<mapsto> MustParse ''1'']\<rparr>,
         wire_nodeSelector = [''nvidia.com/gpu.product'' \<mapsto> ''NVIDIA-A100-SXM4-40GB''],
         wire_tolerations = Some
           [\<lparr>Toleration_Key = ''nvidia.com/gpu'', Toleration_Operator = ''Exists'', Toleration_Value = '''',
             Toleration_Effect = ''NoSchedule''\<rparr>]\<rparr>,
      wire_replicas = Some 2,
      wire_weightCache = Some
        \<lparr>wire_size = Some (MustParse ''300Gi''), wire_storageClassName = Some ''nfs-rwx'',
         wire_existingClaimName = None, wire_mountPath = Some ''/models'', wire_warmImage = None,
         wire_warmTimeoutSeconds = Some 3600\<rparr>,
      wire_autoscaling = Some
        \<lparr>wire_minReplicas = Some 2, wire_maxReplicas = 8, wire_targetQueueDepth = Some 4,
         wire_metricName = Some ''vllm:num_requests_waiting'', wire_scaleUpStabilizationSeconds = Some 60,
         wire_scaleDownStabilizationSeconds = Some 900, wire_maxScaleUpStep = Some 2\<rparr>,
      wire_disruption = Some \<lparr>wire_minAvailable = Some 1\<rparr>\<rparr>"

definition ollama_sample :: WireSpec where
  "ollama_sample =
     \<lparr>wire_model = \<lparr>wire_name = ''llama3.1:8b'', wire_revision = None, wire_secretRef = None\<rparr>,
      wire_runtime = Some
        \<lparr>wire_engine = Some ''ollama'', wire_image = None, wire_extraArgs = None, wire_port = Some 11434,
         wire_loadTimeoutSeconds = Some 600,
         wire_resources = Some
           \<lparr>Resources_Limits = [''nvidia.com/gpu'' \<mapsto> MustParse ''1''],
            Resources_Requests = [''cpu'' \<mapsto> MustParse ''2'', ''memory'' \<mapsto> MustParse ''16Gi'',
                                  ''nvidia.com/gpu'' \<mapsto> MustParse ''1'']\<rparr>,
         wire_nodeSelector = Map.empty, wire_tolerations = None\<rparr>,
      wire_replicas = Some 1, wire_weightCache = None, wire_autoscaling = None, wire_disruption = None\<rparr>"

text \<open>
  Both samples pass the CRD, and what is stored of them is complete: valid for the operator and unchanged by its
  writes.
\<close>

lemma samples_admitted:
  assumes "w \<in> {gpu_sample, ollama_sample}"
  shows "crd_store_by crd_spec (json_spec w) = Some (json_spec (defaulted w))"
    and "admit w = Some (decode (defaulted w))"
    and "crd_valid (decode (defaulted w))" and "explicit (decode (defaulted w))"
proof -
  have v: "wire_valid (defaulted w)"
    using assms by (auto simp: gpu_sample_def ollama_sample_def wire_defs)
  have "list_all (matches quantity_pattern) [''1'', ''2'', ''4'', ''16Gi'', ''32Gi'', ''48Gi'', ''300Gi'']" by code_simp
  then have "quantities_well_formed w"
    using assms by (auto simp: quantities_well_formed_def resources_well_formed_def present_def matches_quantity
        gpu_sample_def ollama_sample_def)
  with v show "crd_store_by crd_spec (json_spec w) = Some (json_spec (defaulted w))"
    by (simp add: crd_store_by_def fill_spec valid_spec quantities_defaulted)
  show a: "admit w = Some (decode (defaulted w))" using v by (simp add: admit_def)
  show "crd_valid (decode (defaulted w))" "explicit (decode (defaulted w))"
    using admitted_in_range [OF a] assms
    by (auto simp: crd_valid_iff explicit_def explicit_autoscaling_def writable_def decode_def decode_model_def
        decode_runtime_def decode_cache_def decode_autoscaling_def gpu_sample_def ollama_sample_def wire_defs)
qed

end
