(* ===== verification/Shell.thy ===== *)
theory Shell
  imports Workloads
begin

section \<open>The shell scripts of the rendered pods\<close>

text \<open>
  \<open>workloads.go\<close> hands two scripts to \<open>/bin/sh -euc\<close>: the one of the warm-up Job, which downloads the weights and then
  writes the marker (\<open>warmScript\<close>), and the one of the init container, which waits for the marker
  (\<open>waitForWeights\<close>). Here are the part of the POSIX shell they use, as syntax trees with the text a tree is
  written as, and its meaning under \<open>set -e\<close> and \<open>set -u\<close>. The scripts of the source are the text of two trees, and
  what the scripts do is what the trees do. (Kubernetes itself expands \<open>$(X)\<close> in a command where \<open>X\<close> is the name of
  a variable of the container, and leaves the rest, such as \<open>$(date +%s)\<close>, as it is.) The programs the scripts
  call and the file system are parameters, the fields of the record \<open>Sys\<close>.
\<close>

subsection \<open>Syntax\<close>

text \<open>
  A word is bare or in double quotes; inside quotes there are literal text, parameters and the outputs of
  commands.
\<close>

datatype shword = Bare string | Quoted "part list"
and part = Lit string | Par string | Sub "shword list"

text \<open>
  The conditions \<open>[ ! -f w ]\<close>, \<open>[ a -ge b ]\<close> and a command with its output thrown away; the statements are a command,
  a command with its output in a file, a message to standard error, a command in the background,
  \<open>x=$(( $(command) + n ))\<close>, \<open>x=$!\<close>, the loops, the conditional, \<open>exit\<close> and a comment.
\<close>

datatype cond = No_file shword | Ge shword shword | Succeeds "shword list"

datatype simple =
    Run "shword list"
  | Run_to "shword list" shword
  | Complain shword
  | Start "shword list"
  | Assign_sum string "shword list" int
  | Assign_pid string

datatype stmt =
    Do simple
  | While cond "stmt list"
  | Until cond "stmt list"
  | If cond "stmt list" "stmt list"
  | Exit nat
  | Comment string

subsection \<open>The text of a tree\<close>

definition special :: "char \<Rightarrow> bool" where
  "special c \<longleftrightarrow> c \<in> {CHR ''$'', CHR 0x60, CHR 0x22, CHR 0x5C}"

definition escaped :: "string \<Rightarrow> string" where
  "escaped s = concat (map (\<lambda>c. if special c then [CHR 0x5C, c] else [c]) s)"

fun spaced :: "string list \<Rightarrow> string" where
  "spaced [] = ''''"
| "spaced [w] = w"
| "spaced (w # ws) = w @ '' '' @ spaced ws"

fun word_text :: "shword \<Rightarrow> string" and part_text :: "part \<Rightarrow> string" where
  "word_text (Bare s) = s"
| "word_text (Quoted ps) = [CHR 0x22] @ concat (map part_text ps) @ [CHR 0x22]"
| "part_text (Lit s) = escaped s"
| "part_text (Par x) = ''$'' @ x"
| "part_text (Sub ws) = ''$('' @ spaced (map word_text ws) @ '')''"

fun cond_text :: "cond \<Rightarrow> string" where
  "cond_text (No_file w) = ''[ ! -f '' @ word_text w @ '' ]''"
| "cond_text (Ge a b) = ''[ '' @ word_text a @ '' -ge '' @ word_text b @ '' ]''"
| "cond_text (Succeeds ws) = spaced (map word_text ws) @ '' >/dev/null 2>&1''"

text \<open>The lines of a statement; \<open>until\<close> stands on one line, everything else is indented.\<close>

fun simple_text :: "simple \<Rightarrow> string" where
  "simple_text (Run ws) = spaced (map word_text ws)"
| "simple_text (Run_to ws f) = spaced (map word_text ws) @ '' > '' @ word_text f"
| "simple_text (Complain w) = ''echo '' @ word_text w @ '' >&2''"
| "simple_text (Start ws) = spaced (map word_text ws) @ '' &''"
| "simple_text (Assign_sum x ws n) = x @ ''=$(( $('' @ spaced (map word_text ws) @ '') + '' @ Itoa n @ '' ))''"
| "simple_text (Assign_pid x) = x @ ''=$!''"

fun stmt_lines :: "stmt \<Rightarrow> string list" where
  "stmt_lines (Do c) = [simple_text c]"
| "stmt_lines (While c body) =
     [''while '' @ cond_text c @ ''; do''] @ map (\<lambda>l. ''  '' @ l) (concat (map stmt_lines body)) @ [''done'']"
| "stmt_lines (Until c body) =
     [''until '' @ cond_text c @ ''; do '' @ concat (map (\<lambda>l. l @ ''; '') (concat (map stmt_lines body))) @ ''done'']"
| "stmt_lines (If c yes no) =
     [''if '' @ cond_text c @ ''; then''] @ map (\<lambda>l. ''  '' @ l) (concat (map stmt_lines yes)) @
     (if no = [] then [] else [''else''] @ map (\<lambda>l. ''  '' @ l) (concat (map stmt_lines no))) @ [''fi'']"
| "stmt_lines (Exit n) = [''exit '' @ decimal n]"
| "stmt_lines (Comment s) = [''# '' @ s]"

definition script_text :: "stmt list \<Rightarrow> string" where
  "script_text prog = raw_string (concat (map stmt_lines prog))"

subsection \<open>The two scripts\<close>

definition wait_body :: "string \<Rightarrow> stmt list" where
  "wait_body marker =
     [If (Ge (Quoted [Sub [Bare ''date'', Bare ''+%s'']]) (Quoted [Par ''deadline'']))
        [Do (Complain (Quoted [Lit (''weight cache marker '' @ marker @ '' never appeared'')])), Exit 1] [],
      Do (Run [Bare ''sleep'', Bare ''5''])]"

definition wait_loop :: "string \<Rightarrow> stmt" where
  "wait_loop marker = While (No_file (Quoted [Lit marker])) (wait_body marker)"

definition wait_program :: "int \<Rightarrow> string \<Rightarrow> stmt list" where
  "wait_program timeout marker =
     [Do (Assign_sum ''deadline'' [Bare ''date'', Bare ''+%s''] timeout), wait_loop marker]"

definition mark :: "stmt list" where
  "mark =
     [Do (Run [Bare ''mkdir'', Bare ''-p'', Quoted [Sub [Bare ''dirname'', Quoted [Par ''MARKER'']]]]),
      Do (Run_to [Bare ''date'', Bare ''-u'', Bare ''+%Y-%m-%dT%H:%M:%SZ''] (Quoted [Par ''MARKER'']))]"

definition download :: "string \<Rightarrow> stmt" where
  "download tool =
     Do (Run [Bare tool, Bare ''download'', Quoted [Par ''MODEL_NAME''], Bare ''--revision'',
              Quoted [Par ''MODEL_REVISION'']])"

definition await_server :: stmt where
  "await_server = Until (Succeeds [Bare ''ollama'', Bare ''list'']) [Do (Run [Bare ''sleep'', Bare ''1''])]"

definition fetch :: "Engine \<Rightarrow> stmt list" where
  "fetch engine =
     (if engine = EngineOllama then
       [Do (Run [Bare ''mkdir'', Bare ''-p'', Quoted [Par ''OLLAMA_MODELS'']]),
        Do (Start [Bare ''ollama'', Bare ''serve'']),
        Do (Assign_pid ''server''),
        Comment ''\"ollama pull\" is a client command; it needs a server in this same pod because'',
        Comment ''the shared volume, not the network, is what the weights have to end up on.'',
        await_server,
        Do (Run [Bare ''ollama'', Bare ''pull'', Quoted [Par ''MODEL_NAME'']]),
        Do (Run [Bare ''kill'', Quoted [Par ''server'']])]
      else
       [Do (Run [Bare ''mkdir'', Bare ''-p'', Quoted [Par ''HF_HOME'']]),
        Comment ''\"hf\" replaced \"huggingface-cli\" in huggingface_hub 0.34; runtime images in the'',
        Comment ''wild still ship either one.'',
        If (Succeeds [Bare ''command'', Bare ''-v'', Bare ''hf'']) [download ''hf''] [download ''huggingface-cli'']])"

definition warm_program :: "Engine \<Rightarrow> stmt list" where
  "warm_program engine = fetch engine @ mark"

text \<open>
  The scripts in the source are the text of these trees. The wait script has the path of the marker in
  it as it is, so this needs a path without the characters that are special between double quotes.
\<close>

definition unquoted :: "string \<Rightarrow> bool" where
  "unquoted s \<longleftrightarrow> list_all (\<lambda>c. \<not> special c) s"

lemma escaped_unquoted: "unquoted s \<Longrightarrow> escaped s = s"
  by (induction s) (simp_all add: unquoted_def escaped_def)

lemma warmScript_program: "warmScript e = script_text (warm_program e)"
  by (simp add: warmScript_def script_text_def warm_program_def fetch_def mark_def download_def await_server_def downloadLines_def
      markerLines_def)

lemma length_escaped: "length (escaped s) = length s + length (filter special s)"
  by (induction s) (simp_all add: escaped_def)

lemma unquoted_iff: "unquoted s \<longleftrightarrow> length (filter special s) = 0"
  by (auto simp: unquoted_def list_all_iff filter_empty_conv)

lemma escaped_append: "escaped (s @ t) = escaped s @ escaped t"
  by (simp add: escaped_def)

lemma waitScript_program: "waitScript t m = script_text (wait_program (sint t) m) \<longleftrightarrow> unquoted m"
proof
  assume eq: "waitScript t m = script_text (wait_program (sint t) m)"
  have "length (script_text (wait_program (sint t) m)) = length (waitScript t m) + 2 * length (filter special m)"
    by (simp add: waitScript_def script_text_def wait_program_def wait_loop_def wait_body_def escaped_append
        length_escaped special_def decimal.simps [of "Suc 0"])
  then show "unquoted m" using eq by (simp add: unquoted_iff)
next
  assume m: "unquoted m"
  then have "unquoted (''weight cache marker '' @ m @ '' never appeared'')"
    by (simp add: unquoted_def special_def)
  with m show "waitScript t m = script_text (wait_program (sint t) m)"
    by (simp add: waitScript_def script_text_def wait_program_def wait_loop_def wait_body_def escaped_unquoted
        decimal.simps digit_def char_of_def bit_0)
qed

subsection \<open>Meaning\<close>

text \<open>
  The programs and the file system over a world of type \<open>'w\<close>: running a program gives its exit status and its output
  (without the newlines at its end), starting one in the background its process id, opening a file for writing
  whether that worked.
\<close>

record 'w Sys =
  exec :: "string list \<Rightarrow> 'w \<Rightarrow> 'w \<times> nat \<times> string"
  spawn :: "string list \<Rightarrow> 'w \<Rightarrow> 'w \<times> string"
  regular_file :: "string \<Rightarrow> 'w \<Rightarrow> bool"
  open_write :: "string \<Rightarrow> 'w \<Rightarrow> 'w \<times> bool"

datatype event =
    Ran "string list" nat
  | Spawned "string list"
  | Tested string bool
  | Opened string bool

record 'w shell =
  sh_vars :: "string \<Rightarrow> string option"
  sh_world :: 'w
  sh_pid :: "string option"
  sh_log :: "event list"

definition run_program :: "'w Sys \<Rightarrow> string list \<Rightarrow> 'w shell \<Rightarrow> 'w shell \<times> nat \<times> string" where
  "run_program sys argv s =
     (case exec sys argv (sh_world s) of (w, st, out) \<Rightarrow>
        (s\<lparr>sh_world := w, sh_log := sh_log s @ [Ran argv st]\<rparr>, st, out))"

text \<open>Expansion; \<open>None\<close> is a parameter that is not set, which under \<open>set -u\<close> ends the shell.\<close>

fun expand :: "'w Sys \<Rightarrow> shword \<Rightarrow> 'w shell \<Rightarrow> (string \<times> 'w shell) option"
and expand_parts :: "'w Sys \<Rightarrow> part list \<Rightarrow> 'w shell \<Rightarrow> (string \<times> 'w shell) option"
and expand_part :: "'w Sys \<Rightarrow> part \<Rightarrow> 'w shell \<Rightarrow> (string \<times> 'w shell) option"
and expand_words :: "'w Sys \<Rightarrow> shword list \<Rightarrow> 'w shell \<Rightarrow> (string list \<times> 'w shell) option" where
  "expand sys (Bare t) s = Some (t, s)"
| "expand sys (Quoted ps) s = expand_parts sys ps s"
| "expand_parts sys [] s = Some ('''', s)"
| "expand_parts sys (p # ps) s =
     (case expand_part sys p s of
        None \<Rightarrow> None
      | Some (a, s) \<Rightarrow> (case expand_parts sys ps s of None \<Rightarrow> None | Some (b, s) \<Rightarrow> Some (a @ b, s)))"
| "expand_part sys (Lit t) s = Some (t, s)"
| "expand_part sys (Par x) s = map_option (\<lambda>v. (v, s)) (sh_vars s x)"
| "expand_part sys (Sub ws) s =
     (case expand_words sys ws s of
        None \<Rightarrow> None
      | Some (argv, s) \<Rightarrow> (case run_program sys argv s of (s, _, out) \<Rightarrow> Some (out, s)))"
| "expand_words sys [] s = Some ([], s)"
| "expand_words sys (w # ws) s =
     (case expand sys w s of
        None \<Rightarrow> None
      | Some (a, s) \<Rightarrow> (case expand_words sys ws s of None \<Rightarrow> None | Some (as, s) \<Rightarrow> Some (a # as, s)))"

fun read_int :: "string \<Rightarrow> int option" where
  "read_int (c # t) =
     (if c = CHR ''-'' then (if t \<noteq> [] \<and> list_all is_digit t then Some (- int (read_decimal t)) else None)
      else if list_all is_digit (c # t) then Some (int (read_decimal (c # t))) else None)"
| "read_int [] = None"

fun holds_cond :: "'w Sys \<Rightarrow> cond \<Rightarrow> 'w shell \<Rightarrow> (bool \<times> 'w shell) option" where
  "holds_cond sys (No_file f) s =
     (case expand sys f s of
        None \<Rightarrow> None
      | Some (path, s) \<Rightarrow>
          let b = regular_file sys path (sh_world s)
          in Some (\<not> b, s\<lparr>sh_log := sh_log s @ [Tested path b]\<rparr>))"
| "holds_cond sys (Ge a b) s =
     (case expand sys a s of
        None \<Rightarrow> None
      | Some (x, s) \<Rightarrow>
          (case expand sys b s of
             None \<Rightarrow> None
           | Some (y, s) \<Rightarrow>
               Some (case (read_int x, read_int y) of (Some i, Some j) \<Rightarrow> j \<le> i | _ \<Rightarrow> False, s)))"
| "holds_cond sys (Succeeds ws) s =
     (case expand_words sys ws s of
        None \<Rightarrow> None
      | Some (argv, s) \<Rightarrow> (case run_program sys argv s of (s, st, _) \<Rightarrow> Some (st = 0, s)))"

text \<open>
  A statement that is not a loop or a conditional: the state after it and its exit status. A redirection is made
  before its command runs, and the command does not run when the file cannot be opened.
\<close>

definition command :: "'w Sys \<Rightarrow> shword list \<Rightarrow> 'w shell \<Rightarrow> 'w shell \<times> nat" where
  "command sys ws s =
     (case expand_words sys ws s of
        None \<Rightarrow> (s, 2)
      | Some (argv, s) \<Rightarrow> (case run_program sys argv s of (s, st, _) \<Rightarrow> (s, st)))"

fun perform_simple :: "'w Sys \<Rightarrow> simple \<Rightarrow> 'w shell \<Rightarrow> 'w shell \<times> nat" where
  "perform_simple sys (Run ws) s = command sys ws s"
| "perform_simple sys (Run_to ws f) s =
     (case expand sys f s of
        None \<Rightarrow> (s, 2)
      | Some (path, s) \<Rightarrow>
          (case open_write sys path (sh_world s) of (w, ok) \<Rightarrow>
             let s = s\<lparr>sh_world := w, sh_log := sh_log s @ [Opened path ok]\<rparr>
             in if ok then command sys ws s else (s, 1)))"
| "perform_simple sys (Complain w) s = command sys [Bare ''echo'', w] s"
| "perform_simple sys (Start ws) s =
     (case expand_words sys ws s of
        None \<Rightarrow> (s, 2)
      | Some (argv, s) \<Rightarrow>
          (case spawn sys argv (sh_world s) of (w, pid) \<Rightarrow>
             (s\<lparr>sh_world := w, sh_pid := Some pid, sh_log := sh_log s @ [Spawned argv]\<rparr>, 0)))"
| "perform_simple sys (Assign_sum x ws n) s =
     (case expand_words sys ws s of
        None \<Rightarrow> (s, 2)
      | Some (argv, s) \<Rightarrow>
          (case run_program sys argv s of (s, st, out) \<Rightarrow>
             (case read_int out of
                None \<Rightarrow> (s, 2)
              | Some i \<Rightarrow> (s\<lparr>sh_vars := (sh_vars s)(x \<mapsto> Itoa (i + n))\<rparr>, st))))"
| "perform_simple sys (Assign_pid x) s =
     (case sh_pid s of None \<Rightarrow> (s, 2) | Some pid \<Rightarrow> (s\<lparr>sh_vars := (sh_vars s)(x \<mapsto> pid)\<rparr>, 0))"

text \<open>
  A program, with \<open>set -e\<close>: the first statement with another status than 0 ends the script with that status. The result is \<open>None\<close> when
  the bound on the number of loop rounds is too small, and otherwise the final state with the status of an
  exit, or \<open>None\<close> where the end of the program was reached (status 0).
\<close>

function sh :: "nat \<Rightarrow> 'w Sys \<Rightarrow> stmt list \<Rightarrow> 'w shell \<Rightarrow> ('w shell \<times> nat option) option" where
  "sh n sys [] s = Some (s, None)"
| "sh n sys (While c body # prog) s =
     (case holds_cond sys c s of
        None \<Rightarrow> Some (s, Some 2)
      | Some (False, s) \<Rightarrow> sh n sys prog s
      | Some (True, s) \<Rightarrow>
          (case n of
             0 \<Rightarrow> None
           | Suc m \<Rightarrow>
               (case sh m sys body s of
                  Some (s, None) \<Rightarrow> sh m sys (While c body # prog) s
                | res \<Rightarrow> res)))"
| "sh n sys (Until c body # prog) s =
     (case holds_cond sys c s of
        None \<Rightarrow> Some (s, Some 2)
      | Some (True, s) \<Rightarrow> sh n sys prog s
      | Some (False, s) \<Rightarrow>
          (case n of
             0 \<Rightarrow> None
           | Suc m \<Rightarrow>
               (case sh m sys body s of
                  Some (s, None) \<Rightarrow> sh m sys (Until c body # prog) s
                | res \<Rightarrow> res)))"
| "sh n sys (If c yes no # prog) s =
     (case holds_cond sys c s of
        None \<Rightarrow> Some (s, Some 2)
      | Some (b, s) \<Rightarrow>
          (case sh n sys (if b then yes else no) s of
             Some (s, None) \<Rightarrow> sh n sys prog s
           | res \<Rightarrow> res))"
| "sh n sys (Exit st # prog) s = Some (s, Some st)"
| "sh n sys (Do c # prog) s =
     (case perform_simple sys c s of (s, st) \<Rightarrow> if st = 0 then sh n sys prog s else Some (s, Some st))"
| "sh n sys (Comment t # prog) s = sh n sys prog s"
  by pat_completeness auto
termination
  by (relation "measures [\<lambda>(n, _, _, _). n, \<lambda>(_, _, prog, _). size_list size prog]") auto

subsection \<open>A container that runs a script\<close>

text \<open>
  The parameters a container starts with: those of its \<open>env\<close> over those of \<open>envFrom\<close> and of the image, which are
  arbitrary.
\<close>

definition container_vars :: "Container \<Rightarrow> (string \<Rightarrow> string option) \<Rightarrow> string \<Rightarrow> string option" where
  "container_vars c base = foldl (\<lambda>m e. m(EnvVar_Name e \<mapsto> EnvVar_Value e)) base (Container_Env c)"

definition started :: "Container \<Rightarrow> (string \<Rightarrow> string option) \<Rightarrow> 'w \<Rightarrow> 'w shell" where
  "started c base w = \<lparr>sh_vars = container_vars c base, sh_world = w, sh_pid = None, sh_log = []\<rparr>"

lemma warm_vars:
  assumes "Engine md = EngineOllama \<or> Engine md = EngineVLLM"
  shows "container_vars (warmContainer md k) base ''MARKER'' = Some (MarkerPath md k)"
    "container_vars (warmContainer md k) base ''MODEL_NAME'' = Some (ModelSpec_Name (Spec_Model (MD_Spec md)))"
    "container_vars (warmContainer md k) base ''MODEL_REVISION'' = Some (ModelSpec_Revision (Spec_Model (MD_Spec md)))"
    "Engine md = EngineOllama \<Longrightarrow> container_vars (warmContainer md k) base ''OLLAMA_MODELS'' \<noteq> None"
    "Engine md = EngineVLLM \<Longrightarrow> container_vars (warmContainer md k) base ''HF_HOME'' \<noteq> None"
  using assms
  by (auto simp: container_vars_def warmContainer_simps runtimeEnv_def env_var_def Let_def EngineOllama_def EngineVLLM_def)

text \<open>The commands that fetch the weights of a model.\<close>

definition fetches :: "ModelDeployment \<Rightarrow> string list \<Rightarrow> bool" where
  "fetches md argv \<longleftrightarrow>
     (let name = ModelSpec_Name (Spec_Model (MD_Spec md)); revision = ModelSpec_Revision (Spec_Model (MD_Spec md))
      in if Engine md = EngineOllama then argv = [''ollama'', ''pull'', name]
         else argv \<in> {[''hf'', ''download'', name, ''--revision'', revision],
                      [''huggingface-cli'', ''download'', name, ''--revision'', revision]})"

lemma fetches_hd: "fetches md argv \<Longrightarrow> hd argv \<in> {''ollama'', ''hf'', ''huggingface-cli''}"
  by (auto simp: fetches_def Let_def split: if_splits)

text \<open>What the log of the warm-up says about its end.\<close>

definition marked_last :: "ModelDeployment \<Rightarrow> string \<Rightarrow> event list \<Rightarrow> nat option \<Rightarrow> bool" where
  "marked_last md k log res \<longleftrightarrow>
     (\<forall>pre path ok post. log = pre @ Opened path ok # post \<longrightarrow>
        path = MarkerPath md k \<and> (\<exists>argv. fetches md argv \<and> Ran argv 0 \<in> set pre)) \<and>
     (\<forall>argv st. fetches md argv \<longrightarrow> st \<noteq> 0 \<longrightarrow> Ran argv st \<in> set log \<longrightarrow> res = Some st) \<and>
     (res = None \<longrightarrow> Opened (MarkerPath md k) True \<in> set log)"

text \<open>The last two lines, and the loop that waits for the server.\<close>

lemma mark_run:
  assumes "sh_vars s ''MARKER'' = Some m" "sh n sys mark s = Some (s', res)"
  shows "\<exists>es. sh_log s' = sh_log s @ es \<and> (\<forall>path ok. Opened path ok \<in> set es \<longrightarrow> path = m) \<and>
    (\<forall>argv st. Ran argv st \<in> set es \<longrightarrow> hd argv \<in> {''dirname'', ''mkdir'', ''date''}) \<and>
    (res = None \<longrightarrow> Opened m True \<in> set es)"
  using assms
  by (auto simp: mark_def command_def run_program_def Let_def split: prod.splits if_splits)

definition server_check :: "event \<Rightarrow> bool" where
  "server_check e \<longleftrightarrow> (\<exists>st. e = Ran [''ollama'', ''list''] st \<or> e = Ran [''sleep'', ''1''] st)"

lemma server_up:
  assumes "exec sys [''ollama'', ''list''] (sh_world s) = (w, 0, out)"
    and "sh n sys (await_server # prog) s = Some (s', res)"
  shows "\<exists>m s1 es. sh m sys prog s1 = Some (s', res) \<and> sh_vars s1 = sh_vars s \<and> sh_log s1 = sh_log s @ es \<and>
      list_all server_check es"
proof -
  let ?s = "s\<lparr>sh_world := w, sh_log := sh_log s @ [Ran [''ollama'', ''list''] 0]\<rparr>"
  have "sh n sys prog ?s = Some (s', res)"
    using assms by (simp add: await_server_def run_program_def)
  then show ?thesis by (intro exI [of _ n] exI [of _ ?s]) (auto simp: server_check_def)
qed

lemma await_server_run:
  "sh n sys (await_server # prog) s = Some (s', res) \<Longrightarrow>
   (\<exists>m s1 es. sh m sys prog s1 = Some (s', res) \<and> sh_vars s1 = sh_vars s \<and> sh_log s1 = sh_log s @ es \<and>
      list_all server_check es) \<or>
   (\<exists>es st. res = Some st \<and> sh_log s' = sh_log s @ es \<and> list_all server_check es)"
proof (induction n arbitrary: s)
  case (0 s)
  obtain w st out where e: "exec sys [''ollama'', ''list''] (sh_world s) = (w, st, out)" by (metis prod_cases3)
  then have "st = 0" using 0 by (cases "st = 0") (simp_all add: await_server_def run_program_def)
  with e server_up [OF _ 0] show ?case by blast
next
  case (Suc n s)
  obtain w st out where e: "exec sys [''ollama'', ''list''] (sh_world s) = (w, st, out)" by (metis prod_cases3)
  let ?s = "s\<lparr>sh_world := w, sh_log := sh_log s @ [Ran [''ollama'', ''list''] st]\<rparr>"
  show ?case
  proof (cases "st = 0")
    case True
    with e server_up [OF _ Suc.prems] show ?thesis by blast
  next
    case False
    obtain w2 st2 out2 where e2: "exec sys [''sleep'', ''1''] w = (w2, st2, out2)" by (metis prod_cases3)
    let ?t = "?s\<lparr>sh_world := w2, sh_log := sh_log ?s @ [Ran [''sleep'', ''1''] st2]\<rparr>"
    have "if st2 = 0 then sh n sys (await_server # prog) ?t = Some (s', res) else (?t, Some st2) = (s', res)"
      using Suc.prems False by (simp add: await_server_def run_program_def command_def e e2 split: if_splits)
    then consider "sh n sys (await_server # prog) ?t = Some (s', res)" | "s' = ?t" "res = Some st2"
      by (auto split: if_splits)
    then show ?thesis
    proof cases
      case 1
      have log: "sh_log ?t @ es = sh_log s @ [Ran [''ollama'', ''list''] st, Ran [''sleep'', ''1''] st2] @ es" for es
        by simp
      have check: "list_all server_check ([Ran [''ollama'', ''list''] st, Ran [''sleep'', ''1''] st2] @ es)"
        if "list_all server_check es" for es
        using that by (simp add: server_check_def)
      have vars: "sh_vars ?t = sh_vars s" by simp
      from Suc.IH [OF 1] show ?thesis unfolding log vars by (blast intro: check)
    next
      case 2
      then show ?thesis by (auto simp: server_check_def)
    qed
  qed
qed

text \<open>
  The lines before: they end the script, or they have fetched the weights when the rest of the script begins. Neither
  opens a file.
\<close>

definition only_runs :: "event list \<Rightarrow> bool" where
  "only_runs es \<longleftrightarrow> (\<forall>path ok. Opened path ok \<notin> set es)"

definition fetched :: "ModelDeployment \<Rightarrow> event list \<Rightarrow> bool" where
  "fetched md es \<longleftrightarrow> (\<exists>argv. fetches md argv \<and> Ran argv 0 \<in> set es)"

definition fails_with :: "ModelDeployment \<Rightarrow> event list \<Rightarrow> nat option \<Rightarrow> bool" where
  "fails_with md es res \<longleftrightarrow> (\<forall>argv st. fetches md argv \<longrightarrow> st \<noteq> 0 \<longrightarrow> Ran argv st \<in> set es \<longrightarrow> res = Some st)"

lemma fetch_vllm:
  assumes "Engine md = EngineVLLM" "sh_vars s ''HF_HOME'' \<noteq> None"
    and "sh_vars s ''MODEL_NAME'' = Some (ModelSpec_Name (Spec_Model (MD_Spec md)))"
    and "sh_vars s ''MODEL_REVISION'' = Some (ModelSpec_Revision (Spec_Model (MD_Spec md)))"
    and "sh n sys (fetch (Engine md) @ prog) s = Some (s', res)"
  shows "(\<exists>m s1 es. sh m sys prog s1 = Some (s', res) \<and> sh_vars s1 ''MARKER'' = sh_vars s ''MARKER'' \<and>
      sh_log s1 = sh_log s @ es \<and> only_runs es \<and> fetched md es \<and> fails_with md es None) \<or>
    (\<exists>es st. res = Some st \<and> sh_log s' = sh_log s @ es \<and> only_runs es \<and> fails_with md es res)"
proof -
  obtain h where h: "sh_vars s ''HF_HOME'' = Some h" using assms(2) by blast
  have ne: "EngineVLLM \<noteq> EngineOllama" by (simp add: EngineVLLM_def EngineOllama_def)
  obtain w1 st1 out1 where e1: "exec sys [''mkdir'', ''-p'', h] (sh_world s) = (w1, st1, out1)" by (metis prod_cases3)
  obtain w2 st2 out2 where e2: "exec sys [''command'', ''-v'', ''hf''] w1 = (w2, st2, out2)" by (metis prod_cases3)
  define tool where "tool = (if st2 = 0 then ''hf'' else ''huggingface-cli'')"
  define argv where "argv = [tool, ''download'', ModelSpec_Name (Spec_Model (MD_Spec md)), ''--revision'',
    ModelSpec_Revision (Spec_Model (MD_Spec md))]"
  obtain w3 st3 out3 where e3: "exec sys argv w2 = (w3, st3, out3)" by (metis prod_cases3)
  let ?s1 = "s\<lparr>sh_world := w1, sh_log := sh_log s @ [Ran [''mkdir'', ''-p'', h] st1]\<rparr>"
  let ?es = "[Ran [''mkdir'', ''-p'', h] st1, Ran [''command'', ''-v'', ''hf''] st2, Ran argv st3]"
  let ?s3 = "s\<lparr>sh_world := w3, sh_log := sh_log s @ ?es\<rparr>"
  have f: "fetches md argv" by (simp add: fetches_def assms(1) ne argv_def tool_def)
  have run: "if st1 \<noteq> 0 then (s', res) = (?s1, Some st1)
      else if st3 \<noteq> 0 then (s', res) = (?s3, Some st3) else sh n sys prog ?s3 = Some (s', res)"
    using assms(3-5) h e1 e2 e3
    by (auto simp: assms(1) ne fetch_def download_def command_def run_program_def argv_def tool_def
        split: if_splits)
  show ?thesis
  proof (cases "st1 = 0 \<and> st3 = 0")
    case True
    then have "sh n sys prog ?s3 = Some (s', res)" using run by simp
    moreover have "only_runs ?es" "fetched md ?es" "fails_with md ?es None"
      using True f by (auto simp: only_runs_def fetched_def fails_with_def fetches_def assms(1) ne)
    ultimately show ?thesis by (intro disjI1 exI [of _ n] exI [of _ ?s3] exI [of _ ?es]) simp
  next
    case False
    have "only_runs ?es" "only_runs [Ran [''mkdir'', ''-p'', h] st1]"
      "fails_with md ?es (Some st3)" "fails_with md [Ran [''mkdir'', ''-p'', h] st1] (Some st1)"
      by (auto simp: only_runs_def fails_with_def fetches_def assms(1) ne)
    then show ?thesis using run False by (auto split: if_splits)
  qed
qed

lemma server_checks_harmless:
  "list_all server_check es \<Longrightarrow> only_runs es"
  "list_all server_check es \<Longrightarrow> Engine md = EngineOllama \<Longrightarrow> fails_with md es res"
  by (auto simp: list_all_iff server_check_def only_runs_def fails_with_def fetches_def)

lemma fetch_ollama:
  assumes "Engine md = EngineOllama" "sh_vars s ''OLLAMA_MODELS'' \<noteq> None"
    and "sh_vars s ''MODEL_NAME'' = Some (ModelSpec_Name (Spec_Model (MD_Spec md)))"
    and "sh n sys (fetch (Engine md) @ prog) s = Some (s', res)"
  shows "(\<exists>m s1 es. sh m sys prog s1 = Some (s', res) \<and> sh_vars s1 ''MARKER'' = sh_vars s ''MARKER'' \<and>
      sh_log s1 = sh_log s @ es \<and> only_runs es \<and> fetched md es \<and> fails_with md es None) \<or>
    (\<exists>es st. res = Some st \<and> sh_log s' = sh_log s @ es \<and> only_runs es \<and> fails_with md es res)"
proof -
  let ?name = "ModelSpec_Name (Spec_Model (MD_Spec md))"
  obtain h where h: "sh_vars s ''OLLAMA_MODELS'' = Some h" using assms(2) by blast
  obtain w1 st1 out1 where e1: "exec sys [''mkdir'', ''-p'', h] (sh_world s) = (w1, st1, out1)" by (metis prod_cases3)
  obtain w2 pid where e2: "spawn sys [''ollama'', ''serve''] w1 = (w2, pid)" by fastforce
  let ?pull = "\<lambda>prog. Do (Run [Bare ''ollama'', Bare ''pull'', Quoted [Par ''MODEL_NAME'']]) #
    Do (Run [Bare ''kill'', Quoted [Par ''server'']]) # prog"
  let ?es1 = "[Ran [''mkdir'', ''-p'', h] st1]" and ?es2 = "[Ran [''mkdir'', ''-p'', h] st1, Spawned [''ollama'', ''serve'']]"
  let ?s2 = "s\<lparr>sh_world := w2, sh_pid := Some pid, sh_log := sh_log s @ ?es2,
    sh_vars := (sh_vars s)(''server'' \<mapsto> pid)\<rparr>"
  have start: "if st1 = 0 then sh n sys (await_server # ?pull prog) ?s2 = Some (s', res)
      else res = Some st1 \<and> sh_log s' = sh_log s @ ?es1"
    using assms(4) h e1 e2
    by (auto simp: assms(1) fetch_def command_def run_program_def split: if_splits)
  have harmless: "only_runs ?es1" "only_runs ?es2" "fails_with md ?es1 r" "fails_with md ?es2 r" for r
    by (auto simp: only_runs_def fails_with_def fetches_def assms(1))
  have app: "only_runs (xs @ ys) \<longleftrightarrow> only_runs xs \<and> only_runs ys"
    "fails_with md (xs @ ys) r \<longleftrightarrow> fails_with md xs r \<and> fails_with md ys r"
    "fetched md (xs @ ys) \<longleftrightarrow> fetched md xs \<or> fetched md ys" for xs ys r
    by (auto simp: only_runs_def fails_with_def fetched_def)
  show ?thesis
  proof (cases "st1 = 0")
    case False
    then show ?thesis using start harmless by auto
  next
    case True
    then have "sh n sys (await_server # ?pull prog) ?s2 = Some (s', res)" using start by simp
    from await_server_run [OF this] show ?thesis
    proof (elim disjE exE conjE)
      fix es st assume r: "res = Some st" "sh_log s' = sh_log ?s2 @ es" "list_all server_check es"
      then have "only_runs (?es2 @ es)" "fails_with md (?es2 @ es) res"
        using harmless server_checks_harmless [OF r(3)] assms(1) by (auto simp: app simp del: append_Cons)
      with r show ?thesis by (intro disjI2 exI [of _ "?es2 @ es"]) simp
    next
      fix m s3 es assume r: "sh m sys (?pull prog) s3 = Some (s', res)" "sh_vars s3 = sh_vars ?s2"
        "sh_log s3 = sh_log ?s2 @ es" "list_all server_check es"
      obtain w4 st4 out4 where e4: "exec sys [''ollama'', ''pull'', ?name] (sh_world s3) = (w4, st4, out4)"
        by (metis prod_cases3)
      obtain w5 st5 out5 where e5: "exec sys [''kill'', pid] w4 = (w5, st5, out5)" by (metis prod_cases3)
      let ?p = "[Ran [''ollama'', ''pull'', ?name] st4]" and ?k = "[Ran [''kill'', pid] st5]"
      let ?s5 = "s3\<lparr>sh_world := w5, sh_log := sh_log s3 @ ?p @ ?k\<rparr>"
      have run: "if st4 \<noteq> 0 then res = Some st4 \<and> sh_log s' = sh_log s3 @ ?p
          else if st5 \<noteq> 0 then res = Some st5 \<and> sh_log s' = sh_log s3 @ ?p @ ?k
          else sh m sys prog ?s5 = Some (s', res)"
        using r(1,2) assms(3) e4 e5 by (auto simp: command_def run_program_def split: if_splits)
      have f: "only_runs ?p" "only_runs ?k" "fails_with md ?k r" "fails_with md ?p (Some st4)"
        "st4 = 0 \<Longrightarrow> fails_with md ?p r" "st4 = 0 \<Longrightarrow> fetched md ?p" for r
        by (auto simp: only_runs_def fails_with_def fetched_def fetches_def assms(1))
      note parts = f harmless server_checks_harmless [OF r(4)] assms(1)
      consider "st4 \<noteq> 0" | "st4 = 0" "st5 \<noteq> 0" | "st4 = 0" "st5 = 0" by blast
      then show ?thesis
      proof cases
        case 1
        then show ?thesis
          using run r(3) parts by (intro disjI2 exI [of _ "?es2 @ es @ ?p"]) (simp add: app del: append_Cons)
      next
        case 2
        then show ?thesis
          using run r(3) parts by (intro disjI2 exI [of _ "?es2 @ es @ ?p @ ?k"]) (simp add: app del: append_Cons)
      next
        case 3
        then show ?thesis
          using run r(2,3) parts
          by (intro disjI1 exI [of _ m] exI [of _ ?s5] exI [of _ "?es2 @ es @ ?p @ ?k"]) (simp add: app del: append_Cons)
      qed
    qed
  qed
qed

lemma warm_run:
  assumes "Engine md = EngineOllama \<or> Engine md = EngineVLLM"
    and "sh n sys (warm_program (Engine md)) (started (warmContainer md k) base w) = Some (s, res)"
  shows "marked_last md k (sh_log s) res"
proof -
  let ?s0 = "started (warmContainer md k) base w"
  note vars = warm_vars [OF assms(1), of k base]
  have v: "sh_vars ?s0 = container_vars (warmContainer md k) base" "sh_log ?s0 = []"
    by (simp_all add: started_def)
  have run: "sh n sys (fetch (Engine md) @ mark) ?s0 = Some (s, res)" using assms(2) by (simp add: warm_program_def)
  have "(\<exists>m s1 es. sh m sys mark s1 = Some (s, res) \<and> sh_vars s1 ''MARKER'' = sh_vars ?s0 ''MARKER'' \<and>
      sh_log s1 = sh_log ?s0 @ es \<and> only_runs es \<and> fetched md es \<and> fails_with md es None) \<or>
    (\<exists>es st. res = Some st \<and> sh_log s = sh_log ?s0 @ es \<and> only_runs es \<and> fails_with md es res)"
    using assms(1)
  proof
    assume e: "Engine md = EngineOllama"
    show ?thesis by (rule fetch_ollama [OF e _ _ run]) (use vars(2,4) e in \<open>simp_all add: v\<close>)
  next
    assume e: "Engine md = EngineVLLM"
    show ?thesis by (rule fetch_vllm [OF e _ _ _ run]) (use vars(2,3,5) e in \<open>simp_all add: v\<close>)
  qed
  then show ?thesis
  proof (elim disjE exE conjE)
    fix es st assume "res = Some st" "sh_log s = sh_log ?s0 @ es" "only_runs es" "fails_with md es res"
    moreover from this have "sh_log s \<noteq> pre @ Opened path ok # post" for pre path ok post
      by (metis v(2) append_Nil in_set_conv_decomp only_runs_def)
    ultimately show ?thesis by (simp add: v marked_last_def fails_with_def)
  next
    fix m s1 es
    assume r: "sh m sys mark s1 = Some (s, res)" "sh_vars s1 ''MARKER'' = sh_vars ?s0 ''MARKER''"
      "sh_log s1 = sh_log ?s0 @ es" "only_runs es" "fetched md es" "fails_with md es None"
    have m: "sh_vars s1 ''MARKER'' = Some (MarkerPath md k)" using r(2) vars(1) by (simp add: v)
    obtain fs where fs: "sh_log s = es @ fs" "\<forall>path ok. Opened path ok \<in> set fs \<longrightarrow> path = MarkerPath md k"
      "\<forall>argv st. Ran argv st \<in> set fs \<longrightarrow> hd argv \<in> {''dirname'', ''mkdir'', ''date''}"
      "res = None \<longrightarrow> Opened (MarkerPath md k) True \<in> set fs"
      using mark_run [OF m r(1)] r(3) by (auto simp: v)
    have "path = MarkerPath md k \<and> fetched md pre" if eq: "es @ fs = pre @ Opened path ok # post" for pre path ok post
    proof -
      have "Opened path ok \<notin> set es" using r(4) by (simp add: only_runs_def)
      then obtain zs where "pre = es @ zs \<and> fs = zs @ Opened path ok # post"
        using eq by (auto simp: append_eq_append_conv2 append_eq_Cons_conv)
      then show ?thesis using r(5) fs(2) by (auto simp: fetched_def)
    qed
    moreover have "fails_with md (es @ fs) res"
      using r(6) fs(3) fetches_hd by (fastforce simp: fails_with_def)
    ultimately show ?thesis using fs(1,4) by (simp add: marked_last_def fetched_def fails_with_def)
  qed
qed

text \<open>
  C34. A half-transferred cache is never mistaken for a warm one. The container of the warm-up Job runs the program
  \<open>warm_program\<close> of the engine. However the programs it calls behave, if the script ends: it has opened no
  file but the marker of the cache key, and that only after a command that fetches exactly the model of the spec (and its
  revision, for vLLM) had succeeded; where such a command failed, the script ended with its status; and status 0 means
  that the marker was written.
\<close>

theorem warm_job_marks_last:
  assumes "crd_valid (MD_Spec md)" "WarmJob md k = Inr job"
  shows "\<exists>c. PodSpec_Containers (PodTemplateSpec_Spec (Job_Template job)) = [c] \<and>
    Container_Command c = [''/bin/sh'', ''-euc'', script_text (warm_program (Engine md))] \<and>
    (\<forall>n (sys :: 'w Sys) base w s res. sh n sys (warm_program (Engine md)) (started c base w) = Some (s, res) \<longrightarrow>
       (\<forall>pre path ok post. sh_log s = pre @ Opened path ok # post \<longrightarrow>
          path = MarkerPath md k \<and> (\<exists>argv. fetches md argv \<and> Ran argv 0 \<in> set pre)) \<and>
       (\<forall>argv st. fetches md argv \<longrightarrow> st \<noteq> 0 \<longrightarrow> Ran argv st \<in> set (sh_log s) \<longrightarrow> res = Some st) \<and>
       (res = None \<longrightarrow> Opened (MarkerPath md k) True \<in> set (sh_log s)))"
proof -
  have e: "Engine md = EngineOllama \<or> Engine md = EngineVLLM"
    using assms(1) by (auto simp: crd_valid_def valid_runtime_def Engine_def)
  obtain cache where "PodSpec_Containers (PodTemplateSpec_Spec (Job_Template job)) = [warmContainer md k]"
    using assms(2) by (rule WarmJob_cases)
  moreover have "Container_Command (warmContainer md k) = [''/bin/sh'', ''-euc'', script_text (warm_program (Engine md))]"
    by (simp add: warmScript_program)
  ultimately show ?thesis
    by (intro exI [of _ "warmContainer md k"] conjI allI impI warm_run [OF e, unfolded marked_last_def])
qed

subsection \<open>Waiting for the marker\<close>

text \<open>
  What the wait script relies on: no program turns the clock back, \<open>date +%s\<close> prints it, and \<open>sleep 5\<close> takes at
  least five seconds.
\<close>

definition documented_clock :: "'w Sys \<Rightarrow> ('w \<Rightarrow> int) \<Rightarrow> bool" where
  "documented_clock sys clock \<longleftrightarrow>
     (\<forall>argv w. clock w \<le> clock (fst (exec sys argv w))) \<and>
     (\<forall>w. snd (exec sys [''date'', ''+%s''] w) = (0, Itoa (clock w))) \<and>
     (\<forall>w. fst (snd (exec sys [''sleep'', ''5''] w)) = 0 \<and> clock w + 5 \<le> clock (fst (exec sys [''sleep'', ''5''] w)))"

lemma digits_Itoa: "list_all is_digit (decimal n)"
  using decimal_digits by (auto simp: list_all_iff)

lemma read_int_digits: "t \<noteq> [] \<Longrightarrow> list_all is_digit t \<Longrightarrow> read_int t = Some (int (read_decimal t))"
  by (cases t) (auto simp: is_digit_def)

lemma read_int_Itoa: "read_int (Itoa i) = Some i"
proof (cases "i < 0")
  case True
  then show ?thesis by (simp add: Itoa_def digits_Itoa read_decimal_decimal)
next
  case False
  then show ?thesis by (simp add: Itoa_def read_int_digits digits_Itoa read_decimal_decimal)
qed

lemma clock_runs:
  assumes "documented_clock sys clock"
  obtains w1 w2 st out w3 out3 where
    "exec sys [''date'', ''+%s''] w = (w1, 0, Itoa (clock w))" "clock w \<le> clock w1"
    "exec sys [''echo'', msg] w1 = (w2, st, out)" "clock w1 \<le> clock w2"
    "exec sys [''sleep'', ''5''] w1 = (w3, 0, out3)" "clock w1 + 5 \<le> clock w3"
proof -
  obtain w1 w2 st out w3 out3 st3 where e: "exec sys [''date'', ''+%s''] w = (w1, 0, Itoa (clock w))"
    "exec sys [''echo'', msg] w1 = (w2, st, out)" "exec sys [''sleep'', ''5''] w1 = (w3, st3, out3)"
    using assms unfolding documented_clock_def by (metis prod.exhaust prod.inject snd_conv)
  moreover have "clock w \<le> clock (fst (exec sys [''date'', ''+%s''] w))"
    "clock w1 \<le> clock (fst (exec sys [''echo'', msg] w1))"
    "fst (snd (exec sys [''sleep'', ''5''] w1)) = 0" "clock w1 + 5 \<le> clock (fst (exec sys [''sleep'', ''5''] w1))"
    using assms unfolding documented_clock_def by blast+
  ultimately show thesis by (intro that) simp_all
qed

lemma sh_wait_loop:
  "sh (Suc n) sys [wait_loop m] s =
     (let b = regular_file sys m (sh_world s); s1 = s\<lparr>sh_log := sh_log s @ [Tested m b]\<rparr>
      in if b then Some (s1, None)
         else (case sh n sys (wait_body m) s1 of Some (s2, None) \<Rightarrow> sh n sys [wait_loop m] s2 | res \<Rightarrow> res))"
  unfolding wait_loop_def by (simp add: Let_def)

text \<open>How the loop ends: the marker was seen in the end, or the deadline has passed and it was never seen.\<close>

definition waited :: "('w \<Rightarrow> int) \<Rightarrow> string \<Rightarrow> int \<Rightarrow> 'w shell \<Rightarrow> nat option \<Rightarrow> bool" where
  "waited clock marker deadline s res \<longleftrightarrow>
     (case res of
        None \<Rightarrow> last (sh_log s) = Tested marker True
      | Some st \<Rightarrow> st \<noteq> 0 \<and> Tested marker True \<notin> set (sh_log s) \<and> deadline \<le> clock (sh_world s))"

lemma wait_loop_ends:
  assumes "documented_clock sys clock" "sh_vars s ''deadline'' = Some (Itoa deadline)"
    and "deadline - clock (sh_world s) \<le> 5 * int n" "Tested marker True \<notin> set (sh_log s)"
  shows "\<exists>s' res. sh (Suc n) sys [wait_loop marker] s = Some (s', res) \<and> waited clock marker deadline s' res"
  using assms(2-4)
proof (induction n arbitrary: s)
  case (0 s)
  obtain w1 w2 st out w3 out3 where e:
    "exec sys [''date'', ''+%s''] (sh_world s) = (w1, 0, Itoa (clock (sh_world s)))" "clock (sh_world s) \<le> clock w1"
    "exec sys [''echo'', ''weight cache marker '' @ marker @ '' never appeared''] w1 = (w2, st, out)" "clock w1 \<le> clock w2"
    by (rule clock_runs [OF assms(1)])
  then show ?case
    using 0 by (cases "regular_file sys marker (sh_world s)")
      (auto simp: sh_wait_loop wait_body_def waited_def run_program_def command_def read_int_Itoa)
next
  case (Suc n s)
  obtain w1 w2 st out w3 out3 where e:
    "exec sys [''date'', ''+%s''] (sh_world s) = (w1, 0, Itoa (clock (sh_world s)))" "clock (sh_world s) \<le> clock w1"
    "exec sys [''echo'', ''weight cache marker '' @ marker @ '' never appeared''] w1 = (w2, st, out)" "clock w1 \<le> clock w2"
    "exec sys [''sleep'', ''5''] w1 = (w3, 0, out3)" "clock w1 + 5 \<le> clock w3"
    by (rule clock_runs [OF assms(1)])
  show ?case
  proof (cases "regular_file sys marker (sh_world s) \<or> deadline \<le> clock (sh_world s)")
    case True
    then show ?thesis
      using e Suc.prems by (cases "regular_file sys marker (sh_world s)")
        (auto simp: sh_wait_loop wait_body_def waited_def run_program_def command_def read_int_Itoa)
  next
    case False
    let ?s = "s\<lparr>sh_world := w3, sh_log := sh_log s @ [Tested marker False, Ran [''date'', ''+%s''] 0, Ran [''sleep'', ''5''] 0]\<rparr>"
    have "sh (Suc (Suc n)) sys [wait_loop marker] s = sh (Suc n) sys [wait_loop marker] ?s"
      using False e Suc.prems(1) by (simp add: sh_wait_loop [of "Suc n"] wait_body_def run_program_def command_def read_int_Itoa)
    moreover have "\<exists>s' res. sh (Suc n) sys [wait_loop marker] ?s = Some (s', res) \<and> waited clock marker deadline s' res"
      by (rule Suc.IH) (use Suc.prems e in auto)
    ultimately show ?thesis by simp
  qed
qed

lemma wait_program_ends:
  assumes "documented_clock sys clock" "timeout \<le> 5 * int n"
  shows "\<exists>s res. sh (Suc n) sys (wait_program timeout marker) (started c base w) = Some (s, res) \<and>
    waited clock marker (clock w + timeout) s res"
proof -
  obtain w1 where e: "exec sys [''date'', ''+%s''] w = (w1, 0, Itoa (clock w))" "clock w \<le> clock w1"
    by (rule clock_runs [OF assms(1)])
  let ?s = "(started c base w)\<lparr>sh_world := w1, sh_log := [Ran [''date'', ''+%s''] 0],
    sh_vars := (container_vars c base)(''deadline'' \<mapsto> Itoa (clock w + timeout))\<rparr>"
  have "sh (Suc n) sys (wait_program timeout marker) (started c base w) = sh (Suc n) sys [wait_loop marker] ?s"
    using e by (simp add: wait_program_def run_program_def read_int_Itoa started_def)
  moreover have "\<exists>s res. sh (Suc n) sys [wait_loop marker] ?s = Some (s, res) \<and>
      waited clock marker (clock w + timeout) s res"
    by (rule wait_loop_ends [OF assms(1)]) (use e assms(2) in auto)
  ultimately show ?thesis by simp
qed

lemma wait_program_ready:
  assumes "documented_clock sys clock" "\<And>w. regular_file sys marker w"
  shows "\<exists>s. sh 0 sys (wait_program timeout marker) (started c base w) = Some (s, None) \<and>
    sh_log s = [Ran [''date'', ''+%s''] 0, Tested marker True]"
proof -
  obtain w1 where "exec sys [''date'', ''+%s''] w = (w1, 0, Itoa (clock w))"
    by (rule clock_runs [OF assms(1)])
  then show ?thesis
    using assms(2) by (simp add: wait_program_def wait_loop_def run_program_def read_int_Itoa started_def)
qed

text \<open>
  C35. The init container gives up rather than hanging forever. Its command is the program \<open>wait_program\<close>, with the load
  timeout of the spec and the marker of the cache key, exactly when the path of the marker has no character that the shell
  treats specially between double quotes (the source does not escape it). Whatever the file system does and
  whatever else the programs answer, as long as the clock runs, this program ends, after at most one round of its
  loop for every five seconds of the timeout and one more. It ends with status 0 only when it has just seen the marker,
  and with another status only when it never saw it and the timeout has passed since it started; and where the marker
  is there from the beginning, it neither waits nor goes through the loop once.
\<close>

theorem init_container_gives_up:
  fixes k :: string
  assumes "crd_valid (MD_Spec md)" "documented_clock sys clock"
  defines "timeout \<equiv> sint (RuntimeSpec_LoadTimeoutSeconds (Spec_Runtime (MD_Spec md)))"
    and "c \<equiv> waitForWeights md k"
  shows "(Container_Command c = [''/bin/sh'', ''-euc'', script_text (wait_program timeout (MarkerPath md k))] \<longleftrightarrow>
      unquoted (MarkerPath md k)) \<and>
    (\<exists>s res. sh (Suc (nat ((timeout + 4) div 5))) sys (wait_program timeout (MarkerPath md k)) (started c base w) =
         Some (s, res) \<and>
       (case res of
          None \<Rightarrow> last (sh_log s) = Tested (MarkerPath md k) True
        | Some st \<Rightarrow> st \<noteq> 0 \<and> Tested (MarkerPath md k) True \<notin> set (sh_log s) \<and>
            clock w + timeout \<le> clock (sh_world s))) \<and>
    ((\<forall>w. regular_file sys (MarkerPath md k) w) \<longrightarrow>
       (\<exists>s. sh 0 sys (wait_program timeout (MarkerPath md k)) (started c base w) = Some (s, None) \<and>
          sh_log s = [Ran [''date'', ''+%s''] 0, Tested (MarkerPath md k) True]))"
proof (intro conjI impI)
  show "Container_Command c = [''/bin/sh'', ''-euc'', script_text (wait_program timeout (MarkerPath md k))] \<longleftrightarrow>
      unquoted (MarkerPath md k)"
    by (simp add: c_def timeout_def waitScript_program)
  have "30 \<le> timeout" using assms(1) by (simp add: crd_valid_def valid_runtime_def timeout_def)
  then have "0 \<le> (timeout + 4) div 5" "timeout \<le> 5 * ((timeout + 4) div 5)" by presburger+
  then have "timeout \<le> 5 * int (nat ((timeout + 4) div 5))" by simp
  from wait_program_ends [OF assms(2) this, of "MarkerPath md k" c base w]
  show "\<exists>s res. sh (Suc (nat ((timeout + 4) div 5))) sys (wait_program timeout (MarkerPath md k)) (started c base w) =
         Some (s, res) \<and>
       (case res of
          None \<Rightarrow> last (sh_log s) = Tested (MarkerPath md k) True
        | Some st \<Rightarrow> st \<noteq> 0 \<and> Tested (MarkerPath md k) True \<notin> set (sh_log s) \<and>
            clock w + timeout \<le> clock (sh_world s))"
    by (simp add: waited_def)
next
  assume "\<forall>w. regular_file sys (MarkerPath md k) w"
  then show "\<exists>s. sh 0 sys (wait_program timeout (MarkerPath md k)) (started c base w) = Some (s, None) \<and>
          sh_log s = [Ran [''date'', ''+%s''] 0, Tested (MarkerPath md k) True]"
    by (intro wait_program_ready [OF assms(2)]) simp
qed

subsection \<open>Witnesses\<close>

text \<open>A machine whose world is its clock, on which every program succeeds and the marker appears at second 20.\<close>

definition test_sys :: "int Sys" where
  "test_sys =
     \<lparr>exec = (\<lambda>argv t. if argv = [''date'', ''+%s''] then (t, 0, Itoa t)
                       else if argv = [''sleep'', ''5''] then (t + 5, 0, '''') else (t, 0, '''')),
      spawn = (\<lambda>_ t. (t, ''7'')), regular_file = (\<lambda>_ t. 20 \<le> t), open_write = (\<lambda>_ t. (t, True))\<rparr>"

lemma test_sys_clock: "documented_clock test_sys (\<lambda>t. t)"
  by (simp add: documented_clock_def test_sys_def)

lemma fixture_marker: "MarkerPath fixture ''abc'' = ''/models/.warm/abc''"
  by (simp add: MarkerPath_def MountPath_def fixture_def path_Join_def path_Clean_def clean_element_def Let_def join_buf_def)

lemma warm_job_marks_last_witness:
  "\<exists>job c s. WarmJob fixture ''abc'' = Inr job \<and>
     PodSpec_Containers (PodTemplateSpec_Spec (Job_Template job)) = [c] \<and>
     sh 0 test_sys (warm_program (Engine fixture)) (started c Map.empty 0) = Some (s, None) \<and>
     Opened ''/models/.warm/abc'' True \<in> set (sh_log s)"
proof -
  obtain job where job: "WarmJob fixture ''abc'' = Inr job"
    by (auto simp: WarmJob_def fixture_def)
  obtain c where c: "PodSpec_Containers (PodTemplateSpec_Spec (Job_Template job)) = [c]"
    and ends: "\<And>s res. sh 0 test_sys (warm_program (Engine fixture)) (started c Map.empty 0) = Some (s, res) \<Longrightarrow>
      marked_last fixture ''abc'' (sh_log s) res"
    using warm_job_marks_last [where 'w = int, OF fixture_valid job, folded marked_last_def] by blast
  have "c = warmContainer fixture ''abc''" using job c by (auto elim: WarmJob_cases)
  moreover have "Engine fixture = EngineVLLM" "EngineVLLM \<noteq> EngineOllama"
    by (simp_all add: fixture_def Engine_def EngineVLLM_def EngineOllama_def)
  moreover obtain h where "container_vars (warmContainer fixture ''abc'') Map.empty ''HF_HOME'' = Some h"
    using warm_vars(5) [of fixture "''abc''" Map.empty] \<open>Engine fixture = EngineVLLM\<close> by blast
  ultimately have "\<exists>s. sh 0 test_sys (warm_program (Engine fixture)) (started c Map.empty 0) = Some (s, None)"
    using warm_vars(1-3) [of fixture "''abc''" Map.empty]
    by (simp add: warm_program_def fetch_def mark_def download_def command_def run_program_def test_sys_def started_def)
  then obtain s where s: "sh 0 test_sys (warm_program (Engine fixture)) (started c Map.empty 0) = Some (s, None)" ..
  from ends [OF this] have "Opened (MarkerPath fixture ''abc'') True \<in> set (sh_log s)" by (simp add: marked_last_def)
  then have "Opened ''/models/.warm/abc'' True \<in> set (sh_log s)" by (simp only: fixture_marker)
  with job c s show ?thesis by blast
qed

lemma init_container_gives_up_witness:
  "Container_Command (waitForWeights fixture ''abc'') =
     [''/bin/sh'', ''-euc'', script_text (wait_program 900 ''/models/.warm/abc'')] \<and>
   (\<exists>s res. sh 181 test_sys (wait_program 900 ''/models/.warm/abc'')
      (started (waitForWeights fixture ''abc'') Map.empty 0) = Some (s, res))"
proof -
  have u: "unquoted ''/models/.warm/abc''" by (simp add: unquoted_def special_def)
  have t: "sint (RuntimeSpec_LoadTimeoutSeconds (Spec_Runtime (MD_Spec fixture))) = 900"
    by (simp add: fixture_def)
  have "Suc (nat ((900 + 4) div 5)) = 181" by simp
  with u init_container_gives_up [OF fixture_valid test_sys_clock, of "''abc''" Map.empty 0, unfolded t fixture_marker]
  show ?thesis by metis
qed

end
