(* ===== verification/Spec2Isabelle.thy ===== *)
theory Spec2Isabelle
  imports Scaling Workloads Rendered Queue Weight_Cache Status Controller Runs Scenarios Convergence
    Copy_Contract Manager Rbac Storage Crd Autoscaling Bring_Up Manifests
    Shell
begin

text \<open>
  A verification development for \<open>k8s-model-operator\<close>, a Kubernetes operator that serves language
  models: a \<open>ModelDeployment\<close> is turned into a Deployment, a Service, a disruption budget, and,
  when a shared weight cache is configured, a claim and a Job that downloads the weights before any
  server pod is started.

  \<^bold>\<open>The program and the theories.\<close>
  \<^item> \<open>internal/scaling\<close> (\<open>Scaling\<close>): the pure decision how many replicas to run. \<open>Policy\<close>, \<open>State\<close>
    and \<open>Decision\<close> are the structs, \<open>Decide\<close>, \<open>ceilDiv\<close>, \<open>clamp\<close>, \<open>elapsed\<close> the functions.
  \<^item> \<open>api/v1alpha1\<close> (\<open>API_Types\<close>): the structs and constants of the resource, and its validation
    markers as the predicate \<open>crd_valid\<close>; the generated deep copies (\<open>Heap\<close>, \<open>Deep_Copy\<close>) over a heap
    in which pointers, slices and maps are addresses; its JSON tags and the defaults of the CRD (\<open>Storage\<close>).
  \<^item> \<open>internal/render\<close> (\<open>Render\<close> for \<open>render.go\<close>, \<open>Workloads\<close> for \<open>workloads.go\<close>): from a resource to
    names, keys, paths, environment and Kubernetes objects, with every field the source sets and
    the shell scripts as text; \<open>Shell\<close> has the scripts as programs and the part of the POSIX shell they use.
  \<^item> \<open>internal/queue\<close> (\<open>Queue\<close>): the sum of a metric over pods, the scaling signal.
  \<^item> \<open>internal/controller\<close> (\<open>Weight_Cache\<close> for \<open>weightcache.go\<close>, \<open>Status\<close> for \<open>status.go\<close>,
    \<open>Controller\<close> for \<open>modeldeployment_controller.go\<close>): the reconcile loop. \<open>Reconcile\<close> reads the
    object, tears it down, adds the finalizer, or calls \<open>sync\<close>, which asks \<open>reconcileWeightCache\<close> for
    the state of the cache, \<open>decideReplicas\<close> for a count, applies the rendered objects, observes
    the Deployment and writes the status.
  \<^item> \<open>cmd/main.go\<close>, \<open>groupversion_info.go\<close> and \<open>SetupWithManager\<close> (\<open>Manager\<close>, with \<open>Command_Line\<close> for the flags): the
    scheme, the flags and how they are parsed, the manager and the registration of the controller, up to the exit
    status of the process.
  \<^item> the \<open>kubebuilder:rbac\<close> markers of the reconciler and \<open>config/rbac/role.yaml\<close> (\<open>Rbac\<close>): rules, and the
    requests behind the calls of a reconcile.
  \<^item> \<open>config\<close>: the schema of the CRD (\<open>Crd\<close>, with the regular expressions of \<open>Patterns\<close>), and the manifests of the manager, its role bindings and the
    samples (\<open>Manifests\<close>).
  \<^item> Go and the libraries: \<open>Prelude\<close> (integers at their width, panics, time), \<open>Go_Std\<close> and \<open>Sha256\<close>
    (the standard library), \<open>K8s_Objects\<close> (the fields of the Kubernetes structs in use),
    \<open>Cluster\<close> (client, helpers, event recorder and clock as parameters).

  \<^bold>\<open>How the code is modelled.\<close> A struct is a record, a string enum stays a string, \<open>int32\<close> and
  \<open>int64\<close> are words, a nil pointer is \<open>None\<close>. A panic is \<open>Inl\<close> of a sum; an error is a
  value of the type \<open>error\<close> next to the result, as in Go. Handlers run in the state monad over a
  world of an arbitrary type and a list of the calls made so far. The client's operations are
  arbitrary functions on the world: nothing is assumed about what they answer, so errors, stale reads
  and other actors between two calls are all covered. What the code relies on of a library's
  documented behaviour is a named predicate (\<open>documented_errors\<close>, \<open>documented_finalizers\<close>,
  \<open>documented_owner\<close>, \<open>documented_conditions\<close>, \<open>documented_equality\<close>) and a hypothesis of the
  theorem that needs it; \<open>Test_Cluster\<close> gives an instance in which all of them hold. What a theorem needs of
  the API server is such a predicate too: \<open>documented_authorizer\<close> and \<open>enforces\<close> for the permissions,
  \<open>stored_update\<close> for a store that fills in defaults, \<open>drains\<close>, \<open>cooperates\<close> and \<open>attends\<close> for sequences of reconciles. All
  recursion of the model is structural or has a measure (the two parsers of \<open>Command_Line\<close>, by the length of what is
  left). A function with fuel is \<open>sh\<close>, which bounds the rounds of the loops of a script: one round for every five
  seconds of the timeout and one more is enough for the init container, which is part of
  \<open>init_container_gives_up\<close>. The other is \<open>requeued\<close>, the controller's work queue calling
  \<open>Reconcile\<close> again: one unit more than the object has pods is enough, which is part of \<open>teardown_terminates\<close>; \<open>rounds\<close> iterates a given number of times. Values are passed by value everywhere but in \<open>Deep_Copy\<close>; that this is
  right for the one place where the source writes through a copy, the conditions in \<open>build\<close>, is
  \<open>status_copy_isolated\<close>.

  \<^bold>\<open>What is shown.\<close>
  \<^item> \<open>Scaling\<close>: bounds, rate limit, stabilization, when \<open>Decide\<close> panics, that cold weights never let
    it grow, equality with a specification over the integers, convergence to the count the queue calls
    for (in the locale \<open>replica_decider\<close>, of which \<open>Decide\<close> is an instance), and where the arithmetic fails.
  \<^item> \<open>Workloads\<close>: what the cache key identifies, that the warm-up Job and the init container agree
    on the marker, that selectors match server pods only, and that a budget can be satisfied.
    \<open>Rendered\<close>: the parts of a pod fit together, and the endpoint in the status can be read back. \<open>Shell\<close>: the
    warm-up script writes the marker only after the download succeeded, and the init container sees the
    marker or gives up when its time is over.
  \<^item> \<open>Queue\<close>: the value of the sum, at 64 and 32 bits; the locale \<open>queue_source\<close> is the interface
    the controller uses, with \<open>Depth\<close> as its instance.
  \<^item> \<open>Status\<close>: the conditions of a built status, and that building it again changes nothing.
  \<^item> \<open>Runs\<close>: the reconcile as a transition system. The relations \<open>..._run\<close> list the ways each
    function can end with the calls it made; the lemmas \<open>..._emits\<close> show that the definitions
    translated from the source refine them, and the properties are proved by cases on them.
  \<^item> This theory: properties of a whole reconcile. The rollout is held until the weights are
    cached; children only under the finalizer, which is released last; the claim is never
    deleted; what success means in each of the cases that end with it; Ready tells the truth; a failing metrics service
    only degrades; no panic for valid objects; stale Jobs are pruned.
    And a reconcile writes no kind of object that the controller does not watch, but the claim.
  \<^item> \<open>Convergence\<close>: sequences of reconciles. The second of two with the same observations writes
    nothing, and a teardown ends.
  \<^item> \<open>Rbac\<close>: which permissions a reconcile uses, that the checked-in role is up to date with the markers, that
    it allows all of them but \<open>deletecollection\<close> on Jobs, and that a teardown under it never ends.
  \<^item> \<open>Storage\<close>: what becomes of a spec that the operator reads and writes back. A zero in a field with a
    default does not survive, since \<open>omitempty\<close> leaves it out and the API server puts the default in.
  \<^item> \<open>World\<close>, \<open>Bring_Up\<close> and \<open>Autoscaling\<close>: the operator and the cluster in a closed loop, round after
    round. A new deployment is ready after four rounds, and an autoscaled one reaches the replica count the
    queue calls for. Two calculi over the world carry both: the locale \<open>world_order\<close> for what no call undoes, with
    the orders \<open>undisturbed\<close>, \<open>later\<close> and \<open>quiet\<close> as its instances, and \<open>ensures\<close> for what a handler achieves.
  \<^item> \<open>Heap\<close> and \<open>Copy_Contract\<close>: the locale \<open>deep_copy\<close> is the contract of a deep copy; it is closed under
    fields, pointers and slices, every generated method fulfils it, and the values read are the records
    of \<open>API_Types\<close>.
  \<^item> \<open>Manager\<close> and \<open>Command_Line\<close>: the manager starts only when fully wired, the exit status is honest, the flags
    round-trip, and a command line that names an unknown flag stops the process before it does anything.
  \<^item> \<open>Crd\<close> and \<open>Manifests\<close>: the generated schema means what the types and their markers mean, with the pattern of a
    quantity matched by derivatives and described by a grammar, the status the operator writes
    passes it, the samples pass it, and the manager is deployed with leader election, reachable probes and the
    permissions for its lease.
  \<^item> \<open>Scenarios\<close>: concrete reconciles, evaluated, for the witnesses.

  \<^bold>\<open>What is not modelled.\<close> Log lines, contexts and their cancellation, signals, the inside of the API
  server and of the libraries, kustomize beyond a renaming and a namespace, and the Dockerfile and the Makefile. Of the
  Deployment of the manager the image, the resources and the security context are left out. The fraction of a duration
  on the command line is converted by floating-point arithmetic, which is a parameter. \<open>%q\<close> is exact for
  ASCII. No two slices share a backing array in \<open>Heap\<close>, which is how the source uses them; the values it reads back
  leave out the type meta of an object and do not tell a nil slice or map from an empty one. The conditions on a pod in
  \<open>Rendered\<close> are this development's, not the validation of the API server.
\<close>

section \<open>Properties of a reconcile\<close>

text \<open>
  C1. The rollout is held until the weights are cached. Whenever a reconcile sends a server-side
  apply, the object is the Service, the budget or the Deployment rendered for the replica count
  that is in the spec (read, or written in this reconcile before), and a Deployment that is not
  paused is only sent when no cache is configured or this reconcile has, before, read the warm-up
  Job of the spec's cache key and found it succeeded.
\<close>

theorem rollout_held_until_warm:
  assumes "documented_finalizers (R_Lib r)"
    and "snd (reconcile_trace r req w) = pre @ Apply cfg owner force e # post"
  shows "owner = FieldOwner \<and> force \<and>
     (\<exists>md md' n. GetModelDeployment req (Inr md) \<in> set pre \<and>
        (n = Replicas md \<and> md' = md \<or>
         Update (md\<lparr>MD_Spec := (MD_Spec md)\<lparr>Spec_Replicas := n\<rparr>\<rparr>) (Inr md') \<in> set pre) \<and>
        (applies r md' (ServiceObject (Service md')) cfg \<or>
         (\<exists>m. PDBMinAvailable md' n = (m, True) \<and> applies r md' (PDBObject (PDB md' m)) cfg) \<or>
         (\<exists>paused. applies r md' (DeploymentObject (Deployment md' (CacheKey md) n paused)) cfg \<and>
            (paused \<or> WeightCache md' = None \<or>
             (\<exists>job. GetJob (own_key md (WarmJobName md (CacheKey md))) (Inr job) \<in> set pre \<and>
                0 <s JobStatus_Succeeded (Job_Status job))))))"
  using trace_split [OF assms(2)] assms(1)
proof (cases rule: reconcile_run_cases)
  case (finalizes md t')
  from finalizes(3) finalizes(1) show ?thesis
    by cases (auto simp: Cons_eq_append_conv append_eq_Cons_conv)
next
  case (syncs md t')
  from syncs(1) obtain pre' where pre: "pre = GetModelDeployment req (Inr md) # pre'"
    "t' = pre' @ Apply cfg owner force e # post"
    by (auto simp: append_eq_Cons_conv)
  obtain md' n cache where c: "rollout_call r md' (CacheKey md) n cache (Apply cfg owner force e)"
    and job: "cache_warm cache \<Longrightarrow> \<exists>job. GetJob (own_key md (WarmJobName md (CacheKey md))) (Inr job) \<in> set pre' \<and>
       0 <s JobStatus_Succeeded (Job_Status job)"
    and upd: "n = Replicas md \<and> md' = md \<or>
       Update (md\<lparr>MD_Spec := (MD_Spec md)\<lparr>Spec_Replicas := n\<rparr>\<rparr>) (Inr md') \<in> set pre'"
    using sync_run_apply [OF syncs(4) pre(2)] by metis
  have dep: "held md' cache \<or> WeightCache md' = None \<or>
     (\<exists>job. GetJob (own_key md (WarmJobName md (CacheKey md))) (Inr job) \<in> set pre \<and>
        0 <s JobStatus_Succeeded (Job_Status job))"
    using job pre(1) by (auto simp: held_def)
  have what: "applies r md' (ServiceObject (Service md')) cfg \<or>
     (\<exists>m. PDBMinAvailable md' n = (m, True) \<and> applies r md' (PDBObject (PDB md' m)) cfg) \<or>
     applies r md' (DeploymentObject (Deployment md' (CacheKey md) n (held md' cache))) cfg"
    using c by (cases "PDBMinAvailable md' n") auto
  have final: "applies r md' (ServiceObject (Service md')) cfg \<or>
     (\<exists>m. PDBMinAvailable md' n = (m, True) \<and> applies r md' (PDBObject (PDB md' m)) cfg) \<or>
     (\<exists>paused. applies r md' (DeploymentObject (Deployment md' (CacheKey md) n paused)) cfg \<and>
        (paused \<or> WeightCache md' = None \<or>
         (\<exists>job. GetJob (own_key md (WarmJobName md (CacheKey md))) (Inr job) \<in> set pre \<and>
            0 <s JobStatus_Succeeded (Job_Status job))))"
    using what dep by blast
  have own: "owner = FieldOwner" "force" using c by simp_all
  have get: "GetModelDeployment req (Inr md) \<in> set pre" using pre(1) by simp
  have upd': "n = Replicas md \<and> md' = md \<or>
     Update (md\<lparr>MD_Spec := (MD_Spec md)\<lparr>Spec_Replicas := n\<rparr>\<rparr>) (Inr md') \<in> set pre"
    using upd pre(1) by auto
  show ?thesis
    by (intro conjI exI [of _ md] exI [of _ md'] exI [of _ n]) (fact own get upd' final)+
qed (auto simp: Cons_eq_append_conv append_eq_Cons_conv)

text \<open>
  C7. Children only exist under the finalizer: a reconcile that creates, applies or deletes any
  object other than the ModelDeployment has begun by reading a ModelDeployment that carries the
  operator's finalizer.
\<close>

theorem children_only_with_finalizer:
  assumes "documented_finalizers (R_Lib r)"
    and "c \<in> set (snd (reconcile_trace r req w))" "child_write c"
  shows "\<exists>md t. snd (reconcile_trace r req w) = GetModelDeployment req (Inr md) # t \<and>
     has_finalizer Finalizer md"
  using trace_split [of r req w, OF refl] assms(1)
proof (cases rule: reconcile_run_cases)
  case (finalizes md t')
  from finalizes(3) show ?thesis
    using finalizes(1) assms by cases (auto simp: documented_finalizers_def)
qed (use assms in auto)

text \<open>
  C2. Teardown order: the finalizer is taken off (an update to an object without it) only as the last call of a
  reconcile of an object being deleted, after the Deployment was deleted or found gone, the
  warm-up Jobs were deleted, and a list of the instance's pods came back empty.
\<close>

theorem finalizer_released_last:
  assumes "documented_finalizers (R_Lib r)" "documented_errors (R_Lib r)"
    and "snd (reconcile_trace r req w) = pre @ Update md' res # post" "\<not> has_finalizer Finalizer md'"
  shows "post = [] \<and> (\<exists>md e. deleting md \<and> (e = None \<or> (\<exists>x. e = Some x \<and> IsNotFound (R_Lib r) x)) \<and>
     pre = [GetModelDeployment req (Inr md), delete_deployment md e, delete_jobs md None, list_pods md (Inr [])])"
  using trace_split [OF assms(3)] assms(1)
proof (cases rule: reconcile_run_cases)
  case (finalizes md t')
  from finalizes(3) show ?thesis
    using finalizes(1,2)
    by cases (auto simp: Cons_eq_append_conv append_eq_Cons_conv ignore_None [OF assms(2)])
next
  case (claims md res)
  then show ?thesis
    using assms(4) by (auto simp: Cons_eq_append_conv append_eq_Cons_conv has_finalizer_def set_finalizers_def)
next
  case (syncs md t')
  from syncs(1) have "Update md' res \<in> set t'" by (auto simp: append_eq_Cons_conv)
  from sync_run_update [OF syncs(4) this] syncs(3) assms(4) show ?thesis
    by (simp add: has_finalizer_def)
qed (auto simp: Cons_eq_append_conv append_eq_Cons_conv)

text \<open>
  C6. The claim with the weights is never deleted and never overwritten: no reconcile deletes a
  PersistentVolumeClaim, and one creates a claim only when the ModelDeployment it read owns its claim
  and reading that claim, in this reconcile, found none; the claim is the rendered one with an owner set.
\<close>

theorem claim_protected:
  assumes "documented_finalizers (R_Lib r)"
  shows "Delete (PVCObject pvc) policy e \<notin> set (snd (reconcile_trace r req w)) \<and>
     (Create (PVCObject pvc) e \<in> set (snd (reconcile_trace r req w)) \<longrightarrow>
       (\<exists>md x pvc0 m. GetModelDeployment req (Inr md) \<in> set (snd (reconcile_trace r req w)) \<and>
          OwnsPVC md \<and> IsNotFound (R_Lib r) x \<and>
          GetPVC (own_key md (PVCName md)) (Inl x) \<in> set (snd (reconcile_trace r req w)) \<and>
          PVC md = Inr pvc0 \<and> pvc = pvc0\<lparr>PVC_ObjectMeta := m\<rparr>))"
  using trace_split [of r req w, OF refl] assms
proof (cases rule: reconcile_run_cases)
  case (finalizes md t')
  from finalizes(3) finalizes(1) show ?thesis by cases auto
next
  case (syncs md t')
  have "\<exists>x pvc0 m. OwnsPVC md \<and> IsNotFound (R_Lib r) x \<and> GetPVC (own_key md (PVCName md)) (Inl x) \<in> set t' \<and>
      PVC md = Inr pvc0 \<and> pvc = pvc0\<lparr>PVC_ObjectMeta := m\<rparr>" if "Create (PVCObject pvc) e \<in> set t'"
    using sync_run_claim(2) [OF syncs(4) that] by (auto simp: own_Inr_iff)
  with syncs(1) sync_run_claim(1) [OF syncs(4)] show ?thesis by auto
qed auto

text \<open>
  C21. No panic: if every object the API server hands out under the request's key passed the validation of
  the CRD, a reconcile ends with a result and an error value, whatever else the cluster does.
\<close>

theorem valid_objects_never_panic:
  assumes "documented_finalizers (R_Lib r)"
    and "\<forall>md v v'. run_state (Client_Get_ModelDeployment (R_Client r) req) v = (Inr md, v') \<longrightarrow>
           crd_valid (MD_Spec md)"
  shows "\<exists>result err. fst (reconcile_trace r req w) = Inr (result, err)"
  using trace_split [of r req w, OF refl] assms(1)
proof (cases rule: reconcile_run_cases)
  case (finalizes md t')
  from finalizes(3) show ?thesis by cases (auto simp: fail_def)
next
  case (syncs md t')
  from syncs(5) assms(2) have valid: "crd_valid (MD_Spec md)" by blast
  from syncs(4) show ?thesis
  proof cases
    case (decide_panics cache t1 p t2)
    from decide_panics(4) show ?thesis
      by cases (use valid in \<open>auto simp: Decide_panics_aux crd_valid_def valid_autoscaling_def policy_of_def\<close>)
  next
    case (rolls_out cache t1 n scaleErr st t2 md' t3 t4)
    from rolls_out(5) show ?thesis by cases (auto simp: fail_def)
  qed (auto simp: fail_def)
qed auto

text \<open>What a reconcile of a live object has done when it has done everything, as calls that succeeded.\<close>

definition gone :: "('w, 'e, 'u) Library \<Rightarrow> 'e option \<Rightarrow> bool" where
  "gone L e \<longleftrightarrow> e = None \<or> (\<exists>x. e = Some x \<and> IsNotFound L x)"

definition everything_applied ::
  "('w, 'e, 'u) ModelDeploymentReconciler \<Rightarrow> ModelDeployment \<Rightarrow> ('e, 'u) call list \<Rightarrow> bool" where
  "everything_applied r md t \<longleftrightarrow>
     (\<exists>md' n paused dep svc g.
       (n = Replicas md \<and> md' = md \<or>
        Update (md\<lparr>MD_Spec := (MD_Spec md)\<lparr>Spec_Replicas := n\<rparr>\<rparr>) (Inr md') \<in> set t) \<and>
       applies r md' (DeploymentObject (Deployment md' (CacheKey md) n paused)) dep \<and>
       Apply dep FieldOwner True None \<in> set t \<and>
       applies r md' (ServiceObject (Service md')) svc \<and> Apply svc FieldOwner True None \<in> set t \<and>
       (case PDBMinAvailable md' n of
          (m, True) \<Rightarrow> \<exists>pdb. applies r md' (PDBObject (PDB md' m)) pdb \<and> Apply pdb FieldOwner True None \<in> set t
        | (m, False) \<Rightarrow> \<exists>e. Delete (PDBObject (named_pdb (PDBName md') (MD_Namespace md'))) None e \<in> set t \<and>
                         gone (R_Lib r) e) \<and>
       GetDeployment (own_key md' (DeploymentName md')) g \<in> set t)"

lemma sync_run_success:
  assumes "documented_errors (R_Lib r)" "sync_run r md (Inr (result, None)) t"
  shows "everything_applied r md t"
  using assms(2)
proof cases
  case (rolls_out cache t1 n scaleErr st t2 md' t3 t4)
  from rolls_out(5) obtain s1 s2 s3 s4 s5 wl where
    s: "dep_run r md' (CacheKey md) n cache None s1" "svc_run r md' None s2" "pdb_run r md' n None s3"
      "observe_run r md' (wl, None) s4" "t4 = s1 @ s2 @ s3 @ s4 @ s5"
    by cases (auto simp: fail_def)
  have u: "n = Replicas md \<and> md' = md \<or>
      Update (md\<lparr>MD_Spec := (MD_Spec md)\<lparr>Spec_Replicas := n\<rparr>\<rparr>) (Inr md') \<in> set t"
    using write_run_Inr [OF rolls_out(4)] rolls_out(1) by auto
  from apply_run_ok [OF s(1)] obtain dep where d:
    "applies r md' (DeploymentObject (Deployment md' (CacheKey md) n (held md' cache))) dep"
    "Apply dep FieldOwner True None \<in> set t"
    using rolls_out(1) s(5) by auto
  from apply_run_ok [OF s(2)] obtain svc where v:
    "applies r md' (ServiceObject (Service md')) svc" "Apply svc FieldOwner True None \<in> set t"
    using rolls_out(1) s(5) by auto
  have sub: "set s3 \<subseteq> set t" "set s4 \<subseteq> set t" using rolls_out(1) s(5) by auto
  obtain m wanted where m: "PDBMinAvailable md' n = (m, wanted)" by fastforce
  have p: "case PDBMinAvailable md' n of
      (m, True) \<Rightarrow> \<exists>pdb. applies r md' (PDBObject (PDB md' m)) pdb \<and> Apply pdb FieldOwner True None \<in> set t
    | (m, False) \<Rightarrow> \<exists>e. Delete (PDBObject (named_pdb (PDBName md') (MD_Namespace md'))) None e \<in> set t \<and>
                     gone (R_Lib r) e"
    using s(3) sub(1) apply_run_ok [of r md' "PDBObject (PDB md' m)" s3]
    by (cases wanted) (auto simp: m pdb_run_def ignore_None [OF assms(1)] gone_def)
  from s(4) obtain g where g: "GetDeployment (own_key md' (DeploymentName md')) g \<in> set t"
    using sub(2) by (auto simp: observe_run_def)
  show ?thesis
    unfolding everything_applied_def
    by (intro exI [of _ md'] exI [of _ n] exI [of _ "held md' cache"] exI [of _ dep] exI [of _ svc]
          exI [of _ g] conjI) (fact u d v p g)+
qed (auto simp: fail_def)

text \<open>A teardown that returns no error.\<close>

lemma finalize_run_success:
  assumes "documented_errors (R_Lib r)" "documented_finalizers (R_Lib r)"
    and "finalize_run r md (Inr (result, None)) t"
  shows "if has_finalizer Finalizer md
     then \<exists>e pods rest. gone (R_Lib r) e \<and>
       t = delete_deployment md e # delete_jobs md None # list_pods md (Inr pods) # rest \<and>
       (if pods \<noteq> [] then rest = [] \<and> RequeueAfter result = terminationPollInterval
        else result = Result0 \<and>
          (\<exists>md2. rest = [Update (set_finalizers (filter (\<lambda>f. f \<noteq> Finalizer) (ObjectMeta_Finalizers (MD_ObjectMeta md))) md)
             (Inr md2)]))
     else t = [] \<and> result = Result0"
  using assms(3)
  by cases (use assms(2) in \<open>auto simp: documented_finalizers_def fail_def gone_def ignore_None [OF assms(1)] split: sum.splits\<close>)


text \<open>
  C5. A status that says \<open>Ready\<close> tells the truth: when a reconcile writes a status whose
  Ready condition is true, the written object asks for a non-zero number of replicas, this reconcile read the Deployment with at least
  that many ready replicas, and, with a weight cache configured, it read a succeeded warm-up Job
  for the cache key.
\<close>

theorem ready_means_serving:
  assumes "documented_finalizers (R_Lib r)" "documented_conditions (R_Lib r)"
    and "list_all keyed_answer (snd (reconcile_trace r req w))"
    and "StatusUpdate md' res \<in> set (snd (reconcile_trace r req w))"
    and "condition_of ConditionReady (Status_Conditions (MD_Status md')) = Some c"
    and "Condition_Status c = ConditionTrue"
  shows "Replicas md' \<noteq> 0 \<and>
     (\<exists>dep. GetDeployment (own_key md' (DeploymentName md')) (Inr dep) \<in> set (snd (reconcile_trace r req w)) \<and>
        Replicas md' \<le>s DeploymentStatus_ReadyReplicas (Deployment_Status dep)) \<and>
     (WeightCache md' = None \<or>
      (\<exists>md job. GetModelDeployment req (Inr md) \<in> set (snd (reconcile_trace r req w)) \<and>
         GetJob (own_key md (WarmJobName md (CacheKey md))) (Inr job) \<in> set (snd (reconcile_trace r req w)) \<and>
         0 <s JobStatus_Succeeded (Job_Status job)))"
proof -
  let ?T = "snd (reconcile_trace r req w)"
  obtain md cache n scaleErr st md1 g t2 b where
    warm: "cache_warm cache \<longrightarrow> (\<exists>job. GetJob (own_key md (WarmJobName md (CacheKey md))) (Inr job) \<in> set ?T \<and>
       0 <s JobStatus_Succeeded (Job_Status job))"
    and b: "b = applyWorkload ((note_error st scaleErr)\<lparr>sb_md := md1\<rparr>) (workload_of g) (held md1 cache)"
    and md: "MD_Spec md' = MD_Spec md1" "GetModelDeployment req (Inr md) \<in> set ?T"
      "GetDeployment (own_key md' (DeploymentName md')) g \<in> set ?T"
    and look: "\<forall>c \<in> set (built (ErrorText (R_Lib r)) b).
       \<exists>c'. condition_of (Condition_Type c) (Status_Conditions (MD_Status md')) = Some c' \<and>
            Condition_Status c' = Condition_Status c"
    by (rule written_status [OF trace_split [of r req w, OF refl] assms(1-4)], rule that)
  from look assms(5,6) have "Condition_Status (ready b) = ConditionTrue" by (auto simp: built_def)
  then have ready: "Replicas md' \<noteq> 0" "\<not> held md1 cache" "workload_exists (workload_of g)"
    "Replicas md' \<le>s workload_readyReplicas (workload_of g)"
    using md(1) by (simp_all add: ready_true b)
  then obtain dep where "g = Inr dep" by (cases g) (simp_all add: workload_of_def workloadState0_def)
  with ready md(3) have "\<exists>dep. GetDeployment (own_key md' (DeploymentName md')) (Inr dep) \<in> set ?T \<and>
      Replicas md' \<le>s DeploymentStatus_ReadyReplicas (Deployment_Status dep)"
    by (auto simp: workload_of_def)
  moreover have "WeightCache md' = None \<or>
      (\<exists>md job. GetModelDeployment req (Inr md) \<in> set ?T \<and>
         GetJob (own_key md (WarmJobName md (CacheKey md))) (Inr job) \<in> set ?T \<and>
         0 <s JobStatus_Succeeded (Job_Status job))"
    using ready(2) warm md(1,2) by (auto simp: held_def)
  ultimately show ?thesis using ready(1) by blast
qed

text \<open>
  C22. A failing metrics service leaves the size alone and is reported: when the queue depth could
  not be read, the reconcile does not write the spec, and a status it writes has a true Degraded
  condition and repeats the queue depth of the object it read.
\<close>

theorem metric_failure_degrades:
  assumes "documented_finalizers (R_Lib r)" "documented_conditions (R_Lib r)"
    and "list_all keyed_answer (snd (reconcile_trace r req w))"
    and "QueueDepth ns m sel (Inl err) \<in> set (snd (reconcile_trace r req w))"
  shows "(\<forall>md' res. Update md' res \<notin> set (snd (reconcile_trace r req w))) \<and>
     (\<forall>md' res. StatusUpdate md' res \<in> set (snd (reconcile_trace r req w)) \<longrightarrow>
        (\<exists>md c. GetModelDeployment req (Inr md) \<in> set (snd (reconcile_trace r req w)) \<and>
           Status_ObservedQueueDepth (MD_Status md') = Status_ObservedQueueDepth (MD_Status md) \<and>
           condition_of ConditionDegraded (Status_Conditions (MD_Status md')) = Some c \<and>
           Condition_Status c = ConditionTrue))"
proof (intro conjI allI impI)
  let ?T = "snd (reconcile_trace r req w)"
  show "Update md' res \<notin> set ?T" for md' res
    using trace_split [of r req w, OF refl] assms(1)
  proof (cases rule: reconcile_run_cases)
    case (finalizes md t')
    from finalizes(3) finalizes(1) assms(4) show ?thesis by cases auto
  next
    case (syncs md t')
    then show ?thesis using assms(4) sync_run_metric_failure [OF syncs(4)] by auto
  qed (use assms(4) in auto)
next
  fix md' res assume u: "StatusUpdate md' res \<in> set (snd (reconcile_trace r req w))"
  let ?T = "snd (reconcile_trace r req w)"
  obtain md cache n scaleErr st md1 g t2 b where
    d: "decide_run r md (cache_warm cache) (applyCache (newStatusBuilder md (CacheKey md)) cache)
       (Inr (n, scaleErr, st)) t2"
    and q: "\<forall>ns m sel q. QueueDepth ns m sel q \<in> set ?T \<longrightarrow> QueueDepth ns m sel q \<in> set t2"
    and b: "b = applyWorkload ((note_error st scaleErr)\<lparr>sb_md := md1\<rparr>) (workload_of g) (held md1 cache)"
    and md: "GetModelDeployment req (Inr md) \<in> set ?T"
      "GetDeployment (own_key md' (DeploymentName md')) g \<in> set ?T"
      "Status_ObservedQueueDepth (MD_Status md') = sb_queueDepth st"
    and look: "\<forall>c \<in> set (built (ErrorText (R_Lib r)) b).
       \<exists>c'. condition_of (Condition_Type c) (Status_Conditions (MD_Status md')) = Some c' \<and>
            Condition_Status c' = Condition_Status c"
    by (rule written_status [OF trace_split [of r req w, OF refl] assms(1-3) u], rule that)
  from q assms(4) have "QueueDepth ns m sel (Inl err) \<in> set t2" by blast
  with d have st: "scaleErr = Some err \<and> st = applyCache (newStatusBuilder md (CacheKey md)) cache"
    by cases auto
  then have "Condition_Status (degraded (ErrorText (R_Lib r)) b) = ConditionTrue"
    by (simp add: degraded_true b note_error_def)
  with look have "\<exists>c. condition_of ConditionDegraded (Status_Conditions (MD_Status md')) = Some c \<and>
      Condition_Status c = ConditionTrue"
    by (auto simp: built_def)
  with md st show "\<exists>md c. GetModelDeployment req (Inr md) \<in> set ?T \<and>
      Status_ObservedQueueDepth (MD_Status md') = Status_ObservedQueueDepth (MD_Status md) \<and>
      condition_of ConditionDegraded (Status_Conditions (MD_Status md')) = Some c \<and>
      Condition_Status c = ConditionTrue"
    by auto
qed

text \<open>
  With the queue source of \<open>queue.go\<close> the status never gains a negative queue depth: the
  depth a reconcile writes is not negative, or it is the one of the object it read.
\<close>

theorem observed_depth_nonneg:
  assumes "documented_finalizers (R_Lib r)" "documented_conditions (R_Lib r)"
    and "list_all keyed_answer (snd (reconcile_trace r req w))"
    and "R_Queue r = Some (Depth c)"
    and "StatusUpdate md' res \<in> set (snd (reconcile_trace r req w))"
  shows "0 \<le> sint (Status_ObservedQueueDepth (MD_Status md')) \<or>
     (\<exists>md. GetModelDeployment req (Inr md) \<in> set (snd (reconcile_trace r req w)) \<and>
        Status_ObservedQueueDepth (MD_Status md') = Status_ObservedQueueDepth (MD_Status md))"
proof -
  obtain md cache n scaleErr st t2 where
    d: "decide_run r md (cache_warm cache) (applyCache (newStatusBuilder md (CacheKey md)) cache)
       (Inr (n, scaleErr, st)) t2"
    and md: "GetModelDeployment req (Inr md) \<in> set (snd (reconcile_trace r req w))"
      "Status_ObservedQueueDepth (MD_Status md') = sb_queueDepth st"
    by (rule written_status [OF trace_split [of r req w, OF refl] assms(1-3,5)], rule that)
  from custom_metrics.decide_depth [OF assms(4) d] md show ?thesis by auto
qed


text \<open>
  C23. Only stale warm-up Jobs are pruned, and all of them are. A reconcile, successful or not, deletes a single Job only if
  it read a ModelDeployment that is not being deleted, and the cache-key label of the Job differs from the current
  key of that object; the other call that deletes Jobs, all of an instance, is only made for an object that is being
  deleted. A reconcile of a live object with the finalizer and a weight cache that reports success has listed the
  warm-up Jobs of the object and has deleted every stale one in that list, or found it gone.
\<close>

theorem stale_jobs_pruned:
  assumes "documented_finalizers (R_Lib r)" "documented_errors (R_Lib r)"
    and "reconcile_trace r req w = (out, t)"
  shows "(\<forall>job policy e. Delete (JobObject job) policy e \<in> set t \<longrightarrow>
      (\<exists>md. GetModelDeployment req (Inr md) \<in> set t \<and> \<not> deleting md \<and> stale (CacheKey md) job)) \<and>
    (\<forall>ns sel policy e. DeleteAllOfJobs ns sel policy e \<in> set t \<longrightarrow>
      (\<exists>md. GetModelDeployment req (Inr md) \<in> set t \<and> deleting md \<and>
         ns = MD_Namespace md \<and> sel = [LabelInstance \<mapsto> MD_Name md])) \<and>
    (\<forall>md result. GetModelDeployment req (Inr md) \<in> set t \<and> \<not> deleting md \<and> has_finalizer Finalizer md \<and>
        WeightCache md \<noteq> None \<and> out = Inr (result, None) \<longrightarrow>
      (\<exists>jobs. ListJobs (MD_Namespace md) (warm_selector md) (Inr jobs) \<in> set t \<and>
         (\<forall>job \<in> set jobs. stale (CacheKey md) job \<longrightarrow>
            (\<exists>e. Delete (JobObject job) (Some DeletePropagationBackground) e \<in> set t \<and> gone (R_Lib r) e))))"
  using reconcile_trace_run [OF assms(3)] assms(1)
proof (cases rule: reconcile_run_cases)
  case (finalizes md t')
  from finalizes(3) show ?thesis using finalizes(1,2) by cases auto
next
  case (syncs md t')
  have no_get: "GetModelDeployment key res \<notin> set t'" for key res
  proof
    assume "GetModelDeployment key res \<in> set t'"
    with syncs(4) show False by (rule sync_run_call) (auto dest: cache_run_calls(1))
  qed
  have stale: "stale (CacheKey md) job" if "Delete (JobObject job) policy e \<in> set t'" for job policy e
    using syncs(4) that by (rule sync_run_call) (auto dest: cache_run_calls(1))
  have no_all: "DeleteAllOfJobs ns sel policy e \<notin> set t'" for ns sel policy e
  proof
    assume "DeleteAllOfJobs ns sel policy e \<in> set t'"
    with syncs(4) show False by (rule sync_run_call) (auto dest: cache_run_calls(1))
  qed
  have "\<exists>jobs. ListJobs (MD_Namespace md) (warm_selector md) (Inr jobs) \<in> set t' \<and>
      (\<forall>job \<in> set jobs. stale (CacheKey md) job \<longrightarrow>
         (\<exists>e. Delete (JobObject job) (Some DeletePropagationBackground) e \<in> set t' \<and> gone (R_Lib r) e))"
    if out: "WeightCache md \<noteq> None" "out = Inr (result, None)" for result
  proof -
    obtain cache t1 where c: "cache_run r md (CacheKey md) (Inr (cache, None)) t1" "set t1 \<subseteq> set t'"
      using syncs(4) out(2) by cases (auto simp: fail_def)
    from c(1) out(1) obtain jobs where
      "ListJobs (MD_Namespace md) (warm_selector md) (Inr jobs) \<in> set t1"
      "\<forall>job \<in> set jobs. stale (CacheKey md) job \<longrightarrow> (\<exists>c \<in> set t1. deleted r job c)"
      by (auto simp: cache_run_def)
    with c(2) show ?thesis by (fastforce simp: deleted_def ignore_None [OF assms(2)] gone_def)
  qed
  with syncs(1,2) no_get stale no_all show ?thesis by auto
qed auto


section \<open>Witnesses\<close>

text \<open>Each property applied to one of the concrete reconciles.\<close>

theorem rollout_held_until_warm_witness:
  "\<exists>md job pre. snd (reconcile_trace failing request 0) = pre @ [deployed live 2 (Some ''boom'')] \<and>
     GetModelDeployment request (Inr md) \<in> set pre \<and>
     (WeightCache md = None \<or> GetJob (own_key md (WarmJobName md (CacheKey md))) (Inr job) \<in> set pre)"
proof -
  let ?pre = "GetModelDeployment request (Inr live) # cache_calls live (CacheKey live)"
  have t: "snd (reconcile_trace failing request 0) = ?pre @ deployed live 2 (Some ''boom'') # []"
    by (simp add: failing_trace)
  have "documented_finalizers (R_Lib failing)" by (simp add: failing_def)
  from rollout_held_until_warm [OF this t] have "GetModelDeployment request (Inr live) \<in> set ?pre" by simp
  moreover have "GetJob (own_key live (WarmJobName live (CacheKey live))) (Inr (test_job 1)) \<in> set ?pre"
    by (simp add: cache_calls_def)
  ultimately show ?thesis using t by blast
qed

theorem children_only_with_finalizer_witness:
  "\<exists>md t. snd (reconcile_trace failing request 0) = GetModelDeployment request (Inr md) # t \<and>
     has_finalizer Finalizer md"
proof (rule children_only_with_finalizer)
  show "documented_finalizers (R_Lib failing)" by (simp add: failing_def)
  show "deployed live 2 (Some ''boom'') \<in> set (snd (reconcile_trace failing request 0))"
    by (simp add: failing_trace)
qed simp

theorem finalizer_released_last_witness:
  "\<exists>md e. deleting md \<and>
     snd (reconcile_trace torn_down request 0) =
       [GetModelDeployment request (Inr md), delete_deployment md e, delete_jobs md None, list_pods md (Inr [])]
       @ [Update released (Inr released)]"
proof -
  let ?pre = "[GetModelDeployment request (Inr dying), delete_deployment dying (Some NotFound),
    delete_jobs dying None, list_pods dying (Inr [])]"
  have t: "snd (reconcile_trace torn_down request 0) = ?pre @ Update released (Inr released) # []"
    by (simp add: torn_down_trace)
  have "\<not> has_finalizer Finalizer released"
    by (simp add: released_def has_finalizer_def set_finalizers_def)
  with finalizer_released_last [OF _ _ t] have "\<exists>md. deleting md \<and> md = dying"
    by (auto simp: torn_down_def)
  with t show ?thesis by auto
qed

theorem claim_protected_witness:
  "\<exists>pvc. Create (PVCObject pvc) None \<in> set (snd (reconcile_trace failing request 0)) \<and>
     (\<exists>md x. OwnsPVC md \<and> GetPVC (own_key md (PVCName md)) (Inl x) \<in> set (snd (reconcile_trace failing request 0)))"
proof -
  obtain pvc where "owned live (PVCObject (live_pvc live)) = PVCObject pvc" using owned_PVC by blast
  then have c: "Create (PVCObject pvc) None \<in> set (snd (reconcile_trace failing request 0))"
    by (simp add: failing_trace cache_calls_def)
  have "documented_finalizers (R_Lib failing)" by (simp add: failing_def)
  from claim_protected [OF this, of pvc _ None request 0] c show ?thesis by blast
qed

theorem valid_objects_never_panic_witness:
  "\<exists>result err. fst (reconcile_trace failing request 0) = Inr (result, err)"
  by (rule valid_objects_never_panic) (simp_all add: failing_def live_valid)


theorem ready_means_serving_witness:
  "\<exists>dep. GetDeployment (own_key served (DeploymentName served)) (Inr dep)
       \<in> set (snd (reconcile_trace (serving None) request 0)) \<and>
     Replicas served \<le>s DeploymentStatus_ReadyReplicas (Deployment_Status dep)"
proof -
  obtain c where c: "condition_of ConditionReady (Status_Conditions (MD_Status served)) = Some c"
    "Condition_Status c = ConditionTrue" using served_ready by blast
  have k: "list_all keyed_answer (snd (reconcile_trace (serving None) request 0))"
    by (simp add: serving_trace cache_calls_def rollout_calls_def)
  have u: "StatusUpdate served (Inr served) \<in> set (snd (reconcile_trace (serving None) request 0))"
    by (simp add: serving_trace rollout_calls_def)
  from ready_means_serving [OF _ _ k u c] show ?thesis by (auto simp: serving_def)
qed

theorem metric_failure_degrades_witness:
  "asked (Inl (Errorf ''down'')) \<in> set (snd (reconcile_trace down request 0)) \<and>
   Update scaled (Inr scaled) \<notin> set (snd (reconcile_trace down request 0))"
proof -
  have k: "list_all keyed_answer (snd (reconcile_trace down request 0))"
    by (simp add: down_trace cache_calls_def)
  have q: "asked (Inl (Errorf ''down'')) \<in> set (snd (reconcile_trace down request 0))"
    by (simp add: down_trace)
  from metric_failure_degrades [OF _ _ k q] q show ?thesis by (auto simp: down_def)
qed

theorem observed_depth_nonneg_witness:
  "0 \<le> sint (Status_ObservedQueueDepth (MD_Status served)) \<or>
   Status_ObservedQueueDepth (MD_Status served) = Status_ObservedQueueDepth (MD_Status live)"
proof -
  let ?r = "serving (Some (Depth two_pods))"
  have k: "list_all keyed_answer (snd (reconcile_trace ?r request 0))"
    by (simp add: serving_trace cache_calls_def rollout_calls_def)
  have u: "StatusUpdate served (Inr served) \<in> set (snd (reconcile_trace ?r request 0))"
    by (simp add: serving_trace rollout_calls_def)
  have only: "GetModelDeployment request (Inr md) \<in> set (snd (reconcile_trace ?r request 0)) \<Longrightarrow> md = live" for md
    by (simp add: serving_trace cache_calls_def rollout_calls_def)
  from observed_depth_nonneg [OF _ _ k _ u] only show ?thesis by (auto simp: serving_def)
qed


theorem stale_jobs_pruned_witness:
  "\<exists>jobs. ListJobs (MD_Namespace live) (warm_selector live) (Inr jobs)
     \<in> set (cache_calls live (CacheKey live) @ rollout_calls)"
proof -
  have "documented_finalizers (R_Lib (serving None))" "documented_errors (R_Lib (serving None))"
    by (simp_all add: serving_def)
  from stale_jobs_pruned [OF this serving_trace [of None]] show ?thesis by auto
qed

text \<open>A metrics service where one pod reports 2^31 waiting requests.\<close>

definition flood :: "(unit, string) CustomMetrics" where
  "flood =
     \<lparr>GetForObjects = (\<lambda>_ _ _ _ _. State_Monad.return (Inr [\<lparr>MetricValue_Value = MustParse ''2147483648''\<rparr>])),
      MilliValue = (\<lambda>_. 2147483648000)\<rparr>"


subsection \<open>Writes and watches\<close>

text \<open>The kind a watch is registered for, of the objects the controller writes.\<close>

fun watched_as :: "Object \<Rightarrow> watched option" where
  "watched_as (DeploymentObject d) = Some Watch_Deployment"
| "watched_as (ServiceObject s) = Some Watch_Service"
| "watched_as (PDBObject b) = Some Watch_PDB"
| "watched_as (JobObject j) = Some Watch_Job"
| "watched_as (PVCObject c) = None"

lemma watched_as_with_meta [simp]: "watched_as (with_meta obj m) = watched_as obj"
  by (cases obj) simp_all

definition owned_kind :: "Object \<Rightarrow> bool" where
  "owned_kind obj \<longleftrightarrow> watched_as obj \<in> Some ` set (Builder_Owns controller_builder)"

lemma owned_kind_simps [simp]:
  "owned_kind (DeploymentObject d)" "owned_kind (ServiceObject s)" "owned_kind (PDBObject b)"
  "owned_kind (JobObject j)" "\<not> owned_kind (PVCObject c)" "owned_kind (with_meta obj m) = owned_kind obj"
  by (simp_all add: owned_kind_def controller_builder_eq image_iff)

lemma own_kind:
  "own r md (JobObject job) = Inr obj \<Longrightarrow> owned_kind obj"
  "own r md (PVCObject pvc) = Inr obj \<Longrightarrow> \<exists>pvc'. obj = PVCObject pvc'"
  by (auto simp: own_Inr_iff)

lemma applies_owned:
  "applies r md (DeploymentObject d) cfg \<Longrightarrow> \<exists>md obj. applies r md obj cfg \<and> owned_kind obj"
  "applies r md (ServiceObject s) cfg \<Longrightarrow> \<exists>md obj. applies r md obj cfg \<and> owned_kind obj"
  "applies r md (PDBObject b) cfg \<Longrightarrow> \<exists>md obj. applies r md obj cfg \<and> owned_kind obj"
  using owned_kind_simps by blast+

text \<open>
  C26. The controller watches what it writes. Every object a reconcile creates is a Job or the claim, every
  object it applies is of a kind \<open>SetupWithManager\<close> registers with \<open>Owns\<close>, and both carry the controller
  reference to the ModelDeployment through which the watch finds its way back; every object it deletes is of a
  registered kind. The claim with the weights is the one exception: it is created and never watched.
\<close>

theorem writes_are_watched:
  assumes "documented_finalizers (R_Lib r)"
  shows "(\<forall>obj e. Create obj e \<in> set (snd (reconcile_trace r req w)) \<longrightarrow>
        (\<exists>md obj0. own r md obj0 = Inr obj \<and> (owned_kind obj \<or> (\<exists>pvc. obj = PVCObject pvc)))) \<and>
      (\<forall>cfg owner force e. Apply cfg owner force e \<in> set (snd (reconcile_trace r req w)) \<longrightarrow>
        (\<exists>md obj. applies r md obj cfg \<and> owned_kind obj)) \<and>
      (\<forall>obj policy e. Delete obj policy e \<in> set (snd (reconcile_trace r req w)) \<longrightarrow> owned_kind obj)"
proof -
  have calls: "(case c of
      Create obj e \<Rightarrow> \<exists>md obj0. own r md obj0 = Inr obj \<and> (owned_kind obj \<or> (\<exists>pvc. obj = PVCObject pvc))
    | Apply cfg owner force e \<Rightarrow> \<exists>md obj. applies r md obj cfg \<and> owned_kind obj
    | Delete obj policy e \<Rightarrow> owned_kind obj
    | _ \<Rightarrow> True)" if c: "c \<in> set (snd (reconcile_trace r req w))" for c
    using trace_split [of r req w, OF refl] assms
  proof (cases rule: reconcile_run_cases)
    case (finalizes md t')
    from finalizes(3) c finalizes(1) show ?thesis by cases auto
  next
    case (syncs md t')
    show ?thesis
    proof (cases "c \<in> set t'")
      case True
      from syncs(4) True show ?thesis
      proof (cases rule: sync_run_call)
        case (cache o1 t1)
        from cache_run_calls(1) [OF cache(1,2)] show ?thesis
          by (cases c) (auto dest: own_kind)
      next
        case (rollout md' n cache)
        then show ?thesis by (cases c) (auto dest: applies_owned)
      qed auto
    qed (use c syncs(1) in auto)
  qed (use c in auto)
  show ?thesis using calls by fastforce
qed

lemma writes_are_watched_witness:
  "\<exists>md obj. applies failing md obj (ApplyConfigurationFromUnstructured
     (owned live (DeploymentObject (Deployment live (CacheKey live) 2 False)))) \<and> owned_kind obj"
proof -
  have "deployed live 2 (Some ''boom'') \<in> set (snd (reconcile_trace failing request 0))"
    by (simp add: failing_trace)
  then show ?thesis
    using writes_are_watched [of failing request 0] by (fastforce simp: failing_def)
qed

end
